(* ===== verification/Prelude.thy ===== *)
theory Prelude
  imports Complex_Main
begin

text \<open>
  What every component shares.  Go's \<open>error\<close> values are the type \<open>goerr\<close>: the sentinel
  errors the code compares with \<open>errors.Is\<close> are constructors of their own, every other error
  carries its text.  A Go function returning \<open>(T, error)\<close> returns \<open>'a res\<close>; one that can also
  panic returns \<open>'a go\<close>.  The dynamic values of an \<open>any\<close> are the datatype \<open>any\<close>; a slice whose
  nil-ness the code observes is \<open>slice\<close>.
\<close>

text \<open>What an operation leaves alone.\<close>

named_theorems frame

section \<open>Errors and results\<close>

datatype goerr =
    KvErrNil                    \<comment> \<open>kv.ErrNil\<close>
  | ErrNotFound                 \<comment> \<open>store.ErrNotFound\<close>
  | FositeNotFound              \<comment> \<open>fosite.ErrNotFound\<close>
  | FositeInvalidatedCode       \<comment> \<open>fosite.ErrInvalidatedAuthorizeCode\<close>
  | FositeJTIKnown              \<comment> \<open>fosite.ErrJTIKnown\<close>
  | FositeInvalidClient         \<comment> \<open>fosite.ErrInvalidClient\<close>
  | PasswordChangeRequired      \<comment> \<open>idp.ErrPasswordChangeRequired\<close>
  | GoErr string                \<comment> \<open>errors.New and fmt.Errorf in the repository\<close>
  | ExtErr string               \<comment> \<open>an error made by a service or a package\<close>

type_synonym 'a res = "goerr + 'a"

datatype 'a go = Ok 'a | Err goerr | Panic string

fun is_ok :: "'a res \<Rightarrow> bool" where
  "is_ok (Inr _) = True"
| "is_ok (Inl _) = False"

fun go_of :: "'a res \<Rightarrow> 'a go" where
  "go_of (Inr x) = Ok x"
| "go_of (Inl e) = Err e"

lemma is_ok_iff: "is_ok r \<longleftrightarrow> (\<exists>x. r = Inr x)"
  by (cases r) auto

section \<open>Slices, dynamic values and JSON\<close>

text \<open>A \<open>[]string\<close>: \<open>None\<close> is the nil slice.\<close>

type_synonym slice = "string list option"

definition elems :: "slice \<Rightarrow> string list" where
  "elems s = (case s of None \<Rightarrow> [] | Some xs \<Rightarrow> xs)"

lemma elems_simps [simp]: "elems None = []" "elems (Some xs) = xs"
  by (simp_all add: elems_def)

text \<open>
  \<open>any\<close>: the Go types the code stores behind an interface.  JSON numbers decode to
  \<open>float64\<close>, whose finite values are rationals.  \<open>ATime\<close> is a \<open>time.Time\<close> (nanoseconds).
\<close>

datatype any =
    ANil
  | ABool bool
  | AInt int
  | AFloat rat
  | AStr string
  | ATime int
  | AStrs slice
  | AArr "any list"
  | AMap "string \<rightharpoonup> any"

type_synonym gomap = "string \<rightharpoonup> any"

text \<open>The type assertions \<open>v, _ := x.(T)\<close>, whose failure gives the zero value.\<close>

fun str :: "any \<Rightarrow> string" where
  "str (AStr s) = s"
| "str _ = []"

fun boolv :: "any \<Rightarrow> bool" where
  "boolv (ABool b) = b"
| "boolv _ = False"

text \<open>Indexing a Go map with a missing key gives the nil interface.\<close>

definition mget :: "gomap \<Rightarrow> string \<Rightarrow> any" where
  "mget m k = (case m k of None \<Rightarrow> ANil | Some v \<Rightarrow> v)"

lemma mget_simps [simp]:
  "mget Map.empty k = ANil"
  "mget (m(k \<mapsto> v)) j = (if j = k then v else mget m j)"
  by (simp_all add: mget_def)

section \<open>Times and durations, in nanoseconds\<close>

definition millisecond :: int where "millisecond = 1000000"
definition second :: int where "second = 1000000000"
definition minute :: int where "minute = 60 * second"
definition hour :: int where "hour = 60 * minute"

lemmas time_units = millisecond_def second_def minute_def hour_def

lemma time_units_pos [simp]: "0 < millisecond" "0 < second" "0 < minute" "0 < hour"
  by (simp_all add: time_units)

text \<open>\<open>time.Time.Unix\<close> floors to seconds.\<close>

definition unix :: "int \<Rightarrow> int" where
  "unix t = t div second"

text \<open>The zero \<open>time.Time\<close> is the first of January of the year 1.\<close>

definition zero_time :: int where "zero_time = - 62135596800 * second"

lemma unix_mono: "s \<le> t \<Longrightarrow> unix s \<le> unix t"
  by (simp add: unix_def zdiv_mono1)

text \<open>Arithmetic on \<open>int64\<close> wraps around.\<close>

definition int64 :: "int \<Rightarrow> int" where
  "int64 n = (n + 2 ^ 63) mod 2 ^ 64 - 2 ^ 63"

lemma int64_id: "- (2 ^ 63) \<le> n \<Longrightarrow> n < 2 ^ 63 \<Longrightarrow> int64 n = n"
  by (simp add: int64_def)

section \<open>Lists\<close>

text \<open>First occurrences, in order: what the code's \<open>seen\<close> loops compute.\<close>

fun dedup :: "'a list \<Rightarrow> 'a list \<Rightarrow> 'a list" where
  "dedup seen [] = []"
| "dedup seen (x # xs) = (if x \<in> set seen then dedup seen xs else x # dedup (x # seen) xs)"

lemma set_dedup: "set (dedup seen xs) = set xs - set seen"
  by (induction xs arbitrary: seen) auto

lemma distinct_dedup: "distinct (dedup seen xs)"
  by (induction xs arbitrary: seen) (auto simp: set_dedup)

lemma dedup_distinct: "distinct xs \<Longrightarrow> set seen \<inter> set xs = {} \<Longrightarrow> dedup seen xs = xs"
  by (induction xs arbitrary: seen) auto

text \<open>Stable sorting as SQL's \<open>order by\<close> is modelled: rows that tie keep the table's order.\<close>

definition order_by :: "('a \<Rightarrow> int) \<Rightarrow> 'a list \<Rightarrow> 'a list" where
  "order_by f xs = sort_key f xs"

lemma set_order_by [simp]: "set (order_by f xs) = set xs"
  by (simp add: order_by_def)

lemma sorted_order_by: "sorted (map f (order_by f xs))"
  by (simp add: order_by_def)

lemma length_order_by [simp]: "length (order_by f xs) = length xs"
  by (simp add: order_by_def)

end
