(* ===== verification/Interleave.thy ===== *)
theory Interleave
  imports Prelude
begin

text \<open>
  Handlers that run at the same time.  net/http runs every request in a goroutine of its own; between
  two calls to valkey or WildDuck any other handler may run.  A handler is cut into steps, a function
  from where it is (its stage) and the world to the next ones; the theories that import this one cut
  the handlers of internal/idp/provider.go.  Here are the interleavings of such steps and what every
  cut has in common: progress, and artifacts that are good for one use.
\<close>

section \<open>Interleaving\<close>

text \<open>
  The handlers in flight, each with its stage, over one world and one clock.  A step is one of a
  handler that has not finished, or \<open>rel\<close>: anything else that happens at that time, the other
  handlers included.  The label says who moved.
\<close>

type_synonym ('w, 'q, 's) net = "int \<times> 'w \<times> ('q \<times> 's) list"
type_synonym ('w, 'q, 's) stepper = "'q \<Rightarrow> int \<Rightarrow> 's \<Rightarrow> 'w \<Rightarrow> 's \<times> 'w"

inductive net_step ::
  "('w, 'q, 's) stepper \<Rightarrow> ('s \<Rightarrow> bool) \<Rightarrow> (int \<Rightarrow> 'w \<Rightarrow> 'w \<Rightarrow> bool) \<Rightarrow> ('w, 'q, 's) net \<Rightarrow> nat option \<Rightarrow>
     ('w, 'q, 's) net \<Rightarrow> bool"
  for adv :: "('w, 'q, 's) stepper" and fin :: "'s \<Rightarrow> bool" and rel :: "int \<Rightarrow> 'w \<Rightarrow> 'w \<Rightarrow> bool"
where
  net_move: "i < length ps \<Longrightarrow> ps ! i = (q, st) \<Longrightarrow> \<not> fin st \<Longrightarrow> t \<le> t' \<Longrightarrow> adv q t' st w = (st', w') \<Longrightarrow>
     net_step adv fin rel (t, w, ps) (Some i) (t', w', ps[i := (q, st')])"
| net_other: "t \<le> t' \<Longrightarrow> rel t' w w' \<Longrightarrow> net_step adv fin rel (t, w, ps) None (t', w', ps)"

inductive net_run ::
  "('w, 'q, 's) stepper \<Rightarrow> ('s \<Rightarrow> bool) \<Rightarrow> (int \<Rightarrow> 'w \<Rightarrow> 'w \<Rightarrow> bool) \<Rightarrow> ('w, 'q, 's) net \<Rightarrow> nat option list \<Rightarrow>
     ('w, 'q, 's) net \<Rightarrow> bool"
  for adv :: "('w, 'q, 's) stepper" and fin :: "'s \<Rightarrow> bool" and rel :: "int \<Rightarrow> 'w \<Rightarrow> 'w \<Rightarrow> bool"
where
  net_done: "net_run adv fin rel c [] c"
| net_then: "net_step adv fin rel c l c1 \<Longrightarrow> net_run adv fin rel c1 ls c2 \<Longrightarrow> net_run adv fin rel c (l # ls) c2"

inductive_simps net_run_Nil [simp]: "net_run adv fin rel c [] c'"
inductive_simps net_run_Cons: "net_run adv fin rel c (l # ls) c'"
inductive_cases net_stepE: "net_step adv fin rel (t, w, ps) l c'"

lemma net_run_invariant:
  assumes "net_run adv fin rel c ls c'" "I c" "\<And>c l c1. net_step adv fin rel c l c1 \<Longrightarrow> I c \<Longrightarrow> I c1"
  shows "I c'"
  using assms(1,2) by (induction rule: net_run.induct) (auto intro: assms(3))

lemma net_run_append:
  "net_run adv fin rel c xs c1 \<Longrightarrow> net_run adv fin rel c1 ys c2 \<Longrightarrow> net_run adv fin rel c (xs @ ys) c2"
  by (induction rule: net_run.induct) (auto intro: net_then)

text \<open>One handler of several moves.\<close>

lemma net_move_at:
  assumes "adv q t st w = (st', w')" "\<not> fin st" "net_run adv fin rel (t, w', xs @ (q, st') # ys) ls c"
  shows "net_run adv fin rel (t, w, xs @ (q, st) # ys) (Some (length xs) # ls) c"
proof (rule net_then)
  show "net_step adv fin rel (t, w, xs @ (q, st) # ys) (Some (length xs)) (t, w', xs @ (q, st') # ys)"
    using net_move [of "length xs" "xs @ (q, st) # ys" q st fin t t adv w st' w' rel] assms(1,2) by simp
qed (rule assms(3))

text \<open>A round: every handler takes a step, one after the other, while \<open>P\<close> lasts.\<close>

lemma net_round:
  assumes "\<And>q st w. (q, st) \<in> set ps \<Longrightarrow> A q st \<Longrightarrow> P w \<Longrightarrow>
      \<not> fin st \<and> (\<exists>st' w'. adv q t st w = (st', w') \<and> B q st' \<and> P w')"
    and "\<forall>(q, st) \<in> set ps. A q st" and "P w"
  shows "\<exists>ls w' ps'. net_run adv fin rel (t, w, xs @ ps) ls (t, w', xs @ ps') \<and> map fst ps' = map fst ps
    \<and> (\<forall>(q, st) \<in> set ps'. B q st) \<and> P w'"
  using assms
proof (induction ps arbitrary: w xs)
  case Nil
  then show ?case by (intro exI [of _ "[]"] exI [of _ w]) auto
next
  case (Cons x ps)
  obtain q st where x: "x = (q, st)" by force
  from Cons.prems(1) [of q st w] Cons.prems(2,3) obtain st' w' where
    one: "\<not> fin st" "adv q t st w = (st', w')" "B q st'" "P w'" by (auto simp: x)
  have step: "\<not> fin s \<and> (\<exists>st' w'. adv r t s v = (st', w') \<and> B r st' \<and> P w')"
    if "(r, s) \<in> set ps" "A r s" "P v" for r s v
    by (rule Cons.prems(1)) (use that in simp_all)
  from Cons.IH [OF step _ one(4), of "xs @ [(q, st')]"] Cons.prems(2) obtain ls w'' ps' where
    rest: "net_run adv fin rel (t, w', xs @ (q, st') # ps) ls (t, w'', xs @ (q, st') # ps')"
      "map fst ps' = map fst ps" "\<forall>(q, st) \<in> set ps'. B q st" "P w''" by auto
  have "net_run adv fin rel (t, w, xs @ (q, st) # ps) (Some (length xs) # ls) (t, w'', xs @ (q, st') # ps')"
    by (rule net_move_at [OF one(2,1) rest(1)])
  with rest one(3) show ?case
    by (intro exI [of _ "Some (length xs) # ls"] exI [of _ w''] exI [of _ "(q, st') # ps'"]) (simp add: x)
qed

section \<open>Progress\<close>

text \<open>Every step of a handler lowers the number of steps it may still take.\<close>

locale progressing =
  fixes adv :: "('w, 'q, 's) stepper" and fin :: "'s \<Rightarrow> bool" and work :: "'s \<Rightarrow> nat"
  assumes less_work: "\<not> fin st \<Longrightarrow> work (fst (adv q t st w)) < work st"
    and no_work: "work st = 0 \<longleftrightarrow> fin st"
begin

definition work_at :: "nat \<Rightarrow> ('w, 'q, 's) net \<Rightarrow> nat" where
  "work_at i c = (let ps = snd (snd c) in if i < length ps then work (snd (ps ! i)) else 0)"

lemma step_work_at:
  "net_step adv fin rel c l c' \<Longrightarrow> work_at i c' + (if l = Some i then 1 else 0) \<le> work_at i c"
proof (induction rule: net_step.induct)
  case (net_move j ps q st t t' w st' w')
  with less_work [of st q t' w] show ?case by (cases "j = i") (auto simp: work_at_def Let_def)
qed (simp add: work_at_def)

lemma run_work_at: "net_run adv fin rel c ls c' \<Longrightarrow> work_at i c' + count_list ls (Some i) \<le> work_at i c"
proof (induction rule: net_run.induct)
  case (net_then c l c1 ls c2)
  from step_work_at [OF net_then(1), of i] net_then.IH show ?case by (simp split: if_splits)
qed simp

lemma finish_one: "\<exists>ls w' st'. net_run adv fin rel (t, w, xs @ (q, st) # ys) ls (t, w', xs @ (q, st') # ys) \<and> fin st'"
proof (induction "work st" arbitrary: st w rule: less_induct)
  case less
  show ?case
  proof (cases "fin st")
    case True
    then show ?thesis by (intro exI [of _ "[]"]) auto
  next
    case False
    obtain st' w' where a: "adv q t st w = (st', w')" by force
    with less_work [OF False, of q t w] have "work st' < work st" by simp
    from less [OF this, of w'] obtain ls w'' s where
      "net_run adv fin rel (t, w', xs @ (q, st') # ys) ls (t, w'', xs @ (q, s) # ys)" "fin s" by blast
    with a False show ?thesis by (blast intro: net_move_at)
  qed
qed

lemma finish_all:
  "\<exists>ls w' ps'. net_run adv fin rel (t, w, xs @ ps) ls (t, w', xs @ ps') \<and> (\<forall>(q, st) \<in> set ps'. fin st)"
proof (induction ps arbitrary: w xs)
  case Nil
  then show ?case by (intro exI [of _ "[]"] exI [of _ w]) auto
next
  case (Cons x ps)
  obtain q st where x: "x = (q, st)" by force
  obtain ls w' st' where one: "net_run adv fin rel (t, w, xs @ (q, st) # ps) ls (t, w', xs @ (q, st') # ps)" "fin st'"
    using finish_one by blast
  from Cons.IH [of w' "xs @ [(q, st')]"] obtain ls2 w2 ps' where
    "net_run adv fin rel (t, w', xs @ (q, st') # ps) ls2 (t, w2, xs @ (q, st') # ps')" "\<forall>(q, st) \<in> set ps'. fin st"
    by auto
  with net_run_append [OF one(1)] one(2) x show ?case
    by (intro exI [of _ "ls @ ls2"] exI [of _ w2] exI [of _ "(q, st') # ps'"]) simp
qed

text \<open>A run takes no more steps of a handler than its start has, and all can always go on to the end.\<close>

lemma run_bound:
  assumes "net_run adv fin rel (t, w, map (\<lambda>q. (q, st)) qs) ls c"
  shows "count_list ls (Some i) \<le> work st"
proof -
  have "work_at i (t, w, map (\<lambda>q. (q, st)) qs) \<le> work st" by (simp add: work_at_def)
  with run_work_at [OF assms, of i] show ?thesis by simp
qed

lemma run_finishes:
  "\<exists>ls t' w' ps'. net_run adv fin rel c ls (t', w', ps') \<and> (\<forall>(q, st) \<in> set ps'. fin st)"
  using finish_all [of rel "fst c" "fst (snd c)" "[]" "snd (snd c)"] by auto

end

section \<open>Artifacts for one use\<close>

text \<open>
  A handler works on one artifact, its key.  \<open>gone k t w\<close>: the artifact is not stored at \<open>t\<close> or later;
  \<open>good k w\<close>: what has to hold of the world for that to stay so.  A handler that redeems leaves its
  artifact gone, and one that still waits to read a gone artifact is refused.  \<open>quiet\<close> is what is asked
  of everything that runs beside.
\<close>

definition quiet ::
  "('k \<Rightarrow> 'w \<Rightarrow> bool) \<Rightarrow> ('k \<Rightarrow> int \<Rightarrow> 'w \<Rightarrow> bool) \<Rightarrow> 'k \<Rightarrow> (int \<Rightarrow> 'w \<Rightarrow> 'w \<Rightarrow> bool) \<Rightarrow> bool" where
  "quiet good gone k rel \<longleftrightarrow>
     (\<forall>t w w'. rel t w w' \<longrightarrow> good k w \<longrightarrow> good k w' \<and> (gone k t w \<longrightarrow> gone k t w'))"

lemma quietD: "quiet good gone k rel \<Longrightarrow> rel t w w' \<Longrightarrow> good k w \<Longrightarrow> good k w' \<and> (gone k t w \<longrightarrow> gone k t w')"
  by (simp add: quiet_def)

locale one_use =
  fixes adv :: "('w, 'q, 's) stepper" and fin :: "'s \<Rightarrow> bool" and key :: "'q \<Rightarrow> 'k"
    and waiting :: "'s \<Rightarrow> bool" and redeemed :: "'s \<Rightarrow> bool" and refused :: "'s \<Rightarrow> bool"
    and good :: "'k \<Rightarrow> 'w \<Rightarrow> bool" and gone :: "'k \<Rightarrow> int \<Rightarrow> 'w \<Rightarrow> bool"
  assumes gone_later: "gone k t w \<Longrightarrow> t \<le> t' \<Longrightarrow> gone k t' w"
    and keeps_good: "good k w \<Longrightarrow> adv q t st w = (st', w') \<Longrightarrow> good k w'"
    and keeps_gone: "good k w \<Longrightarrow> gone k t w \<Longrightarrow> adv q t st w = (st', w') \<Longrightarrow> gone k t w'"
    and redeems: "good (key q) w \<Longrightarrow> adv q t st w = (st', w') \<Longrightarrow> redeemed st' \<Longrightarrow> \<not> redeemed st \<Longrightarrow> gone (key q) t w'"
    and refuses: "good (key q) w \<Longrightarrow> gone (key q) t w \<Longrightarrow> waiting st \<Longrightarrow> adv q t st w = (st', w') \<Longrightarrow> refused st'"
    and waiting_not_redeemed: "waiting st \<Longrightarrow> \<not> redeemed st"
    and refused_fin: "refused st \<Longrightarrow> fin st"
begin

fun spent_net :: "'k \<Rightarrow> ('w, 'q, 's) net \<Rightarrow> bool" where
  "spent_net k (t, w, ps) \<longleftrightarrow> good k w
     \<and> ((\<exists>(q, st) \<in> set ps. key q = k \<and> redeemed st) \<longrightarrow> gone k t w)"

lemma spent_net_step:
  assumes "net_step adv fin rel c l c'" "spent_net k c" "quiet good gone k rel"
  shows "spent_net k c'"
  using assms(1,2)
proof (induction rule: net_step.induct)
  case (net_move i ps q st t t' w st' w')
  then have g: "good k w" by simp
  have "gone k t' w'" if "(q2, s2) \<in> set (ps[i := (q, st')])" "key q2 = k" "redeemed s2" for q2 s2
  proof (cases "\<exists>(q, st) \<in> set ps. key q = k \<and> redeemed st")
    case True
    with net_move(6) have "gone k t w" by simp
    with net_move(4,5) g show ?thesis by (blast intro: keeps_gone gone_later)
  next
    case False
    with that(2,3) have "(q2, s2) \<notin> set ps" by blast
    with that(1) have eq: "q2 = q" "s2 = st'"
      using set_update_subset_insert [of ps i "(q, st')"] by auto
    have "(q, st) \<in> set ps" using net_move(1,2) nth_mem by metis
    with False that(2) eq have "\<not> redeemed st" by blast
    with redeems net_move(5) g that(2,3) eq show ?thesis by blast
  qed
  with keeps_good [OF g net_move(5)] show ?case by auto
next
  case (net_other t t' w w' ps)
  then have "spent_net k (t', w, ps)" by (auto intro: gone_later)
  with quietD [OF assms(3) net_other(2)] show ?case by auto
qed

fun refused_net :: "nat \<Rightarrow> 'q \<Rightarrow> ('w, 'q, 's) net \<Rightarrow> bool" where
  "refused_net i q (t, w, ps) \<longleftrightarrow> good (key q) w \<and> gone (key q) t w \<and> i < length ps \<and> fst (ps ! i) = q
     \<and> (waiting (snd (ps ! i)) \<or> refused (snd (ps ! i)))"

lemma refused_net_step:
  assumes "net_step adv fin rel c l c'" "refused_net i q c" "quiet good gone (key q) rel"
  shows "refused_net i q c'"
  using assms(1,2)
proof (induction rule: net_step.induct)
  case (net_move j ps q' st t t' w st' w')
  then have g: "good (key q) w" "gone (key q) t' w" by (auto intro: gone_later)
  have "refused st'" if "j = i"
  proof -
    from that net_move(1-3,6) have "q' = q" "waiting st" using refused_fin by auto
    with refuses g net_move(5) show ?thesis by blast
  qed
  with net_move(1,2,5,6) keeps_good [OF g(1) net_move(5)] keeps_gone [OF g net_move(5)] show ?case
    by (auto simp: nth_list_update)
next
  case (net_other t t' w w' ps)
  then have "refused_net i q (t', w, ps)" by (auto intro: gone_later)
  with quietD [OF assms(3) net_other(2)] show ?case by auto
qed

text \<open>Once a handler has redeemed, one that still waits with the same key is refused.\<close>

lemma refused_after_redeemed:
  assumes "net_run adv fin rel (t, w, map (\<lambda>q. (q, st0)) qs) ls (t1, w1, ps)" and "\<not> redeemed st0"
    and "(q, st) \<in> set ps" and "redeemed st"
    and "i < length ps" and "ps ! i = (q2, s2)" and "waiting s2" and "key q2 = key q"
    and "net_run adv fin rel (t1, w1, ps) ls2 (t2, w2, ps2)" and "ps2 ! i = (q3, s3)" and "fin s3"
    and "good (key q) w" and "quiet good gone (key q) rel" and "\<And>s. waiting s \<Longrightarrow> \<not> fin s"
  shows "refused s3"
proof -
  have "spent_net (key q) (t, w, map (\<lambda>q. (q, st0)) qs)" using assms(2,12) by auto
  then have "spent_net (key q) (t1, w1, ps)"
    by (rule net_run_invariant [OF assms(1)]) (rule spent_net_step [OF _ _ assms(13)])
  then have "refused_net i q2 (t1, w1, ps)" using assms(3-8) by auto
  then have "refused_net i q2 (t2, w2, ps2)"
    by (rule net_run_invariant [OF assms(9)]) (rule refused_net_step, use assms(8,13) in auto)
  with assms(10,11,14) show ?thesis by auto
qed

end

end
