(* ===== verification/Go_Strings.thy ===== *)
theory Go_Strings
  imports Prelude
begin

text \<open>
  The part of Go's \<open>strings\<close>, \<open>unicode/utf8\<close> and \<open>unicode\<close> packages the repository uses.  A Go
  string is a sequence of bytes: \<open>string\<close>, whose \<open>char\<close>s are bytes.  Functions that look at
  characters decode UTF-8 the way \<open>utf8.DecodeRune\<close> does, an invalid byte counting as one
  replacement character of width one.  The case tables of the \<open>unicode\<close> package beyond ASCII are the
  parameter record \<open>unicode\<close>; white space is the package's complete list.
\<close>

section \<open>UTF-8\<close>

type_synonym rune = nat

abbreviation byte_of :: "char \<Rightarrow> nat" where
  "byte_of c \<equiv> of_char c"

definition rune_error :: rune where "rune_error = 0xFFFD"

text \<open>The tables \<open>first\<close> and \<open>acceptRanges\<close> of \<open>unicode/utf8\<close>.\<close>

definition utf8_size :: "nat \<Rightarrow> nat" where
  "utf8_size b = (if b < 0x80 then 1 else if b < 0xC2 then 0 else if b < 0xE0 then 2
     else if b < 0xF0 then 3 else if b < 0xF5 then 4 else 0)"

definition accept_lo :: "nat \<Rightarrow> nat" where
  "accept_lo b = (if b = 0xE0 then 0xA0 else if b = 0xF0 then 0x90 else 0x80)"

definition accept_hi :: "nat \<Rightarrow> nat" where
  "accept_hi b = (if b = 0xED then 0x9F else if b = 0xF4 then 0x8F else 0xBF)"

definition cont_byte :: "nat \<Rightarrow> bool" where
  "cont_byte b \<longleftrightarrow> 0x80 \<le> b \<and> b \<le> 0xBF"

text \<open>\<open>utf8.DecodeRune\<close> on a first byte and the bytes after it: the rune and its width.\<close>

definition decode_rune :: "char \<Rightarrow> string \<Rightarrow> rune \<times> nat" where
  "decode_rune c cs =
     (let b0 = byte_of c; n = utf8_size b0 in
      if n = 1 then (b0, 1)
      else if n = 0 then (rune_error, 1)
      else case cs of [] \<Rightarrow> (rune_error, 1) | c1 # cs1 \<Rightarrow>
        (let b1 = byte_of c1 in
         if b1 < accept_lo b0 \<or> accept_hi b0 < b1 then (rune_error, 1)
         else if n = 2 then ((b0 - 0xC0) * 64 + (b1 - 0x80), 2)
         else case cs1 of [] \<Rightarrow> (rune_error, 1) | c2 # cs2 \<Rightarrow>
           (let b2 = byte_of c2 in
            if \<not> cont_byte b2 then (rune_error, 1)
            else if n = 3 then ((b0 - 0xE0) * 4096 + (b1 - 0x80) * 64 + (b2 - 0x80), 3)
            else case cs2 of [] \<Rightarrow> (rune_error, 1) | c3 # _ \<Rightarrow>
              (let b3 = byte_of c3 in
               if \<not> cont_byte b3 then (rune_error, 1)
               else ((b0 - 0xF0) * 262144 + (b1 - 0x80) * 4096 + (b2 - 0x80) * 64 + (b3 - 0x80), 4)))))"

text \<open>A string as the runes a \<open>range\<close> loop visits, each with the bytes it was decoded from.\<close>

function runes :: "string \<Rightarrow> (rune \<times> string) list" where
  "runes [] = []"
| "runes (c # cs) =
     (let (r, k) = decode_rune c cs in (r, c # take (k - 1) cs) # runes (drop (k - 1) cs))"
  by pat_completeness auto
termination
  by (relation "measure length") auto

lemma concat_runes: "concat (map snd (runes s)) = s"
  by (induction s rule: runes.induct) (auto simp: Let_def split: prod.splits)

lemma decode_rune_ascii [simp]: "byte_of c < 0x80 \<Longrightarrow> decode_rune c cs = (byte_of c, 1)"
  by (simp add: decode_rune_def utf8_size_def)

text \<open>
  Decoding is stable under cutting the string after a rune: the rune and its width are the same
  when the bytes behind it are dropped or replaced.
\<close>

lemma decode_rune_cut:
  assumes "decode_rune c (xs @ ys) = (r, k)" and "k - 1 \<le> length xs"
  shows "decode_rune c xs = (r, k)"
  using assms
  by (auto simp: decode_rune_def Let_def split: if_splits list.splits)

lemma decode_rune_ascii_follows:
  "byte_of d < 0x80 \<Longrightarrow> decode_rune c (cs @ d # ds) = decode_rune c cs"
  by (auto simp: decode_rune_def Let_def cont_byte_def accept_lo_def accept_hi_def
        split: list.splits)

lemma decode_rune_width: "decode_rune c cs = (r, k) \<Longrightarrow> 1 \<le> k \<and> k - 1 \<le> length cs"
  by (auto simp: decode_rune_def Let_def split: if_splits list.splits)


text \<open>A prefix and a suffix of the runes of a string are the runes of their bytes.\<close>

lemma runes_suffix: "runes s = xs @ ys \<Longrightarrow> runes (concat (map snd ys)) = ys"
proof (induction s arbitrary: xs rule: runes.induct)
  case 1
  then show ?case by simp
next
  case (2 c cs)
  obtain r k where rk: "decode_rune c cs = (r, k)" by force
  show ?case
  proof (cases xs)
    case Nil
    with "2.prems" have "runes (c # cs) = ys" by simp
    then show ?thesis using concat_runes [of "c # cs"] by simp
  next
    case (Cons x xs')
    with "2.prems" rk have "runes (drop (k - 1) cs) = xs' @ ys" by (simp add: Let_def)
    with "2.IH" rk show ?thesis by simp
  qed
qed

lemma runes_prefix: "runes s = xs @ ys \<Longrightarrow> runes (concat (map snd xs)) = xs"
proof (induction s arbitrary: xs rule: runes.induct)
  case 1
  then show ?case by simp
next
  case (2 c cs)
  obtain r k where rk: "decode_rune c cs = (r, k)" by force
  show ?case
  proof (cases xs)
    case Nil
    then show ?thesis by simp
  next
    case (Cons x xs')
    let ?tail = "concat (map snd xs')"
    from Cons "2.prems" rk have x: "x = (r, c # take (k - 1) cs)"
      and rest: "runes (drop (k - 1) cs) = xs' @ ys" by (simp_all add: Let_def)
    from "2.IH" rk rest have IH: "runes ?tail = xs'" by simp
    have "drop (k - 1) cs = ?tail @ concat (map snd ys)"
      using concat_runes [of "drop (k - 1) cs"] rest by simp
    then have cs: "cs = take (k - 1) cs @ ?tail @ concat (map snd ys)"
      by (metis append_take_drop_id)
    have len: "k - 1 \<le> length (take (k - 1) cs)" using decode_rune_width [OF rk] by simp
    have "decode_rune c ((take (k - 1) cs @ ?tail) @ concat (map snd ys)) = (r, k)"
      using rk cs by simp
    then have "decode_rune c (take (k - 1) cs @ ?tail) = (r, k)"
      by (rule decode_rune_cut) (use len in simp)
    then show ?thesis using Cons x IH len by (simp add: Let_def)
  qed
qed

text \<open>An ASCII byte is a rune of its own wherever it stands.\<close>

lemma runes_append_ascii:
  "byte_of d < 0x80 \<Longrightarrow> runes (s @ d # t) = runes s @ (byte_of d, [d]) # runes t"
proof (induction s rule: runes.induct)
  case 1
  then show ?case by simp
next
  case (2 c cs)
  obtain r k where rk: "decode_rune c cs = (r, k)" by force
  then have "decode_rune c (cs @ d # t) = (r, k)"
    using decode_rune_ascii_follows "2.prems" by simp
  moreover have "k - 1 \<le> length cs" "k - 1 - length cs = 0" using decode_rune_width [OF rk] by auto
  ultimately show ?case using rk "2" by (simp add: Let_def del: One_nat_def)
qed

section \<open>White space: \<open>unicode.IsSpace\<close>, \<open>strings.TrimSpace\<close>, \<open>strings.Fields\<close>\<close>

definition is_space :: "rune \<Rightarrow> bool" where
  "is_space r \<longleftrightarrow> (9 \<le> r \<and> r \<le> 13) \<or> r = 0x20 \<or> r = 0x85 \<or> r = 0xA0 \<or> r = 0x1680
     \<or> (0x2000 \<le> r \<and> r \<le> 0x200A) \<or> r = 0x2028 \<or> r = 0x2029 \<or> r = 0x202F \<or> r = 0x205F \<or> r = 0x3000"

definition trim_space :: "string \<Rightarrow> string" where
  "trim_space s =
     (let sp = (\<lambda>rb. is_space (fst rb))
      in concat (map snd (rev (dropWhile sp (rev (dropWhile sp (runes s)))))))"

text \<open>The loop of \<open>strings.FieldsFunc\<close>: the bytes of the field begun, if any, and the runes left.\<close>

fun fields_from :: "string \<Rightarrow> (rune \<times> string) list \<Rightarrow> string list" where
  "fields_from cur [] = (if cur = [] then [] else [cur])"
| "fields_from cur ((r, b) # rs) =
     (if is_space r then (if cur = [] then fields_from [] rs else cur # fields_from [] rs)
      else fields_from (cur @ b) rs)"

definition str_fields :: "string \<Rightarrow> string list" where
  "str_fields s = fields_from [] (runes s)"

definition is_word :: "string \<Rightarrow> bool" where
  "is_word w \<longleftrightarrow> w \<noteq> [] \<and> list_all (\<lambda>rb. \<not> is_space (fst rb)) (runes w)"

lemma fields_from_words:
  assumes "runes s = pre @ rs" and "list_all (\<lambda>rb. \<not> is_space (fst rb)) pre"
    and "w \<in> set (fields_from (concat (map snd pre)) rs)"
  shows "is_word w"
  using assms
proof (induction rs arbitrary: s pre)
  case Nil
  then show ?case
    using concat_runes [of s] by (auto simp: is_word_def split: if_splits)
next
  case (Cons rb rs)
  obtain r b where rb: "rb = (r, b)" by force
  have tail: "runes (concat (map snd rs)) = [] @ rs"
    using runes_suffix [of s "pre @ [rb]" rs] Cons.prems(1) by simp
  show ?case
  proof (cases "is_space r")
    case False
    have "runes s = (pre @ [rb]) @ rs" using Cons.prems(1) by simp
    then show ?thesis
      using Cons.IH [of s "pre @ [rb]"] Cons.prems rb False by simp
  next
    case True
    then consider "w = concat (map snd pre)" "w \<noteq> []" | "w \<in> set (fields_from [] rs)"
      using Cons.prems(3) rb by (auto split: if_splits)
    then show ?thesis
    proof cases
      case 1
      with Cons.prems runes_prefix [OF Cons.prems(1)] show ?thesis by (simp add: is_word_def)
    next
      case 2
      with Cons.IH [OF tail] show ?thesis by simp
    qed
  qed
qed

lemma fields_words: "w \<in> set (str_fields s) \<Longrightarrow> is_word w"
  using fields_from_words [of s "[]" "runes s" w] by (simp add: str_fields_def)

lemma dropWhile_none: "list_all (\<lambda>x. \<not> P x) xs \<Longrightarrow> dropWhile P xs = xs"
  by (cases xs) auto

lemma trim_space_word: "is_word w \<Longrightarrow> trim_space w = w"
  by (simp add: trim_space_def is_word_def dropWhile_none list_all_iff concat_runes)

section \<open>\<open>strings.Join\<close>, \<open>Split\<close>, \<open>SplitN\<close>\<close>

fun join :: "string \<Rightarrow> string list \<Rightarrow> string" where
  "join sep [] = []"
| "join sep [x] = x"
| "join sep (x # y # zs) = x @ sep @ join sep (y # zs)"

lemma fields_from_word:
  "list_all (\<lambda>rb. \<not> is_space (fst rb)) rs \<Longrightarrow>
   fields_from cur (rs @ us) = fields_from (cur @ concat (map snd rs)) us"
  by (induction rs arbitrary: cur) auto

lemma space_ascii [simp]: "is_space 32"
  by (simp add: is_space_def)

lemma fields_join_words: "list_all is_word ws \<Longrightarrow> str_fields (join '' '' ws) = ws"
proof (induction "'' ''" ws rule: join.induct)
  case 1
  then show ?case by (simp add: str_fields_def)
next
  case (2 w)
  then show ?case
    using fields_from_word [of "runes w" "[]" "[]"]
    by (simp add: str_fields_def is_word_def concat_runes)
next
  case (3 w v vs)
  then show ?case
    using fields_from_word [of "runes w" "[]" "(32, '' '') # runes (join '' '' (v # vs))"]
    by (simp add: str_fields_def is_word_def concat_runes runes_append_ascii)
qed

text \<open>\<open>strings.Split(s, sep)\<close> for a separator of one byte; \<open>SplitN(s, sep, 2)\<close>.\<close>

fun split_on :: "char \<Rightarrow> string \<Rightarrow> string list" where
  "split_on c [] = [[]]"
| "split_on c (x # xs) =
     (if x = c then [] # split_on c xs
      else case split_on c xs of [] \<Rightarrow> [[x]] | w # ws \<Rightarrow> (x # w) # ws)"

lemma split_on_nonempty [simp]: "split_on c s \<noteq> []"
  by (induction s) (auto split: list.splits)

lemma split_on_no_sep: "c \<notin> set w \<Longrightarrow> split_on c w = [w]"
  by (induction w) auto

lemma split_on_append: "c \<notin> set w \<Longrightarrow> split_on c (w @ c # s) = w # split_on c s"
  by (induction w) auto

lemma split_on_join:
  "ws \<noteq> [] \<Longrightarrow> \<forall>w \<in> set ws. c \<notin> set w \<Longrightarrow> split_on c (join [c] ws) = ws"
  by (induction ws rule: induct_list012) (simp_all add: split_on_no_sep split_on_append)

fun cut :: "char \<Rightarrow> string \<Rightarrow> (string \<times> string) option" where
  "cut c [] = None"
| "cut c (x # xs) =
     (if x = c then Some ([], xs)
      else case cut c xs of None \<Rightarrow> None | Some (l, r) \<Rightarrow> Some (x # l, r))"

definition split_n2 :: "char \<Rightarrow> string \<Rightarrow> string list" where
  "split_n2 c s = (case cut c s of None \<Rightarrow> [s] | Some (l, r) \<Rightarrow> [l, r])"

lemma cut_append: "c \<notin> set w \<Longrightarrow> cut c (w @ c # s) = Some (w, s)"
  by (induction w) auto

lemma cut_Some: "cut c s = Some (l, r) \<Longrightarrow> s = l @ c # r \<and> c \<notin> set l"
  by (induction s arbitrary: l) (auto split: if_splits option.splits)

lemma split_n2_append: "c \<notin> set w \<Longrightarrow> split_n2 c (w @ c # s) = [w, s]"
  by (simp add: split_n2_def cut_append)

section \<open>Prefixes, suffixes, cut sets\<close>

definition has_prefix :: "string \<Rightarrow> string \<Rightarrow> bool" where
  "has_prefix s p \<longleftrightarrow> take (length p) s = p"

definition has_suffix :: "string \<Rightarrow> string \<Rightarrow> bool" where
  "has_suffix s p \<longleftrightarrow> length p \<le> length s \<and> drop (length s - length p) s = p"

definition trim_prefix :: "string \<Rightarrow> string \<Rightarrow> string" where
  "trim_prefix s p = (if has_prefix s p then drop (length p) s else s)"

definition trim_suffix :: "string \<Rightarrow> string \<Rightarrow> string" where
  "trim_suffix s p = (if has_suffix s p then take (length s - length p) s else s)"

text \<open>\<open>strings.TrimRight(s, cutset)\<close> for a cut set of one ASCII byte.\<close>

definition trim_right :: "char \<Rightarrow> string \<Rightarrow> string" where
  "trim_right c s = rev (dropWhile (\<lambda>x. x = c) (rev s))"

lemma has_prefix_append [simp]: "has_prefix (p @ s) p"
  by (simp add: has_prefix_def)

lemma has_prefix_iff: "has_prefix s p \<longleftrightarrow> (\<exists>t. s = p @ t)"
  by (metis append_take_drop_id has_prefix_append has_prefix_def)

lemma trim_prefix_append [simp]: "trim_prefix (p @ s) p = s"
  by (simp add: trim_prefix_def)

section \<open>Case mapping\<close>

text \<open>
  Beyond ASCII: the lower-case mapping, the representative of a rune's \<open>SimpleFold\<close> orbit (the
  lower-case letter for the orbits of ASCII letters), and the classes upper, digit and letter.
\<close>

record unicode =
  u_lower :: "rune \<Rightarrow> rune"
  u_fold :: "rune \<Rightarrow> rune"
  u_upper :: "rune \<Rightarrow> bool"
  u_digit :: "rune \<Rightarrow> bool"
  u_letter :: "rune \<Rightarrow> bool"

definition lower_ascii :: "rune \<Rightarrow> rune" where
  "lower_ascii r = (if 65 \<le> r \<and> r \<le> 90 then r + 32 else r)"

definition lower_rune :: "unicode \<Rightarrow> rune \<Rightarrow> rune" where
  "lower_rune U r = (if r < 0x80 then lower_ascii r else u_lower U r)"

definition fold_rune :: "unicode \<Rightarrow> rune \<Rightarrow> rune" where
  "fold_rune U r = (if r < 0x80 then lower_ascii r else u_fold U r)"

definition is_upper :: "unicode \<Rightarrow> rune \<Rightarrow> bool" where
  "is_upper U r \<longleftrightarrow> (if r < 0x80 then 65 \<le> r \<and> r \<le> 90 else u_upper U r)"

definition is_digit :: "unicode \<Rightarrow> rune \<Rightarrow> bool" where
  "is_digit U r \<longleftrightarrow> (if r < 0x80 then 48 \<le> r \<and> r \<le> 57 else u_digit U r)"

definition is_letter :: "unicode \<Rightarrow> rune \<Rightarrow> bool" where
  "is_letter U r \<longleftrightarrow> (if r < 0x80 then (65 \<le> r \<and> r \<le> 90) \<or> (97 \<le> r \<and> r \<le> 122) else u_letter U r)"

text \<open>\<open>utf8.AppendRune\<close>: surrogates and values out of range become the replacement character.\<close>

definition encode_rune :: "rune \<Rightarrow> string" where
  "encode_rune r0 =
     (let r = (if 0x10FFFF < r0 \<or> (0xD800 \<le> r0 \<and> r0 \<le> 0xDFFF) then rune_error else r0)
      in map char_of (if r < 0x80 then [r]
           else if r < 0x800 then [0xC0 + r div 64, 0x80 + r mod 64]
           else if r < 0x10000 then [0xE0 + r div 4096, 0x80 + (r div 64) mod 64, 0x80 + r mod 64]
           else [0xF0 + r div 262144, 0x80 + (r div 4096) mod 64, 0x80 + (r div 64) mod 64,
                 0x80 + r mod 64]))"

definition to_lower :: "unicode \<Rightarrow> string \<Rightarrow> string" where
  "to_lower U s = concat (map (\<lambda>rb. encode_rune (lower_rune U (fst rb))) (runes s))"

definition equal_fold :: "unicode \<Rightarrow> string \<Rightarrow> string \<Rightarrow> bool" where
  "equal_fold U s t \<longleftrightarrow>
     map (\<lambda>rb. fold_rune U (fst rb)) (runes s) = map (\<lambda>rb. fold_rune U (fst rb)) (runes t)"

lemma equal_fold_refl [simp]: "equal_fold U s s"
  by (simp add: equal_fold_def)

text \<open>\<open>encoding/json\<close> writes an invalid byte as the replacement character.\<close>

definition valid_utf8_of :: "string \<Rightarrow> string" where
  "valid_utf8_of s =
     concat (map (\<lambda>rb. if fst rb = rune_error then encode_rune rune_error else snd rb) (runes s))"

definition ascii :: "string \<Rightarrow> bool" where
  "ascii s \<longleftrightarrow> list_all (\<lambda>c. byte_of c < (0x80 :: nat)) s"

lemma runes_of_ascii: "ascii s \<Longrightarrow> runes s = map (\<lambda>c. (byte_of c, [c])) s"
  by (induction s) (auto simp: ascii_def)

lemma valid_utf8_of_ascii: "ascii s \<Longrightarrow> valid_utf8_of s = s"
proof -
  assume a: "ascii s"
  then have "valid_utf8_of s = concat (map (\<lambda>c. [c]) s)"
    unfolding valid_utf8_of_def runes_of_ascii [OF a] map_map
    by (intro arg_cong [of _ _ concat] map_cong) (auto simp: ascii_def list_all_iff rune_error_def)
  then show ?thesis by simp
qed

lemma is_word_plain:
  assumes "s \<noteq> []" "list_all (\<lambda>c. byte_of c < (0x80 :: nat) \<and> \<not> is_space (byte_of c)) s"
  shows "is_word s"
proof -
  have "ascii s" using assms(2) by (auto simp: ascii_def list_all_iff)
  then show ?thesis
    using assms by (auto simp: is_word_def runes_of_ascii list_all_iff)
qed

lemma equal_fold_ascii:
  "ascii s \<Longrightarrow> ascii t \<Longrightarrow>
     equal_fold U s t \<longleftrightarrow> map (\<lambda>c. lower_ascii (byte_of c)) s = map (\<lambda>c. lower_ascii (byte_of c)) t"
  by (auto simp: equal_fold_def runes_of_ascii o_def fold_rune_def ascii_def list_all_iff cong: map_cong)

text \<open>A case mapping that leaves everything beyond ASCII as it is, for concrete runs.\<close>

definition sample_unicode :: unicode where
  "sample_unicode = \<lparr>u_lower = id, u_fold = id, u_upper = (\<lambda>_. False), u_digit = (\<lambda>_. False),
     u_letter = (\<lambda>_. False)\<rparr>"

end
