(* ===== verification/Json.thy ===== *)
theory Json
  imports Go_Strings
begin

text \<open>
  What the repository uses of \<open>encoding/json\<close>.  A JSON document is given by the value it denotes: an
  \<open>any\<close> in which numbers are \<open>AFloat\<close>, arrays \<open>AArr\<close> and objects \<open>AMap\<close>, with a \<open>time.Time\<close> kept
  as the instant its text denotes.  \<open>json_norm\<close> is what a Go value has become once it has been
  marshalled and read back into an \<open>any\<close>: integers are floats, nil slices are null, string slices are
  arrays of interfaces and invalid bytes are replacement characters.  The integers the code
  marshals are Unix seconds and counts, which \<open>float64\<close> represents exactly.
\<close>

primrec json_norm :: "any \<Rightarrow> any" where
  "json_norm ANil = ANil"
| "json_norm (ABool b) = ABool b"
| "json_norm (AInt n) = AFloat (of_int n)"
| "json_norm (AFloat q) = AFloat q"
| "json_norm (AStr s) = AStr (valid_utf8_of s)"
| "json_norm (ATime t) = ATime t"
| "json_norm (AStrs s) =
     (case s of None \<Rightarrow> ANil | Some xs \<Rightarrow> AArr (map (\<lambda>x. AStr (valid_utf8_of x)) xs))"
| "json_norm (AArr xs) = AArr (map json_norm xs)"
| "json_norm (AMap m) = AMap (map_option json_norm \<circ> m)"

text \<open>\<open>json.Marshal\<close> of a map and \<open>json.Unmarshal\<close> into a map.\<close>

definition json_map :: "gomap \<Rightarrow> gomap" where
  "json_map m = map_option json_norm \<circ> m"

lemma json_norm_map [simp]: "json_norm (AMap m) = AMap (json_map m)"
  by (simp add: json_map_def)

declare json_norm.simps(9) [simp del]

lemma json_map_get [simp]:
  "json_map m k = map_option json_norm (m k)"
  "mget (json_map m) k = (case m k of None \<Rightarrow> ANil | Some v \<Rightarrow> json_norm v)"
  by (simp_all add: json_map_def mget_def split: option.splits)

fun unmarshal_map :: "any \<Rightarrow> gomap res" where
  "unmarshal_map (AMap m) = Inr m"
| "unmarshal_map ANil = Inr Map.empty"
| "unmarshal_map _ = Inl (ExtErr ''json: cannot unmarshal into map'')"

text \<open>
  \<open>json.Unmarshal\<close> into a nil \<open>[]string\<close>: null leaves it nil, an array gives its strings, with the
  empty string for an element that is null or (an error) no string, and any other value is an
  error that leaves it nil.  The flag says whether there was no error.
\<close>

definition unmarshal_strings :: "any \<Rightarrow> slice \<times> bool" where
  "unmarshal_strings v =
     (case v of
        ANil \<Rightarrow> (None, True)
      | AArr xs \<Rightarrow> (Some (map str xs), list_all (\<lambda>x. case x of AStr _ \<Rightarrow> True | ANil \<Rightarrow> True | _ \<Rightarrow> False) xs)
      | _ \<Rightarrow> (None, False))"

definition marshal_strings :: "slice \<Rightarrow> any" where
  "marshal_strings s = json_norm (AStrs s)"

definition utf8_slice :: "slice \<Rightarrow> slice" where
  "utf8_slice s = map_option (map valid_utf8_of) s"

lemma unmarshal_marshal_strings: "unmarshal_strings (marshal_strings s) = (utf8_slice s, True)"
  by (cases s) (simp_all add: unmarshal_strings_def marshal_strings_def utf8_slice_def list_all_iff o_def)

end
