(* ===== verification/Store_Db.thy ===== *)
theory Store_Db
  imports Json
begin

text \<open>
  The PostgreSQL half of internal/store/store.go.  The tables are those of migrations/, with the
  jsonb columns as JSON documents; each query is the meaning of the SQL text in the method.  What
  the server does besides is a parameter, the record \<open>pg\<close>: \<open>pg_fault\<close> says which statement fails in
  which state and with what error (a lost connection, a value the column's type rejects), and
  \<open>pg_uuid\<close> gives the canonical form of a uuid literal, \<open>None\<close> where the server or the driver
  rejects the text.  Rows that tie in an \<open>order by\<close> keep the order of the table.
\<close>

section \<open>The types of store.go\<close>

record client =
  c_id :: string
  c_client_id :: string
  c_secret :: string
  c_name :: string
  c_redirects :: slice
  c_grants :: slice
  c_scopes :: slice
  c_logouts :: slice
  c_customer :: "string option"
  c_by_subject :: "string option"
  c_by_email :: "string option"
  c_created :: int
  c_updated :: int

record key =
  k_id :: int
  k_public :: string
  k_private :: string
  k_keyid :: string
  k_invalid :: bool

record saml_sp =
  sp_id :: string
  sp_entity :: string
  sp_metadata :: "string option"
  sp_acs :: slice
  sp_binding :: string
  sp_mapping :: "gomap option"
  sp_created :: int
  sp_updated :: int

record identity_policy =
  ip_id :: string
  ip_name :: string
  ip_target_type :: string
  ip_target_id :: "string option"
  ip_policy :: "gomap option"
  ip_created :: int
  ip_updated :: int

record tx_policy =
  tp_id :: string
  tp_client_id :: string
  tp_priority :: int
  tp_subject :: "string option"
  tp_types :: slice
  tp_audiences :: slice
  tp_scopes :: slice
  tp_actor_required :: bool
  tp_enabled :: bool
  tp_description :: "string option"
  tp_created :: int
  tp_updated :: int

record tx_event =
  ev_client_id :: string
  ev_policy_id :: "string option"
  ev_subject :: "string option"
  ev_subject_token_type :: string
  ev_subject_token_id :: "string option"
  ev_requested_audience :: "string option"
  ev_granted_audience :: "string option"
  ev_requested_scopes :: slice
  ev_granted_scopes :: slice
  ev_actor_subject :: "string option"
  ev_success :: bool
  ev_error :: "string option"
  ev_issued_token_id :: "string option"

record consent_grant =
  cg_subject :: string
  cg_client_id :: string
  cg_scopes :: slice
  cg_audiences :: slice
  cg_granted_at :: int

definition zero_client :: client where
  "zero_client = \<lparr>c_id = [], c_client_id = [], c_secret = [], c_name = [], c_redirects = None,
     c_grants = None, c_scopes = None, c_logouts = None, c_customer = None, c_by_subject = None,
     c_by_email = None, c_created = zero_time, c_updated = zero_time\<rparr>"

section \<open>The tables\<close>

record client_row =
  cr_id :: string
  cr_client_id :: string
  cr_secret :: string
  cr_name :: string
  cr_redirects :: any
  cr_grants :: any
  cr_scopes :: any
  cr_logouts :: "any option"
  cr_customer :: "string option"
  cr_by_subject :: "string option"
  cr_by_email :: "string option"
  cr_created :: int
  cr_updated :: int

record sp_row =
  sr_id :: string
  sr_entity :: string
  sr_metadata :: "string option"
  sr_acs :: any
  sr_binding :: string
  sr_mapping :: any
  sr_created :: int
  sr_updated :: int

record policy_row =
  pr_id :: string
  pr_name :: string
  pr_target_type :: string
  pr_target_id :: "string option"
  pr_policy :: any
  pr_created :: int
  pr_updated :: int

record tx_policy_row =
  tr_id :: string
  tr_client_id :: string
  tr_priority :: int
  tr_subject :: "string option"
  tr_types :: any
  tr_audiences :: any
  tr_scopes :: "any option"
  tr_actor_required :: bool
  tr_enabled :: bool
  tr_description :: "string option"
  tr_created :: int
  tr_updated :: int

record key_row =
  kr_id :: int
  kr_public :: string
  kr_private :: string
  kr_keyid :: string
  kr_invalid :: bool
  kr_created :: int

record adapter_row =
  ar_id :: string
  ar_name :: string
  ar_payload :: any

record db =
  t_clients :: "client_row list"
  t_sps :: "sp_row list"
  t_policies :: "policy_row list"
  t_tx_policies :: "tx_policy_row list"
  t_tx_events :: "tx_event list"
  t_keys :: "key_row list"
  t_adapter :: "adapter_row list"

definition empty_db :: db where
  "empty_db = \<lparr>t_clients = [], t_sps = [], t_policies = [], t_tx_policies = [], t_tx_events = [],
     t_keys = [], t_adapter = []\<rparr>"

text \<open>The statements the methods send.\<close>

datatype db_call =
    QListClients "string option" | QClientByID string | QClientByClientID string | QFositeClient string
  | XCreateClient client | XUpdateClient client | XDeleteClient string
  | QListSPs | QSP string | XCreateSP saml_sp | XUpdateSP saml_sp | XDeleteSP string
  | QListPolicies | QPolicy string | XCreatePolicy identity_policy | XUpdatePolicy identity_policy
  | XDeletePolicy string
  | QTxPolicies string | XLogTxEvent tx_event
  | QActiveKeys | XInsertKey string string string
  | XPutConsent string string "slice" "slice" | QConsent string string

record pg =
  pg_fault :: "db_call \<Rightarrow> db \<Rightarrow> goerr option"
  pg_uuid :: "string \<Rightarrow> string option"

text \<open>A server that fails no statement and takes every non-empty text as its own canonical uuid.\<close>

definition sample_pg :: pg where
  "sample_pg = \<lparr>pg_fault = (\<lambda>_ _. None), pg_uuid = (\<lambda>s. if s = [] then None else Some s)\<rparr>"

lemma sample_pg_simps [simp]: "pg_fault sample_pg c d = None" "s \<noteq> [] \<Longrightarrow> pg_uuid sample_pg s = Some s"
  "pg_uuid sample_pg [] = None"
  by (simp_all add: sample_pg_def)

definition bad_uuid :: goerr where
  "bad_uuid = ExtErr ''invalid input syntax for type uuid''"

definition dup_key :: goerr where
  "dup_key = ExtErr ''duplicate key value violates unique constraint''"

section \<open>Clients\<close>

text \<open>\<open>scanClients\<close>: the errors of \<open>json.Unmarshal\<close> are dropped.\<close>

definition scanClient_row :: "client_row \<Rightarrow> client" where
  "scanClient_row r = \<lparr>c_id = cr_id r, c_client_id = cr_client_id r, c_secret = cr_secret r,
     c_name = cr_name r, c_redirects = fst (unmarshal_strings (cr_redirects r)),
     c_grants = fst (unmarshal_strings (cr_grants r)),
     c_scopes = fst (unmarshal_strings (cr_scopes r)),
     c_logouts = fst (unmarshal_strings (case cr_logouts r of None \<Rightarrow> AArr [] | Some v \<Rightarrow> v)),
     c_customer = cr_customer r, c_by_subject = cr_by_subject r, c_by_email = cr_by_email r,
     c_created = cr_created r, c_updated = cr_updated r\<rparr>"

definition scanClients :: "client_row list \<Rightarrow> client list" where
  "scanClients rows = map scanClient_row rows"

definition ListClients :: "pg \<Rightarrow> string option \<Rightarrow> db \<Rightarrow> client list res" where
  "ListClients PG customerID d =
     (case pg_fault PG (QListClients customerID) d of
        Some e \<Rightarrow> Inl e
      | None \<Rightarrow> Inr (scanClients (order_by (\<lambda>r. - cr_created r)
          (case customerID of None \<Rightarrow> t_clients d
           | Some c \<Rightarrow> filter (\<lambda>r. cr_customer r = Some c) (t_clients d)))))"

text \<open>\<open>scanClient\<close>: the first row of the query, \<open>ErrNotFound\<close> without one.\<close>

definition first_client :: "client list \<Rightarrow> client res" where
  "first_client cs = (case cs of [] \<Rightarrow> Inl ErrNotFound | c # _ \<Rightarrow> Inr c)"

definition GetClientByID :: "pg \<Rightarrow> string \<Rightarrow> db \<Rightarrow> client res" where
  "GetClientByID PG i d =
     (case pg_fault PG (QClientByID i) d of
        Some e \<Rightarrow> Inl e
      | None \<Rightarrow>
          (case pg_uuid PG i of
             None \<Rightarrow> Inl bad_uuid
           | Some u \<Rightarrow> first_client (scanClients (filter (\<lambda>r. cr_id r = u) (t_clients d)))))"

definition GetClientByClientID :: "pg \<Rightarrow> string \<Rightarrow> db \<Rightarrow> client res" where
  "GetClientByClientID PG cid d =
     (case pg_fault PG (QClientByClientID cid) d of
        Some e \<Rightarrow> Inl e
      | None \<Rightarrow> first_client (scanClients (filter (\<lambda>r. cr_client_id r = cid) (t_clients d))))"

text \<open>
  \<open>CreateClient\<close> draws a uuid when the client has none.  The id and the client id are unique
  (migrations/20250201000100); the method returns the client it was given, with the row's times.
\<close>

type_synonym uuids = "nat \<Rightarrow> string"

definition CreateClient ::
  "pg \<Rightarrow> uuids \<Rightarrow> int \<Rightarrow> client \<Rightarrow> db \<times> nat \<Rightarrow> client res \<times> db \<times> nat" where
  "CreateClient PG U now c0 dn =
     (let (d, n0) = dn;
          (c, n) = (if c_id c0 = [] then (c0\<lparr>c_id := U n0\<rparr>, Suc n0) else (c0, n0))
      in case pg_fault PG (XCreateClient c) d of
           Some e \<Rightarrow> (Inl e, d, n)
         | None \<Rightarrow>
             (case pg_uuid PG (c_id c) of
                None \<Rightarrow> (Inl bad_uuid, d, n)
              | Some u \<Rightarrow>
                  if \<exists>r \<in> set (t_clients d). cr_id r = u \<or> cr_client_id r = c_client_id c
                  then (Inl dup_key, d, n)
                  else (Inr (c\<lparr>c_created := now, c_updated := now\<rparr>),
                        d\<lparr>t_clients := t_clients d @ [\<lparr>cr_id = u, cr_client_id = c_client_id c,
                            cr_secret = c_secret c, cr_name = c_name c,
                            cr_redirects = marshal_strings (c_redirects c),
                            cr_grants = marshal_strings (c_grants c),
                            cr_scopes = marshal_strings (c_scopes c),
                            cr_logouts = Some (marshal_strings (c_logouts c)),
                            cr_customer = c_customer c, cr_by_subject = c_by_subject c,
                            cr_by_email = c_by_email c, cr_created = now, cr_updated = now\<rparr>]\<rparr>, n)))"

definition UpdateClient :: "pg \<Rightarrow> int \<Rightarrow> client \<Rightarrow> db \<Rightarrow> unit res \<times> db" where
  "UpdateClient PG now c d =
     (case pg_fault PG (XUpdateClient c) d of
        Some e \<Rightarrow> (Inl e, d)
      | None \<Rightarrow>
          (case pg_uuid PG (c_id c) of
             None \<Rightarrow> (Inl bad_uuid, d)
           | Some u \<Rightarrow>
               if \<not> (\<exists>r \<in> set (t_clients d). cr_id r = u) then (Inl ErrNotFound, d)
               else (Inr (), d\<lparr>t_clients := map (\<lambda>r. if cr_id r = u
                       then r\<lparr>cr_name := c_name c, cr_secret := c_secret c,
                              cr_redirects := marshal_strings (c_redirects c),
                              cr_grants := marshal_strings (c_grants c),
                              cr_scopes := marshal_strings (c_scopes c),
                              cr_logouts := Some (marshal_strings (c_logouts c)),
                              cr_updated := now\<rparr>
                       else r) (t_clients d)\<rparr>)))"

definition DeleteClient :: "pg \<Rightarrow> string \<Rightarrow> db \<Rightarrow> unit res \<times> db" where
  "DeleteClient PG i d =
     (case pg_fault PG (XDeleteClient i) d of
        Some e \<Rightarrow> (Inl e, d)
      | None \<Rightarrow>
          (case pg_uuid PG i of
             None \<Rightarrow> (Inl bad_uuid, d)
           | Some u \<Rightarrow>
               if \<not> (\<exists>r \<in> set (t_clients d). cr_id r = u) then (Inl ErrNotFound, d)
               else (Inr (), d\<lparr>t_clients := filter (\<lambda>r. cr_id r \<noteq> u) (t_clients d)\<rparr>)))"

end
