(* ===== verification/Store_Admin.thy ===== *)
theory Store_Admin
  imports Store_Db
begin

text \<open>
  The service providers and identity policies of internal/store/store.go: the two tables the admin
  API edits besides the clients.  A jsonb column that should hold an object is read into a
  \<open>map[string]any\<close>, which stays nil when the document is null or something else.
\<close>

section \<open>JSON objects in columns\<close>

definition marshal_object :: "gomap option \<Rightarrow> any" where
  "marshal_object m = (case m of None \<Rightarrow> ANil | Some g \<Rightarrow> AMap (json_map g))"

definition unmarshal_object :: "any \<Rightarrow> gomap option" where
  "unmarshal_object v = (case v of AMap m \<Rightarrow> Some m | _ \<Rightarrow> None)"

lemma unmarshal_marshal_object: "unmarshal_object (marshal_object m) = map_option json_map m"
  by (cases m) (simp_all add: unmarshal_object_def marshal_object_def)

section \<open>SAML service providers\<close>

definition scanServiceProviders :: "sp_row list \<Rightarrow> saml_sp list" where
  "scanServiceProviders rows = map (\<lambda>r. \<lparr>sp_id = sr_id r, sp_entity = sr_entity r,
     sp_metadata = sr_metadata r, sp_acs = fst (unmarshal_strings (sr_acs r)),
     sp_binding = sr_binding r, sp_mapping = unmarshal_object (sr_mapping r),
     sp_created = sr_created r, sp_updated = sr_updated r\<rparr>) rows"

definition first_row :: "'a list \<Rightarrow> 'a res" where
  "first_row xs = (case xs of [] \<Rightarrow> Inl ErrNotFound | x # _ \<Rightarrow> Inr x)"

definition ListServiceProviders :: "pg \<Rightarrow> db \<Rightarrow> saml_sp list res" where
  "ListServiceProviders PG d =
     (case pg_fault PG QListSPs d of
        Some e \<Rightarrow> Inl e
      | None \<Rightarrow> Inr (scanServiceProviders (order_by (\<lambda>r. - sr_created r) (t_sps d))))"

definition GetServiceProvider :: "pg \<Rightarrow> string \<Rightarrow> db \<Rightarrow> saml_sp res" where
  "GetServiceProvider PG i d =
     (case pg_fault PG (QSP i) d of
        Some e \<Rightarrow> Inl e
      | None \<Rightarrow> (case pg_uuid PG i of
          None \<Rightarrow> Inl bad_uuid
        | Some u \<Rightarrow> first_row (scanServiceProviders (filter (\<lambda>r. sr_id r = u) (t_sps d)))))"

definition CreateServiceProvider ::
  "pg \<Rightarrow> uuids \<Rightarrow> int \<Rightarrow> saml_sp \<Rightarrow> db \<times> nat \<Rightarrow> saml_sp res \<times> db \<times> nat" where
  "CreateServiceProvider PG U now p0 dn =
     (let (d, n0) = dn;
          (p, n) = (if sp_id p0 = [] then (p0\<lparr>sp_id := U n0\<rparr>, Suc n0) else (p0, n0))
      in case pg_fault PG (XCreateSP p) d of
           Some e \<Rightarrow> (Inl e, d, n)
         | None \<Rightarrow> (case pg_uuid PG (sp_id p) of
             None \<Rightarrow> (Inl bad_uuid, d, n)
           | Some u \<Rightarrow>
               if \<exists>r \<in> set (t_sps d). sr_id r = u \<or> sr_entity r = sp_entity p
               then (Inl dup_key, d, n)
               else (Inr (p\<lparr>sp_created := now, sp_updated := now\<rparr>),
                     d\<lparr>t_sps := t_sps d @ [\<lparr>sr_id = u, sr_entity = sp_entity p,
                         sr_metadata = sp_metadata p, sr_acs = marshal_strings (sp_acs p),
                         sr_binding = sp_binding p, sr_mapping = marshal_object (sp_mapping p),
                         sr_created = now, sr_updated = now\<rparr>]\<rparr>, n)))"

definition UpdateServiceProvider :: "pg \<Rightarrow> int \<Rightarrow> saml_sp \<Rightarrow> db \<Rightarrow> unit res \<times> db" where
  "UpdateServiceProvider PG now p d =
     (case pg_fault PG (XUpdateSP p) d of
        Some e \<Rightarrow> (Inl e, d)
      | None \<Rightarrow> (case pg_uuid PG (sp_id p) of
          None \<Rightarrow> (Inl bad_uuid, d)
        | Some u \<Rightarrow>
            if \<not> (\<exists>r \<in> set (t_sps d). sr_id r = u) then (Inl ErrNotFound, d)
            else if \<exists>r \<in> set (t_sps d). sr_id r \<noteq> u \<and> sr_entity r = sp_entity p
              then (Inl dup_key, d)
            else (Inr (), d\<lparr>t_sps := map (\<lambda>r. if sr_id r = u
                    then r\<lparr>sr_entity := sp_entity p, sr_metadata := sp_metadata p,
                           sr_acs := marshal_strings (sp_acs p), sr_binding := sp_binding p,
                           sr_mapping := marshal_object (sp_mapping p), sr_updated := now\<rparr>
                    else r) (t_sps d)\<rparr>)))"

definition DeleteServiceProvider :: "pg \<Rightarrow> string \<Rightarrow> db \<Rightarrow> unit res \<times> db" where
  "DeleteServiceProvider PG i d =
     (case pg_fault PG (XDeleteSP i) d of
        Some e \<Rightarrow> (Inl e, d)
      | None \<Rightarrow> (case pg_uuid PG i of
          None \<Rightarrow> (Inl bad_uuid, d)
        | Some u \<Rightarrow>
            if \<not> (\<exists>r \<in> set (t_sps d). sr_id r = u) then (Inl ErrNotFound, d)
            else (Inr (), d\<lparr>t_sps := filter (\<lambda>r. sr_id r \<noteq> u) (t_sps d)\<rparr>)))"

section \<open>Identity policies\<close>

text \<open>The column \<open>targetId\<close> is a uuid too (migrations/20250201000700).\<close>

definition scanPolicies :: "policy_row list \<Rightarrow> identity_policy list" where
  "scanPolicies rows = map (\<lambda>r. \<lparr>ip_id = pr_id r, ip_name = pr_name r,
     ip_target_type = pr_target_type r, ip_target_id = pr_target_id r,
     ip_policy = unmarshal_object (pr_policy r), ip_created = pr_created r,
     ip_updated = pr_updated r\<rparr>) rows"

definition ListPolicies :: "pg \<Rightarrow> db \<Rightarrow> identity_policy list res" where
  "ListPolicies PG d =
     (case pg_fault PG QListPolicies d of
        Some e \<Rightarrow> Inl e
      | None \<Rightarrow> Inr (scanPolicies (order_by (\<lambda>r. - pr_created r) (t_policies d))))"

definition GetPolicy :: "pg \<Rightarrow> string \<Rightarrow> db \<Rightarrow> identity_policy res" where
  "GetPolicy PG i d =
     (case pg_fault PG (QPolicy i) d of
        Some e \<Rightarrow> Inl e
      | None \<Rightarrow> (case pg_uuid PG i of
          None \<Rightarrow> Inl bad_uuid
        | Some u \<Rightarrow> first_row (scanPolicies (filter (\<lambda>r. pr_id r = u) (t_policies d)))))"

definition uuid_param :: "pg \<Rightarrow> string option \<Rightarrow> string option option" where
  "uuid_param PG v = (case v of None \<Rightarrow> Some None | Some s \<Rightarrow> map_option Some (pg_uuid PG s))"

definition CreatePolicy ::
  "pg \<Rightarrow> uuids \<Rightarrow> int \<Rightarrow> identity_policy \<Rightarrow> db \<times> nat \<Rightarrow> identity_policy res \<times> db \<times> nat" where
  "CreatePolicy PG U now p0 dn =
     (let (d, n0) = dn;
          (p, n) = (if ip_id p0 = [] then (p0\<lparr>ip_id := U n0\<rparr>, Suc n0) else (p0, n0))
      in case pg_fault PG (XCreatePolicy p) d of
           Some e \<Rightarrow> (Inl e, d, n)
         | None \<Rightarrow> (case (pg_uuid PG (ip_id p), uuid_param PG (ip_target_id p)) of
             (Some u, Some target) \<Rightarrow>
               if \<exists>r \<in> set (t_policies d). pr_id r = u then (Inl dup_key, d, n)
               else (Inr (p\<lparr>ip_created := now, ip_updated := now\<rparr>),
                     d\<lparr>t_policies := t_policies d @ [\<lparr>pr_id = u, pr_name = ip_name p,
                         pr_target_type = ip_target_type p, pr_target_id = target,
                         pr_policy = marshal_object (ip_policy p),
                         pr_created = now, pr_updated = now\<rparr>]\<rparr>, n)
           | _ \<Rightarrow> (Inl bad_uuid, d, n)))"

definition UpdatePolicy :: "pg \<Rightarrow> int \<Rightarrow> identity_policy \<Rightarrow> db \<Rightarrow> unit res \<times> db" where
  "UpdatePolicy PG now p d =
     (case pg_fault PG (XUpdatePolicy p) d of
        Some e \<Rightarrow> (Inl e, d)
      | None \<Rightarrow> (case (pg_uuid PG (ip_id p), uuid_param PG (ip_target_id p)) of
          (Some u, Some target) \<Rightarrow>
            if \<not> (\<exists>r \<in> set (t_policies d). pr_id r = u) then (Inl ErrNotFound, d)
            else (Inr (), d\<lparr>t_policies := map (\<lambda>r. if pr_id r = u
                    then r\<lparr>pr_name := ip_name p, pr_target_type := ip_target_type p,
                           pr_target_id := target, pr_policy := marshal_object (ip_policy p),
                           pr_updated := now\<rparr>
                    else r) (t_policies d)\<rparr>)
        | _ \<Rightarrow> (Inl bad_uuid, d)))"

definition DeletePolicy :: "pg \<Rightarrow> string \<Rightarrow> db \<Rightarrow> unit res \<times> db" where
  "DeletePolicy PG i d =
     (case pg_fault PG (XDeletePolicy i) d of
        Some e \<Rightarrow> (Inl e, d)
      | None \<Rightarrow> (case pg_uuid PG i of
          None \<Rightarrow> (Inl bad_uuid, d)
        | Some u \<Rightarrow>
            if \<not> (\<exists>r \<in> set (t_policies d). pr_id r = u) then (Inl ErrNotFound, d)
            else (Inr (), d\<lparr>t_policies := filter (\<lambda>r. pr_id r \<noteq> u) (t_policies d)\<rparr>)))"

end
