(* ===== verification/Base64.thy ===== *)
theory Base64
  imports Go_Strings
begin

text \<open>
  \<open>base64.RawURLEncoding\<close> of Go's \<open>encoding/base64\<close>: the URL alphabet without padding.  Decoding
  skips carriage returns and newlines, rejects every other byte outside the alphabet and a last
  group of a single character, and (the encoding is not \<open>Strict\<close>) ignores the spare bits of the
  last group.
\<close>

section \<open>The alphabet\<close>

definition b64_char :: "nat \<Rightarrow> char" where
  "b64_char v = (if v < 26 then char_of (65 + v) else if v < 52 then char_of (71 + v)
     else if v < 62 then char_of (v - 4) else if v = 62 then CHR ''-'' else CHR ''_'')"

definition b64_value :: "char \<Rightarrow> nat option" where
  "b64_value c =
     (let b = byte_of c in
      if 65 \<le> b \<and> b \<le> 90 then Some (b - 65) else if 97 \<le> b \<and> b \<le> 122 then Some (b - 71)
      else if 48 \<le> b \<and> b \<le> 57 then Some (b + 4) else if c = CHR ''-'' then Some 62
      else if c = CHR ''_'' then Some 63 else None)"

lemma b64_value_char: "v < 64 \<Longrightarrow> b64_value (b64_char v) = Some v"
  by (simp add: b64_value_def b64_char_def Let_def) arith

text \<open>No separator of the code's formats and no skipped byte is in the alphabet.\<close>

definition b64_plain :: "char \<Rightarrow> bool" where
  "b64_plain c \<longleftrightarrow> (let b = byte_of c :: nat in b < 0x80 \<and> b \<noteq> 10 \<and> b \<noteq> 13 \<and> b \<noteq> 46 \<and> b \<noteq> 58)"

lemma b64_plain_char: "v < 64 \<Longrightarrow> b64_plain (b64_char v)"
  by (simp add: b64_plain_def b64_char_def Let_def) arith

lemma b64_plain_not: "\<not> b64_plain (CHR ''.'')" "\<not> b64_plain (CHR '':'')"
  by (simp_all add: b64_plain_def)

section \<open>Encoding and decoding\<close>

fun b64_bytes :: "nat list \<Rightarrow> nat list" where
  "b64_bytes (a # b # c # xs) =
     (a div 4) # ((a mod 4) * 16 + b div 16) # ((b mod 16) * 4 + c div 64) # (c mod 64) # b64_bytes xs"
| "b64_bytes [a, b] = [a div 4, (a mod 4) * 16 + b div 16, (b mod 16) * 4]"
| "b64_bytes [a] = [a div 4, (a mod 4) * 16]"
| "b64_bytes [] = []"

definition b64 :: "string \<Rightarrow> string" where
  "b64 s = map b64_char (b64_bytes (map byte_of s))"

fun unb64_bytes :: "nat list \<Rightarrow> nat list option" where
  "unb64_bytes (p # q # r # s # xs) =
     map_option (\<lambda>ys. (p * 4 + q div 16) # ((q mod 16) * 16 + r div 4) # ((r mod 4) * 64 + s) # ys)
       (unb64_bytes xs)"
| "unb64_bytes [p, q, r] = Some [p * 4 + q div 16, (q mod 16) * 16 + r div 4]"
| "unb64_bytes [p, q] = Some [p * 4 + q div 16]"
| "unb64_bytes [p] = None"
| "unb64_bytes [] = Some []"

definition skipped :: "char \<Rightarrow> bool" where
  "skipped c \<longleftrightarrow> byte_of c = 10 \<or> byte_of c = 13"

definition unb64 :: "string \<Rightarrow> string option" where
  "unb64 s =
     (case those (map b64_value (filter (\<lambda>c. \<not> skipped c) s)) of
        None \<Rightarrow> None
      | Some vs \<Rightarrow> map_option (map char_of) (unb64_bytes vs))"

section \<open>Decoding inverts encoding\<close>

lemma b64_bytes_bound: "\<forall>x \<in> set xs. x < 256 \<Longrightarrow> y \<in> set (b64_bytes xs) \<Longrightarrow> y < 64"
  by (induction xs rule: b64_bytes.induct) auto

lemma sextets:
  fixes a b c :: nat
  assumes "b < 256" "c < 256"
  shows "a div 4 * 4 + (a mod 4 * 16 + b div 16) div 16 = a"
    and "(a mod 4 * 16 + b div 16) mod 16 * 16 + (b mod 16 * 4 + c div 64) div 4 = b"
    and "(b mod 16 * 4 + c div 64) mod 4 * 64 + c mod 64 = c"
proof -
  have b: "b div 16 < 16" and c: "c div 64 < 4" using assms by auto
  have "(a mod 4 * 16 + b div 16) div 16 = a mod 4" using b by (subst div_mult_self3) simp_all
  then show "a div 4 * 4 + (a mod 4 * 16 + b div 16) div 16 = a" by simp
  have "(a mod 4 * 16 + b div 16) mod 16 = b div 16" using b by (subst mod_mult_self3) simp_all
  moreover have "(b mod 16 * 4 + c div 64) div 4 = b mod 16"
    using c by (subst div_mult_self3) simp_all
  ultimately show "(a mod 4 * 16 + b div 16) mod 16 * 16 + (b mod 16 * 4 + c div 64) div 4 = b"
    by simp
  have "(b mod 16 * 4 + c div 64) mod 4 = c div 64" using c by (subst mod_mult_self3) simp_all
  then show "(b mod 16 * 4 + c div 64) mod 4 * 64 + c mod 64 = c" by simp
qed

lemma unb64_b64_bytes: "\<forall>x \<in> set xs. x < 256 \<Longrightarrow> unb64_bytes (b64_bytes xs) = Some xs"
proof (induction xs rule: b64_bytes.induct)
  case (1 a b c xs)
  then show ?case
    using sextets(1,2) [where a = a and b = b and c = c] sextets(3) [where b = b and c = c] by (simp del: div_mult_self3 mod_mult_self3 mod_mult_self4 div_mult_self4)
next
  case (2 a b)
  then show ?case
    using sextets(1,2) [where a = a and b = b and c = 0] sextets(3) [where b = b and c = 0] by simp
next
  case (3 a)
  then show ?case using sextets(1,2) [where a = a and b = 0 and c = 0] sextets(3) [where b = 0 and c = 0] by simp
qed simp

lemma b64_chars: "c \<in> set (b64 s) \<Longrightarrow> b64_plain c"
  using b64_bytes_bound [of "map byte_of s"] b64_plain_char by (fastforce simp: b64_def)

lemma b64_no_sep [simp]: "CHR ''.'' \<notin> set (b64 s)" "CHR '':'' \<notin> set (b64 s)"
  using b64_chars b64_plain_not by blast+

lemma b64_not_skipped: "filter (\<lambda>c. \<not> skipped c) (b64 s) = b64 s"
  using b64_chars by (intro filter_True) (auto simp: b64_plain_def skipped_def Let_def)

lemma those_map_Some: "(\<And>x. x \<in> set xs \<Longrightarrow> f x = Some (g x)) \<Longrightarrow> those (map f xs) = Some (map g xs)"
  by (induction xs) auto

lemma unb64_b64 [simp]: "unb64 (b64 s) = Some s"
proof -
  let ?bs = "b64_bytes (map byte_of s)"
  have bs: "\<forall>x \<in> set (map byte_of s). x < (256 :: nat)" by simp
  have "those (map (b64_value \<circ> b64_char) ?bs) = Some (map id ?bs)"
    using b64_bytes_bound [OF bs] b64_value_char by (intro those_map_Some) simp
  then have "those (map b64_value (b64 s)) = Some ?bs" by (simp add: b64_def)
  then show ?thesis
    using unb64_b64_bytes [OF bs] by (simp add: unb64_def b64_not_skipped o_def)
qed

lemma b64_inj: "b64 s = b64 t \<longleftrightarrow> s = t"
  by (metis option.inject unb64_b64)

end
