(* ===== verification/Secret.thy ===== *)
theory Secret
  imports Base64
begin

text \<open>
  internal/secret: the \<open>enc:v1\<close> format in which client secrets and signing keys are stored.  The
  primitives of Go's \<open>crypto\<close> packages are the record \<open>crypto\<close>; \<open>aead_ok\<close> says what the code
  relies on.  \<open>rand.Read\<close> is the parameter \<open>randsrc\<close>: the bytes of the n-th read of a given length,
  with the number of reads made so far as the state (since Go 1.24 it never fails).
\<close>

section \<open>Primitives\<close>

record crypto =
  sha256 :: "string \<Rightarrow> string"
  hmac256 :: "string \<Rightarrow> string \<Rightarrow> string"
  gcm_seal :: "string \<Rightarrow> string \<Rightarrow> string \<Rightarrow> string"
  gcm_open :: "string \<Rightarrow> string \<Rightarrow> string \<Rightarrow> string option"

type_synonym randsrc = "nat \<Rightarrow> nat \<Rightarrow> string"

definition gcm_nonce_size :: nat where "gcm_nonce_size = 12"
definition gcm_overhead :: nat where "gcm_overhead = 16"

text \<open>
  AES-GCM opens what it sealed under the same key and nonce, and a sealed text is the ciphertext
  followed by a tag of 16 bytes; SHA-256 sums have 32 bytes; a read of k bytes gives k bytes.
\<close>

definition aead_ok :: "crypto \<Rightarrow> bool" where
  "aead_ok C \<longleftrightarrow>
     (\<forall>k n p. gcm_open C k n (gcm_seal C k n p) = Some p
        \<and> length (gcm_seal C k n p) = length p + gcm_overhead)
     \<and> (\<forall>s. length (sha256 C s) = 32)"

definition rand_ok :: "randsrc \<Rightarrow> bool" where
  "rand_ok R \<longleftrightarrow> (\<forall>n k. length (R n k) = k)"

text \<open>Primitives that meet the assumptions, for concrete runs.\<close>

definition sample_crypto :: crypto where
  "sample_crypto = \<lparr>sha256 = (\<lambda>s. take 32 (s @ replicate 32 CHR 0x00)),
     hmac256 = (\<lambda>k s. take 32 (k @ s @ replicate 32 CHR 0x00)),
     gcm_seal = (\<lambda>k n p. p @ replicate gcm_overhead CHR 0x00),
     gcm_open = (\<lambda>k n c. Some (take (length c - gcm_overhead) c))\<rparr>"

definition sample_rand :: randsrc where
  "sample_rand n k = take k (replicate n CHR ''a'' @ replicate k CHR ''b'')"

lemma sample_crypto_ok: "aead_ok sample_crypto"
  by (auto simp: aead_ok_def sample_crypto_def min_def)

lemma sample_rand_ok: "rand_ok sample_rand"
  by (auto simp: rand_ok_def sample_rand_def min_def)

section \<open>secret.go\<close>

definition enc_prefix :: string where "enc_prefix = ''enc:v1:''"

definition secret_New :: "crypto \<Rightarrow> string \<Rightarrow> string" where
  "secret_New C raw = sha256 C raw"

definition IsEncrypted :: "string \<Rightarrow> bool" where
  "IsEncrypted value = has_prefix value enc_prefix"

text \<open>\<open>aes.NewCipher\<close> accepts keys of 16, 24 and 32 bytes.\<close>

definition aes_key_ok :: "string \<Rightarrow> bool" where
  "aes_key_ok key \<longleftrightarrow> length key \<in> {16, 24, 32}"

definition secret_Encrypt :: "crypto \<Rightarrow> randsrc \<Rightarrow> string \<Rightarrow> string \<Rightarrow> nat \<Rightarrow> string res \<times> nat" where
  "secret_Encrypt C R key plaintext n =
     (if IsEncrypted plaintext then (Inr plaintext, n)
      else if \<not> aes_key_ok key then (Inl (ExtErr ''aes: invalid key size''), n)
      else
        let iv = R n gcm_nonce_size;
            sealed = gcm_seal C key iv plaintext;
            tagStart = length sealed - gcm_overhead
        in (Inr (''enc:v1:'' @ b64 iv @ '':'' @ b64 (drop tagStart sealed) @ '':''
                 @ b64 (take tagStart sealed)), Suc n))"

text \<open>\<open>gcm.Open\<close> panics when the nonce does not have the size of the mode.\<close>

definition secret_Decrypt :: "crypto \<Rightarrow> string \<Rightarrow> string \<Rightarrow> string go" where
  "secret_Decrypt C key value =
     (if \<not> IsEncrypted value then Ok value
      else case split_on (CHR '':'') value of
        [p0, p1, p2, p3, p4] \<Rightarrow>
          (if p0 \<noteq> ''enc'' \<or> p1 \<noteq> ''v1'' then Err (GoErr ''invalid encrypted secret format'')
           else case unb64 p2 of None \<Rightarrow> Err (ExtErr ''illegal base64 data'') | Some iv \<Rightarrow>
                (case unb64 p3 of None \<Rightarrow> Err (ExtErr ''illegal base64 data'') | Some tag \<Rightarrow>
                 (case unb64 p4 of None \<Rightarrow> Err (ExtErr ''illegal base64 data'') | Some ciphertext \<Rightarrow>
                   if \<not> aes_key_ok key then Err (ExtErr ''aes: invalid key size'')
                   else if length iv \<noteq> gcm_nonce_size
                     then Panic ''crypto/cipher: incorrect nonce length given to GCM''
                   else (case gcm_open C key iv (ciphertext @ tag) of
                           None \<Rightarrow> Err (ExtErr ''cipher: message authentication failed'')
                         | Some plaintext \<Rightarrow> Ok plaintext))))
      | _ \<Rightarrow> Err (GoErr ''invalid encrypted secret format''))"

section \<open>What the format guarantees\<close>

lemma split_encrypted:
  "split_on (CHR '':'') (''enc:v1:'' @ b64 x @ '':'' @ b64 y @ '':'' @ b64 z) =
     [''enc'', ''v1'', b64 x, b64 y, b64 z]"
proof -
  have "''enc:v1:'' @ b64 x @ '':'' @ b64 y @ '':'' @ b64 z =
        ''enc'' @ CHR '':'' # ''v1'' @ CHR '':'' # b64 x @ CHR '':'' # b64 y @ CHR '':'' # b64 z"
    by simp
  then show ?thesis
    by (simp only: split_on_append split_on_no_sep b64_no_sep not_False_eq_True
          list.set insert_iff empty_iff char.inject simp_thms)
qed

lemma IsEncrypted_format: "IsEncrypted (''enc:v1:'' @ s)"
  by (simp add: IsEncrypted_def has_prefix_def enc_prefix_def)

lemmas IsEncrypted_chars [simp] = IsEncrypted_format [simplified]

text \<open>What \<open>secret_Decrypt\<close> makes of a well-formed value, before the cipher is asked.\<close>

lemma Decrypt_format:
  assumes "aes_key_ok key" "length iv = gcm_nonce_size"
  shows "secret_Decrypt C key (''enc:v1:'' @ b64 iv @ '':'' @ b64 tag @ '':'' @ b64 ct) =
     (case gcm_open C key iv (ct @ tag) of
        None \<Rightarrow> Err (ExtErr ''cipher: message authentication failed'')
      | Some plaintext \<Rightarrow> Ok plaintext)"
  unfolding secret_Decrypt_def split_encrypted using assms by simp

lemma secret_New_key_ok: "aead_ok C \<Longrightarrow> aes_key_ok (secret_New C raw)"
  by (simp add: aead_ok_def secret_New_def aes_key_ok_def)

lemma Encrypt_Decrypt:
  assumes "aead_ok C" and "rand_ok R" and "\<not> IsEncrypted plaintext"
  shows "\<exists>v. secret_Encrypt C R (secret_New C raw) plaintext n = (Inr v, Suc n) \<and> IsEncrypted v
           \<and> secret_Decrypt C (secret_New C raw) v = Ok plaintext"
proof -
  let ?key = "secret_New C raw" and ?iv = "R n gcm_nonce_size"
  let ?sealed = "gcm_seal C ?key ?iv plaintext"
  let ?k = "length ?sealed - gcm_overhead"
  have "secret_Decrypt C ?key (''enc:v1:'' @ b64 ?iv @ '':'' @ b64 (drop ?k ?sealed) @ '':''
          @ b64 (take ?k ?sealed)) = Ok plaintext"
    using assms secret_New_key_ok [of C raw] by (subst Decrypt_format) (auto simp: rand_ok_def aead_ok_def)
  then show ?thesis
    using assms secret_New_key_ok [of C raw] by (simp add: secret_Encrypt_def Let_def)
qed

text \<open>
  Encryption of a plaintext that is not already in the \<open>enc:v1\<close> format succeeds, consumes one
  random nonce, and what it returns is in the format and decrypts to the plaintext under the key
  derived from the same raw secret.
\<close>

theorem secret_roundtrip:
  assumes "aead_ok C" and "rand_ok R" and "\<not> IsEncrypted plaintext"
  shows "\<exists>v. secret_Encrypt C R (secret_New C raw) plaintext n = (Inr v, Suc n) \<and> IsEncrypted v
           \<and> secret_Decrypt C (secret_New C raw) v = Ok plaintext"
  by (rule Encrypt_Decrypt [OF assms])

theorem secret_roundtrip_witness:
  "\<exists>v. secret_Encrypt sample_crypto sample_rand (secret_New sample_crypto ''k'') ''s3cret'' 0 = (Inr v, 1)
     \<and> secret_Decrypt sample_crypto (secret_New sample_crypto ''k'') v = Ok ''s3cret''"
  using secret_roundtrip [OF sample_crypto_ok sample_rand_ok, of "''s3cret''" "''k''" 0]
  by (auto simp: IsEncrypted_def has_prefix_def enc_prefix_def)

end
