(* ===== verification/Store_Exchange.thy ===== *)
theory Store_Exchange
  imports Store_Admin Secret
begin

text \<open>
  The rest of the PostgreSQL half of internal/store/store.go: token exchange policies and their
  audit events, signing keys, and consent grants.  The first section shows what
  \<open>FindTokenExchangePolicy\<close> selects, the last one that a consent grant is read back as it was
  recorded.
\<close>

section \<open>Token exchange policies\<close>

definition scanTokenExchangePolicy :: "tx_policy_row \<Rightarrow> tx_policy" where
  "scanTokenExchangePolicy r = \<lparr>tp_id = tr_id r, tp_client_id = tr_client_id r,
     tp_priority = tr_priority r, tp_subject = tr_subject r,
     tp_types = fst (unmarshal_strings (tr_types r)),
     tp_audiences = fst (unmarshal_strings (tr_audiences r)),
     tp_scopes = fst (unmarshal_strings (case tr_scopes r of None \<Rightarrow> ANil | Some v \<Rightarrow> v)),
     tp_actor_required = tr_actor_required r, tp_enabled = tr_enabled r,
     tp_description = tr_description r, tp_created = tr_created r, tp_updated = tr_updated r\<rparr>"

definition matchesList :: "slice \<Rightarrow> string \<Rightarrow> bool" where
  "matchesList vs candidate \<longleftrightarrow>
     elems vs = [] \<or> list_ex (\<lambda>v. v = ''*'' \<or> v = candidate) (elems vs)"

definition tokenExchangePolicyMatches ::
  "tx_policy \<Rightarrow> string \<Rightarrow> string \<Rightarrow> string \<Rightarrow> bool \<Rightarrow> bool" where
  "tokenExchangePolicyMatches p subject subjectTokenType audience actorPresent =
     (if (case tp_subject p of None \<Rightarrow> False | Some s \<Rightarrow> s \<noteq> [] \<and> s \<noteq> ''*'' \<and> s \<noteq> subject) then False
      else if \<not> matchesList (tp_types p) subjectTokenType then False
      else if \<not> matchesList (tp_audiences p) audience then False
      else \<not> tp_actor_required p \<or> actorPresent)"

text \<open>The rows of the query: \<open>order by priority desc, "createdAt" asc\<close>.\<close>

definition policy_rows :: "string \<Rightarrow> db \<Rightarrow> tx_policy_row list" where
  "policy_rows clientID d =
     order_by (\<lambda>r. - tr_priority r) (order_by tr_created
       (filter (\<lambda>r. tr_client_id r = clientID \<and> tr_enabled r) (t_tx_policies d)))"

definition FindTokenExchangePolicy ::
  "pg \<Rightarrow> string \<Rightarrow> string \<Rightarrow> string \<Rightarrow> string \<Rightarrow> bool \<Rightarrow> db \<Rightarrow> tx_policy res" where
  "FindTokenExchangePolicy PG clientID subject subjectTokenType audience actorPresent d =
     (case pg_fault PG (QTxPolicies clientID) d of
        Some e \<Rightarrow> Inl e
      | None \<Rightarrow>
          (case find (\<lambda>p. tokenExchangePolicyMatches p subject subjectTokenType audience actorPresent)
                  (map scanTokenExchangePolicy (policy_rows clientID d)) of
             Some p \<Rightarrow> Inr p
           | None \<Rightarrow> Inl ErrNotFound))"

text \<open>The order in which the code considers policies: \<open>policy_before p q\<close> when p comes first.\<close>

definition policy_before :: "tx_policy_row \<Rightarrow> tx_policy_row \<Rightarrow> bool" where
  "policy_before p q \<longleftrightarrow>
     tr_priority p > tr_priority q \<or> tr_priority p = tr_priority q \<and> tr_created p \<le> tr_created q"

lemma sorted_wrt_insort_policy:
  "sorted_wrt policy_before xs \<Longrightarrow> \<forall>y \<in> set xs. tr_created x \<le> tr_created y \<Longrightarrow>
     sorted_wrt policy_before (insort_key (\<lambda>r. - tr_priority r) x xs)"
  by (induction xs) (auto simp: policy_before_def set_insort_key)

lemma sorted_wrt_policy_rows: "sorted_wrt policy_before (policy_rows c d)"
proof -
  have "sorted_wrt policy_before (foldr (insort_key (\<lambda>r. - tr_priority r)) xs [])"
    if "sorted (map tr_created xs)" for xs
    using that
  proof (induction xs)
    case (Cons x xs)
    have "set (foldr (insort_key (\<lambda>r. - tr_priority r)) xs []) = set xs"
      by (induction xs) (auto simp: set_insort_key)
    with Cons show ?case by (simp add: sorted_wrt_insort_policy)
  qed simp
  from this [OF sorted_order_by] show ?thesis
    by (simp add: policy_rows_def order_by_def sort_key_def)
qed

lemma set_policy_rows:
  "set (policy_rows c d) = {r \<in> set (t_tx_policies d). tr_client_id r = c \<and> tr_enabled r}"
  by (auto simp: policy_rows_def)

lemma find_map_sorted:
  assumes "find P (map f xs) = Some y" "sorted_wrt B xs"
  shows "\<exists>x \<in> set xs. y = f x \<and> P y \<and> (\<forall>z \<in> set xs. P (f z) \<longrightarrow> z = x \<or> B x z)"
  using assms by (induction xs) (auto split: if_splits)

text \<open>
  C38. \<open>FindTokenExchangePolicy\<close> returns a policy exactly when the client has an enabled policy that
  matches the exchange (and the database answers); the policy it returns is then the scan of such a
  row, and every other matching row of the client has a lower priority or, at the same priority, was
  not created earlier.
\<close>

theorem FindTokenExchangePolicy_best:
  assumes "pg_fault PG (QTxPolicies c) d = None"
  shows "case FindTokenExchangePolicy PG c sub ty aud act d of
      Inr p \<Rightarrow> \<exists>r \<in> set (t_tx_policies d). tr_client_id r = c \<and> tr_enabled r
          \<and> p = scanTokenExchangePolicy r \<and> tokenExchangePolicyMatches p sub ty aud act
          \<and> (\<forall>q \<in> set (t_tx_policies d). tr_client_id q = c \<and> tr_enabled q
                \<and> tokenExchangePolicyMatches (scanTokenExchangePolicy q) sub ty aud act
                \<longrightarrow> q = r \<or> policy_before r q)
    | Inl e \<Rightarrow> e = ErrNotFound
          \<and> (\<forall>q \<in> set (t_tx_policies d). tr_client_id q = c \<and> tr_enabled q
                \<longrightarrow> \<not> tokenExchangePolicyMatches (scanTokenExchangePolicy q) sub ty aud act)"
proof (cases "find (\<lambda>p. tokenExchangePolicyMatches p sub ty aud act)
    (map scanTokenExchangePolicy (policy_rows c d))")
  case None
  then have "FindTokenExchangePolicy PG c sub ty aud act d = Inl ErrNotFound"
    using assms by (simp add: FindTokenExchangePolicy_def)
  with None show ?thesis by (auto simp: find_None_iff set_policy_rows)
next
  case (Some p)
  from find_map_sorted [OF this sorted_wrt_policy_rows] Some show ?thesis
    using assms by (auto simp: FindTokenExchangePolicy_def set_policy_rows)
qed

definition sample_policy_row :: "string \<Rightarrow> int \<Rightarrow> tx_policy_row" where
  "sample_policy_row i p = \<lparr>tr_id = i, tr_client_id = ''app'', tr_priority = p, tr_subject = None,
     tr_types = AArr [], tr_audiences = AArr [AStr ''*''], tr_scopes = None,
     tr_actor_required = False, tr_enabled = True, tr_description = None, tr_created = 0, tr_updated = 0\<rparr>"

theorem FindTokenExchangePolicy_best_witness:
  "\<exists>p. FindTokenExchangePolicy sample_pg ''app'' ''alice'' ''t'' ''api'' False
         (empty_db\<lparr>t_tx_policies := [sample_policy_row ''low'' 1, sample_policy_row ''high'' 2]\<rparr>) = Inr p
     \<and> tp_id p = ''high''"
proof -
  let ?d = "empty_db\<lparr>t_tx_policies := [sample_policy_row ''low'' 1, sample_policy_row ''high'' 2]\<rparr>"
  have m: "tokenExchangePolicyMatches (scanTokenExchangePolicy (sample_policy_row i p)) ''alice'' ''t'' ''api'' False" for i p
    by (simp add: tokenExchangePolicyMatches_def scanTokenExchangePolicy_def sample_policy_row_def
        matchesList_def unmarshal_strings_def)
  note best = FindTokenExchangePolicy_best [of sample_pg "''app''" ?d "''alice''" "''t''" "''api''" False]
  show ?thesis
  proof (cases "FindTokenExchangePolicy sample_pg ''app'' ''alice'' ''t'' ''api'' False ?d")
    case (Inl e)
    with best m [of "''low''" 1] show ?thesis by (simp add: sample_policy_row_def)
  next
    case (Inr p)
    with best obtain r where r: "r \<in> set (t_tx_policies ?d)" "p = scanTokenExchangePolicy r"
        "\<forall>q \<in> set (t_tx_policies ?d). tr_client_id q = ''app'' \<and> tr_enabled q
           \<and> tokenExchangePolicyMatches (scanTokenExchangePolicy q) ''alice'' ''t'' ''api'' False
           \<longrightarrow> q = r \<or> policy_before r q"
      by auto
    from r(3) m [of "''high''" 2] have "sample_policy_row ''high'' 2 = r \<or> policy_before r (sample_policy_row ''high'' 2)"
      by (simp add: sample_policy_row_def)
    with r(1) have "r = sample_policy_row ''high'' 2"
      by (auto simp: policy_before_def sample_policy_row_def)
    with Inr r(2) show ?thesis by (simp add: scanTokenExchangePolicy_def sample_policy_row_def)
  qed
qed

text \<open>What a policy that matches says of the exchange.\<close>

lemma matches_subject:
  "tokenExchangePolicyMatches p sub ty aud act \<Longrightarrow> tp_subject p = Some s \<Longrightarrow>
     s = [] \<or> s = ''*'' \<or> s = sub"
  by (auto simp: tokenExchangePolicyMatches_def split: if_splits)

lemma matches_audience:
  "tokenExchangePolicyMatches p sub ty aud act \<Longrightarrow> matchesList (tp_audiences p) aud"
  by (auto simp: tokenExchangePolicyMatches_def split: if_splits)

lemma matches_actor:
  "tokenExchangePolicyMatches p sub ty aud act \<Longrightarrow> tp_actor_required p \<Longrightarrow> act"
  by (auto simp: tokenExchangePolicyMatches_def split: if_splits)

section \<open>Token exchange events\<close>

definition LogTokenExchangeEvent :: "pg \<Rightarrow> tx_event \<Rightarrow> db \<times> nat \<Rightarrow> unit res \<times> db \<times> nat" where
  "LogTokenExchangeEvent PG e dn =
     (let (d, n) = dn in
      case pg_fault PG (XLogTxEvent e) d of
        Some err \<Rightarrow> (Inl err, d, Suc n)
      | None \<Rightarrow> (Inr (), d\<lparr>t_tx_events := t_tx_events d @
          [e\<lparr>ev_requested_scopes := utf8_slice (ev_requested_scopes e),
             ev_granted_scopes := utf8_slice (ev_granted_scopes e)\<rparr>]\<rparr>, Suc n))"

section \<open>Signing keys\<close>

definition ActiveKeys :: "pg \<Rightarrow> db \<Rightarrow> key list res" where
  "ActiveKeys PG d =
     (case pg_fault PG QActiveKeys d of
        Some e \<Rightarrow> Inl e
      | None \<Rightarrow> Inr (map (\<lambda>r. \<lparr>k_id = kr_id r, k_public = kr_public r, k_private = kr_private r,
            k_keyid = kr_keyid r, k_invalid = kr_invalid r\<rparr>)
          (order_by (\<lambda>r. - kr_created r) (filter (\<lambda>r. \<not> kr_invalid r) (t_keys d)))))"

text \<open>
  The trigger of migrations/20240923112600 replaces the key id by the last eight hex digits of
  the public key's SHA-256 sum; the column is unique.
\<close>

definition hex_digit :: "nat \<Rightarrow> char" where
  "hex_digit n = ''0123456789abcdef'' ! (n mod 16)"

definition hex :: "string \<Rightarrow> string" where
  "hex s = concat (map (\<lambda>c. [hex_digit (byte_of c div 16), hex_digit (byte_of c mod 16)]) s)"

definition generate_key_id :: "crypto \<Rightarrow> string \<Rightarrow> string" where
  "generate_key_id C publicKey = (let h = hex (sha256 C publicKey) in drop (length h - 8) h)"

definition InsertKey ::
  "crypto \<Rightarrow> pg \<Rightarrow> int \<Rightarrow> string \<Rightarrow> string \<Rightarrow> string \<Rightarrow> db \<Rightarrow> unit res \<times> db" where
  "InsertKey C PG now publicPEM privatePEM keyID d =
     (case pg_fault PG (XInsertKey publicPEM privatePEM keyID) d of
        Some e \<Rightarrow> (Inl e, d)
      | None \<Rightarrow>
          let kid = generate_key_id C publicPEM in
          if \<exists>r \<in> set (t_keys d). kr_keyid r = kid then (Inl dup_key, d)
          else (Inr (), d\<lparr>t_keys := t_keys d @ [\<lparr>kr_id = int (length (t_keys d)) + 1,
                  kr_public = publicPEM, kr_private = privatePEM, kr_keyid = kid,
                  kr_invalid = False, kr_created = now\<rparr>]\<rparr>))"

section \<open>Consent grants\<close>

definition consentGrantID :: "crypto \<Rightarrow> string \<Rightarrow> string \<Rightarrow> string" where
  "consentGrantID C subject clientID =
     ''consent:'' @ b64 (sha256 C (subject @ [CHR 0x00] @ clientID))"

definition strFromAny :: "any \<Rightarrow> string" where
  "strFromAny v = str v"

definition stringsFromAny :: "any \<Rightarrow> slice" where
  "stringsFromAny v =
     (case v of
        AStrs s \<Rightarrow> (if elems s = [] then None else Some (elems s))
      | AArr xs \<Rightarrow> Some (filter (\<lambda>s. s \<noteq> []) (map str xs))
      | _ \<Rightarrow> None)"

definition upsert_adapter :: "adapter_row \<Rightarrow> adapter_row list \<Rightarrow> adapter_row list" where
  "upsert_adapter new rows =
     (if \<exists>r \<in> set rows. ar_id r = ar_id new
      then map (\<lambda>r. if ar_id r = ar_id new then r\<lparr>ar_payload := ar_payload new\<rparr> else r) rows
      else rows @ [new])"

definition PutConsentGrant ::
  "crypto \<Rightarrow> pg \<Rightarrow> int \<Rightarrow> string \<Rightarrow> string \<Rightarrow> slice \<Rightarrow> slice \<Rightarrow> db \<Rightarrow> unit res \<times> db" where
  "PutConsentGrant C PG now subject clientID scopes audiences d =
     (case pg_fault PG (XPutConsent subject clientID scopes audiences) d of
        Some e \<Rightarrow> (Inl e, d)
      | None \<Rightarrow> (Inr (), d\<lparr>t_adapter := upsert_adapter
          \<lparr>ar_id = consentGrantID C subject clientID, ar_name = ''ConsentGrant'',
           ar_payload = json_norm (AMap (Map.empty(''subject'' \<mapsto> AStr subject,
             ''client_id'' \<mapsto> AStr clientID, ''scopes'' \<mapsto> AStrs scopes,
             ''audiences'' \<mapsto> AStrs audiences, ''granted_at'' \<mapsto> ATime now)))\<rparr>
          (t_adapter d)\<rparr>))"

text \<open>A \<open>granted_at\<close> that is a time is the string \<open>RFC3339Nano\<close> reads back.\<close>

definition GetConsentGrant :: "crypto \<Rightarrow> pg \<Rightarrow> string \<Rightarrow> string \<Rightarrow> db \<Rightarrow> consent_grant res" where
  "GetConsentGrant C PG subject clientID d =
     (case pg_fault PG (QConsent subject clientID) d of
        Some e \<Rightarrow> Inl e
      | None \<Rightarrow>
          (case filter (\<lambda>r. ar_id r = consentGrantID C subject clientID \<and> ar_name r = ''ConsentGrant'')
                  (t_adapter d) of
             [] \<Rightarrow> Inl ErrNotFound
           | r # _ \<Rightarrow>
               (case unmarshal_map (ar_payload r) of
                  Inl e \<Rightarrow> Inl e
                | Inr p \<Rightarrow> Inr \<lparr>cg_subject = strFromAny (mget p ''subject''),
                    cg_client_id = strFromAny (mget p ''client_id''),
                    cg_scopes = stringsFromAny (mget p ''scopes''),
                    cg_audiences = stringsFromAny (mget p ''audiences''),
                    cg_granted_at = (case mget p ''granted_at'' of ATime t \<Rightarrow> t | _ \<Rightarrow> zero_time)\<rparr>)))"

text \<open>The rows this code writes: one per id, all of them consent grants.\<close>

definition consent_table :: "db \<Rightarrow> bool" where
  "consent_table d \<longleftrightarrow> distinct (map ar_id (t_adapter d))
     \<and> (\<forall>r \<in> set (t_adapter d). ar_name r = ''ConsentGrant'')"

lemma filter_upsert:
  "filter (\<lambda>r. ar_id r = i) (upsert_adapter new rows) =
     (if i = ar_id new
      then (if \<exists>r \<in> set rows. ar_id r = i
            then map (\<lambda>r. r\<lparr>ar_payload := ar_payload new\<rparr>) (filter (\<lambda>r. ar_id r = i) rows)
            else [new])
      else filter (\<lambda>r. ar_id r = i) rows)"
proof -
  have "filter (\<lambda>r. ar_id r = i) (map (\<lambda>r. if ar_id r = j then r\<lparr>ar_payload := p\<rparr> else r) rows) =
      (if i = j then map (\<lambda>r. r\<lparr>ar_payload := p\<rparr>) (filter (\<lambda>r. ar_id r = i) rows)
       else filter (\<lambda>r. ar_id r = i) rows)" for j p
    by (induction rows) auto
  then show ?thesis by (auto simp: upsert_adapter_def filter_empty_conv)
qed

lemma map_id_update:
  "map ar_id (map (\<lambda>r. if ar_id r = j then r\<lparr>ar_payload := p\<rparr> else r) rows) = map ar_id rows"
  by (induction rows) auto

lemma consent_table_upsert:
  assumes "consent_table d" "ar_name new = ''ConsentGrant''"
  shows "consent_table (d\<lparr>t_adapter := upsert_adapter new (t_adapter d)\<rparr>)"
proof (cases "\<exists>r \<in> set (t_adapter d). ar_id r = ar_id new")
  case True
  with assms show ?thesis
    by (simp add: consent_table_def upsert_adapter_def map_id_update del: map_map) auto
next
  case False
  with assms show ?thesis by (auto simp: consent_table_def upsert_adapter_def)
qed

lemma consent_rows:
  "consent_table d \<Longrightarrow>
     filter (\<lambda>r. ar_id r = i \<and> ar_name r = ''ConsentGrant'') (t_adapter d)
       = filter (\<lambda>r. ar_id r = i) (t_adapter d)"
  by (auto simp: consent_table_def intro: filter_cong)

lemma PutConsentGrant_get:
  assumes "consent_table d" and "PutConsentGrant C PG now sub cid scopes auds d = (Inr (), d')"
    and "\<And>d s c. pg_fault PG (QConsent s c) d = None"
  shows "consent_table d'
    \<and> GetConsentGrant C PG sub cid d' = Inr \<lparr>cg_subject = valid_utf8_of sub,
        cg_client_id = valid_utf8_of cid,
        cg_scopes = map_option (\<lambda>xs. filter (\<lambda>s. s \<noteq> []) (map valid_utf8_of xs)) scopes,
        cg_audiences = map_option (\<lambda>xs. filter (\<lambda>s. s \<noteq> []) (map valid_utf8_of xs)) auds,
        cg_granted_at = now\<rparr>
    \<and> (consentGrantID C sub2 cid2 \<noteq> consentGrantID C sub cid \<longrightarrow>
         GetConsentGrant C PG sub2 cid2 d' = GetConsentGrant C PG sub2 cid2 d)"
proof -
  define new where "new = \<lparr>ar_id = consentGrantID C sub cid, ar_name = ''ConsentGrant'',
    ar_payload = json_norm (AMap (Map.empty(''subject'' \<mapsto> AStr sub, ''client_id'' \<mapsto> AStr cid,
      ''scopes'' \<mapsto> AStrs scopes, ''audiences'' \<mapsto> AStrs auds, ''granted_at'' \<mapsto> ATime now)))\<rparr>"
  have d': "d' = d\<lparr>t_adapter := upsert_adapter new (t_adapter d)\<rparr>"
    using assms(2) by (simp add: PutConsentGrant_def new_def split: option.splits)
  have wf: "consent_table d'"
    unfolding d' using assms(1) by (rule consent_table_upsert) (simp add: new_def)
  have "\<exists>r rs. filter (\<lambda>r. ar_id r = ar_id new) (t_adapter d') = r # rs \<and> ar_payload r = ar_payload new"
    unfolding d' by (cases "filter (\<lambda>r. ar_id r = ar_id new) (t_adapter d)")
      (auto simp: filter_upsert filter_empty_conv)
  then have "GetConsentGrant C PG sub cid d' = Inr \<lparr>cg_subject = valid_utf8_of sub,
        cg_client_id = valid_utf8_of cid,
        cg_scopes = map_option (\<lambda>xs. filter (\<lambda>s. s \<noteq> []) (map valid_utf8_of xs)) scopes,
        cg_audiences = map_option (\<lambda>xs. filter (\<lambda>s. s \<noteq> []) (map valid_utf8_of xs)) auds,
        cg_granted_at = now\<rparr>"
    using assms(3) by (auto simp: GetConsentGrant_def consent_rows [OF wf] new_def
        strFromAny_def stringsFromAny_def o_def split: option.splits)
  moreover have "GetConsentGrant C PG sub2 cid2 d' = GetConsentGrant C PG sub2 cid2 d"
    if "consentGrantID C sub2 cid2 \<noteq> consentGrantID C sub cid"
    using that assms(3) by (simp add: GetConsentGrant_def consent_rows [OF wf]
        consent_rows [OF assms(1)]) (simp add: d' filter_upsert new_def)
  ultimately show ?thesis using wf by simp
qed

text \<open>
  A consent grant that was recorded is read back with the subject, client, scopes and audiences
  recorded and the time of recording (strings as JSON keeps them, empty scopes and audiences
  dropped), and recording it leaves every grant with another id as it was.
\<close>

theorem consent_roundtrip:
  assumes "consent_table d" and "PutConsentGrant C PG now sub cid scopes auds d = (Inr (), d')"
    and "\<And>d s c. pg_fault PG (QConsent s c) d = None"
  shows "consent_table d'
    \<and> GetConsentGrant C PG sub cid d' = Inr \<lparr>cg_subject = valid_utf8_of sub,
        cg_client_id = valid_utf8_of cid,
        cg_scopes = map_option (\<lambda>xs. filter (\<lambda>s. s \<noteq> []) (map valid_utf8_of xs)) scopes,
        cg_audiences = map_option (\<lambda>xs. filter (\<lambda>s. s \<noteq> []) (map valid_utf8_of xs)) auds,
        cg_granted_at = now\<rparr>
    \<and> (consentGrantID C sub2 cid2 \<noteq> consentGrantID C sub cid \<longrightarrow>
         GetConsentGrant C PG sub2 cid2 d' = GetConsentGrant C PG sub2 cid2 d)"
  by (rule PutConsentGrant_get [OF assms])

theorem consent_roundtrip_witness:
  "\<exists>d'. PutConsentGrant sample_crypto sample_pg 7 ''alice'' ''app'' (Some [''openid'']) None empty_db = (Inr (), d')
     \<and> GetConsentGrant sample_crypto sample_pg ''alice'' ''app'' d' = Inr \<lparr>cg_subject = ''alice'',
         cg_client_id = ''app'', cg_scopes = Some [''openid''], cg_audiences = None, cg_granted_at = 7\<rparr>"
proof -
  obtain d' where put: "PutConsentGrant sample_crypto sample_pg 7 ''alice'' ''app'' (Some [''openid'']) None empty_db
      = (Inr (), d')" by (simp add: PutConsentGrant_def)
  have "consent_table empty_db" by (simp add: consent_table_def empty_db_def)
  from consent_roundtrip [OF this put] put show ?thesis
    by (simp add: valid_utf8_of_ascii ascii_def)
qed

end
