(* ===== verification/Scopes.thy ===== *)
theory Scopes
  imports Store_Exchange
begin

text \<open>
  The helpers at the end of internal/idp/provider.go: scope strings, audiences, dynamic claims and
  the hosts trusted without consent.  A \<open>url.Values\<close> is the function from names to value lists.
  Parsing and printing of URLs is net/url's, given by the record \<open>urllib\<close>.
\<close>

section \<open>Form values and URLs\<close>

type_synonym uvalues = "string \<Rightarrow> string list"

definition vget :: "uvalues \<Rightarrow> string \<Rightarrow> string" where
  "vget q k = (case q k of [] \<Rightarrow> [] | v # _ \<Rightarrow> v)"

definition vset :: "uvalues \<Rightarrow> string \<Rightarrow> string \<Rightarrow> uvalues" where
  "vset q k v = q(k := [v])"

lemma vget_vset [simp]: "vget (vset q k v) j = (if j = k then v else vget q j)"
  by (simp add: vget_def vset_def)

text \<open>
  \<open>ul_hostname\<close> is \<open>url.Parse\<close> and \<open>Hostname\<close>; \<open>ul_set\<close> parses a URL, sets query values and prints
  it again; both give \<open>None\<close> where \<open>url.Parse\<close> returns a nil URL.
\<close>

record urllib =
  ul_hostname :: "string \<Rightarrow> string option"
  ul_set :: "string \<Rightarrow> (string \<times> string) list \<Rightarrow> string option"
  ul_path_escape :: "string \<Rightarrow> string"
  ul_query_escape :: "string \<Rightarrow> string"
  ul_encode :: "uvalues \<Rightarrow> string"

section \<open>Scopes\<close>

definition parseScopes :: "string \<Rightarrow> string list" where
  "parseScopes value = dedup [] (filter (\<lambda>f. f \<noteq> []) (map trim_space (str_fields value)))"

definition scopeSubset :: "string list \<Rightarrow> string list \<Rightarrow> bool" where
  "scopeSubset requested available \<longleftrightarrow> requested = [] \<or> list_all (\<lambda>s. s \<in> set available) requested"

definition allowedScopes :: "client \<Rightarrow> string \<Rightarrow> bool \<Rightarrow> string res" where
  "allowedScopes c requested defaultAll =
     (let requestedScopes = parseScopes requested in
      if requestedScopes = [] then Inr (if defaultAll then join '' '' (elems (c_scopes c)) else [])
      else if \<not> scopeSubset requestedScopes (elems (c_scopes c)) then Inl (GoErr ''scope not allowed'')
      else Inr (join '' '' requestedScopes))"

definition hasScope :: "string \<Rightarrow> string \<Rightarrow> bool" where
  "hasScope value scope = list_ex (\<lambda>item. item = scope) (parseScopes value)"

definition policyAllowsScopes :: "slice \<Rightarrow> string list \<Rightarrow> bool" where
  "policyAllowsScopes policyScopes requested \<longleftrightarrow>
     elems policyScopes = [] \<or> list_ex (\<lambda>s. s = ''*'') (elems policyScopes)
     \<or> scopeSubset requested (elems policyScopes)"

definition uniqueStrings :: "string list \<Rightarrow> string list" where
  "uniqueStrings vs = dedup [] (filter (\<lambda>v. v \<noteq> []) (map trim_space vs))"

definition resolveTokenExchangeAudience :: "uvalues \<Rightarrow> string res" where
  "resolveTokenExchangeAudience q =
     (let candidates = (if q ''audience'' = [] then q ''resource'' else q ''audience'')
      in case filter (\<lambda>c. c \<noteq> []) (map trim_space candidates) of
           [] \<Rightarrow> Inl (GoErr ''audience parameter is required for token exchange'')
         | [a] \<Rightarrow> Inr a
         | _ \<Rightarrow> Inl (GoErr ''multiple audience/resource values are not supported''))"

section \<open>Claims\<close>

definition claimString :: "gomap \<Rightarrow> string \<Rightarrow> string" where
  "claimString claims name = str (mget claims name)"

definition boolClaim :: "gomap \<Rightarrow> string \<Rightarrow> bool" where
  "boolClaim claims name = boolv (mget claims name)"

definition stringsFromClaim :: "any \<Rightarrow> slice" where
  "stringsFromClaim v =
     (case v of
        AStrs s \<Rightarrow> (if elems s = [] then None else Some (elems s))
      | AArr xs \<Rightarrow> Some (filter (\<lambda>s. s \<noteq> []) (map str xs))
      | AStr s \<Rightarrow> (if s = [] then None else Some [s])
      | _ \<Rightarrow> None)"

fun is_array :: "any \<Rightarrow> bool" where
  "is_array (AArr _) = True"
| "is_array (AStrs _) = True"
| "is_array _ = False"

definition hasArrayAudience :: "gomap \<Rightarrow> bool" where
  "hasArrayAudience claims = is_array (mget claims ''aud'')"

definition optionalClaim :: "string \<Rightarrow> string option" where
  "optionalClaim v = (if v = [] then None else Some v)"

definition contains :: "slice \<Rightarrow> string \<Rightarrow> bool" where
  "contains vs v = list_ex (\<lambda>item. item = v) (elems vs)"

fun mapv :: "any \<Rightarrow> gomap" where
  "mapv (AMap m) = m"
| "mapv _ = Map.empty"

fun firstNonEmpty :: "string list \<Rightarrow> string" where
  "firstNonEmpty [] = []"
| "firstNonEmpty (v # vs) = (if v \<noteq> [] then v else firstNonEmpty vs)"

section \<open>Trusted hosts\<close>

definition trustedFirstPartyHost :: "unicode \<Rightarrow> string list \<Rightarrow> string \<Rightarrow> bool" where
  "trustedFirstPartyHost UC domains host0 =
     (let host = to_lower UC (trim_suffix host0 ''.'')
      in list_ex (\<lambda>d0. let domain = to_lower UC (trim_suffix (trim_space d0) ''.'')
           in domain \<noteq> [] \<and> (host = domain \<or> has_suffix host (''.'' @ domain))) domains)"

definition trustedFirstPartyClient :: "unicode \<Rightarrow> urllib \<Rightarrow> string list \<Rightarrow> client \<Rightarrow> bool" where
  "trustedFirstPartyClient UC UL domains c =
     list_ex (\<lambda>raw. case ul_hostname UL raw of None \<Rightarrow> False
        | Some h \<Rightarrow> trustedFirstPartyHost UC domains h) (elems (c_redirects c) @ elems (c_logouts c))"

section \<open>What the scope functions guarantee\<close>

lemma word_nonempty: "is_word w \<Longrightarrow> w \<noteq> []"
  by (auto simp: is_word_def)

lemma fields_trimmed: "filter (\<lambda>f. f \<noteq> []) (map trim_space (str_fields s)) = str_fields s"
proof -
  have "map trim_space (str_fields s) = str_fields s"
    by (rule map_idI) (simp add: fields_words trim_space_word)
  then show ?thesis
    using fields_words word_nonempty by (metis (mono_tags, lifting) filter_True)
qed

lemma parseScopes_fields: "parseScopes s = dedup [] (str_fields s)"
  by (simp add: parseScopes_def fields_trimmed)

lemma parseScopes_words: "x \<in> set (parseScopes s) \<Longrightarrow> is_word x"
  using fields_words [of x s] by (simp add: parseScopes_fields set_dedup)

lemma fields_join: "list_all is_word ws \<Longrightarrow> str_fields (join '' '' ws) = ws"
  by (rule fields_join_words)

lemma parseScopes_join: "list_all is_word ws \<Longrightarrow> parseScopes (join '' '' ws) = dedup [] ws"
  by (simp add: parseScopes_fields fields_join)

lemma parseScopes_idem: "parseScopes (join '' '' (parseScopes s)) = parseScopes s"
  using parseScopes_words [of _ s]
  by (simp add: parseScopes_join list_all_iff) (simp add: parseScopes_fields dedup_distinct distinct_dedup)

lemma scopeSubset_iff: "scopeSubset r a \<longleftrightarrow> set r \<subseteq> set a"
  by (auto simp: scopeSubset_def list_all_iff)

lemma hasScope_iff: "hasScope v s \<longleftrightarrow> s \<in> set (parseScopes v)"
  by (auto simp: hasScope_def list_ex_iff)

lemma contains_iff: "contains vs v \<longleftrightarrow> v \<in> set (elems vs)"
  by (auto simp: contains_def list_ex_iff)

text \<open>
  \<open>parseScopes\<close> is a normal form: its result has no duplicates, consists of the words of the
  string, and printing it with single spaces and parsing again gives the same list.
\<close>

theorem parseScopes_normal_form:
  "distinct (parseScopes s) \<and> set (parseScopes s) = set (str_fields s)
     \<and> parseScopes (join '' '' (parseScopes s)) = parseScopes s"
  by (simp add: parseScopes_idem) (simp add: parseScopes_fields distinct_dedup set_dedup)

text \<open>
  \<open>allowedScopes\<close> never grants more than the client has: it fails exactly when some requested
  scope is not the client's, what it returns parses to scopes of the client only, and to the requested
  ones when any were requested.  (A registered scope with a space in it would be split when
  everything is granted by default.)
\<close>

theorem allowedScopes_no_escalation:
  assumes "parseScopes req = [] \<and> all \<longrightarrow> list_all is_word (elems (c_scopes c))"
  shows "case allowedScopes c req all of
      Inr sc \<Rightarrow> set (parseScopes sc) \<subseteq> set (elems (c_scopes c))
        \<and> (parseScopes req \<noteq> [] \<longrightarrow> parseScopes sc = parseScopes req)
    | Inl _ \<Rightarrow> \<not> set (parseScopes req) \<subseteq> set (elems (c_scopes c))"
proof (cases "parseScopes req = []")
  case True
  have "parseScopes [] = []" by (simp add: parseScopes_fields str_fields_def)
  with True assms show ?thesis
    by (auto simp: allowedScopes_def parseScopes_join set_dedup)
next
  case False
  then show ?thesis
    by (simp add: allowedScopes_def Let_def scopeSubset_iff parseScopes_idem)
qed

theorem allowedScopes_no_escalation_witness:
  "case allowedScopes (zero_client\<lparr>c_scopes := Some [''openid'', ''email'']\<rparr>) ''email  openid email'' False of
      Inr sc \<Rightarrow> set (parseScopes sc) \<subseteq> {''openid'', ''email''} | Inl _ \<Rightarrow> \<not> set (parseScopes ''email  openid email'') \<subseteq> {''openid'', ''email''}"
  using allowedScopes_no_escalation [of "''email  openid email''" False "zero_client\<lparr>c_scopes := Some [''openid'', ''email'']\<rparr>"]
  by (simp split: sum.splits)

end
