(* ===== verification/Redis.thy ===== *)
theory Redis
  imports Prelude
begin

text \<open>
  The valkey server behind internal/kv, which is not part of the repository: the commands the
  repository sends are the record \<open>redis\<close>, an argument of every definition that uses them, and the
  documented effect of each command on the keyspace is the locale \<open>redis_server\<close>.  Each command
  takes the time at which the server runs it.  A command that reports an error promises nothing
  about the keyspace.  The reference server \<open>mem_redis\<close> at the end, which can be told to fail any
  of its next commands, satisfies the contract.
\<close>

section \<open>The keyspace\<close>

text \<open>
  The bytes of a string value: a JSON document (what \<open>json.Marshal\<close> wrote, given by the value it
  denotes), the decimal digits \<open>INCR\<close> keeps, or other bytes.
\<close>

datatype blob = Doc any | Num int | Raw string

datatype rval = RStr blob | RSet "string list"

text \<open>A key maps to a value and its deadline in nanoseconds, if it has one.\<close>

type_synonym keyspace = "string \<rightharpoonup> rval \<times> int option"

definition live :: "int \<Rightarrow> rval \<times> int option \<Rightarrow> bool" where
  "live t e \<longleftrightarrow> (case snd e of None \<Rightarrow> True | Some d \<Rightarrow> t < d)"

text \<open>The keys that have not expired at time \<open>t\<close>.\<close>

definition purge :: "int \<Rightarrow> keyspace \<Rightarrow> keyspace" where
  "purge t ks k = (case ks k of None \<Rightarrow> None | Some e \<Rightarrow> if live t e then Some e else None)"

lemma live_later: "live t' e \<Longrightarrow> t \<le> t' \<Longrightarrow> live t e"
  by (auto simp: live_def split: option.splits)

lemma purge_purge: "t \<le> t' \<Longrightarrow> purge t' (purge t ks) = purge t' ks"
  by (rule ext) (auto simp: purge_def live_later split: option.splits)

lemma purge_idem [simp]: "purge t (purge t ks) = purge t ks"
  by (simp add: purge_purge)

lemma purge_upd:
  "purge t (ks(k \<mapsto> e)) = (purge t ks)(k := if live t e then Some e else None)"
  by (rule ext) (simp add: purge_def)

lemma purge_Some: "purge t ks k = Some e \<longleftrightarrow> ks k = Some e \<and> live t e"
  by (auto simp: purge_def split: option.splits)

lemma purge_None_later: "purge t ks k = None \<Longrightarrow> t \<le> t' \<Longrightarrow> purge t' ks k = None"
  by (auto simp: purge_def live_later split: option.splits if_splits)

lemma purge_Some_later: "purge t ks k = Some e \<Longrightarrow> t \<le> t' \<Longrightarrow>
    purge t' ks k = (if live t' e then Some e else None)"
  by (simp add: purge_Some) (simp add: purge_def)

section \<open>The commands on the keyspace\<close>

text \<open>
  \<open>SET key value\<close> with go-redis' options for a duration: none when it is not positive, else
  \<open>PX\<close> with whole milliseconds, at least one.  The duration -1 is go-redis' \<open>KeepTTL\<close>: the key
  keeps the deadline it has.
\<close>

definition px_deadline :: "int \<Rightarrow> int \<Rightarrow> int option" where
  "px_deadline t ttl =
     (if ttl \<le> 0 then None else Some (t + max 1 (ttl div millisecond) * millisecond))"

definition ks_deadline :: "keyspace \<Rightarrow> string \<Rightarrow> int option" where
  "ks_deadline ks k = (case ks k of None \<Rightarrow> None | Some (_, d) \<Rightarrow> d)"

definition ks_set :: "int \<Rightarrow> string \<Rightarrow> blob \<Rightarrow> int \<Rightarrow> keyspace \<Rightarrow> keyspace" where
  "ks_set t k b ttl ks =
     ks(k \<mapsto> (RStr b, if ttl = -1 then ks_deadline ks k else px_deadline t ttl))"

definition ks_del :: "string list \<Rightarrow> keyspace \<Rightarrow> keyspace" where
  "ks_del keys ks = (\<lambda>k. if k \<in> set keys then None else ks k)"

text \<open>\<open>EXPIRE\<close> with whole seconds, at least one, for a positive duration.\<close>

definition ks_expire :: "int \<Rightarrow> string \<Rightarrow> int \<Rightarrow> keyspace \<Rightarrow> keyspace" where
  "ks_expire t k ttl ks =
     (case ks k of None \<Rightarrow> ks
      | Some (v, _) \<Rightarrow> ks(k \<mapsto> (v, Some (t + max 1 (ttl div second) * second))))"

definition ks_count :: "keyspace \<Rightarrow> string \<Rightarrow> int" where
  "ks_count ks k = (case ks k of Some (RStr (Num n), _) \<Rightarrow> n | _ \<Rightarrow> 0)"

text \<open>\<open>INCR\<close> keeps the deadline of an existing counter and gives a new one none.\<close>

definition ks_incr :: "string \<Rightarrow> keyspace \<Rightarrow> keyspace" where
  "ks_incr k ks = ks(k \<mapsto> (RStr (Num (ks_count ks k + 1)), ks_deadline ks k))"

definition ks_counter :: "keyspace \<Rightarrow> string \<Rightarrow> bool" where
  "ks_counter ks k = (case ks k of None \<Rightarrow> True | Some (RStr (Num _), _) \<Rightarrow> True | _ \<Rightarrow> False)"

definition ks_members :: "keyspace \<Rightarrow> string \<Rightarrow> string list" where
  "ks_members ks k = (case ks k of Some (RSet xs, _) \<Rightarrow> xs | _ \<Rightarrow> [])"

definition ks_sadd :: "string \<Rightarrow> string list \<Rightarrow> keyspace \<Rightarrow> keyspace" where
  "ks_sadd k xs ks = ks(k \<mapsto> (RSet (dedup [] (ks_members ks k @ xs)), ks_deadline ks k))"

text \<open>The commands of a \<open>MULTI\<close>/\<open>EXEC\<close> pipeline.\<close>

datatype rcmd = SADD string "string list" | EXPIRE string int

fun ks_cmd :: "int \<Rightarrow> rcmd \<Rightarrow> keyspace \<Rightarrow> keyspace" where
  "ks_cmd t (SADD k xs) ks = ks_sadd k xs ks"
| "ks_cmd t (EXPIRE k ttl) ks = ks_expire t k ttl ks"

text \<open>How the commands and expiry commute.\<close>

lemma purge_ks_del: "purge t (ks_del keys ks) = ks_del keys (purge t ks)"
  by (rule ext) (simp add: purge_def ks_del_def)

lemma px_deadline_pos:
  "0 < ttl \<Longrightarrow> px_deadline t ttl = Some (t + max 1 (ttl div millisecond) * millisecond)"
  by (simp add: px_deadline_def)

lemma purge_ks_set:
  "0 < ttl \<Longrightarrow> purge t' (ks_set t k b ttl ks) j =
    (if j = k then (if t' < the (px_deadline t ttl) then Some (RStr b, px_deadline t ttl) else None)
     else purge t' ks j)"
  by (simp add: purge_def ks_set_def live_def px_deadline_pos)

lemma px_deadline_after: "0 < ttl \<Longrightarrow> t < the (px_deadline t ttl)"
  by (simp add: px_deadline_pos)

text \<open>A duration of whole milliseconds is kept exactly.\<close>

lemma px_deadline_exact: "0 < n \<Longrightarrow> px_deadline t (n * millisecond) = Some (t + n * millisecond)"
  by (simp add: px_deadline_def millisecond_def)

section \<open>The server\<close>

datatype rerr = RedisNil | RedisErr string

record 'r redis =
  rd_get :: "int \<Rightarrow> string \<Rightarrow> 'r \<Rightarrow> (rerr + blob) \<times> 'r"
  rd_set :: "int \<Rightarrow> string \<Rightarrow> blob \<Rightarrow> int \<Rightarrow> 'r \<Rightarrow> (rerr + unit) \<times> 'r"
  rd_del :: "int \<Rightarrow> string list \<Rightarrow> 'r \<Rightarrow> (rerr + unit) \<times> 'r"
  rd_exists :: "int \<Rightarrow> string \<Rightarrow> 'r \<Rightarrow> (rerr + int) \<times> 'r"
  rd_pttl :: "int \<Rightarrow> string \<Rightarrow> 'r \<Rightarrow> (rerr + int) \<times> 'r"
  rd_incr :: "int \<Rightarrow> string \<Rightarrow> 'r \<Rightarrow> (rerr + int) \<times> 'r"
  rd_expire :: "int \<Rightarrow> string \<Rightarrow> int \<Rightarrow> 'r \<Rightarrow> (rerr + unit) \<times> 'r"
  rd_smembers :: "int \<Rightarrow> string \<Rightarrow> 'r \<Rightarrow> (rerr + string list) \<times> 'r"
  rd_exec :: "int \<Rightarrow> rcmd list \<Rightarrow> 'r \<Rightarrow> (rerr + unit) \<times> 'r"

locale redis_server =
  fixes R :: "'r redis" and view :: "'r \<Rightarrow> keyspace"
  assumes get_ok: "rd_get R t k s = (Inr b, s') \<Longrightarrow>
      purge t (view s') = purge t (view s) \<and> (\<exists>d. purge t (view s) k = Some (RStr b, d))"
    and get_nil: "rd_get R t k s = (Inl RedisNil, s') \<Longrightarrow>
      purge t (view s') = purge t (view s) \<and> purge t (view s) k = None"
    and set_ok: "rd_set R t k b ttl s = (Inr (), s') \<Longrightarrow>
      purge t (view s') = purge t (ks_set t k b ttl (purge t (view s)))"
    and del_ok: "rd_del R t keys s = (Inr (), s') \<Longrightarrow>
      purge t (view s') = ks_del keys (purge t (view s))"
    and exists_ok: "rd_exists R t k s = (Inr n, s') \<Longrightarrow>
      purge t (view s') = purge t (view s)
      \<and> n = (if purge t (view s) k = None then 0 else 1)"
    and pttl_ok: "rd_pttl R t k s = (Inr d, s') \<Longrightarrow>
      purge t (view s') = purge t (view s)
      \<and> d = (case purge t (view s) k of None \<Rightarrow> -2 | Some (_, None) \<Rightarrow> -1 | Some (_, Some e) \<Rightarrow> e - t)"
    and incr_ok: "rd_incr R t k s = (Inr n, s') \<Longrightarrow> ks_counter (purge t (view s)) k \<Longrightarrow>
      n = ks_count (purge t (view s)) k + 1
      \<and> purge t (view s') = purge t (ks_incr k (purge t (view s)))"
    and expire_ok: "rd_expire R t k ttl s = (Inr (), s') \<Longrightarrow> 0 < ttl \<Longrightarrow>
      purge t (view s') = purge t (ks_expire t k ttl (purge t (view s)))"
    and smembers_ok: "rd_smembers R t k s = (Inr xs, s') \<Longrightarrow>
      purge t (view s') = purge t (view s) \<and> set xs = set (ks_members (purge t (view s)) k)"
    and exec_ok: "rd_exec R t cmds s = (Inr (), s') \<Longrightarrow>
      purge t (view s') = purge t (fold (ks_cmd t) cmds (purge t (view s)))"
begin

text \<open>The keyspace a client finds later: the one it left behind, less what has expired.\<close>

lemma get_later: "rd_get R t k s = (Inr b, s') \<Longrightarrow> t \<le> t' \<Longrightarrow> purge t' (view s') = purge t' (view s)"
  by (metis purge_purge get_ok)

lemma set_later: "rd_set R t k b ttl s = (Inr (), s') \<Longrightarrow> t \<le> t' \<Longrightarrow>
    purge t' (view s') = purge t' (ks_set t k b ttl (purge t (view s)))"
  by (metis purge_purge set_ok)

lemma del_later: "rd_del R t keys s = (Inr (), s') \<Longrightarrow> t \<le> t' \<Longrightarrow>
    purge t' (view s') = ks_del keys (purge t' (view s))"
  by (metis purge_purge del_ok purge_ks_del)

lemma set_lookup:
  assumes "rd_set R t k b ttl s = (Inr (), s')" "t \<le> t'" "0 < ttl"
  shows "purge t' (view s') j =
    (if j = k then (if t' < the (px_deadline t ttl) then Some (RStr b, px_deadline t ttl) else None)
     else purge t' (view s) j)"
  using set_later [OF assms(1,2)] assms(2,3) purge_ks_set [of ttl t' t k b "purge t (view s)" j]
  by (simp add: purge_purge)

end

text \<open>
  A server that is up answers: in the states \<open>up\<close>, which its commands keep, no command fails but for
  a value of the wrong type, and a read changes nothing, whatever its reply.
\<close>

definition ks_string :: "keyspace \<Rightarrow> string \<Rightarrow> bool" where
  "ks_string ks k = (case ks k of Some (RSet _, _) \<Rightarrow> False | _ \<Rightarrow> True)"

locale redis_up = redis_server R view for R :: "'r redis" and view :: "'r \<Rightarrow> keyspace" +
  fixes up :: "'r \<Rightarrow> bool"
  assumes get_up: "up s \<Longrightarrow> rd_get R t k s = (x, s') \<Longrightarrow>
      up s' \<and> purge t (view s') = purge t (view s)
      \<and> (ks_string (purge t (view s)) k \<longrightarrow> (\<forall>e. x \<noteq> Inl (RedisErr e)))"
    and set_up: "up s \<Longrightarrow> rd_set R t k b ttl s = (u, s') \<Longrightarrow> up s' \<and> u = Inr ()"
    and del_up: "up s \<Longrightarrow> rd_del R t keys s = (u, s') \<Longrightarrow> up s' \<and> u = Inr ()"
    and pttl_up: "up s \<Longrightarrow> rd_pttl R t k s = (n, s') \<Longrightarrow> up s' \<and> (\<exists>d. n = Inr d)"
    and incr_up: "up s \<Longrightarrow> rd_incr R t k s = (n, s') \<Longrightarrow>
      up s' \<and> (ks_counter (purge t (view s)) k \<longrightarrow> (\<exists>m. n = Inr m))"
    and expire_up: "up s \<Longrightarrow> rd_expire R t k ttl s = (u, s') \<Longrightarrow> up s' \<and> u = Inr ()"

section \<open>A reference server\<close>

text \<open>The commands that fail are given in advance, one flag per command; after them none fails.\<close>

record mem =
  m_ks :: keyspace
  m_faults :: "bool list"

definition mem_start :: mem where
  "mem_start = \<lparr>m_ks = Map.empty, m_faults = []\<rparr>"

definition mem_do :: "(keyspace \<Rightarrow> (rerr + 'a) \<times> keyspace) \<Rightarrow> int \<Rightarrow> mem \<Rightarrow> (rerr + 'a) \<times> mem" where
  "mem_do f t m =
     (case m_faults m of
        True # fs \<Rightarrow> (Inl (RedisErr ''connection refused''), m\<lparr>m_faults := fs\<rparr>)
      | fs \<Rightarrow> (let (x, ks) = f (purge t (m_ks m)) in (x, \<lparr>m_ks = ks, m_faults = tl fs\<rparr>)))"

definition wrong_type :: "(rerr + 'a)" where
  "wrong_type = Inl (RedisErr ''WRONGTYPE'')"

definition mem_redis :: "mem redis" where
  "mem_redis = \<lparr>
     rd_get = (\<lambda>t k. mem_do (\<lambda>ks. (case ks k of None \<Rightarrow> Inl RedisNil
         | Some (RStr b, _) \<Rightarrow> Inr b | Some (RSet _, _) \<Rightarrow> wrong_type, ks)) t),
     rd_set = (\<lambda>t k b ttl. mem_do (\<lambda>ks. (Inr (), ks_set t k b ttl ks)) t),
     rd_del = (\<lambda>t keys. mem_do (\<lambda>ks. (Inr (), ks_del keys ks)) t),
     rd_exists = (\<lambda>t k. mem_do (\<lambda>ks. (Inr (if ks k = None then 0 else 1), ks)) t),
     rd_pttl = (\<lambda>t k. mem_do (\<lambda>ks. (Inr (case ks k of None \<Rightarrow> -2 | Some (_, None) \<Rightarrow> -1
         | Some (_, Some e) \<Rightarrow> e - t), ks)) t),
     rd_incr = (\<lambda>t k. mem_do (\<lambda>ks. if ks_counter ks k then (Inr (ks_count ks k + 1), ks_incr k ks)
         else (wrong_type, ks)) t),
     rd_expire = (\<lambda>t k ttl. mem_do (\<lambda>ks. (Inr (), ks_expire t k ttl ks)) t),
     rd_smembers = (\<lambda>t k. mem_do (\<lambda>ks. (Inr (ks_members ks k), ks)) t),
     rd_exec = (\<lambda>t cmds. mem_do (\<lambda>ks. (Inr (), fold (ks_cmd t) cmds ks)) t)\<rparr>"

text \<open>Evaluating the reference server, command by command.\<close>

lemma mem_do_ok:
  "m_faults m = [] \<Longrightarrow> mem_do f t m = (let (x, ks) = f (purge t (m_ks m)) in (x, m\<lparr>m_ks := ks\<rparr>))"
  by (cases m) (simp add: mem_do_def)

lemma mem_read:
  "mem_do (\<lambda>ks. (g ks, ks)) t m = (Inr x, m') \<Longrightarrow>
     m_ks m' = purge t (m_ks m) \<and> g (purge t (m_ks m)) = Inr x"
  by (auto simp: mem_do_def split: list.splits bool.splits)

lemma mem_nil:
  "mem_do (\<lambda>ks. (g ks, ks)) t m = (Inl RedisNil, m') \<Longrightarrow>
     m_ks m' = purge t (m_ks m) \<and> g (purge t (m_ks m)) = Inl RedisNil"
  by (auto simp: mem_do_def split: list.splits bool.splits)

lemma mem_write:
  "mem_do (\<lambda>ks. (Inr (), h ks)) t m = (Inr x, m') \<Longrightarrow> m_ks m' = h (purge t (m_ks m))"
  by (auto simp: mem_do_def split: list.splits bool.splits)

lemma mem_update:
  "mem_do (\<lambda>ks. if c ks then (Inr (g ks), h ks) else (wrong_type, ks)) t m = (Inr x, m') \<Longrightarrow>
     m_ks m' = h (purge t (m_ks m)) \<and> x = g (purge t (m_ks m))"
  by (auto simp: mem_do_def wrong_type_def split: list.splits bool.splits if_splits)

interpretation mem: redis_server mem_redis m_ks
proof (unfold_locales, goal_cases)
  case (1 t k s b s')
  then show ?case
    by (auto simp: mem_redis_def wrong_type_def dest!: mem_read
          split: option.splits rval.splits prod.splits)
next
  case (2 t k s s')
  then show ?case
    by (auto simp: mem_redis_def wrong_type_def dest!: mem_nil
          split: option.splits rval.splits prod.splits)
qed (auto simp: mem_redis_def purge_ks_del dest: mem_read mem_write mem_update)

text \<open>Evaluating a reference server that fails no command.\<close>

definition mem_of :: "keyspace \<Rightarrow> mem" where
  "mem_of ks = \<lparr>m_ks = ks, m_faults = []\<rparr>"

lemma m_ks_mem_of [simp]: "m_ks (mem_of ks) = ks"
  by (simp add: mem_of_def)

lemma mem_update_of [simp]: "m\<lparr>m_ks := ks, m_faults := []\<rparr> = mem_of ks"
  by (cases m) (simp add: mem_of_def)

lemma mem_start_of: "mem_start = mem_of Map.empty"
  by (simp add: mem_of_def mem_start_def)

lemma mem_eval:
  "rd_get mem_redis t k (mem_of ks) = (case purge t ks k of None \<Rightarrow> Inl RedisNil
      | Some (RStr b, _) \<Rightarrow> Inr b | Some (RSet _, _) \<Rightarrow> wrong_type, mem_of (purge t ks))"
  "rd_set mem_redis t k b ttl (mem_of ks) = (Inr (), mem_of (ks_set t k b ttl (purge t ks)))"
  "rd_del mem_redis t keys (mem_of ks) = (Inr (), mem_of (ks_del keys (purge t ks)))"
  "rd_exists mem_redis t k (mem_of ks) =
     (Inr (if purge t ks k = None then 0 else 1), mem_of (purge t ks))"
  "rd_pttl mem_redis t k (mem_of ks) = (Inr (case purge t ks k of None \<Rightarrow> -2
      | Some (_, None) \<Rightarrow> -1 | Some (_, Some e) \<Rightarrow> e - t), mem_of (purge t ks))"
  "rd_incr mem_redis t k (mem_of ks) =
     (if ks_counter (purge t ks) k
      then (Inr (ks_count (purge t ks) k + 1), mem_of (ks_incr k (purge t ks)))
      else (wrong_type, mem_of (purge t ks)))"
  "rd_expire mem_redis t k ttl (mem_of ks) = (Inr (), mem_of (ks_expire t k ttl (purge t ks)))"
  "rd_exec mem_redis t cmds (mem_of ks) = (Inr (), mem_of (fold (ks_cmd t) cmds (purge t ks)))"
  by (simp_all add: mem_redis_def mem_of_def mem_do_ok Let_def)

text \<open>Without faults ahead the reference server is up.\<close>

definition mem_up :: "mem \<Rightarrow> bool" where
  "mem_up m \<longleftrightarrow> m_faults m = []"

lemma mem_up_of: "mem_up m \<longleftrightarrow> (\<exists>ks. m = mem_of ks)"
  by (cases m) (auto simp: mem_up_def mem_of_def)

interpretation mem: redis_up mem_redis m_ks mem_up
  by unfold_locales
    (auto simp: mem_up_of mem_eval ks_string_def split: option.splits rval.splits prod.splits if_splits)

end
