(* ===== verification/Kv.thy ===== *)
theory Kv
  imports Redis
begin

text \<open>
  internal/kv/kv.go: the wrapper around the valkey client.  \<open>kv.ErrNil\<close> replaces the client's nil
  reply; every other error is passed on.  The facts at the end are what the stores built on the
  wrapper rely on, proved once from the server's contract.
\<close>

section \<open>kv.go\<close>

fun redis_error :: "rerr \<Rightarrow> goerr" where
  "redis_error RedisNil = ExtErr ''redis: nil''"
| "redis_error (RedisErr e) = ExtErr e"

definition pass :: "(rerr + 'a) \<times> 'r \<Rightarrow> 'a res \<times> 'r" where
  "pass rs = (case rs of (Inl e, s) \<Rightarrow> (Inl (redis_error e), s) | (Inr x, s) \<Rightarrow> (Inr x, s))"

definition kv_Get :: "'r redis \<Rightarrow> int \<Rightarrow> string \<Rightarrow> 'r \<Rightarrow> blob res \<times> 'r" where
  "kv_Get R now key s =
     (case rd_get R now key s of
        (Inl RedisNil, s') \<Rightarrow> (Inl KvErrNil, s')
      | (Inl (RedisErr e), s') \<Rightarrow> (Inl (ExtErr e), s')
      | (Inr b, s') \<Rightarrow> (Inr b, s'))"

definition kv_Set :: "'r redis \<Rightarrow> int \<Rightarrow> string \<Rightarrow> blob \<Rightarrow> int \<Rightarrow> 'r \<Rightarrow> unit res \<times> 'r" where
  "kv_Set R now key value ttl s = pass (rd_set R now key value ttl s)"

definition kv_Del :: "'r redis \<Rightarrow> int \<Rightarrow> string list \<Rightarrow> 'r \<Rightarrow> unit res \<times> 'r" where
  "kv_Del R now keys s = (if keys = [] then (Inr (), s) else pass (rd_del R now keys s))"

definition kv_Exists :: "'r redis \<Rightarrow> int \<Rightarrow> string \<Rightarrow> 'r \<Rightarrow> bool res \<times> 'r" where
  "kv_Exists R now key s =
     (case rd_exists R now key s of
        (Inl e, s') \<Rightarrow> (Inl (redis_error e), s')
      | (Inr n, s') \<Rightarrow> (Inr (0 < n), s'))"

definition kv_PTTL :: "'r redis \<Rightarrow> int \<Rightarrow> string \<Rightarrow> 'r \<Rightarrow> int res \<times> 'r" where
  "kv_PTTL R now key s = pass (rd_pttl R now key s)"

definition kv_SAdd :: "'r redis \<Rightarrow> int \<Rightarrow> string \<Rightarrow> int \<Rightarrow> string list \<Rightarrow> 'r \<Rightarrow> unit res \<times> 'r" where
  "kv_SAdd R now key ttl members s =
     pass (rd_exec R now (SADD key members # (if 0 < ttl then [EXPIRE key ttl] else [])) s)"

definition kv_SMembers :: "'r redis \<Rightarrow> int \<Rightarrow> string \<Rightarrow> 'r \<Rightarrow> string list res \<times> 'r" where
  "kv_SMembers R now key s = pass (rd_smembers R now key s)"

definition kv_IncrTTL :: "'r redis \<Rightarrow> int \<Rightarrow> string \<Rightarrow> int \<Rightarrow> 'r \<Rightarrow> int res \<times> 'r" where
  "kv_IncrTTL R now key window s =
     (case rd_incr R now key s of
        (Inl e, s1) \<Rightarrow> (Inl (redis_error e), s1)
      | (Inr n, s1) \<Rightarrow>
          if n = 1 \<and> 0 < window
          then (case rd_expire R now key window s1 of
                  (Inl e, s2) \<Rightarrow> (Inl (redis_error e), s2)
                | (Inr _, s2) \<Rightarrow> (Inr n, s2))
          else (Inr n, s1))"

lemma pass_Inr [simp]: "pass rs = (Inr x, s) \<longleftrightarrow> rs = (Inr x, s)"
  by (auto simp: pass_def split: prod.splits sum.splits)

lemma pass_ok [simp]: "pass (Inr x, s) = (Inr x, s)" "pass (Inl e, s) = (Inl (redis_error e), s)"
  by (simp_all add: pass_def)

section \<open>What the server's contract gives the wrapper\<close>

text \<open>
  The counter: one more than the live count; the first count of a window starts its deadline and
  the later ones keep it.
\<close>

definition window_entry :: "int \<Rightarrow> int \<Rightarrow> keyspace \<Rightarrow> string \<Rightarrow> rval \<times> int option" where
  "window_entry t window ks k =
     (RStr (Num (ks_count ks k + 1)),
      if ks_count ks k = 0 then Some (t + max 1 (window div second) * second) else ks_deadline ks k)"

context redis_server
begin

lemma kv_Get_Inr:
  "kv_Get R t k s = (Inr b, s') \<Longrightarrow>
     purge t (view s') = purge t (view s) \<and> (\<exists>d. purge t (view s) k = Some (RStr b, d))"
  using get_ok [of t k s b s'] by (auto simp: kv_Get_def split: prod.splits sum.splits rerr.splits)

lemma kv_Get_nil:
  "kv_Get R t k s = (Inl KvErrNil, s') \<Longrightarrow>
     purge t (view s') = purge t (view s) \<and> purge t (view s) k = None"
  using get_nil [of t k s s'] by (auto simp: kv_Get_def split: prod.splits sum.splits rerr.splits)

text \<open>A read that returns a value returns the stored one; on a stored value it never says nil.\<close>

lemma kv_Get_stored:
  assumes "purge t (view s) k = Some (RStr b, d)" "kv_Get R t k s = (x, s')"
  shows "x = Inr b \<or> (\<exists>e. x = Inl (ExtErr e))"
proof (cases x)
  case (Inl e)
  then show ?thesis
    using assms get_nil [of t k s s']
    by (auto simp: kv_Get_def split: prod.splits sum.splits rerr.splits)
next
  case (Inr b')
  then show ?thesis using assms kv_Get_Inr [of t k s b' s'] by auto
qed

lemma kv_Get_absent:
  assumes "purge t (view s) k = None" "kv_Get R t k s = (x, s')"
  shows "\<not> is_ok x"
  using assms kv_Get_Inr [of t k s _ s'] by (auto simp: is_ok_iff)

lemma kv_Set_lookup:
  assumes "kv_Set R t k b ttl s = (Inr (), s')" "t \<le> t'" "0 < ttl"
  shows "purge t' (view s') j =
    (if j = k then (if t' < the (px_deadline t ttl) then Some (RStr b, px_deadline t ttl) else None)
     else purge t' (view s) j)"
  using set_lookup [of t k b ttl s s' t' j] assms by (simp add: kv_Set_def)

lemma kv_Del_lookup:
  assumes "kv_Del R t ks s = (Inr (), s')" "t \<le> t'"
  shows "purge t' (view s') = ks_del ks (purge t' (view s))"
  using del_later [of t ks s s' t'] assms
  by (auto simp: kv_Del_def ks_del_def split: if_splits)

lemma kv_Exists_iff:
  "kv_Exists R t k s = (Inr b, s') \<Longrightarrow>
     b = (purge t (view s) k \<noteq> None) \<and> purge t (view s') = purge t (view s)"
  by (auto simp: kv_Exists_def split: prod.splits sum.splits if_splits dest!: exists_ok)

lemma kv_PTTL_Inr:
  "kv_PTTL R t k s = (Inr d, s') \<Longrightarrow>
     purge t (view s') = purge t (view s)
     \<and> d = (case purge t (view s) k of None \<Rightarrow> -2 | Some (_, None) \<Rightarrow> -1 | Some (_, Some e) \<Rightarrow> e - t)"
  using pttl_ok [of t k s d s'] by (simp add: kv_PTTL_def)

lemma kv_IncrTTL_Inr:
  assumes "kv_IncrTTL R t k window s = (Inr n, s')" and "0 < window"
    and "ks_counter (purge t (view s)) k"
  shows "n = ks_count (purge t (view s)) k + 1
    \<and> purge t (view s') = purge t ((purge t (view s))(k \<mapsto> window_entry t window (purge t (view s)) k))"
proof -
  let ?ks = "purge t (view s)"
  obtain m s1 where inc: "rd_incr R t k s = (Inr m, s1)"
    using assms(1) by (auto simp: kv_IncrTTL_def split: prod.splits sum.splits)
  have m: "m = ks_count ?ks k + 1" and s1: "purge t (view s1) = purge t (ks_incr k ?ks)"
    using incr_ok [OF inc assms(3)] by auto
  have alive: "live t (RStr (Num m), ks_deadline ?ks k)"
    by (auto simp: live_def ks_deadline_def purge_def split: option.splits)
  with s1 m have s1': "purge t (view s1) = ?ks(k \<mapsto> (RStr (Num m), ks_deadline ?ks k))"
    by (simp add: ks_incr_def purge_upd)
  show ?thesis
  proof (cases "m = 1")
    case True
    obtain x s2 where ex: "rd_expire R t k window s1 = (x, s2)" by force
    with assms(1,2) inc True have "rd_expire R t k window s1 = (Inr (), s2)" "s' = s2" "n = 1"
      by (simp_all add: kv_IncrTTL_def split: sum.splits)
    then have "purge t (view s2) = purge t (ks_expire t k window (purge t (view s1)))"
      using expire_ok assms(2) by blast
    then have "purge t (view s2) = purge t (?ks(k \<mapsto> window_entry t window ?ks k))"
      using m True by (simp add: s1' ks_expire_def window_entry_def)
    then show ?thesis using m \<open>s' = s2\<close> \<open>n = 1\<close> True by simp
  next
    case False
    then have "s' = s1" "n = m" using assms inc by (auto simp: kv_IncrTTL_def)
    with False m alive show ?thesis by (simp add: s1' purge_upd window_entry_def)
  qed
qed

end

end
