(* ===== verification/Store_Kv.thy ===== *)
theory Store_Kv
  imports Kv Json
begin

text \<open>
  The valkey half of internal/store/store.go: the artifacts (login interactions, sign-on sessions,
  revocations, denials) and the login failure counters and locks.  The lemmas are proved from the
  server's contract; the properties at the end state them for any server that meets it.
\<close>

section \<open>Artifacts\<close>

definition artifactKey :: "string \<Rightarrow> string \<Rightarrow> string" where
  "artifactKey name i = ''art:'' @ name @ '':'' @ i"

definition PutArtifact ::
  "'r redis \<Rightarrow> int \<Rightarrow> string \<Rightarrow> string \<Rightarrow> gomap \<Rightarrow> int \<Rightarrow> 'r \<Rightarrow> unit res \<times> 'r" where
  "PutArtifact R now name i payload ttl s =
     kv_Set R now (artifactKey name i) (Doc (json_norm (AMap payload))) ttl s"

text \<open>\<open>json.Unmarshal\<close> into a \<open>map[string]any\<close>; digits are a number, other bytes no JSON.\<close>

fun unmarshal_payload :: "blob \<Rightarrow> gomap res" where
  "unmarshal_payload (Doc v) = unmarshal_map v"
| "unmarshal_payload (Num n) = unmarshal_map (AFloat (of_int n))"
| "unmarshal_payload (Raw s) = Inl (ExtErr ''invalid JSON'')"

definition GetArtifact :: "'r redis \<Rightarrow> int \<Rightarrow> string \<Rightarrow> string \<Rightarrow> 'r \<Rightarrow> gomap res \<times> 'r" where
  "GetArtifact R now name i s =
     (case kv_Get R now (artifactKey name i) s of
        (Inl KvErrNil, s') \<Rightarrow> (Inl ErrNotFound, s')
      | (Inl e, s') \<Rightarrow> (Inl e, s')
      | (Inr b, s') \<Rightarrow> (unmarshal_payload b, s'))"

definition DeleteArtifact :: "'r redis \<Rightarrow> int \<Rightarrow> string \<Rightarrow> string \<Rightarrow> 'r \<Rightarrow> unit res \<times> 'r" where
  "DeleteArtifact R now name i s = kv_Del R now [artifactKey name i] s"

section \<open>Login failures and locks\<close>

definition loginFailKey :: "string \<Rightarrow> string" where
  "loginFailKey k = ''login:fail:'' @ k"

definition loginLockKey :: "string \<Rightarrow> string" where
  "loginLockKey k = ''login:lock:'' @ k"

definition RecordLoginFailure ::
  "'r redis \<Rightarrow> int \<Rightarrow> string \<Rightarrow> int \<Rightarrow> int \<Rightarrow> 'r \<Rightarrow> unit res \<times> 'r" where
  "RecordLoginFailure R now k lockAfter lockFor s =
     (case kv_IncrTTL R now (loginFailKey k) lockFor s of
        (Inl e, s1) \<Rightarrow> (Inl e, s1)
      | (Inr count, s1) \<Rightarrow>
          if 0 < lockAfter \<and> lockAfter \<le> count
          then kv_Set R now (loginLockKey k) (Raw ''1'') lockFor s1
          else (Inr (), s1))"

definition LoginLocked :: "'r redis \<Rightarrow> int \<Rightarrow> string \<Rightarrow> 'r \<Rightarrow> (bool \<times> int option) res \<times> 'r" where
  "LoginLocked R now k s =
     (case kv_PTTL R now (loginLockKey k) s of
        (Inl e, s1) \<Rightarrow> (Inl e, s1)
      | (Inr pttl, s1) \<Rightarrow>
          (Inr (if pttl \<le> 0 then (False, None) else (True, Some (now + pttl))), s1))"

definition ResetLoginFailures :: "'r redis \<Rightarrow> int \<Rightarrow> string \<Rightarrow> 'r \<Rightarrow> unit res \<times> 'r" where
  "ResetLoginFailures R now k s = kv_Del R now [loginFailKey k, loginLockKey k] s"

section \<open>The key spaces are disjoint\<close>

lemma artifactKey_inj:
  assumes "artifactKey n i = artifactKey m j" "CHR '':'' \<notin> set n" "CHR '':'' \<notin> set m"
  shows "n = m \<and> i = j"
proof -
  have "cut (CHR '':'') (n @ CHR '':'' # i) = cut (CHR '':'') (m @ CHR '':'' # j)"
    using assms(1) by (simp add: artifactKey_def)
  then show ?thesis using assms(2,3) by (simp add: cut_append)
qed

lemma artifactKey_same [simp]: "artifactKey n i = artifactKey n j \<longleftrightarrow> i = j"
  by (simp add: artifactKey_def)

lemma login_keys [simp]:
  "loginFailKey k = loginFailKey j \<longleftrightarrow> k = j"
  "loginLockKey k = loginLockKey j \<longleftrightarrow> k = j"
  "loginFailKey k \<noteq> loginLockKey j" "loginLockKey k \<noteq> loginFailKey j"
  "artifactKey n i \<noteq> loginFailKey j" "artifactKey n i \<noteq> loginLockKey j"
  "loginFailKey j \<noteq> artifactKey n i" "loginLockKey j \<noteq> artifactKey n i"
  by (simp_all add: loginFailKey_def loginLockKey_def artifactKey_def)

section \<open>Artifacts from the server's contract\<close>

text \<open>The end of the window that a first failure at \<open>t0\<close> opens: whole seconds, at least one.\<close>

definition window_end :: "int \<Rightarrow> int \<Rightarrow> int" where
  "window_end lockFor t0 = t0 + max 1 (lockFor div second) * second"


text \<open>The document stored under an artifact's name and id, if it has not expired.\<close>

definition artifact_at :: "int \<Rightarrow> keyspace \<Rightarrow> string \<Rightarrow> string \<Rightarrow> gomap option" where
  "artifact_at t ks name i =
     (case purge t ks (artifactKey name i) of
        Some (RStr b, _) \<Rightarrow> (case unmarshal_payload b of Inr m \<Rightarrow> Some m | Inl _ \<Rightarrow> None)
      | _ \<Rightarrow> None)"

definition same_keyspace :: "int \<Rightarrow> keyspace \<Rightarrow> keyspace \<Rightarrow> bool" where
  "same_keyspace t ks ks' \<longleftrightarrow> (\<forall>t' \<ge> t. purge t' ks' = purge t' ks)"

lemma same_keyspaceI: "purge t ks' = purge t ks \<Longrightarrow> same_keyspace t ks ks'"
  unfolding same_keyspace_def by (metis purge_purge)

lemma same_artifact: "same_keyspace t ks ks' \<Longrightarrow> t \<le> t' \<Longrightarrow> artifact_at t' ks' n i = artifact_at t' ks n i"
  by (simp add: same_keyspace_def artifact_at_def)

context redis_server
begin

lemma GetArtifact_Inr:
  assumes "GetArtifact R t name i s = (Inr m, s')"
  shows "artifact_at t (view s) name i = Some m \<and> same_keyspace t (view s) (view s')"
proof -
  obtain x s1 where g: "kv_Get R t (artifactKey name i) s = (x, s1)" by force
  with assms obtain b where "x = Inr b" "unmarshal_payload b = Inr m" "s' = s1"
    by (auto simp: GetArtifact_def split: sum.splits goerr.splits)
  with kv_Get_Inr [of t "artifactKey name i" s b s1] g show ?thesis
    by (auto simp: artifact_at_def intro: same_keyspaceI)
qed

lemma GetArtifact_absent:
  assumes "artifact_at t (view s) name i = None" "GetArtifact R t name i s = (x, s')"
  shows "\<not> is_ok x"
  using assms GetArtifact_Inr by (auto simp: is_ok_iff)

text \<open>A stored artifact is returned, unless the server fails.\<close>

lemma GetArtifact_stored:
  assumes "artifact_at t (view s) name i = Some m" "GetArtifact R t name i s = (x, s')"
  shows "x = Inr m \<or> (\<exists>e. x = Inl (ExtErr e))"
proof -
  obtain b d where b: "purge t (view s) (artifactKey name i) = Some (RStr b, d)"
      "unmarshal_payload b = Inr m"
    using assms(1) by (auto simp: artifact_at_def split: option.splits prod.splits rval.splits sum.splits)
  obtain y s1 where "kv_Get R t (artifactKey name i) s = (y, s1)" by force
  with kv_Get_stored [OF b(1) this] assms(2) b(2) show ?thesis
    by (auto simp: GetArtifact_def)
qed

lemma PutArtifact_at:
  assumes "PutArtifact R t name i payload ttl s = (Inr (), s')" "0 < ttl" "t \<le> t'"
    and "t' < the (px_deadline t ttl)"
  shows "artifact_at t' (view s') name i = Some (json_map payload)"
proof -
  have "purge t' (view s') (artifactKey name i) =
      Some (RStr (Doc (json_norm (AMap payload))), px_deadline t ttl)"
    using kv_Set_lookup [of t "artifactKey name i" "Doc (json_norm (AMap payload))" ttl s s' t'
        "artifactKey name i"] assms by (simp add: PutArtifact_def)
  then show ?thesis by (simp add: artifact_at_def)
qed

lemma PutArtifact_expired:
  assumes "PutArtifact R t name i payload ttl s = (Inr (), s')" "0 < ttl"
    and "the (px_deadline t ttl) \<le> t'"
  shows "artifact_at t' (view s') name i = None"
proof -
  have "t \<le> t'" using assms(2,3) px_deadline_after [of ttl t] by linarith
  then have "purge t' (view s') (artifactKey name i) = None"
    using kv_Set_lookup [of t "artifactKey name i" "Doc (json_norm (AMap payload))" ttl s s' t'
        "artifactKey name i"] assms by (simp add: PutArtifact_def)
  then show ?thesis by (simp add: artifact_at_def)
qed

lemma PutArtifact_other:
  assumes "PutArtifact R t name i payload ttl s = (Inr (), s')" "0 < ttl" "t \<le> t'"
    and "artifactKey n j \<noteq> artifactKey name i"
  shows "artifact_at t' (view s') n j = artifact_at t' (view s) n j"
  using kv_Set_lookup [of t "artifactKey name i" "Doc (json_norm (AMap payload))" ttl s s' t'
      "artifactKey n j"] assms by (simp add: PutArtifact_def artifact_at_def)

lemma DeleteArtifact_at:
  assumes "DeleteArtifact R t name i s = (Inr (), s')" "t \<le> t'"
  shows "artifact_at t' (view s') n j =
    (if artifactKey n j = artifactKey name i then None else artifact_at t' (view s) n j)"
proof -
  have "purge t' (view s') = ks_del [artifactKey name i] (purge t' (view s))"
    using assms by (auto simp: DeleteArtifact_def intro: kv_Del_lookup)
  then show ?thesis by (auto simp: artifact_at_def ks_del_def)
qed

text \<open>The login failure counters.\<close>

lemma RecordLoginFailure_Inr:
  assumes "RecordLoginFailure R t k lockAfter lockFor s = (Inr (), s')" "0 < lockFor"
    and "ks_counter (purge t (view s)) (loginFailKey k)"
  defines "ks \<equiv> purge t (view s)"
  shows "purge t (view s') j =
    (if j = loginFailKey k then Some (window_entry t lockFor ks j)
     else if j = loginLockKey k \<and> 0 < lockAfter \<and> lockAfter \<le> ks_count ks (loginFailKey k) + 1
       then Some (RStr (Raw ''1''), px_deadline t lockFor)
     else ks j)"
proof -
  let ?fk = "loginFailKey k"
  obtain n s1 where inc: "kv_IncrTTL R t ?fk lockFor s = (Inr n, s1)"
    using assms(1) by (auto simp: RecordLoginFailure_def split: prod.splits sum.splits)
  have n: "n = ks_count ks ?fk + 1" and s1: "purge t (view s1) = purge t (ks(?fk \<mapsto> window_entry t lockFor ks ?fk))"
    using kv_IncrTTL_Inr [OF inc assms(2,3)] by (simp_all add: ks_def)
  have "live t (window_entry t lockFor ks ?fk)"
    by (auto simp: window_entry_def live_def ks_def ks_deadline_def purge_def second_def
        split: option.splits if_splits)
  then have s1': "purge t (view s1) = ks(?fk \<mapsto> window_entry t lockFor ks ?fk)"
    by (simp add: s1 purge_upd ks_def)
  show ?thesis
  proof (cases "0 < lockAfter \<and> lockAfter \<le> n")
    case True
    then have "kv_Set R t (loginLockKey k) (Raw ''1'') lockFor s1 = (Inr (), s')"
      using assms(1) inc by (simp add: RecordLoginFailure_def)
    from kv_Set_lookup [OF this order_refl assms(2), of j] show ?thesis
      using True n px_deadline_after [OF assms(2), of t] by (auto simp: s1')
  next
    case False
    then have "s' = s1" using assms(1) inc by (auto simp: RecordLoginFailure_def)
    with False n show ?thesis by (auto simp: s1')
  qed
qed

lemma LoginLocked_Inr:
  assumes "LoginLocked R t k s = (Inr (b, until), s')"
  shows "(b \<longrightarrow> purge t (view s) (loginLockKey k) \<noteq> None)
    \<and> (\<forall>v d. purge t (view s) (loginLockKey k) = Some (v, Some d) \<longrightarrow> b \<and> until = Some d)
    \<and> same_keyspace t (view s) (view s')"
proof -
  obtain p s1 where "kv_PTTL R t (loginLockKey k) s = (Inr p, s1)"
    using assms by (auto simp: LoginLocked_def split: prod.splits sum.splits)
  moreover have "t < d" if "purge t (view s) (loginLockKey k) = Some (v, Some d)" for v d
    using that by (auto simp: purge_Some live_def)
  ultimately show ?thesis
    using kv_PTTL_Inr [of t "loginLockKey k" s p s1] assms
    by (auto simp: LoginLocked_def split: option.splits prod.splits if_splits intro: same_keyspaceI)
qed

text \<open>What the n-th failure within the window of the first leaves behind.\<close>

definition failures_at :: "int \<Rightarrow> int \<Rightarrow> string \<Rightarrow> int \<Rightarrow> int \<Rightarrow> int \<Rightarrow> 'r \<Rightarrow> bool" where
  "failures_at lockAfter lockFor k t0 n t s \<longleftrightarrow>
     purge t (view s) (loginFailKey k) = Some (RStr (Num n), Some (window_end lockFor t0))
     \<and> purge t (view s) (loginLockKey k) =
         (if lockAfter \<le> n then Some (RStr (Raw ''1''), px_deadline t lockFor) else None)"

lemma failures_first:
  assumes "RecordLoginFailure R t k la lf s = (Inr (), s')" "0 < lf" "0 < la"
    and "purge t (view s) (loginFailKey k) = None" "purge t (view s) (loginLockKey k) = None"
  shows "failures_at la lf k t 1 t s'"
proof -
  have "ks_counter (purge t (view s)) (loginFailKey k)"
       "ks_count (purge t (view s)) (loginFailKey k) = 0"
    using assms(4) by (simp_all add: ks_counter_def ks_count_def)
  with RecordLoginFailure_Inr [OF assms(1,2)] assms(3,5) show ?thesis
    by (auto simp: failures_at_def window_entry_def window_end_def)
qed

text \<open>The state before may also be a later one that reads the same.\<close>

lemma failures_step_at:
  assumes "RecordLoginFailure R t k la lf r = (Inr (), s')" "0 < lf" "0 < la" "0 < n"
    and "failures_at la lf k t0 n t1 s" "t1 \<le> t" "t < window_end lf t0"
    and "purge t (view r) = purge t (view s)"
  shows "failures_at la lf k t0 (n + 1) t s'"
proof -
  have f: "purge t (view r) (loginFailKey k) = Some (RStr (Num n), Some (window_end lf t0))"
    using purge_Some_later assms(5-8) by (fastforce simp: failures_at_def live_def)
  have l: "purge t (view r) (loginLockKey k) = None" if "\<not> la \<le> n"
    using that assms(5,6,8) purge_None_later by (fastforce simp: failures_at_def)
  have "ks_counter (purge t (view r)) (loginFailKey k)"
       "ks_count (purge t (view r)) (loginFailKey k) = n"
    using f by (simp_all add: ks_counter_def ks_count_def)
  with RecordLoginFailure_Inr [OF assms(1,2)] assms(3,4) f l show ?thesis
    by (auto simp: failures_at_def window_entry_def ks_deadline_def)
qed

lemmas failures_step = failures_step_at [OF _ _ _ _ _ _ _ refl]

end

text \<open>The failures at the given times, each recorded; it stops at the first error.\<close>

fun record_failures :: "'r redis \<Rightarrow> string \<Rightarrow> int \<Rightarrow> int \<Rightarrow> int list \<Rightarrow> 'r \<Rightarrow> unit res \<times> 'r" where
  "record_failures R k lockAfter lockFor [] s = (Inr (), s)"
| "record_failures R k lockAfter lockFor (t # ts) s =
     (case RecordLoginFailure R t k lockAfter lockFor s of
        (Inl e, s1) \<Rightarrow> (Inl e, s1)
      | (Inr _, s1) \<Rightarrow> record_failures R k lockAfter lockFor ts s1)"

context redis_server
begin

lemma record_failures_at:
  assumes "record_failures R k la lf ts s = (Inr (), s')" "0 < lf" "0 < la" "0 < n"
    and "failures_at la lf k t0 n t1 s" "sorted (t1 # ts)" "\<forall>t \<in> set ts. t < window_end lf t0"
  shows "failures_at la lf k t0 (n + int (length ts)) (last (t1 # ts)) s'"
  using assms
proof (induction ts arbitrary: s n t1)
  case (Cons t ts)
  then obtain s1 where s1: "RecordLoginFailure R t k la lf s = (Inr (), s1)"
      and rest: "record_failures R k la lf ts s1 = (Inr (), s')"
    by (auto split: prod.splits sum.splits)
  have "failures_at la lf k t0 (n + 1) t s1"
    using failures_step [OF s1] Cons.prems by auto
  from Cons.IH [OF rest Cons.prems(2,3) _ this] Cons.prems(4,6,7) show ?case
    by (simp add: algebra_simps)
qed simp

lemma record_failures_locked:
  assumes "record_failures R k la lf (t # ts) s = (Inr (), s')" "0 < lf" "0 < la"
    and "purge t (view s) (loginFailKey k) = None" "purge t (view s) (loginLockKey k) = None"
    and "sorted (t # ts)" "\<forall>t' \<in> set ts. t' < window_end lf t"
    and "LoginLocked R now k s' = (Inr (b, until), s'')" "last (t # ts) \<le> now"
  shows "b \<longleftrightarrow> la \<le> int (length (t # ts)) \<and> now < the (px_deadline (last (t # ts)) lf)"
proof -
  obtain s1 where s1: "RecordLoginFailure R t k la lf s = (Inr (), s1)"
      and rest: "record_failures R k la lf ts s1 = (Inr (), s')"
    using assms(1) by (auto split: prod.splits sum.splits)
  have "failures_at la lf k t (1 + int (length ts)) (last (t # ts)) s'"
    using record_failures_at [OF rest assms(2,3) _ failures_first [OF s1 assms(2-5)] assms(6,7)] by simp
  then have lock: "purge (last (t # ts)) (view s') (loginLockKey k) =
      (if la \<le> int (length (t # ts)) then Some (RStr (Raw ''1''), px_deadline (last (t # ts)) lf) else None)"
    by (simp add: failures_at_def)
  show ?thesis
  proof (cases "la \<le> int (length (t # ts))")
    case True
    have "purge now (view s') (loginLockKey k) =
        (if now < the (px_deadline (last (t # ts)) lf)
         then Some (RStr (Raw ''1''), px_deadline (last (t # ts)) lf) else None)"
      using purge_Some_later [OF _ assms(9), of "view s'" "loginLockKey k"] lock True assms(2)
      by (simp add: live_def px_deadline_pos)
    with LoginLocked_Inr [OF assms(8)] True assms(2) show ?thesis
      by (auto simp: px_deadline_pos split: if_splits)
  next
    case False
    with lock have "purge now (view s') (loginLockKey k) = None"
      using purge_None_later [OF _ assms(9)] by simp
    with LoginLocked_Inr [OF assms(8)] False show ?thesis by auto
  qed
qed

lemma ResetLoginFailures_at:
  assumes "ResetLoginFailures R t k s = (Inr (), s')" "t \<le> t'"
  shows "purge t' (view s') j =
    (if j = loginFailKey k \<or> j = loginLockKey k then None else purge t' (view s) j)"
  using kv_Del_lookup [of t "[loginFailKey k, loginLockKey k]" s s' t'] assms
  by (auto simp: ResetLoginFailures_def ks_del_def)

lemma ResetLoginFailures_unlocked:
  assumes "ResetLoginFailures R t k s = (Inr (), s')" "t \<le> now"
    and "LoginLocked R now k s' = (Inr (b, until), s'')"
  shows "\<not> b"
  using LoginLocked_Inr [OF assms(3)] ResetLoginFailures_at [OF assms(1,2), of "loginLockKey k"]
  by auto

end

section \<open>What the store promises\<close>

text \<open>
  An artifact that was put with a positive lifetime is returned, as JSON keeps it, by every
  later read before its deadline that the server answers, and by none after it.
\<close>

theorem artifact_lifetime:
  assumes "redis_server R view" and "PutArtifact R t name i payload ttl s = (Inr (), s')"
    and "0 < ttl" and "t \<le> t'" and "GetArtifact R t' name i s' = (x, s'')"
  shows "if t' < the (px_deadline t ttl) then x = Inr (json_map payload) \<or> (\<exists>e. x = Inl (ExtErr e))
         else \<not> is_ok x"
  using redis_server.GetArtifact_stored [OF assms(1) _ assms(5)]
    redis_server.PutArtifact_at [OF assms(1-4)] redis_server.PutArtifact_expired [OF assms(1-3)]
    redis_server.GetArtifact_absent [OF assms(1) _ assms(5)]
  by auto

theorem artifact_lifetime_witness:
  "\<exists>s' x s''. PutArtifact mem_redis 0 ''Interaction'' ''u'' [''k'' \<mapsto> AStr ''v''] minute mem_start = (Inr (), s')
     \<and> GetArtifact mem_redis second ''Interaction'' ''u'' s' = (x, s'')
     \<and> (x = Inr (json_map [''k'' \<mapsto> AStr ''v'']) \<or> (\<exists>e. x = Inl (ExtErr e)))"
proof -
  obtain s' where put: "PutArtifact mem_redis 0 ''Interaction'' ''u'' [''k'' \<mapsto> AStr ''v''] minute mem_start
      = (Inr (), s')"
    by (simp add: PutArtifact_def kv_Set_def mem_start_of mem_eval)
  obtain x s'' where get: "GetArtifact mem_redis second ''Interaction'' ''u'' s' = (x, s'')"
    by force
  have "second < the (px_deadline 0 minute)"
    by (simp add: px_deadline_def time_units)
  moreover have "0 < minute" "0 \<le> second" by (simp_all add: time_units)
  ultimately show ?thesis
    using artifact_lifetime [OF mem.redis_server_axioms put _ _ get] put get by simp
qed

text \<open>
  The lockout engages: when failures for a key are recorded at increasing times within the
  window of the first one, starting from no failure and no lock, the key is reported locked
  afterwards exactly when the threshold was reached and the lock of the last failure has not run out.
\<close>

theorem lockout_engages:
  assumes "redis_server R view" and "record_failures R k lockAfter lockFor (t # ts) s = (Inr (), s')"
    and "0 < lockFor" and "0 < lockAfter"
    and "purge t (view s) (loginFailKey k) = None" and "purge t (view s) (loginLockKey k) = None"
    and "sorted (t # ts)" and "\<forall>t' \<in> set ts. t' < window_end lockFor t"
    and "LoginLocked R now k s' = (Inr (b, until), s'')" and "last (t # ts) \<le> now"
  shows "b \<longleftrightarrow> lockAfter \<le> int (length (t # ts)) \<and> now < the (px_deadline (last (t # ts)) lockFor)"
  by (rule redis_server.record_failures_locked [OF assms])

theorem lockout_engages_witness:
  "\<exists>s' b until s''. record_failures mem_redis ''u'' 2 minute [0, second] mem_start = (Inr (), s')
     \<and> LoginLocked mem_redis (2 * second) ''u'' s' = (Inr (b, until), s'') \<and> b"
proof -
  obtain ks' where run: "record_failures mem_redis ''u'' 2 minute [0, second] mem_start = (Inr (), mem_of ks')"
    by (simp add: RecordLoginFailure_def kv_IncrTTL_def kv_Set_def mem_start_of mem_eval
        ks_counter_def ks_count_def ks_incr_def ks_expire_def purge_def live_def ks_deadline_def
        time_units split: option.splits)
  obtain p where "LoginLocked mem_redis (2 * second) ''u'' (mem_of ks') = (Inr p, mem_of (purge (2 * second) ks'))"
    by (simp add: LoginLocked_def kv_PTTL_def mem_eval pass_def)
  then obtain b until where lk: "LoginLocked mem_redis (2 * second) ''u'' (mem_of ks')
      = (Inr (b, until), mem_of (purge (2 * second) ks'))"
    by (cases p) auto
  have b
    using lockout_engages [OF mem.redis_server_axioms run _ _ _ _ _ _ lk]
    by (simp add: mem_start_of purge_def window_end_def px_deadline_def time_units)
  with run lk show ?thesis by blast
qed

text \<open>
  A reset ends a lock: after a reset that the server acknowledged, no later answer says the
  key is locked, and every key but the counter and the lock of that name is as it was.
\<close>

theorem reset_unlocks:
  assumes "redis_server R view" and "ResetLoginFailures R t k s = (Inr (), s')" and "t \<le> now"
    and "LoginLocked R now k s' = (Inr (b, until), s'')"
  shows "\<not> b \<and> (\<forall>j. j \<noteq> loginFailKey k \<and> j \<noteq> loginLockKey k \<longrightarrow>
           purge now (view s') j = purge now (view s) j)"
  using redis_server.ResetLoginFailures_unlocked [OF assms]
    redis_server.ResetLoginFailures_at [OF assms(1-3)] by simp

theorem reset_unlocks_witness:
  "\<exists>s' b until s''. ResetLoginFailures mem_redis 1 ''u''
        (snd (RecordLoginFailure mem_redis 0 ''u'' 1 minute mem_start)) = (Inr (), s')
     \<and> LoginLocked mem_redis 2 ''u'' s' = (Inr (b, until), s'') \<and> \<not> b"
proof -
  obtain ks where ks: "snd (RecordLoginFailure mem_redis 0 ''u'' 1 minute mem_start) = mem_of ks"
    by (simp add: RecordLoginFailure_def kv_IncrTTL_def kv_Set_def mem_start_of mem_eval
        ks_counter_def ks_count_def purge_def)
  have rs: "ResetLoginFailures mem_redis 1 ''u'' (mem_of ks)
      = (Inr (), mem_of (ks_del [loginFailKey ''u'', loginLockKey ''u''] (purge 1 ks)))"
    by (simp add: ResetLoginFailures_def kv_Del_def mem_eval pass_def)
  obtain b until s'' where lk: "LoginLocked mem_redis 2 ''u''
      (mem_of (ks_del [loginFailKey ''u'', loginLockKey ''u''] (purge 1 ks))) = (Inr (b, until), s'')"
    by (cases "fst (LoginLocked mem_redis 2 ''u''
      (mem_of (ks_del [loginFailKey ''u'', loginLockKey ''u''] (purge 1 ks))))")
      (simp_all add: LoginLocked_def kv_PTTL_def mem_eval, metis surj_pair)
  have "\<not> b" using reset_unlocks [OF mem.redis_server_axioms rs _ lk] by simp
  with rs lk ks show ?thesis by metis
qed

end
