(* ===== verification/Config.thy ===== *)
theory Config
  imports Go_Strings
begin

text \<open>
  internal/config/config.go: the configuration read from the environment, a function from names to
  values in which a missing variable is empty (\<open>os.Getenv\<close>).  \<open>time.ParseDuration\<close> is the parameter
  of \<open>Load\<close> that reads a duration in nanoseconds.
\<close>

record config =
  cf_host :: string
  cf_port :: string
  cf_issuer :: string
  cf_cors :: "string list"
  cf_cookie_keys :: "string list"
  cf_admin_key :: string
  cf_secret_key :: string
  cf_enable_gui :: bool
  cf_master_user :: string
  cf_master_pass :: string
  cf_database :: string
  cf_valkey :: string
  cf_wildduck_url :: string
  cf_wildduck_token :: string
  cf_trusted_domains :: "string list"
  cf_access_ttl :: int
  cf_id_ttl :: int
  cf_code_ttl :: int
  cf_refresh_ttl :: int
  cf_public_base :: string
  cf_reset_ttl :: int
  cf_sender_id :: string
  cf_sender_address :: string
  cf_sender_name :: string
  cf_authz_backend :: string
  cf_authz_roles :: "string list"
  cf_authz_cache_ttl :: int
  cf_solutrix_url :: string
  cf_solutrix_token_url :: string
  cf_solutrix_client :: string
  cf_solutrix_secret :: string
  cf_solutrix_scope :: string

type_synonym environ = "string \<Rightarrow> string"

definition env_or :: "environ \<Rightarrow> string \<Rightarrow> string \<Rightarrow> string" where
  "env_or E k fallback = (if E k \<noteq> [] then E k else fallback)"

definition parseDuration :: "(string \<Rightarrow> int option) \<Rightarrow> string \<Rightarrow> int \<Rightarrow> int" where
  "parseDuration P v fallback =
     (if v = [] then fallback else case P v of Some d \<Rightarrow> d | None \<Rightarrow> fallback)"

fun firstEnv :: "environ \<Rightarrow> string list \<Rightarrow> string" where
  "firstEnv E [] = []"
| "firstEnv E (k # ks) = (if E k \<noteq> [] then E k else firstEnv E ks)"

definition splitCSV :: "string \<Rightarrow> string list" where
  "splitCSV v = (if v = [] then []
     else filter (\<lambda>p. p \<noteq> []) (map trim_space (split_on (CHR '','') v)))"

definition raw_config :: "unicode \<Rightarrow> (string \<Rightarrow> int option) \<Rightarrow> environ \<Rightarrow> config" where
  "raw_config UC P E =
     (let port = env_or E ''PORT'' ''8080'';
          issuer = (if E ''OIDC_ISSUER'' = [] then ''http://localhost:'' @ port else E ''OIDC_ISSUER'')
      in \<lparr>cf_host = env_or E ''HOST'' ''0.0.0.0'', cf_port = port, cf_issuer = issuer,
          cf_cors = splitCSV (E ''CORS_ORIGINS''), cf_cookie_keys = splitCSV (E ''OIDC_COOKIE_KEYS''),
          cf_admin_key = E ''ADMIN_API_KEY'', cf_secret_key = E ''IDP_SECRET_ENCRYPTION_KEY'',
          cf_enable_gui = equal_fold UC (env_or E ''ENABLE_GUI'' ''false'') ''true'',
          cf_master_user = env_or E ''MASTER_USER'' ''idp_admin'', cf_master_pass = E ''MASTER_PASSWORD'',
          cf_database = firstEnv E [''DATABASE_URL'', ''DB_URL'', ''POSTGRES_URL''],
          cf_valkey = firstEnv E [''VALKEY_URL'', ''REDIS_URL''],
          cf_wildduck_url = firstEnv E [''WILDDUCK_API_URL'', ''WILDDUCK_URL''],
          cf_wildduck_token = firstEnv E [''WILDDUCK_API_TOKEN'', ''WILDDUCK_API_KEY''],
          cf_trusted_domains = splitCSV (env_or E ''OIDC_TRUSTED_CONSENT_DOMAINS'' ''muninid.local,mailtrix.eu''),
          cf_access_ttl = 10 * minute, cf_id_ttl = 10 * minute, cf_code_ttl = 5 * minute,
          cf_refresh_ttl = 30 * 24 * hour,
          cf_public_base = (if E ''PUBLIC_BASE_URL'' = [] then issuer else E ''PUBLIC_BASE_URL''),
          cf_reset_ttl = parseDuration P (E ''RESET_TOKEN_TTL'') hour,
          cf_sender_id = E ''RESET_SENDER_USER_ID'',
          cf_sender_address = env_or E ''RESET_SENDER_ADDRESS'' ''no-reply@solutrix.io'',
          cf_sender_name = env_or E ''RESET_SENDER_NAME'' ''Solutrix'',
          cf_authz_backend = env_or E ''AUTHZ_BACKEND'' ''claims'',
          cf_authz_roles = splitCSV (env_or E ''AUTHZ_ADMIN_ROLES'' ''idp_admin,admin,superadmin''),
          cf_authz_cache_ttl = parseDuration P (E ''AUTHZ_CACHE_TTL'') (30 * second),
          cf_solutrix_url = E ''SOLUTRIX_API_BASE_URL'',
          cf_solutrix_token_url = firstEnv E [''SOLUTRIX_TOKEN_URL'', ''OIDC_TOKEN_URL''],
          cf_solutrix_client = E ''SOLUTRIX_CLIENT_ID'', cf_solutrix_secret = E ''SOLUTRIX_CLIENT_SECRET'',
          cf_solutrix_scope = E ''SOLUTRIX_SCOPE''\<rparr>)"

definition Load :: "unicode \<Rightarrow> (string \<Rightarrow> int option) \<Rightarrow> environ \<Rightarrow> config res" where
  "Load UC P E =
     (let cfg = raw_config UC P E in
      case cf_cookie_keys cfg of
        [] \<Rightarrow> Inl (GoErr ''OIDC_COOKIE_KEYS must contain at least one secret'')
      | k # _ \<Rightarrow>
          if length k < 32 then Inl (GoErr ''first OIDC_COOKIE_KEYS secret must be 32+ chars'')
          else if cf_database cfg = [] then Inl (GoErr ''DATABASE_URL is required'')
          else if cf_valkey cfg = [] then Inl (GoErr ''VALKEY_URL is required'')
          else if length (cf_secret_key cfg) < 32
            then Inl (GoErr ''IDP_SECRET_ENCRYPTION_KEY must be 32+ characters'')
          else if cf_wildduck_url cfg = [] \<or> cf_wildduck_token cfg = []
            then Inl (GoErr ''WILDDUCK_API_URL and WILDDUCK_API_TOKEN are required'')
          else Inr cfg)"

definition HTTPAddr :: "config \<Rightarrow> string" where
  "HTTPAddr c = cf_host c @ '':'' @ cf_port c"

text \<open>
  What the rest of the program relies on: there is a cookie key (the provider indexes the list
  without a check), the signing and encryption secrets are long enough, and tokens live for a
  positive time.
\<close>

definition config_ok :: "config \<Rightarrow> bool" where
  "config_ok c \<longleftrightarrow> (case cf_cookie_keys c of [] \<Rightarrow> False | k # _ \<Rightarrow> 32 \<le> length k)
     \<and> 32 \<le> length (cf_secret_key c) \<and> cf_issuer c \<noteq> [] \<and> cf_public_base c \<noteq> []
     \<and> cf_database c \<noteq> [] \<and> cf_valkey c \<noteq> [] \<and> cf_wildduck_url c \<noteq> [] \<and> cf_wildduck_token c \<noteq> []
     \<and> 0 < cf_access_ttl c \<and> 0 < cf_id_ttl c \<and> 0 < cf_code_ttl c \<and> 0 < cf_refresh_ttl c"

text \<open>
  A configuration that loads has everything the program uses without looking: a cookie key
  of 32 bytes or more, an encryption secret of 32 bytes or more, an issuer, a public URL, the three
  services and positive token lifetimes.
\<close>

theorem Load_ok:
  assumes "Load UC P E = Inr cfg"
  shows "config_ok cfg \<and> cfg = raw_config UC P E"
proof -
  have cfg: "cfg = raw_config UC P E"
    using assms by (simp add: Load_def Let_def split: list.splits if_splits)
  have "cf_issuer (raw_config UC P E) \<noteq> []" "cf_public_base (raw_config UC P E) \<noteq> []"
      "0 < cf_access_ttl (raw_config UC P E)" "0 < cf_id_ttl (raw_config UC P E)"
      "0 < cf_code_ttl (raw_config UC P E)" "0 < cf_refresh_ttl (raw_config UC P E)"
    by (simp_all add: raw_config_def Let_def time_units)
  with assms cfg show ?thesis
    by (simp add: Load_def config_ok_def Let_def split: list.splits if_splits)
qed

definition sample_env :: environ where
  "sample_env = (\<lambda>_. [])(''OIDC_COOKIE_KEYS'' := replicate 32 CHR ''k'',
     ''IDP_SECRET_ENCRYPTION_KEY'' := replicate 32 CHR ''s'', ''DATABASE_URL'' := ''pg'',
     ''VALKEY_URL'' := ''vk'', ''WILDDUCK_URL'' := ''wd'', ''WILDDUCK_API_KEY'' := ''t'')"

lemma sample_Load: "Load sample_unicode (\<lambda>_. None) sample_env = Inr (raw_config sample_unicode (\<lambda>_. None) sample_env)"
proof -
  have "is_word (replicate 32 CHR ''k'')"
  proof (rule is_word_plain)
    show "list_all (\<lambda>c. byte_of c < (0x80 :: nat) \<and> \<not> is_space (byte_of c)) (replicate 32 CHR ''k'')"
      by (simp add: list_all_iff is_space_def)
  qed (simp add: eval_nat_numeral)
  then have "splitCSV (sample_env ''OIDC_COOKIE_KEYS'') = [replicate 32 CHR ''k'']"
    by (simp add: splitCSV_def sample_env_def split_on_no_sep trim_space_word)
  moreover have "firstEnv sample_env [''DATABASE_URL'', ''DB_URL'', ''POSTGRES_URL''] = ''pg''"
      "firstEnv sample_env [''VALKEY_URL'', ''REDIS_URL''] = ''vk''"
      "firstEnv sample_env [''WILDDUCK_API_URL'', ''WILDDUCK_URL''] = ''wd''"
      "firstEnv sample_env [''WILDDUCK_API_TOKEN'', ''WILDDUCK_API_KEY''] = ''t''"
      "length (sample_env ''IDP_SECRET_ENCRYPTION_KEY'') = 32"
    by (simp_all add: sample_env_def)
  ultimately show ?thesis
    by (simp only: Load_def raw_config_def Let_def config.simps list.case length_replicate less_irrefl
        if_False list.distinct simp_thms)
qed

theorem Load_ok_witness:
  "Load sample_unicode (\<lambda>_. None) sample_env = Inr (raw_config sample_unicode (\<lambda>_. None) sample_env)
     \<and> config_ok (raw_config sample_unicode (\<lambda>_. None) sample_env)"
  using Load_ok [OF sample_Load] sample_Load by simp

end
