(* ===== verification/Authz.thy ===== *)
theory Authz
  imports Go_Strings
begin

text \<open>
  internal/authz/authz.go and claims.go: the policy enforcement interface and its in-process
  backend.  The Go interface \<open>Authorizer\<close> is the record \<open>authorizer\<close>, whose methods take the time
  and the backend's own state; its contract is the locale \<open>decision_point\<close>: the decisions follow a
  policy \<open>permits\<close> and the tenant filters a policy \<open>sees\<close>, for the requests the backend answers
  reliably.  The claims backend is interpreted with the rule its comment states; the Solutrix backend
  is in \<open>Solutrix\<close>.
\<close>

section \<open>The vocabulary\<close>

definition ResourceClient :: string where "ResourceClient = ''idp:clients''"
definition ResourceSAMLSP :: string where "ResourceSAMLSP = ''idp:saml_sps''"
definition ResourcePolicy :: string where "ResourcePolicy = ''idp:policies''"
definition ActionCreate :: string where "ActionCreate = ''create''"
definition ActionRead :: string where "ActionRead = ''read''"
definition ActionUpdate :: string where "ActionUpdate = ''update''"
definition ActionDelete :: string where "ActionDelete = ''delete''"
definition ActionRotateSecret :: string where "ActionRotateSecret = ''rotate_secret''"

record subject =
  su_id :: string
  su_customer :: string
  su_roles :: slice
  su_claims :: "gomap option"

record resource =
  re_type :: string
  re_id :: string
  re_owner :: string

record request =
  rq_subject :: subject
  rq_action :: string
  rq_resource :: resource

record decision =
  de_allow :: bool
  de_reason :: string

record scope =
  sc_all :: bool
  sc_ids :: slice

text \<open>The interface \<open>Authorizer\<close>.\<close>

record 'a authorizer =
  az_authorize :: "int \<Rightarrow> request \<Rightarrow> 'a \<Rightarrow> decision res \<times> 'a"
  az_scope :: "int \<Rightarrow> subject \<Rightarrow> string \<Rightarrow> string \<Rightarrow> 'a \<Rightarrow> scope res \<times> 'a"

section \<open>authz.go\<close>

definition stringSlice :: "any \<Rightarrow> slice" where
  "stringSlice v =
     (case v of
        AStrs s \<Rightarrow> s
      | AStr s \<Rightarrow> (if s = [] then None else Some [s])
      | AArr xs \<Rightarrow> Some (filter (\<lambda>s. s \<noteq> []) (map str xs))
      | _ \<Rightarrow> None)"

definition SubjectFromClaims :: "gomap option \<Rightarrow> subject" where
  "SubjectFromClaims claims =
     (case claims of
        None \<Rightarrow> \<lparr>su_id = [], su_customer = [], su_roles = None, su_claims = None\<rparr>
      | Some m \<Rightarrow> \<lparr>su_id = str (mget m ''sub''), su_customer = str (mget m ''customer_id''),
                   su_roles = stringSlice (mget m ''roles''), su_claims = Some m\<rparr>)"

definition hasAnyRole :: "unicode \<Rightarrow> subject \<Rightarrow> string list \<Rightarrow> bool" where
  "hasAnyRole UC s want =
     list_ex (\<lambda>r. list_ex (\<lambda>w. equal_fold UC r w) want) (elems (su_roles s))"

section \<open>claims.go\<close>

definition DefaultAdminRoles :: "string list" where
  "DefaultAdminRoles = [''idp_admin'', ''admin'', ''superadmin'']"

definition claims_Authorize :: "unicode \<Rightarrow> string list \<Rightarrow> request \<Rightarrow> decision res" where
  "claims_Authorize UC adminRoles req =
     (if hasAnyRole UC (rq_subject req) adminRoles
      then Inr \<lparr>de_allow = True, de_reason = ''admin_role''\<rparr>
      else if su_customer (rq_subject req) = []
      then Inr \<lparr>de_allow = False, de_reason = ''no_customer_id''\<rparr>
      else if re_id (rq_resource req) = []
      then (if re_owner (rq_resource req) = []
               \<or> re_owner (rq_resource req) = su_customer (rq_subject req)
            then Inr \<lparr>de_allow = True, de_reason = ''own_tenant''\<rparr>
            else Inr \<lparr>de_allow = False, de_reason = ''not_owner''\<rparr>)
      else if re_owner (rq_resource req) \<noteq> []
              \<and> re_owner (rq_resource req) = su_customer (rq_subject req)
      then Inr \<lparr>de_allow = True, de_reason = ''owner''\<rparr>
      else Inr \<lparr>de_allow = False, de_reason = ''not_owner''\<rparr>)"

definition claims_Scope :: "unicode \<Rightarrow> string list \<Rightarrow> subject \<Rightarrow> scope res" where
  "claims_Scope UC adminRoles sub =
     (if hasAnyRole UC sub adminRoles then Inr \<lparr>sc_all = True, sc_ids = None\<rparr>
      else if su_customer sub = [] then Inr \<lparr>sc_all = False, sc_ids = None\<rparr>
      else Inr \<lparr>sc_all = False, sc_ids = Some [su_customer sub]\<rparr>)"

definition NewClaimsAuthorizer :: "unicode \<Rightarrow> string list \<Rightarrow> 'a authorizer" where
  "NewClaimsAuthorizer UC roles =
     (let adminRoles = (if roles = [] then DefaultAdminRoles else roles) in
      \<lparr>az_authorize = (\<lambda>now req s. (claims_Authorize UC adminRoles req, s)),
       az_scope = (\<lambda>now sub action resourceType s. (claims_Scope UC adminRoles sub, s))\<rparr>)"

section \<open>The contract of a decision point\<close>

text \<open>
  \<open>inv\<close> is what the backend keeps true of its state, \<open>proper\<close> the subjects and resources it answers
  reliably about.  An error is an answer too: the contract says nothing then but that the state
  stays good.
\<close>

locale decision_point =
  fixes A :: "'a authorizer" and inv :: "'a \<Rightarrow> bool"
    and proper :: "subject \<Rightarrow> string list \<Rightarrow> bool"
    and permits :: "request \<Rightarrow> bool"
    and sees :: "subject \<Rightarrow> string \<Rightarrow> string \<Rightarrow> scope \<Rightarrow> bool"
  assumes authorize_ok: "inv s \<Longrightarrow>
      proper (rq_subject q) [rq_action q, re_type (rq_resource q), re_id (rq_resource q),
        re_owner (rq_resource q)] \<Longrightarrow>
      az_authorize A t q s = (x, s') \<Longrightarrow>
      inv s' \<and> (\<forall>d. x = Inr d \<longrightarrow> de_allow d = permits q)"
    and scope_ok: "inv s \<Longrightarrow> proper sub [action, ty] \<Longrightarrow> az_scope A t sub action ty s = (y, s') \<Longrightarrow>
      inv s' \<and> (\<forall>sc. y = Inr sc \<longrightarrow> sees sub action ty sc)"
begin

text \<open>What a caller may conclude from a call that allowed a request.\<close>

lemma allowed:
  "inv s \<Longrightarrow> proper (rq_subject q) [rq_action q, re_type (rq_resource q), re_id (rq_resource q),
      re_owner (rq_resource q)] \<Longrightarrow>
   az_authorize A t q s = (Inr d, s') \<Longrightarrow> de_allow d \<Longrightarrow> permits q"
  using authorize_ok by blast

end

section \<open>The claims backend\<close>

text \<open>The rule in the comment of claims.go.\<close>

definition admin_roles :: "string list \<Rightarrow> string list" where
  "admin_roles roles = (if roles = [] then DefaultAdminRoles else roles)"

definition claims_permits :: "unicode \<Rightarrow> string list \<Rightarrow> request \<Rightarrow> bool" where
  "claims_permits UC roles q \<longleftrightarrow>
     (let sub = rq_subject q; owner = re_owner (rq_resource q) in
      hasAnyRole UC sub (admin_roles roles)
      \<or> su_customer sub \<noteq> []
        \<and> (owner = su_customer sub \<or> re_id (rq_resource q) = [] \<and> owner = []))"

definition claims_sees :: "unicode \<Rightarrow> string list \<Rightarrow> subject \<Rightarrow> scope \<Rightarrow> bool" where
  "claims_sees UC roles sub sc \<longleftrightarrow>
     (\<forall>owner. sc_all sc \<or> owner \<in> set (elems (sc_ids sc)) \<longleftrightarrow>
        hasAnyRole UC sub (admin_roles roles) \<or> owner \<noteq> [] \<and> owner = su_customer sub)"

lemma claims_Authorize_permits:
  "\<exists>d. claims_Authorize UC (admin_roles roles) q = Inr d \<and> de_allow d = claims_permits UC roles q"
  by (simp add: claims_Authorize_def claims_permits_def Let_def)

lemma claims_Scope_sees:
  "\<exists>sc. claims_Scope UC (admin_roles roles) sub = Inr sc \<and> claims_sees UC roles sub sc"
  by (cases "hasAnyRole UC sub (admin_roles roles)"; cases "su_customer sub = []")
    (auto simp: claims_Scope_def claims_sees_def)

interpretation claims: decision_point "NewClaimsAuthorizer UC roles" "\<lambda>_. True" "\<lambda>_ _. True"
  "claims_permits UC roles" "\<lambda>sub _ _. claims_sees UC roles sub"
  for UC roles
proof (unfold_locales, goal_cases)
  case (1 s q t x s')
  then show ?case
    using claims_Authorize_permits [of UC roles q]
    by (auto simp: NewClaimsAuthorizer_def Let_def simp flip: admin_roles_def)
next
  case (2 s sub action ty t y s')
  then show ?case
    using claims_Scope_sees [of UC roles sub]
    by (auto simp: NewClaimsAuthorizer_def Let_def simp flip: admin_roles_def)
qed

text \<open>
  C37. The claims backend's list filter agrees with its decisions: a resource with an owner is
  inside the filter for a subject exactly when the backend allows the subject every action on it.
\<close>

theorem claims_scope_agrees:
  assumes "re_id (rq_resource q) \<noteq> []" and "re_owner (rq_resource q) \<noteq> []"
    and "az_scope (NewClaimsAuthorizer UC roles) t (rq_subject q) action ty s = (Inr sc, s')"
    and "az_authorize (NewClaimsAuthorizer UC roles) t' q s = (Inr d, s'')"
  shows "de_allow d \<longleftrightarrow> sc_all sc \<or> re_owner (rq_resource q) \<in> set (elems (sc_ids sc))"
proof -
  have d: "de_allow d \<longleftrightarrow> claims_permits UC roles q"
    using claims.authorize_ok [OF _ _ assms(4)] by simp
  have "claims_sees UC roles (rq_subject q) sc"
    using claims.scope_ok [OF _ _ assms(3)] by simp
  then have "sc_all sc \<or> re_owner (rq_resource q) \<in> set (elems (sc_ids sc)) \<longleftrightarrow>
      hasAnyRole UC (rq_subject q) (admin_roles roles)
      \<or> re_owner (rq_resource q) \<noteq> [] \<and> re_owner (rq_resource q) = su_customer (rq_subject q)"
    unfolding claims_sees_def by (rule spec)
  with d assms(1,2) show ?thesis by (auto simp: claims_permits_def Let_def)
qed

text \<open>
  Tenant isolation of the claims backend: a subject without an admin role is never allowed
  anything on a resource of another tenant, or on an existing resource without an owner.
\<close>

theorem claims_isolation:
  assumes "\<not> hasAnyRole UC (rq_subject q) (admin_roles roles)"
    and "az_authorize (NewClaimsAuthorizer UC roles) t q s = (Inr d, s')" and "de_allow d"
  shows "re_owner (rq_resource q) = su_customer (rq_subject q) \<and> su_customer (rq_subject q) \<noteq> []
    \<or> re_id (rq_resource q) = [] \<and> re_owner (rq_resource q) = []"
  using claims.allowed [OF _ _ assms(2,3)] assms(1) by (auto simp: claims_permits_def Let_def)

definition sample_request :: request where
  "sample_request = \<lparr>rq_subject = \<lparr>su_id = ''u1'', su_customer = ''acme'', su_roles = None, su_claims = None\<rparr>,
     rq_action = ActionUpdate, rq_resource = \<lparr>re_type = ResourceClient, re_id = ''c1'', re_owner = ''acme''\<rparr>\<rparr>"

theorem claims_scope_agrees_witness:
  "\<exists>sc d. az_scope (NewClaimsAuthorizer sample_unicode []) 0 (rq_subject sample_request) ActionRead ResourceClient ()
        = (Inr sc, ())
     \<and> az_authorize (NewClaimsAuthorizer sample_unicode []) 1 sample_request () = (Inr d, ())
     \<and> de_allow d = (sc_all sc \<or> ''acme'' \<in> set (elems (sc_ids sc)))"
proof -
  have roles: "\<not> hasAnyRole sample_unicode (rq_subject sample_request) rs" for rs
    by (simp add: hasAnyRole_def sample_request_def)
  obtain sc where sc: "az_scope (NewClaimsAuthorizer sample_unicode []) 0 (rq_subject sample_request)
      ActionRead ResourceClient () = (Inr sc, ())"
    using roles by (simp add: NewClaimsAuthorizer_def claims_Scope_def Let_def sample_request_def)
  obtain d where d: "az_authorize (NewClaimsAuthorizer sample_unicode []) 1 sample_request () = (Inr d, ())"
    using roles by (simp add: NewClaimsAuthorizer_def claims_Authorize_def Let_def sample_request_def)
  from claims_scope_agrees [OF _ _ sc d] sc d show ?thesis
    by (simp add: sample_request_def)
qed

theorem claims_isolation_witness:
  "\<exists>d. az_authorize (NewClaimsAuthorizer sample_unicode []) 1 sample_request () = (Inr d, ()) \<and> de_allow d
     \<and> re_owner (rq_resource sample_request) = ''acme''"
proof -
  have roles: "\<not> hasAnyRole sample_unicode (rq_subject sample_request) rs" for rs
    by (simp add: hasAnyRole_def sample_request_def)
  obtain d where d: "az_authorize (NewClaimsAuthorizer sample_unicode []) 1 sample_request () = (Inr d, ())"
      "de_allow d"
    using roles by (simp add: NewClaimsAuthorizer_def claims_Authorize_def Let_def sample_request_def)
  from claims_isolation [OF roles d] d show ?thesis by (simp add: sample_request_def)
qed

end
