(* ===== verification/Solutrix.thy ===== *)
theory Solutrix
  imports Authz Json
begin

text \<open>
  internal/authz/solutrix.go and factory.go: the backend that asks a policy decision point over
  HTTP, its decision cache and its service token, and the choice between the two backends.  The
  HTTP client is the record \<open>http\<close> over a network state of its own; a response body is the JSON
  document it decodes to, with the members under the names of the struct tags.
\<close>

section \<open>The HTTP client\<close>

record check_request =
  ck_user :: string
  ck_customer :: "string option"
  ck_action :: string
  ck_resource :: string
  ck_instance :: "string option"      \<comment> \<open>the member \<open>customerid\<close> of \<open>instance\<close>\<close>

record token_request =
  tq_client :: string
  tq_secret :: string
  tq_grant :: string
  tq_scope :: "string option"

record http_response =
  rs_status :: int
  rs_body :: "any option"             \<comment> \<open>\<open>None\<close> when it is not JSON\<close>

text \<open>\<open>ht_url_ok\<close>: whether \<open>http.NewRequestWithContext\<close> accepts the URL.\<close>

record 'n http =
  ht_url_ok :: "string \<Rightarrow> bool"
  ht_check :: "string \<Rightarrow> string \<Rightarrow> check_request \<Rightarrow> 'n \<Rightarrow> http_response res \<times> 'n"
  ht_token :: "string \<Rightarrow> token_request \<Rightarrow> 'n \<Rightarrow> http_response res \<times> 'n"

section \<open>Decoding\<close>

fun dec_bool :: "any \<Rightarrow> bool option" where
  "dec_bool ANil = Some False"
| "dec_bool (ABool b) = Some b"
| "dec_bool _ = None"

fun dec_str :: "any \<Rightarrow> string option" where
  "dec_str ANil = Some []"
| "dec_str (AStr s) = Some s"
| "dec_str _ = None"

fun dec_int :: "any \<Rightarrow> int option" where
  "dec_int ANil = Some 0"
| "dec_int (AFloat q) =
     (if of_int \<lfloor>q\<rfloor> = q \<and> int64 \<lfloor>q\<rfloor> = \<lfloor>q\<rfloor> then Some \<lfloor>q\<rfloor> else None)"
| "dec_int _ = None"

definition dec_strs :: "any \<Rightarrow> slice option" where
  "dec_strs v = (case unmarshal_strings v of (s, ok) \<Rightarrow> if ok then Some s else None)"

fun dec_struct :: "any \<Rightarrow> gomap option" where
  "dec_struct ANil = Some Map.empty"
| "dec_struct (AMap m) = Some m"
| "dec_struct _ = None"

record visibility =
  vi_kind :: string
  vi_ids :: slice
  vi_fields :: slice

record check_response =
  cp_allow :: bool
  cp_reason :: string
  cp_version :: string
  cp_visibility :: visibility

definition dec_visibility :: "any \<Rightarrow> visibility option" where
  "dec_visibility v =
     (case dec_struct v of None \<Rightarrow> None | Some m \<Rightarrow>
       (case (dec_str (mget m ''kind''), dec_strs (mget m ''customer_ids''), dec_strs (mget m ''fields'')) of
          (Some k, Some c, Some f) \<Rightarrow> Some \<lparr>vi_kind = k, vi_ids = c, vi_fields = f\<rparr>
        | _ \<Rightarrow> None))"

definition dec_check :: "any \<Rightarrow> check_response option" where
  "dec_check v =
     (case dec_struct v of None \<Rightarrow> None | Some m \<Rightarrow>
       (case (dec_bool (mget m ''allow''), dec_str (mget m ''reason''),
              dec_str (mget m ''policy_version''), dec_visibility (mget m ''visibility'')) of
          (Some a, Some r, Some p, Some vis) \<Rightarrow>
            Some \<lparr>cp_allow = a, cp_reason = r, cp_version = p, cp_visibility = vis\<rparr>
        | _ \<Rightarrow> None))"

section \<open>The backend\<close>

record solutrix_config =
  so_base :: string
  so_token_url :: string
  so_client :: string
  so_secret :: string
  so_scope :: string
  so_cache_ttl :: int

record cached_decision =
  cd_decision :: decision
  cd_scope :: scope
  cd_expires :: int

record 'n solutrix =
  sx_net :: 'n
  sx_token :: string
  sx_token_expires :: int
  sx_cache :: "string \<rightharpoonup> cached_decision"

definition zero_decision :: decision where
  "zero_decision = \<lparr>de_allow = False, de_reason = []\<rparr>"

definition zero_scope :: scope where
  "zero_scope = \<lparr>sc_all = False, sc_ids = None\<rparr>"

subsection \<open>The service token\<close>

definition tokenSource_get ::
  "'n http \<Rightarrow> solutrix_config \<Rightarrow> int \<Rightarrow> 'n solutrix \<Rightarrow> string res \<times> 'n solutrix" where
  "tokenSource_get H cfg now s =
     (if sx_token s \<noteq> [] \<and> now < sx_token_expires s - 30 * second then (Inr (sx_token s), s)
      else if \<not> ht_url_ok H (so_token_url cfg) then (Inl (ExtErr ''net/url: parse''), s)
      else
        case ht_token H (so_token_url cfg) \<lparr>tq_client = so_client cfg, tq_secret = so_secret cfg,
               tq_grant = ''client_credentials'',
               tq_scope = (if so_scope cfg = [] then None else Some (so_scope cfg))\<rparr> (sx_net s) of
          (Inl e, n) \<Rightarrow> (Inl e, s\<lparr>sx_net := n\<rparr>)
        | (Inr res, n) \<Rightarrow>
            let s1 = s\<lparr>sx_net := n\<rparr> in
            if rs_status res \<noteq> 200 then (Inl (GoErr ''token endpoint returned a status''), s1)
            else case Option.bind (rs_body res) dec_struct of
              None \<Rightarrow> (Inl (ExtErr ''json''), s1)
            | Some m \<Rightarrow>
                (case (dec_str (mget m ''access_token''), dec_str (mget m ''token_type''),
                       dec_int (mget m ''expires_in'')) of
                   (Some access, Some _, Some expiresIn) \<Rightarrow>
                     if access = [] then (Inl (GoErr ''token endpoint returned empty access_token''), s1)
                     else
                       let ttl0 = int64 (expiresIn * second);
                           ttl = (if ttl0 \<le> 0 then 5 * minute else ttl0)
                       in (Inr access, s1\<lparr>sx_token := access, sx_token_expires := now + ttl\<rparr>)
                 | _ \<Rightarrow> (Inl (ExtErr ''json''), s1)))"

subsection \<open>The check\<close>

definition solutrix_check ::
  "'n http \<Rightarrow> solutrix_config \<Rightarrow> int \<Rightarrow> check_request \<Rightarrow> 'n solutrix \<Rightarrow> check_response res \<times> 'n solutrix"
where
  "solutrix_check H cfg now body s =
     (case tokenSource_get H cfg now s of
        (Inl e, s1) \<Rightarrow> (Inl (GoErr ''authz: service token''), s1)
      | (Inr token, s1) \<Rightarrow>
          let endpoint = trim_right (CHR ''/'') (so_base cfg) @ ''/authz/check'' in
          if \<not> ht_url_ok H endpoint then (Inl (ExtErr ''net/url: parse''), s1)
          else
            case ht_check H endpoint token body (sx_net s1) of
              (Inl e, n) \<Rightarrow> (Inl (GoErr ''authz: solutrix request''), s1\<lparr>sx_net := n\<rparr>)
            | (Inr res, n) \<Rightarrow>
                let s2 = s1\<lparr>sx_net := n\<rparr> in
                if rs_status res \<noteq> 200 then (Inl (GoErr ''authz: solutrix returned a status''), s2)
                else case Option.bind (rs_body res) dec_check of
                    None \<Rightarrow> (Inl (GoErr ''authz: decode solutrix response''), s2)
                  | Some out \<Rightarrow> (Inr out, s2))"

definition visibilityToScope :: "visibility \<Rightarrow> scope" where
  "visibilityToScope v =
     (if vi_kind v = ''all'' then \<lparr>sc_all = True, sc_ids = None\<rparr>
      else if vi_kind v = ''customerIds'' then \<lparr>sc_all = False, sc_ids = vi_ids v\<rparr>
      else \<lparr>sc_all = False, sc_ids = None\<rparr>)"

subsection \<open>The decision cache\<close>

definition cacheKey :: "string list \<Rightarrow> string" where
  "cacheKey parts = join [CHR 0x00] parts"

definition ptrOrNil :: "string \<Rightarrow> string option" where
  "ptrOrNil s = (if s = [] then None else Some s)"

definition getCached ::
  "solutrix_config \<Rightarrow> int \<Rightarrow> string \<Rightarrow> 'n solutrix \<Rightarrow> cached_decision option" where
  "getCached cfg now k s =
     (if so_cache_ttl cfg \<le> 0 then None
      else case sx_cache s k of
          None \<Rightarrow> None
        | Some c \<Rightarrow> if cd_expires c < now then None else Some c)"

definition getCachedDecision ::
  "solutrix_config \<Rightarrow> int \<Rightarrow> string \<Rightarrow> 'n solutrix \<Rightarrow> decision option" where
  "getCachedDecision cfg now k s = map_option cd_decision (getCached cfg now k s)"

definition getCachedScope :: "solutrix_config \<Rightarrow> int \<Rightarrow> string \<Rightarrow> 'n solutrix \<Rightarrow> scope option" where
  "getCachedScope cfg now k s = map_option cd_scope (getCached cfg now k s)"

definition putCachedDecision ::
  "solutrix_config \<Rightarrow> int \<Rightarrow> string \<Rightarrow> cached_decision \<Rightarrow> 'n solutrix \<Rightarrow> 'n solutrix" where
  "putCachedDecision cfg now k entry s =
     (if so_cache_ttl cfg \<le> 0 then s
      else s\<lparr>sx_cache := (sx_cache s)(k \<mapsto> entry\<lparr>cd_expires := now + so_cache_ttl cfg\<rparr>)\<rparr>)"

subsection \<open>The interface\<close>

definition decision_key :: "request \<Rightarrow> string" where
  "decision_key q = cacheKey [''dec'', su_id (rq_subject q), su_customer (rq_subject q), rq_action q,
     re_type (rq_resource q), re_id (rq_resource q), re_owner (rq_resource q)]"

definition scope_key :: "subject \<Rightarrow> string \<Rightarrow> string \<Rightarrow> string" where
  "scope_key sub action ty = cacheKey [''scope'', su_id sub, su_customer sub, action, ty, [], []]"

definition decision_body :: "request \<Rightarrow> check_request" where
  "decision_body q = \<lparr>ck_user = su_id (rq_subject q), ck_customer = ptrOrNil (su_customer (rq_subject q)),
     ck_action = rq_action q, ck_resource = re_type (rq_resource q),
     ck_instance = ptrOrNil (re_owner (rq_resource q))\<rparr>"

definition scope_body :: "subject \<Rightarrow> string \<Rightarrow> string \<Rightarrow> check_request" where
  "scope_body sub action ty = \<lparr>ck_user = su_id sub, ck_customer = ptrOrNil (su_customer sub),
     ck_action = action, ck_resource = ty, ck_instance = None\<rparr>"

definition solutrix_Authorize ::
  "'n http \<Rightarrow> solutrix_config \<Rightarrow> int \<Rightarrow> request \<Rightarrow> 'n solutrix \<Rightarrow> decision res \<times> 'n solutrix" where
  "solutrix_Authorize H cfg now q s =
     (case getCachedDecision cfg now (decision_key q) s of
        Some d \<Rightarrow> (Inr d, s)
      | None \<Rightarrow>
          (case solutrix_check H cfg now (decision_body q) s of
             (Inl e, s1) \<Rightarrow> (Inl e, s1)
           | (Inr resp, s1) \<Rightarrow>
               let d = \<lparr>de_allow = cp_allow resp, de_reason = cp_reason resp\<rparr> in
               (Inr d, putCachedDecision cfg now (decision_key q)
                  \<lparr>cd_decision = d, cd_scope = zero_scope, cd_expires = zero_time\<rparr> s1)))"

definition solutrix_Scope ::
  "'n http \<Rightarrow> solutrix_config \<Rightarrow> int \<Rightarrow> subject \<Rightarrow> string \<Rightarrow> string \<Rightarrow> 'n solutrix \<Rightarrow> scope res \<times> 'n solutrix"
where
  "solutrix_Scope H cfg now sub action ty s =
     (case getCachedScope cfg now (scope_key sub action ty) s of
        Some c \<Rightarrow> (Inr c, s)
      | None \<Rightarrow>
          (case solutrix_check H cfg now (scope_body sub action ty) s of
             (Inl e, s1) \<Rightarrow> (Inl e, s1)
           | (Inr resp, s1) \<Rightarrow>
               let sc = visibilityToScope (cp_visibility resp) in
               (Inr sc, putCachedDecision cfg now (scope_key sub action ty)
                  \<lparr>cd_decision = zero_decision, cd_scope = sc, cd_expires = zero_time\<rparr> s1)))"

definition NewSolutrixAuthorizer ::
  "'n http \<Rightarrow> solutrix_config \<Rightarrow> 'n solutrix authorizer res" where
  "NewSolutrixAuthorizer H cfg =
     (if so_base cfg = [] \<or> so_token_url cfg = [] \<or> so_client cfg = [] \<or> so_secret cfg = []
      then Inl (GoErr ''authz: solutrix backend requires BaseURL, TokenURL, ClientID and ClientSecret'')
      else Inr \<lparr>az_authorize = solutrix_Authorize H cfg, az_scope = solutrix_Scope H cfg\<rparr>)"

definition solutrix_start :: "'n \<Rightarrow> 'n solutrix" where
  "solutrix_start n = \<lparr>sx_net = n, sx_token = [], sx_token_expires = zero_time, sx_cache = Map.empty\<rparr>"

section \<open>factory.go\<close>

record authz_config =
  ac_backend :: string
  ac_admin_roles :: "string list"
  ac_solutrix :: solutrix_config

definition authz_New :: "unicode \<Rightarrow> 'n http \<Rightarrow> authz_config \<Rightarrow> 'n solutrix authorizer res" where
  "authz_New UC H cfg =
     (let b = to_lower UC (trim_space (ac_backend cfg)) in
      if b = [] \<or> b = ''claims'' then Inr (NewClaimsAuthorizer UC (ac_admin_roles cfg))
      else if b = ''solutrix'' then NewSolutrixAuthorizer H (ac_solutrix cfg)
      else Inl (GoErr ''authz: unknown backend''))"

section \<open>Fail closed, and never stale\<close>

text \<open>
  The backend fails closed: an answer that allows a request comes either from an unexpired
  cache entry that allows it, or from a policy decision point that, asked about this subject, action,
  resource and owner, replied 200 with a document whose member \<open>allow\<close> is true.
\<close>

theorem solutrix_fail_closed:
  assumes "solutrix_Authorize H cfg t q s = (Inr d, s')" and "de_allow d"
  shows "getCachedDecision cfg t (decision_key q) s = Some d
    \<or> (\<exists>endpoint token n res n' out. ht_check H endpoint token (decision_body q) n = (Inr res, n')
          \<and> rs_status res = 200 \<and> Option.bind (rs_body res) dec_check = Some out \<and> cp_allow out)"
  using assms
  by (auto simp: solutrix_Authorize_def solutrix_check_def Let_def
      split: option.splits prod.splits sum.splits if_splits) (metis sum.sel(2))+

text \<open>Every entry was put at most at time \<open>t\<close>.\<close>

definition cache_until :: "solutrix_config \<Rightarrow> int \<Rightarrow> 'n solutrix \<Rightarrow> bool" where
  "cache_until cfg t s \<longleftrightarrow> (\<forall>k c. sx_cache s k = Some c \<longrightarrow> cd_expires c \<le> t + so_cache_ttl cfg)"

lemma tokenSource_get_cache: "tokenSource_get H cfg t s = (x, s') \<Longrightarrow> sx_cache s' = sx_cache s"
  by (auto simp: tokenSource_get_def Let_def split: if_splits prod.splits sum.splits option.splits)

lemma solutrix_check_cache: "solutrix_check H cfg t body s = (x, s') \<Longrightarrow> sx_cache s' = sx_cache s"
  by (auto simp: solutrix_check_def Let_def dest!: tokenSource_get_cache
      split: if_splits prod.splits sum.splits option.splits)

lemma cache_until_put:
  "cache_until cfg t s \<Longrightarrow> t \<le> t' \<Longrightarrow> cache_until cfg t' (putCachedDecision cfg t' k c s)"
  by (fastforce simp: cache_until_def putCachedDecision_def)

lemma cache_until_check:
  "cache_until cfg t s \<Longrightarrow> t \<le> t' \<Longrightarrow> solutrix_check H cfg t' body s = (x, s') \<Longrightarrow> cache_until cfg t' s'"
  by (fastforce simp: cache_until_def dest: solutrix_check_cache)

lemma cache_until_mono: "cache_until cfg t s \<Longrightarrow> t \<le> t' \<Longrightarrow> cache_until cfg t' s"
  by (fastforce simp: cache_until_def)

lemma cache_until_Authorize:
  "cache_until cfg t s \<Longrightarrow> t \<le> t' \<Longrightarrow> solutrix_Authorize H cfg t' q s = (x, s') \<Longrightarrow> cache_until cfg t' s'"
  by (auto simp: solutrix_Authorize_def Let_def dest: cache_until_check cache_until_mono
      intro!: cache_until_put split: option.splits prod.splits sum.splits)


section \<open>The contract of the decision point\<close>

text \<open>Subjects and resources whose parts the cache key keeps apart.\<close>

definition nul_free :: "subject \<Rightarrow> string list \<Rightarrow> bool" where
  "nul_free sub parts \<longleftrightarrow> (\<forall>p \<in> set (su_id sub # su_customer sub # parts). CHR 0x00 \<notin> set p)"

lemma cacheKey_inj:
  assumes "cacheKey ps = cacheKey qs" "ps \<noteq> []" "qs \<noteq> []"
    and "\<forall>p \<in> set ps \<union> set qs. CHR 0x00 \<notin> set p"
  shows "ps = qs"
proof -
  have "split_on (CHR 0x00) (cacheKey ps) = ps" "split_on (CHR 0x00) (cacheKey qs) = qs"
    unfolding cacheKey_def using assms(2-4) by (simp_all add: split_on_join)
  with assms(1) show ?thesis by metis
qed

definition proper_request :: "request \<Rightarrow> bool" where
  "proper_request q \<longleftrightarrow> nul_free (rq_subject q) [rq_action q, re_type (rq_resource q),
     re_id (rq_resource q), re_owner (rq_resource q)]"

lemma decision_key_body:
  assumes "decision_key q = decision_key q'" "proper_request q" "proper_request q'"
  shows "decision_body q = decision_body q'"
proof -
  have "\<forall>p \<in> {''dec''}. CHR 0x00 \<notin> set p" by simp
  then show ?thesis
    using cacheKey_inj [OF assms(1) [unfolded decision_key_def]] assms(2,3)
    by (auto simp: decision_body_def proper_request_def nul_free_def)
qed

lemma scope_key_body:
  assumes "scope_key sub a ty = scope_key sub' a' ty'" "nul_free sub [a, ty]" "nul_free sub' [a', ty']"
  shows "scope_body sub a ty = scope_body sub' a' ty'"
  using cacheKey_inj [OF assms(1) [unfolded scope_key_def]] assms(2,3)
  by (auto simp: scope_body_def nul_free_def)

lemma decision_scope_key:
  assumes "proper_request q" "nul_free sub [a, ty]"
  shows "decision_key q \<noteq> scope_key sub a ty"
proof
  assume "decision_key q = scope_key sub a ty"
  from cacheKey_inj [OF this [unfolded decision_key_def scope_key_def]] assms show False
    by (auto simp: proper_request_def nul_free_def)
qed

text \<open>
  What docs/authz-contract.md asks of the service: its answers follow a policy, whatever the token
  and the state of the network.
\<close>

locale pdp_service =
  fixes H :: "'n http" and cfg :: solutrix_config and net :: "'n \<Rightarrow> bool"
    and pol :: "check_request \<Rightarrow> bool" and vis :: "check_request \<Rightarrow> scope"
  assumes check_ok: "net n \<Longrightarrow> ht_check H url token body n = (x, n') \<Longrightarrow>
      net n' \<and> (\<forall>res out. x = Inr res \<and> rs_status res = 200 \<and> Option.bind (rs_body res) dec_check = Some out
        \<longrightarrow> cp_allow out = pol body \<and> visibilityToScope (cp_visibility out) = vis body)"
    and token_ok: "net n \<Longrightarrow> ht_token H url tq n = (x, n') \<Longrightarrow> net n'"
begin

definition cache_sound :: "'n solutrix \<Rightarrow> bool" where
  "cache_sound s \<longleftrightarrow> net (sx_net s) \<and> (\<forall>k c. sx_cache s k = Some c \<longrightarrow>
     (\<forall>q. proper_request q \<and> decision_key q = k \<longrightarrow> de_allow (cd_decision c) = pol (decision_body q))
     \<and> (\<forall>sub a ty. nul_free sub [a, ty] \<and> scope_key sub a ty = k \<longrightarrow>
          cd_scope c = vis (scope_body sub a ty)))"

lemma token_net: "net (sx_net s) \<Longrightarrow> tokenSource_get H cfg t s = (x, s') \<Longrightarrow> net (sx_net s')"
  by (auto simp: tokenSource_get_def Let_def dest: token_ok
      split: if_splits prod.splits sum.splits option.splits)

lemma check_answers:
  assumes "net (sx_net s)" "solutrix_check H cfg t body s = (x, s')"
  shows "net (sx_net s') \<and> (\<forall>out. x = Inr out \<longrightarrow>
           cp_allow out = pol body \<and> visibilityToScope (cp_visibility out) = vis body)"
proof -
  obtain tok s1 where t: "tokenSource_get H cfg t s = (tok, s1)" by force
  with assms(1) have n: "net (sx_net s1)" by (rule token_net)
  show ?thesis
    using assms(2) t n
    by (auto simp: solutrix_check_def Let_def dest!: check_ok [OF n]
        split: if_splits prod.splits sum.splits option.splits)
qed

lemma cache_sound_check:
  "cache_sound s \<Longrightarrow> solutrix_check H cfg t body s = (x, s') \<Longrightarrow> cache_sound s'"
  using check_answers solutrix_check_cache by (fastforce simp: cache_sound_def)

lemma cache_sound_net: "cache_sound s \<Longrightarrow> net (sx_net s)"
  by (simp add: cache_sound_def)

lemma cache_sound_put:
  assumes "cache_sound s"
    and "\<forall>q. proper_request q \<and> decision_key q = k \<longrightarrow> de_allow (cd_decision c) = pol (decision_body q)"
    and "\<forall>sub a ty. nul_free sub [a, ty] \<and> scope_key sub a ty = k \<longrightarrow> cd_scope c = vis (scope_body sub a ty)"
  shows "cache_sound (putCachedDecision cfg t k c s)"
  using assms by (simp add: cache_sound_def putCachedDecision_def)

lemma authorize_sound:
  assumes "cache_sound s" "proper_request q" "solutrix_Authorize H cfg t q s = (x, s')"
  shows "cache_sound s' \<and> (\<forall>d. x = Inr d \<longrightarrow> de_allow d = pol (decision_body q))"
proof (cases "getCachedDecision cfg t (decision_key q) s")
  case (Some d)
  then show ?thesis
    using assms by (auto simp: solutrix_Authorize_def cache_sound_def getCachedDecision_def
        getCached_def split: option.splits if_splits)
next
  case None
  obtain y s1 where c: "solutrix_check H cfg t (decision_body q) s = (y, s1)" by force
  note 1 = cache_sound_check [OF assms(1) c] and 2 = check_answers [OF cache_sound_net [OF assms(1)] c]
  have "cache_sound (putCachedDecision cfg t (decision_key q)
      \<lparr>cd_decision = d, cd_scope = zero_scope, cd_expires = zero_time\<rparr> s1)"
    if "de_allow d = pol (decision_body q)" for d
    using 1
  proof (rule cache_sound_put, goal_cases)
    case 1
    show ?case using that decision_key_body [OF _ _ assms(2)] by auto
  next
    case 2
    show ?case using decision_scope_key [OF assms(2)] by metis
  qed
  with 1 2 None c assms show ?thesis
    by (cases y) (auto simp: solutrix_Authorize_def Let_def)
qed

lemma scope_sound:
  assumes "cache_sound s" "nul_free sub [a, ty]" "solutrix_Scope H cfg t sub a ty s = (x, s')"
  shows "cache_sound s' \<and> (\<forall>sc. x = Inr sc \<longrightarrow> sc = vis (scope_body sub a ty))"
proof (cases "getCachedScope cfg t (scope_key sub a ty) s")
  case (Some c)
  then show ?thesis
    using assms by (auto simp: solutrix_Scope_def cache_sound_def getCachedScope_def
        getCached_def split: option.splits if_splits)
next
  case None
  obtain y s1 where c: "solutrix_check H cfg t (scope_body sub a ty) s = (y, s1)" by force
  note 1 = cache_sound_check [OF assms(1) c] and 2 = check_answers [OF cache_sound_net [OF assms(1)] c]
  have "cache_sound (putCachedDecision cfg t (scope_key sub a ty)
      \<lparr>cd_decision = zero_decision, cd_scope = vis (scope_body sub a ty), cd_expires = zero_time\<rparr> s1)"
    using 1
  proof (rule cache_sound_put, goal_cases)
    case 1
    show ?case using decision_scope_key [OF _ assms(2)] by metis
  next
    case 2
    show ?case using scope_key_body [OF _ _ assms(2)] by auto
  qed
  with 1 2 None c assms show ?thesis
    by (cases y) (auto simp: solutrix_Scope_def Let_def)
qed

end

sublocale pdp_service \<subseteq> decision_point
  "\<lparr>az_authorize = solutrix_Authorize H cfg, az_scope = solutrix_Scope H cfg\<rparr>"
  cache_sound nul_free "\<lambda>q. pol (decision_body q)" "\<lambda>sub a ty sc. sc = vis (scope_body sub a ty)"
proof (unfold_locales, goal_cases)
  case (1 s q t x s')
  with authorize_sound [of s q t x s'] show ?case by (simp add: proper_request_def)
next
  case (2 s sub action ty t y s')
  with scope_sound [of s sub action ty t y s'] show ?case by simp
qed

text \<open>
  A service that meets the contract: it allows what stays inside the tenant, and answers every
  token request.
\<close>

definition tenant_pol :: "check_request \<Rightarrow> bool" where
  "tenant_pol b \<longleftrightarrow> ck_customer b \<noteq> None \<and> (ck_instance b = None \<or> ck_instance b = ck_customer b)"

definition tenant_vis :: "check_request \<Rightarrow> slice" where
  "tenant_vis b = Some (case ck_customer b of None \<Rightarrow> [] | Some c \<Rightarrow> [c])"

definition tenant_pdp :: "unit http" where
  "tenant_pdp = \<lparr>ht_url_ok = (\<lambda>_. True),
     ht_check = (\<lambda>_ _ b n. (Inr \<lparr>rs_status = 200, rs_body = Some (AMap (Map.empty(
         ''allow'' \<mapsto> ABool (tenant_pol b), ''visibility'' \<mapsto> AMap (Map.empty(
           ''kind'' \<mapsto> AStr ''customerIds'',
           ''customer_ids'' \<mapsto> AArr (map AStr (elems (tenant_vis b))))))))\<rparr>, n)),
     ht_token = (\<lambda>_ _ n. (Inr \<lparr>rs_status = 200, rs_body = Some (AMap (Map.empty(
         ''access_token'' \<mapsto> AStr ''t'', ''expires_in'' \<mapsto> AFloat 3600)))\<rparr>, n))\<rparr>"

lemma str_AStr [simp]: "str \<circ> AStr = (\<lambda>x. x)"
  by (rule ext) simp

interpretation tenant: pdp_service tenant_pdp cfg "\<lambda>_. True" tenant_pol
  "\<lambda>b. \<lparr>sc_all = False, sc_ids = tenant_vis b\<rparr>"
  for cfg
  by unfold_locales
    (auto simp: tenant_pdp_def dec_check_def dec_visibility_def dec_strs_def unmarshal_strings_def
      visibilityToScope_def tenant_vis_def list_all_iff)

section \<open>Sequences of calls\<close>

datatype pdp_call = CallAuthorize request | CallScope subject string string

fun proper_call :: "pdp_call \<Rightarrow> bool" where
  "proper_call (CallAuthorize q) = proper_request q"
| "proper_call (CallScope sub a ty) = nul_free sub [a, ty]"

fun run_calls :: "'n http \<Rightarrow> solutrix_config \<Rightarrow> (int \<times> pdp_call) list \<Rightarrow> 'n solutrix \<Rightarrow> 'n solutrix" where
  "run_calls H cfg [] s = s"
| "run_calls H cfg ((t, CallAuthorize q) # cs) s = run_calls H cfg cs (snd (solutrix_Authorize H cfg t q s))"
| "run_calls H cfg ((t, CallScope sub a ty) # cs) s =
     run_calls H cfg cs (snd (solutrix_Scope H cfg t sub a ty s))"

context pdp_service
begin

lemma start_sound: "net n \<Longrightarrow> cache_sound (solutrix_start n)"
  by (simp add: cache_sound_def solutrix_start_def)

lemma run_sound:
  "cache_sound s \<Longrightarrow> \<forall>c \<in> set calls. proper_call (snd c) \<Longrightarrow> cache_sound (run_calls H cfg calls s)"
proof (induction calls arbitrary: s)
  case (Cons c cs)
  obtain t k where c: "c = (t, k)" by force
  show ?case
  proof (cases k)
    case (CallAuthorize q)
    then show ?thesis
      using Cons authorize_sound [of s q t "fst (solutrix_Authorize H cfg t q s)"]
      by (simp add: c)
  next
    case (CallScope sub a ty)
    then show ?thesis
      using Cons scope_sound [of s sub a ty t "fst (solutrix_Scope H cfg t sub a ty s)"]
      by (simp add: c)
  qed
qed simp

end

text \<open>
  C29. Against a service whose answers follow a policy, the backend's decisions follow it too: from
  a fresh backend, after any calls about subjects and resources without NUL bytes (which the cache
  key could confuse), an answered request is allowed exactly when the policy allows its subject,
  action, type and owner.
\<close>

theorem solutrix_follows_policy:
  assumes "pdp_service H net pol vis" and "net n"
    and "\<forall>c \<in> set calls. proper_call (snd c)" and "proper_request q"
    and "solutrix_Authorize H cfg t q (run_calls H cfg calls (solutrix_start n)) = (Inr d, s')"
  shows "de_allow d \<longleftrightarrow> pol (decision_body q)"
  using pdp_service.authorize_sound [OF assms(1)
      pdp_service.run_sound [OF assms(1) pdp_service.start_sound [OF assms(1,2)] assms(3)] assms(4,5)]
  by simp

definition sample_solutrix :: solutrix_config where
  "sample_solutrix = \<lparr>so_base = ''https://pdp'', so_token_url = ''https://idp/token'', so_client = ''muninid'',
     so_secret = ''s'', so_scope = [], so_cache_ttl = minute\<rparr>"

lemma tenant_answer:
  "\<exists>d s'. solutrix_Authorize tenant_pdp sample_solutrix 0 sample_request (solutrix_start ()) = (Inr d, s') \<and> de_allow d"
  by (simp add: solutrix_Authorize_def getCachedDecision_def getCached_def solutrix_start_def
      solutrix_check_def tokenSource_get_def tenant_pdp_def dec_check_def dec_visibility_def
      dec_strs_def unmarshal_strings_def int64_def Let_def decision_body_def ptrOrNil_def
      sample_request_def tenant_pol_def tenant_vis_def time_units)

theorem solutrix_fail_closed_witness:
  "\<exists>d s'. solutrix_Authorize tenant_pdp sample_solutrix 0 sample_request (solutrix_start ()) = (Inr d, s')
     \<and> de_allow d \<and> (getCachedDecision sample_solutrix 0 (decision_key sample_request) (solutrix_start ()) = Some d
        \<or> (\<exists>endpoint token n res n' out. ht_check tenant_pdp endpoint token (decision_body sample_request) n = (Inr res, n')
          \<and> rs_status res = 200 \<and> Option.bind (rs_body res) dec_check = Some out \<and> cp_allow out))"
proof -
  obtain d s' where a: "solutrix_Authorize tenant_pdp sample_solutrix 0 sample_request (solutrix_start ()) = (Inr d, s')"
      "de_allow d" using tenant_answer by blast
  from solutrix_fail_closed [OF this] a show ?thesis by (intro exI conjI) assumption+
qed


theorem solutrix_follows_policy_witness:
  "\<exists>d s'. solutrix_Authorize tenant_pdp sample_solutrix 0 sample_request (solutrix_start ()) = (Inr d, s')
     \<and> de_allow d = tenant_pol (decision_body sample_request)"
proof -
  obtain d s' where a: "solutrix_Authorize tenant_pdp sample_solutrix 0 sample_request (solutrix_start ()) = (Inr d, s')"
    using tenant_answer by blast
  have "proper_request sample_request"
    by (simp add: proper_request_def nul_free_def sample_request_def ActionUpdate_def ResourceClient_def)
  with solutrix_follows_policy [OF tenant.pdp_service_axioms, where calls = "[]" and n = "()"] a
  show ?thesis by fastforce
qed

end
