(* ===== verification/Backend.thy ===== *)
theory Backend
  imports Solutrix
begin

text \<open>
  The identity ports of internal/authn/ports.go and their WildDuck implementations,
  internal/backend/wildduck/adapter.go and internal/mail/wildduckmailer/mailer.go.  The WildDuck SDK
  is the record \<open>wildduck\<close> over the state of the service.  What the provider relies on is the locale
  \<open>identity_backend\<close>, interpreted on the adapter.
\<close>

section \<open>ports.go\<close>

record account =
  au_id :: string
  au_email :: string
  au_username :: string
  au_name :: string
  au_activated :: bool
  au_suspended :: bool
  au_disabled :: bool

definition Usable :: "account \<Rightarrow> bool" where
  "Usable a \<longleftrightarrow> au_activated a \<and> \<not> au_suspended a \<and> \<not> au_disabled a"

record destination =
  ds_kind :: string
  ds_address :: string
  ds_hash :: string

record 'w backend =
  bk_FindByLogin :: "string \<Rightarrow> 'w \<Rightarrow> (account \<times> bool) res \<times> 'w"
  bk_RecoveryDestinations :: "account \<Rightarrow> 'w \<Rightarrow> destination list res \<times> 'w"
  bk_SetPassword :: "string \<Rightarrow> string \<Rightarrow> 'w \<Rightarrow> unit res \<times> 'w"

record 'w mailer =
  ml_SendPasswordReset :: "string \<Rightarrow> string \<Rightarrow> string \<Rightarrow> 'w \<Rightarrow> unit res \<times> 'w"

section \<open>The WildDuck SDK\<close>

text \<open>Users.Resolve, Users.Get, Users.Update, Authentication.Authenticate and Submission.Submit.\<close>

record 'w wildduck =
  wd_resolve :: "string \<Rightarrow> 'w \<Rightarrow> gomap res \<times> 'w"
  wd_get :: "string \<Rightarrow> 'w \<Rightarrow> gomap res \<times> 'w"
  wd_update :: "string \<Rightarrow> gomap \<Rightarrow> 'w \<Rightarrow> gomap res \<times> 'w"
  wd_authenticate :: "string \<Rightarrow> string \<Rightarrow> gomap \<Rightarrow> 'w \<Rightarrow> gomap res \<times> 'w"
  wd_submit :: "string \<Rightarrow> gomap \<Rightarrow> 'w \<Rightarrow> gomap res \<times> 'w"

text \<open>The comparison \<open>m["success"] != true\<close>.\<close>

definition success :: "gomap \<Rightarrow> bool" where
  "success m \<longleftrightarrow> mget m ''success'' = ABool True"

section \<open>adapter.go\<close>

definition zero_account :: account where
  "zero_account = \<lparr>au_id = [], au_email = [], au_username = [], au_name = [], au_activated = False,
     au_suspended = False, au_disabled = False\<rparr>"

definition toAccount :: "gomap \<Rightarrow> account" where
  "toAccount u = \<lparr>au_id = str (mget u ''id''), au_email = str (mget u ''address''),
     au_username = str (mget u ''username''), au_name = str (mget u ''name''),
     au_activated = boolv (mget u ''activated''), au_suspended = boolv (mget u ''suspended''),
     au_disabled = boolv (mget u ''disabled'')\<rparr>"

definition wd_FindByLogin :: "'w wildduck \<Rightarrow> string \<Rightarrow> 'w \<Rightarrow> (account \<times> bool) res \<times> 'w" where
  "wd_FindByLogin W login w =
     (case wd_resolve W login w of
        (Inl _, w1) \<Rightarrow> (Inr (zero_account, False), w1)
      | (Inr r, w1) \<Rightarrow>
          let i = str (mget r ''id'') in
          if i = [] then (Inr (zero_account, False), w1)
          else (case wd_get W i w1 of
                  (Inl _, w2) \<Rightarrow> (Inr (zero_account, False), w2)
                | (Inr user, w2) \<Rightarrow>
                    if \<not> success user then (Inr (zero_account, False), w2)
                    else (Inr (toAccount user, True), w2)))"

fun amap :: "any \<Rightarrow> gomap" where
  "amap (AMap m) = m"
| "amap _ = Map.empty"

text \<open>A nil map has no entries, so the nil checks of the adapter select the same destinations.\<close>

definition wd_destinations :: "unicode \<Rightarrow> gomap \<Rightarrow> destination list" where
  "wd_destinations UC user =
     (let h = to_lower UC (trim_space (str (mget (amap (mget user ''internalData'')) ''contact_email_hash'')));
          e = to_lower UC (trim_space (str (mget (amap (mget (amap (mget user ''metaData'')) ''profile''))
                ''recoveryEmail'')))
      in (if h \<noteq> [] then [\<lparr>ds_kind = ''email'', ds_address = [], ds_hash = h\<rparr>] else [])
       @ (if e \<noteq> [] then [\<lparr>ds_kind = ''email'', ds_address = e, ds_hash = []\<rparr>] else []))"

definition wd_RecoveryDestinations ::
  "unicode \<Rightarrow> 'w wildduck \<Rightarrow> account \<Rightarrow> 'w \<Rightarrow> destination list res \<times> 'w" where
  "wd_RecoveryDestinations UC W acc w =
     (case wd_get W (au_id acc) w of
        (Inl _, w1) \<Rightarrow> (Inl (GoErr ''wildduck user not found''), w1)
      | (Inr user, w1) \<Rightarrow>
          if \<not> success user then (Inl (GoErr ''wildduck user not found''), w1)
          else (Inr (wd_destinations UC user), w1))"

definition wd_SetPassword :: "'w wildduck \<Rightarrow> string \<Rightarrow> string \<Rightarrow> 'w \<Rightarrow> unit res \<times> 'w" where
  "wd_SetPassword W i newPassword w =
     (case wd_update W i [''password'' \<mapsto> AStr newPassword] w of
        (Inl e, w1) \<Rightarrow> (Inl e, w1)
      | (Inr r, w1) \<Rightarrow>
          (if \<not> success r then Inl (GoErr ''wildduck password update failed'') else Inr (), w1))"

definition NewBackend :: "unicode \<Rightarrow> 'w wildduck \<Rightarrow> 'w backend" where
  "NewBackend UC W = \<lparr>bk_FindByLogin = wd_FindByLogin W,
     bk_RecoveryDestinations = wd_RecoveryDestinations UC W, bk_SetPassword = wd_SetPassword W\<rparr>"

section \<open>mailer.go\<close>

fun html_char :: "char \<Rightarrow> string" where
  "html_char c =
     (if c = CHR ''&'' then ''&amp;'' else if c = CHR 0x27 then ''&#39;''
      else if c = CHR ''<'' then ''&lt;'' else if c = CHR ''>'' then ''&gt;''
      else if c = CHR 0x22 then ''&#34;'' else [c])"

definition EscapeString :: "string \<Rightarrow> string" where
  "EscapeString s = concat (map html_char s)"

definition dash :: string where "dash = [CHR 0xE2, CHR 0x80, CHR 0x94]"
definition nl :: string where "nl = [CHR 0x0A]"
definition dq :: string where "dq = [CHR 0x22]"

definition reset_text :: "string \<Rightarrow> string" where
  "reset_text link = ''Hi,'' @ nl @ nl
     @ ''We received a request to reset the password for your account.'' @ nl @ nl
     @ ''Open the link below to choose a new password. It expires shortly and can only be used once:''
     @ nl @ nl @ link @ nl @ nl
     @ ''If you didn'' @ [CHR 0x27] @ ''t request this, you can safely ignore this email '' @ dash
     @ '' your password stays unchanged.'' @ nl"

definition reset_html :: "string \<Rightarrow> string" where
  "reset_html link = (let b = EscapeString link in
     ''<p>Hi,</p><p>We received a request to reset the password for your account.</p>''
     @ ''<p>Choose a new password using the button below. The link expires shortly and can only be used once.</p>''
     @ ''<p><a href='' @ dq @ b @ dq @ '' style='' @ dq
     @ ''display:inline-block;padding:12px 20px;background:#1d4ed8;color:#fff;''
     @ ''text-decoration:none;border-radius:8px;font-weight:600'' @ dq @ ''>Reset password</a></p>''
     @ ''<p style='' @ dq @ ''color:#64748b;font-size:13px'' @ dq
     @ ''>Or paste this link into your browser:<br>'' @ b @ ''</p>''
     @ ''<p style='' @ dq @ ''color:#64748b;font-size:13px'' @ dq
     @ ''>If you didn'' @ [CHR 0x27] @ ''t request this, you can ignore this email '' @ dash
     @ '' '' @ ''your password stays unchanged.</p>'')"

record mail_config =
  mc_sender :: string
  mc_address :: string
  mc_name :: string

definition wd_SendPasswordReset ::
  "'w wildduck \<Rightarrow> mail_config \<Rightarrow> string \<Rightarrow> string \<Rightarrow> string \<Rightarrow> 'w \<Rightarrow> unit res \<times> 'w" where
  "wd_SendPasswordReset W m to_addr displayName link w =
     (if mc_sender m = [] then (Inl (GoErr ''reset sender not configured (RESET_SENDER_USER_ID)''), w)
      else
        let name = (if displayName = [] then to_addr else displayName);
            payload = [''from'' \<mapsto> AMap [''name'' \<mapsto> AStr (mc_name m), ''address'' \<mapsto> AStr (mc_address m)],
              ''to'' \<mapsto> AArr [AMap [''name'' \<mapsto> AStr name, ''address'' \<mapsto> AStr to_addr]],
              ''subject'' \<mapsto> AStr ''Reset your password'', ''text'' \<mapsto> AStr (reset_text link),
              ''html'' \<mapsto> AStr (reset_html link)]
        in case wd_submit W (mc_sender m) payload w of
             (Inl e, w1) \<Rightarrow> (Inl e, w1)
           | (Inr r, w1) \<Rightarrow> (if \<not> success r then Inl (GoErr ''wildduck submission failed'') else Inr (), w1))"

definition NewMailer :: "'w wildduck \<Rightarrow> mail_config \<Rightarrow> 'w mailer" where
  "NewMailer W m = \<lparr>ml_SendPasswordReset = wd_SendPasswordReset W m\<rparr>"

section \<open>The contract of a backend\<close>

text \<open>
  ports.go: exactly one of address and hash is meaningful, and an account that is not found is
  reported without an error and is no account that could be used.
\<close>

locale identity_backend =
  fixes B :: "'w backend"
  assumes one_channel: "bk_RecoveryDestinations B acc w = (Inr ds, w') \<Longrightarrow> d \<in> set ds \<Longrightarrow>
      (ds_address d = []) \<noteq> (ds_hash d = [])"
    and not_found: "bk_FindByLogin B login w = (Inr (acc, False), w') \<Longrightarrow> \<not> Usable acc"

interpretation wd: identity_backend "NewBackend UC W" for UC W
proof (unfold_locales, goal_cases)
  case (1 acc w ds w' d)
  then show ?case
    by (auto simp: NewBackend_def wd_RecoveryDestinations_def wd_destinations_def Let_def
        split: prod.splits sum.splits if_splits)
next
  case (2 login w acc w')
  then show ?case
    by (auto simp: NewBackend_def wd_FindByLogin_def Usable_def zero_account_def Let_def
        split: prod.splits sum.splits if_splits)
qed

text \<open>Text put into the mail's HTML cannot open a tag or leave an attribute.\<close>

lemma EscapeString_safe: "c \<in> set (EscapeString s) \<Longrightarrow> c \<notin> {CHR ''<'', CHR ''>'', CHR 0x22, CHR 0x27}"
  by (induction s) (auto simp: EscapeString_def split: if_splits)

end
