(* ===== verification/Fosite_Session.thy ===== *)
theory Fosite_Session
  imports Scopes Solutrix
begin

text \<open>
  internal/fositestore/session.go and hasher.go: the session that fosite carries through a token
  flow, and the comparison of client secrets.  Fosite's own structs inside a session are records of
  the fields the repository sets, with a field \<open>rest\<close> for the others.
\<close>

section \<open>The session\<close>

datatype token_type = AccessToken | RefreshToken | AuthorizeCode | IDToken

record jwt_claims =
  jc_subject :: string
  jc_extra :: gomap
  jc_rest :: any

record id_claims =
  ic_subject :: string
  ic_nonce :: string
  ic_requested :: int
  ic_auth_time :: int
  ic_extra :: gomap
  ic_rest :: any

record munin_claims =
  mn_email :: string
  mn_verified :: bool
  mn_customer :: string
  mn_roles :: slice
  mn_groups :: slice
  mn_raw :: gomap

text \<open>The pointers may be nil; a header is the map of its extra entries.\<close>

record fsession =
  fs_jwt_claims :: "jwt_claims option"
  fs_jwt_header :: "gomap option"
  fs_id_claims :: "id_claims option"
  fs_id_header :: "gomap option"
  fs_expires :: "token_type \<rightharpoonup> int"
  fs_username :: string
  fs_subject :: string
  fs_munin :: munin_claims
  fs_extra :: gomap

definition zero_jwt_claims :: jwt_claims where
  "zero_jwt_claims = \<lparr>jc_subject = [], jc_extra = Map.empty, jc_rest = ANil\<rparr>"

definition zero_id_claims :: id_claims where
  "zero_id_claims = \<lparr>ic_subject = [], ic_nonce = [], ic_requested = zero_time, ic_auth_time = zero_time,
     ic_extra = Map.empty, ic_rest = ANil\<rparr>"

definition zero_munin :: munin_claims where
  "zero_munin = \<lparr>mn_email = [], mn_verified = False, mn_customer = [], mn_roles = None, mn_groups = None,
     mn_raw = Map.empty\<rparr>"

definition zero_session :: fsession where
  "zero_session = \<lparr>fs_jwt_claims = None, fs_jwt_header = None, fs_id_claims = None, fs_id_header = None,
     fs_expires = Map.empty, fs_username = [], fs_subject = [], fs_munin = zero_munin, fs_extra = Map.empty\<rparr>"

definition NewSession :: "int \<Rightarrow> string \<Rightarrow> munin_claims \<Rightarrow> fsession" where
  "NewSession now subject claims = \<lparr>fs_jwt_claims = Some zero_jwt_claims, fs_jwt_header = Some Map.empty,
     fs_id_claims = Some (zero_id_claims\<lparr>ic_subject := subject, ic_requested := now, ic_auth_time := now\<rparr>),
     fs_id_header = Some Map.empty, fs_expires = Map.empty, fs_username = mn_email claims,
     fs_subject = subject, fs_munin = claims, fs_extra = Map.empty\<rparr>"

text \<open>The getters fill in what is missing, in the session itself.\<close>

definition GetJWTClaims :: "fsession \<Rightarrow> jwt_claims \<times> fsession" where
  "GetJWTClaims s = (case fs_jwt_claims s of
       None \<Rightarrow> (zero_jwt_claims, s\<lparr>fs_jwt_claims := Some zero_jwt_claims\<rparr>) | Some c \<Rightarrow> (c, s))"

definition GetJWTHeader :: "fsession \<Rightarrow> gomap \<times> fsession" where
  "GetJWTHeader s = (case fs_jwt_header s of
       None \<Rightarrow> (Map.empty, s\<lparr>fs_jwt_header := Some Map.empty\<rparr>) | Some h \<Rightarrow> (h, s))"

definition IDTokenClaims :: "int \<Rightarrow> fsession \<Rightarrow> id_claims \<times> fsession" where
  "IDTokenClaims now s =
     (let c0 = (case fs_id_claims s of
            None \<Rightarrow> zero_id_claims\<lparr>ic_requested := now, ic_auth_time := now\<rparr> | Some c \<Rightarrow> c);
          c1 = (if ic_subject c0 = [] then c0\<lparr>ic_subject := fs_subject s\<rparr> else c0);
          c2 = (if ic_auth_time c1 = zero_time then c1\<lparr>ic_auth_time := ic_requested c1\<rparr> else c1)
      in (c2, s\<lparr>fs_id_claims := Some c2\<rparr>))"

definition IDTokenHeaders :: "fsession \<Rightarrow> gomap \<times> fsession" where
  "IDTokenHeaders s = (case fs_id_header s of
       None \<Rightarrow> (Map.empty, s\<lparr>fs_id_header := Some Map.empty\<rparr>) | Some h \<Rightarrow> (h, s))"

definition SetExpiresAt :: "token_type \<Rightarrow> int \<Rightarrow> fsession \<Rightarrow> fsession" where
  "SetExpiresAt key e s = s\<lparr>fs_expires := (fs_expires s)(key \<mapsto> e)\<rparr>"

text \<open>The nil session is \<open>None\<close>; a missing entry is the zero time.\<close>

definition GetExpiresAt :: "token_type \<Rightarrow> fsession option \<Rightarrow> int" where
  "GetExpiresAt key s = (case s of None \<Rightarrow> zero_time
     | Some v \<Rightarrow> (case fs_expires v key of None \<Rightarrow> zero_time | Some e \<Rightarrow> e))"

definition GetUsername :: "fsession option \<Rightarrow> string" where
  "GetUsername s = (case s of None \<Rightarrow> [] | Some v \<Rightarrow> fs_username v)"

definition GetSubject :: "fsession option \<Rightarrow> string" where
  "GetSubject s = (case s of None \<Rightarrow> [] | Some v \<Rightarrow> fs_subject v)"

text \<open>\<open>deepcopy.Copy\<close> is the identity on values.\<close>

definition Clone :: "fsession option \<Rightarrow> fsession option" where
  "Clone s = s"

text \<open>The typed claims overwrite the extra ones; a raw claim is added where none is.\<close>

definition extra_claims :: "fsession \<Rightarrow> gomap" where
  "extra_claims s =
     (let m = fs_munin s;
          e1 = (if mn_email m \<noteq> [] then (fs_extra s)(''email'' \<mapsto> AStr (mn_email m)) else fs_extra s);
          e2 = (if mn_verified m then e1(''email_verified'' \<mapsto> ABool True) else e1);
          e3 = (if mn_customer m \<noteq> [] then e2(''customer_id'' \<mapsto> AStr (mn_customer m)) else e2);
          e4 = (if elems (mn_roles m) \<noteq> [] then e3(''roles'' \<mapsto> AStrs (Some (elems (mn_roles m)))) else e3);
          e5 = (if elems (mn_groups m) \<noteq> [] then e4(''groups'' \<mapsto> AStrs (Some (elems (mn_groups m)))) else e4)
      in mn_raw m ++ e5)"

definition GetExtraClaims :: "fsession option \<Rightarrow> gomap \<times> fsession option" where
  "GetExtraClaims s = (case s of None \<Rightarrow> (Map.empty, None)
     | Some v \<Rightarrow> (extra_claims v, Some (v\<lparr>fs_extra := extra_claims v\<rparr>)))"

section \<open>The hasher\<close>

text \<open>Without a secret store (\<open>None\<close>) secrets are compared as they are.\<close>

definition hasher_Compare :: "crypto \<Rightarrow> string option \<Rightarrow> string \<Rightarrow> string \<Rightarrow> unit go" where
  "hasher_Compare C key hash data =
     (case (case key of None \<Rightarrow> Ok hash | Some k \<Rightarrow> secret_Decrypt C k hash) of
        Panic m \<Rightarrow> Panic m
      | Err e \<Rightarrow> Err e
      | Ok expected \<Rightarrow> if expected = data then Ok () else Err FositeInvalidClient)"

definition hasher_Hash :: "crypto \<Rightarrow> randsrc \<Rightarrow> string option \<Rightarrow> string \<Rightarrow> nat \<Rightarrow> string res \<times> nat" where
  "hasher_Hash C RN key data n =
     (case key of None \<Rightarrow> (Inr data, n) | Some k \<Rightarrow> secret_Encrypt C RN k data n)"

section \<open>What they guarantee\<close>

text \<open>A second call of the getters changes nothing.\<close>

lemma getters_idem:
  "GetJWTClaims (snd (GetJWTClaims s)) = GetJWTClaims s"
  "GetJWTHeader (snd (GetJWTHeader s)) = GetJWTHeader s"
  "IDTokenHeaders (snd (IDTokenHeaders s)) = IDTokenHeaders s"
  by (simp_all add: GetJWTClaims_def GetJWTHeader_def IDTokenHeaders_def split: option.splits)

text \<open>What the extra claims hold for each typed claim that is set.\<close>

lemma extra_claims_typed:
  "mn_email (fs_munin s) \<noteq> [] \<Longrightarrow> extra_claims s ''email'' = Some (AStr (mn_email (fs_munin s)))"
  "mn_customer (fs_munin s) \<noteq> [] \<Longrightarrow> extra_claims s ''customer_id'' = Some (AStr (mn_customer (fs_munin s)))"
  "elems (mn_roles (fs_munin s)) \<noteq> [] \<Longrightarrow> extra_claims s ''roles'' = Some (AStrs (Some (elems (mn_roles (fs_munin s)))))"
  by (simp_all add: extra_claims_def Let_def map_add_def)

lemma extra_claims_other:
  "k \<notin> {''email'', ''email_verified'', ''customer_id'', ''roles'', ''groups''} \<Longrightarrow>
     extra_claims s k = (case fs_extra s k of Some v \<Rightarrow> Some v | None \<Rightarrow> mn_raw (fs_munin s) k)"
  by (simp add: extra_claims_def Let_def map_add_def split: option.splits)

text \<open>
  Secrets hashed for fosite are compared as secrets: a hash made of a secret that is not in the
  \<open>enc:v1\<close> format accepts that secret and rejects every other with \<open>fosite.ErrInvalidClient\<close>.
\<close>

theorem hasher_accepts_only:
  assumes "aead_ok C" and "rand_ok R" and "\<not> IsEncrypted secret"
    and "hasher_Hash C R (Some (secret_New C raw)) secret n = (Inr h, n')"
  shows "hasher_Compare C (Some (secret_New C raw)) h data
    = (if data = secret then Ok () else Err FositeInvalidClient)"
proof -
  have "secret_Decrypt C (secret_New C raw) h = Ok secret"
    using Encrypt_Decrypt [OF assms(1-3), of raw n] assms(4) by (auto simp: hasher_Hash_def)
  then show ?thesis by (auto simp: hasher_Compare_def)
qed

theorem hasher_accepts_only_witness:
  "\<exists>h. hasher_Hash sample_crypto sample_rand (Some (secret_New sample_crypto ''k'')) ''s3cret'' 0 = (Inr h, 1)
     \<and> hasher_Compare sample_crypto (Some (secret_New sample_crypto ''k'')) h ''s3cret'' = Ok ()
     \<and> hasher_Compare sample_crypto (Some (secret_New sample_crypto ''k'')) h ''guess'' = Err FositeInvalidClient"
proof -
  have ne: "\<not> IsEncrypted ''s3cret''" by (simp add: IsEncrypted_def has_prefix_def enc_prefix_def)
  obtain h where h: "hasher_Hash sample_crypto sample_rand (Some (secret_New sample_crypto ''k'')) ''s3cret'' 0 = (Inr h, 1)"
    using ne secret_New_key_ok [OF sample_crypto_ok, of "''k''"]
    by (simp add: hasher_Hash_def secret_Encrypt_def Let_def)
  from hasher_accepts_only [OF sample_crypto_ok sample_rand_ok ne h] h show ?thesis by simp
qed

end
