(* ===== verification/Fosite_Store.thy ===== *)
theory Fosite_Store
  imports Fosite_Session Store_Kv
begin

text \<open>
  internal/fositestore/store.go: the storage that fosite calls.  Token sessions are JSON documents
  in valkey under hashed keys, with a set of keys per request id for revocation; clients are read
  from PostgreSQL.  The JSON of a \<open>Session\<close>, most of which is that of fosite's structs, is the record
  \<open>session_json\<close>.
\<close>

section \<open>Requests\<close>

record fclient =
  fc_id :: string
  fc_secret :: string
  fc_redirects :: slice
  fc_grants :: slice
  fc_responses :: slice
  fc_scopes :: slice
  fc_audience :: slice
  fc_public :: bool

text \<open>A \<open>fosite.Session\<close>: nil, a \<open>*Session\<close> of the repository, or another type.\<close>

datatype any_session = NilSession | Munin fsession | OtherSession

record frequest =
  fr_id :: string
  fr_requested_at :: int
  fr_client :: fclient
  fr_scopes :: slice
  fr_granted :: slice
  fr_form :: uvalues
  fr_session :: any_session
  fr_audience :: slice
  fr_granted_audience :: slice

record persisted =
  ps_id :: string
  ps_requested_at :: int
  ps_client_id :: string
  ps_scopes :: slice
  ps_granted :: slice
  ps_audience :: slice
  ps_granted_audience :: slice
  ps_form :: uvalues
  ps_session :: "fsession option"
  ps_access :: string
  ps_invalidated :: bool
  ps_expires :: "int option"

record session_json =
  sj_enc :: "fsession \<Rightarrow> any"
  sj_dec :: "any \<Rightarrow> fsession res"

record 'r fstore =
  ft_redis :: "'r redis"
  ft_pg :: pg
  ft_crypto :: crypto
  ft_json :: session_json
  ft_ttl :: int

section \<open>Names and keys\<close>

definition nameAuthorizeCode :: string where "nameAuthorizeCode = ''fosite_authorize_code''"
definition nameAccessToken :: string where "nameAccessToken = ''fosite_access_token''"
definition nameRefreshToken :: string where "nameRefreshToken = ''fosite_refresh_token''"
definition namePKCE :: string where "namePKCE = ''fosite_pkce''"
definition nameOpenID :: string where "nameOpenID = ''fosite_openid''"

definition nul :: string where "nul = [CHR 0x00]"

definition storeID :: "crypto \<Rightarrow> string \<Rightarrow> string \<Rightarrow> string" where
  "storeID C name key = ''fs:'' @ b64 (sha256 C (name @ nul @ key))"

definition indexKey :: "crypto \<Rightarrow> string \<Rightarrow> string \<Rightarrow> string" where
  "indexKey C name requestID = ''fsidx:'' @ b64 (sha256 C (''idx'' @ nul @ name @ nul @ requestID))"

definition jtiKey :: "crypto \<Rightarrow> string \<Rightarrow> string" where
  "jtiKey C jti = ''fsjti:'' @ b64 (sha256 C (''jti'' @ nul @ jti))"

lemma fosite_keys [simp]:
  "storeID C n k \<noteq> indexKey C m i" "indexKey C m i \<noteq> storeID C n k"
  "storeID C n k \<noteq> jtiKey C j" "jtiKey C j \<noteq> storeID C n k"
  by (simp_all add: storeID_def indexKey_def jtiKey_def)

definition store_New :: "'r fstore \<Rightarrow> int \<Rightarrow> 'r fstore" where
  "store_New F defaultTTL = F\<lparr>ft_ttl := (if defaultTTL \<le> 0 then 30 * 24 * hour else defaultTTL)\<rparr>"

text \<open>\<open>ttlFor\<close> and \<open>ttlUntil\<close>: what is left until the expiry, a second when it has passed.\<close>

definition ttlFor :: "'r fstore \<Rightarrow> int \<Rightarrow> int option \<Rightarrow> int" where
  "ttlFor F now deadline = (case deadline of None \<Rightarrow> ft_ttl F | Some e \<Rightarrow> if 0 < e - now then e - now else second)"

definition ttlUntil :: "int \<Rightarrow> int \<Rightarrow> int \<Rightarrow> int" where
  "ttlUntil now deadline fallback =
     (if deadline = zero_time then fallback else if 0 < deadline - now then deadline - now else second)"

definition expiryFor :: "any_session \<Rightarrow> string \<Rightarrow> int option" where
  "expiryFor rawSession name =
     (case rawSession of
        Munin s \<Rightarrow>
          (let expiry = (\<lambda>ty. let e = GetExpiresAt ty (Some s) in if e = zero_time then None else Some e) in
           if name = nameAccessToken then expiry AccessToken
           else if name = nameRefreshToken then expiry RefreshToken
           else if name \<in> {nameAuthorizeCode, namePKCE, nameOpenID} then expiry AuthorizeCode
           else None)
      | _ \<Rightarrow> None)"

section \<open>Documents\<close>

text \<open>
  Members with \<open>omitempty\<close> are left out when they are empty; an empty form is left out or empty, which
  reads the same.
\<close>

definition omit_if :: "bool \<Rightarrow> string \<Rightarrow> any \<Rightarrow> gomap \<Rightarrow> gomap" where
  "omit_if c k v m = (if c then m else m(k \<mapsto> v))"

lemma omit_if_at [simp]: "omit_if c k v m j = (if j = k \<and> \<not> c then Some v else m j)"
  by (simp add: omit_if_def)

definition omit_strs :: "string \<Rightarrow> slice \<Rightarrow> gomap \<Rightarrow> gomap" where
  "omit_strs k s = omit_if (elems s = []) k (AStrs s)"

definition form_json :: "uvalues \<Rightarrow> gomap" where
  "form_json q = (\<lambda>k. if q k = [] then None else Some (AStrs (Some (q k))))"

definition omit_none :: "string \<Rightarrow> any option \<Rightarrow> gomap \<Rightarrow> gomap" where
  "omit_none k v m = (case v of None \<Rightarrow> m | Some x \<Rightarrow> m(k \<mapsto> x))"

lemma omit_none_at [simp]:
  "omit_none k v m j = (if j = k then (case v of None \<Rightarrow> m j | Some x \<Rightarrow> Some x) else m j)"
  by (simp add: omit_none_def split: option.splits)

definition persisted_json :: "session_json \<Rightarrow> persisted \<Rightarrow> gomap" where
  "persisted_json SJ p =
     omit_none ''expires_at'' (map_option ATime (ps_expires p))
     (omit_if (\<not> ps_invalidated p) ''invalidated'' (ABool True)
     (omit_if (ps_access p = []) ''access_signature'' (AStr (ps_access p))
     (omit_none ''session'' (map_option (sj_enc SJ) (ps_session p))
     (omit_strs ''granted_audience'' (ps_granted_audience p)
     (omit_strs ''requested_audience'' (ps_audience p)
     (omit_strs ''granted_scope'' (ps_granted p)
     (omit_strs ''requested_scope'' (ps_scopes p)
       [''id'' \<mapsto> AStr (ps_id p), ''requested_at'' \<mapsto> ATime (ps_requested_at p),
        ''client_id'' \<mapsto> AStr (ps_client_id p), ''form'' \<mapsto> AMap (form_json (ps_form p))])))))))"

fun dec_time :: "any \<Rightarrow> int option option" where
  "dec_time ANil = Some None"
| "dec_time (ATime t) = Some (Some t)"
| "dec_time _ = None"

definition dec_form :: "any \<Rightarrow> uvalues option" where
  "dec_form v =
     (case dec_struct v of None \<Rightarrow> None
      | Some m \<Rightarrow> if \<forall>x \<in> ran m. snd (unmarshal_strings x)
                 then Some (\<lambda>k. case m k of None \<Rightarrow> [] | Some x \<Rightarrow> elems (fst (unmarshal_strings x)))
                 else None)"

definition dec_session :: "session_json \<Rightarrow> any \<Rightarrow> fsession option option" where
  "dec_session SJ v = (case v of ANil \<Rightarrow> Some None
     | _ \<Rightarrow> (case sj_dec SJ v of Inl _ \<Rightarrow> None | Inr s \<Rightarrow> Some (Some s)))"

definition dec_persisted :: "session_json \<Rightarrow> any \<Rightarrow> persisted option" where
  "dec_persisted SJ v =
     (case dec_struct v of None \<Rightarrow> None | Some m \<Rightarrow>
       (case ((dec_str (mget m ''id''), dec_time (mget m ''requested_at''), dec_str (mget m ''client_id''),
               dec_strs (mget m ''requested_scope''), dec_strs (mget m ''granted_scope''),
               dec_strs (mget m ''requested_audience''), dec_strs (mget m ''granted_audience'')),
              dec_form (mget m ''form''), dec_session SJ (mget m ''session''),
              dec_str (mget m ''access_signature''), dec_bool (mget m ''invalidated''),
              dec_time (mget m ''expires_at'')) of
          ((Some i, Some t, Some c, Some s, Some g, Some a, Some ga), Some f, Some se, Some x, Some b, Some e) \<Rightarrow>
            Some \<lparr>ps_id = i, ps_requested_at = (case t of None \<Rightarrow> zero_time | Some n \<Rightarrow> n), ps_client_id = c,
              ps_scopes = s, ps_granted = g, ps_audience = a, ps_granted_audience = ga, ps_form = f,
              ps_session = se, ps_access = x, ps_invalidated = b, ps_expires = e\<rparr>
        | _ \<Rightarrow> None))"

section \<open>Storing and reading\<close>

definition copy_slice :: "slice \<Rightarrow> slice" where
  "copy_slice s = (if elems s = [] then None else Some (elems s))"

definition cloneValues :: "uvalues \<Rightarrow> uvalues" where
  "cloneValues q = q"

definition requestToPersisted :: "frequest option \<Rightarrow> persisted res" where
  "requestToPersisted request =
     (case request of None \<Rightarrow> Inl (GoErr ''nil fosite requester'')
      | Some r \<Rightarrow> Inr \<lparr>ps_id = fr_id r, ps_requested_at = fr_requested_at r, ps_client_id = fc_id (fr_client r),
          ps_scopes = copy_slice (fr_scopes r), ps_granted = copy_slice (fr_granted r),
          ps_audience = copy_slice (fr_audience r), ps_granted_audience = copy_slice (fr_granted_audience r),
          ps_form = cloneValues (fr_form r),
          ps_session = (case fr_session r of Munin s \<Rightarrow> Clone (Some s) | _ \<Rightarrow> None),
          ps_access = [], ps_invalidated = False, ps_expires = None\<rparr>)"

definition putPersisted ::
  "'r fstore \<Rightarrow> int \<Rightarrow> string \<Rightarrow> string \<Rightarrow> persisted \<Rightarrow> 'r \<Rightarrow> unit res \<times> 'r" where
  "putPersisted F now name key p s =
     kv_Set (ft_redis F) now (storeID (ft_crypto F) name key) (Doc (json_norm (AMap (persisted_json (ft_json F) p))))
       (ttlFor F now (ps_expires p)) s"

definition fs_put ::
  "'r fstore \<Rightarrow> int \<Rightarrow> string \<Rightarrow> string \<Rightarrow> frequest option \<Rightarrow> string \<Rightarrow> bool \<Rightarrow> 'r \<Rightarrow> unit res \<times> 'r" where
  "fs_put F now name key request accessSignature invalidated s =
     (case requestToPersisted request of
        Inl e \<Rightarrow> (Inl e, s)
      | Inr p0 \<Rightarrow>
          let p = p0\<lparr>ps_access := accessSignature, ps_invalidated := invalidated,
                ps_expires := expiryFor (case request of None \<Rightarrow> NilSession | Some r \<Rightarrow> fr_session r) name\<rparr>
          in case putPersisted F now name key p s of
               (Inl e, s1) \<Rightarrow> (Inl e, s1)
             | (Inr _, s1) \<Rightarrow>
                 if (name = nameAccessToken \<or> name = nameRefreshToken) \<and> ps_id p \<noteq> []
                 then kv_SAdd (ft_redis F) now (indexKey (ft_crypto F) name (ps_id p))
                        (ttlFor F now (ps_expires p)) [storeID (ft_crypto F) name key] s1
                 else (Inr (), s1))"

definition fs_delete :: "'r fstore \<Rightarrow> int \<Rightarrow> string \<Rightarrow> string \<Rightarrow> 'r \<Rightarrow> unit res \<times> 'r" where
  "fs_delete F now name key s = kv_Del (ft_redis F) now [storeID (ft_crypto F) name key] s"

definition unmarshal_persisted :: "session_json \<Rightarrow> blob \<Rightarrow> persisted res" where
  "unmarshal_persisted SJ b =
     (case (case b of Doc v \<Rightarrow> Some v | Num n \<Rightarrow> Some (AFloat (of_int n)) | Raw _ \<Rightarrow> None) of
        None \<Rightarrow> Inl (ExtErr ''invalid JSON'')
      | Some v \<Rightarrow> (case dec_persisted SJ v of None \<Rightarrow> Inl (ExtErr ''json: cannot unmarshal'') | Some p \<Rightarrow> Inr p))"

definition getPersisted :: "'r fstore \<Rightarrow> int \<Rightarrow> string \<Rightarrow> string \<Rightarrow> 'r \<Rightarrow> persisted res \<times> 'r" where
  "getPersisted F now name key s =
     (case kv_Get (ft_redis F) now (storeID (ft_crypto F) name key) s of
        (Inl KvErrNil, s1) \<Rightarrow> (Inl FositeNotFound, s1)
      | (Inl e, s1) \<Rightarrow> (Inl e, s1)
      | (Inr b, s1) \<Rightarrow>
          (case unmarshal_persisted (ft_json F) b of
             Inl e \<Rightarrow> (Inl e, s1)
           | Inr p \<Rightarrow>
               if (case ps_expires p of None \<Rightarrow> False | Some e \<Rightarrow> e < now)
               then (Inl FositeNotFound, snd (fs_delete F now name key s1))
               else (Inr p, s1)))"

section \<open>Clients\<close>

definition GetClient :: "pg \<Rightarrow> string \<Rightarrow> db \<Rightarrow> fclient res" where
  "GetClient PG i d =
     (case pg_fault PG (QFositeClient i) d of Some e \<Rightarrow> Inl e
      | None \<Rightarrow>
          (case filter (\<lambda>r. cr_client_id r = i) (t_clients d) of
             [] \<Rightarrow> Inl FositeNotFound
           | r # _ \<Rightarrow>
               (case (dec_strs (cr_redirects r), dec_strs (cr_grants r), dec_strs (cr_scopes r)) of
                  (Some u, Some g, Some sc) \<Rightarrow>
                    Inr \<lparr>fc_id = cr_client_id r, fc_secret = cr_secret r, fc_redirects = u, fc_grants = g,
                      fc_responses = Some [''code''], fc_scopes = sc, fc_audience = Some [cr_client_id r],
                      fc_public = (cr_secret r = [])\<rparr>
                | _ \<Rightarrow> Inl (ExtErr ''json: cannot unmarshal''))))"

definition persistedToRequest ::
  "'r fstore \<Rightarrow> db \<Rightarrow> persisted \<Rightarrow> any_session \<Rightarrow> frequest res" where
  "persistedToRequest F d p session =
     (case GetClient (ft_pg F) (ps_client_id p) d of
        Inl e \<Rightarrow> Inl e
      | Inr c \<Rightarrow>
          let stored = (case ps_session p of Some s \<Rightarrow> Munin s | None \<Rightarrow> session)
          in Inr \<lparr>fr_id = ps_id p, fr_requested_at = ps_requested_at p, fr_client = c, fr_scopes = ps_scopes p,
               fr_granted = ps_granted p, fr_form = ps_form p,
               fr_session = (case stored of NilSession \<Rightarrow> Munin zero_session | _ \<Rightarrow> stored),
               fr_audience = ps_audience p, fr_granted_audience = ps_granted_audience p\<rparr>)"

definition fs_get ::
  "'r fstore \<Rightarrow> db \<Rightarrow> int \<Rightarrow> string \<Rightarrow> string \<Rightarrow> any_session \<Rightarrow> 'r \<Rightarrow> (frequest \<times> persisted) res \<times> 'r" where
  "fs_get F d now name key session s =
     (case getPersisted F now name key s of
        (Inl e, s1) \<Rightarrow> (Inl e, s1)
      | (Inr p, s1) \<Rightarrow> (case persistedToRequest F d p session of
            Inl e \<Rightarrow> (Inl e, s1) | Inr r \<Rightarrow> (Inr (r, p), s1)))"

section \<open>The storage interface\<close>

text \<open>A \<open>fosite.Requester\<close> together with an error: both are returned for an invalidated code.\<close>

type_synonym requester = "frequest option \<times> goerr option"

definition requester_of :: "(frequest \<times> persisted) res \<Rightarrow> requester" where
  "requester_of x = (case x of Inl e \<Rightarrow> (None, Some e) | Inr (r, _) \<Rightarrow> (Some r, None))"

definition CreateAuthorizeCodeSession where
  "CreateAuthorizeCodeSession F now code request s = fs_put F now nameAuthorizeCode code request [] False s"

definition GetAuthorizeCodeSession ::
  "'r fstore \<Rightarrow> db \<Rightarrow> int \<Rightarrow> string \<Rightarrow> any_session \<Rightarrow> 'r \<Rightarrow> requester \<times> 'r" where
  "GetAuthorizeCodeSession F d now code session s =
     (case fs_get F d now nameAuthorizeCode code session s of
        (Inl e, s1) \<Rightarrow> ((None, Some e), s1)
      | (Inr (r, p), s1) \<Rightarrow> ((Some r, if ps_invalidated p then Some FositeInvalidatedCode else None), s1))"

definition InvalidateAuthorizeCodeSession :: "'r fstore \<Rightarrow> int \<Rightarrow> string \<Rightarrow> 'r \<Rightarrow> unit res \<times> 'r" where
  "InvalidateAuthorizeCodeSession F now code s =
     (case getPersisted F now nameAuthorizeCode code s of
        (Inl e, s1) \<Rightarrow> (Inl e, s1)
      | (Inr p, s1) \<Rightarrow> putPersisted F now nameAuthorizeCode code (p\<lparr>ps_invalidated := True\<rparr>) s1)"

definition CreateAccessTokenSession where
  "CreateAccessTokenSession F now signature request s = fs_put F now nameAccessToken signature request [] False s"

definition get_session ::
  "'r fstore \<Rightarrow> db \<Rightarrow> int \<Rightarrow> string \<Rightarrow> string \<Rightarrow> any_session \<Rightarrow> 'r \<Rightarrow> requester \<times> 'r" where
  "get_session F d now name key session s =
     (let (x, s1) = fs_get F d now name key session s in (requester_of x, s1))"

definition GetAccessTokenSession where
  "GetAccessTokenSession F d now signature session s = get_session F d now nameAccessToken signature session s"

definition DeleteAccessTokenSession where
  "DeleteAccessTokenSession F now signature s = fs_delete F now nameAccessToken signature s"

definition CreateRefreshTokenSession where
  "CreateRefreshTokenSession F now signature accessSignature request s =
     fs_put F now nameRefreshToken signature request accessSignature False s"

definition GetRefreshTokenSession where
  "GetRefreshTokenSession F d now signature session s = get_session F d now nameRefreshToken signature session s"

definition DeleteRefreshTokenSession where
  "DeleteRefreshTokenSession F now signature s = fs_delete F now nameRefreshToken signature s"

definition RotateRefreshToken where
  "RotateRefreshToken F now (requestID :: string) signature s = DeleteRefreshTokenSession F now signature s"

definition revokeByRequestID :: "'r fstore \<Rightarrow> int \<Rightarrow> string \<Rightarrow> string \<Rightarrow> 'r \<Rightarrow> unit res \<times> 'r" where
  "revokeByRequestID F now name requestID s =
     (let idx = indexKey (ft_crypto F) name requestID in
      case kv_SMembers (ft_redis F) now idx s of
        (Inl e, s1) \<Rightarrow> (Inl e, s1)
      | (Inr members, s1) \<Rightarrow> kv_Del (ft_redis F) now (members @ [idx]) s1)"

definition RevokeRefreshToken where
  "RevokeRefreshToken F now requestID s = revokeByRequestID F now nameRefreshToken requestID s"

definition RevokeAccessToken where
  "RevokeAccessToken F now requestID s = revokeByRequestID F now nameAccessToken requestID s"

definition CreatePKCERequestSession where
  "CreatePKCERequestSession F now signature request s = fs_put F now namePKCE signature request [] False s"

definition GetPKCERequestSession where
  "GetPKCERequestSession F d now signature session s = get_session F d now namePKCE signature session s"

definition DeletePKCERequestSession where
  "DeletePKCERequestSession F now signature s = fs_delete F now namePKCE signature s"

definition CreateOpenIDConnectSession where
  "CreateOpenIDConnectSession F now code request s = fs_put F now nameOpenID code request [] False s"

definition GetOpenIDConnectSession where
  "GetOpenIDConnectSession F d now code request s =
     get_session F d now nameOpenID code (case request of None \<Rightarrow> NilSession | Some r \<Rightarrow> fr_session r) s"

definition DeleteOpenIDConnectSession where
  "DeleteOpenIDConnectSession F now code s = fs_delete F now nameOpenID code s"

definition ClientAssertionJWTValid :: "'r fstore \<Rightarrow> int \<Rightarrow> string \<Rightarrow> 'r \<Rightarrow> unit res \<times> 'r" where
  "ClientAssertionJWTValid F now jti s =
     (case kv_Exists (ft_redis F) now (jtiKey (ft_crypto F) jti) s of
        (Inl e, s1) \<Rightarrow> (Inl e, s1)
      | (Inr exists, s1) \<Rightarrow> (if exists then Inl FositeJTIKnown else Inr (), s1))"

definition SetClientAssertionJWT :: "'r fstore \<Rightarrow> int \<Rightarrow> string \<Rightarrow> int \<Rightarrow> 'r \<Rightarrow> unit res \<times> 'r" where
  "SetClientAssertionJWT F now jti deadline s =
     kv_Set (ft_redis F) now (jtiKey (ft_crypto F) jti) (Doc (json_norm (AMap [''jti'' \<mapsto> AStr jti])))
       (ttlUntil now deadline (ft_ttl F)) s"

end
