(* ===== verification/Provider.thy ===== *)
theory Provider
  imports Scopes Store_Kv Config Backend Fosite_Store
begin

text \<open>
  The core of internal/idp/provider.go: the struct \<open>Provider\<close>, signed session cookies, JWTs, PKCE,
  client authentication and the verification of access tokens.  Go's crypto/rsa and the JSON text
  of tokens are the record \<open>jose\<close>; \<open>signs_ok\<close> says that a signature made with a key verifies, and
  \<open>json_reads\<close> that the JSON text of a value reads back.  Fosite, which the repository only configures and calls, is
  the record \<open>oauth\<close>.
\<close>

section \<open>The provider\<close>

text \<open>
  A key is the handle of an \<open>*rsa.PrivateKey\<close>.  \<open>jo_text\<close> is \<open>json.Marshal\<close> as bytes and \<open>jo_parse\<close>
  reads a JSON text, \<open>None\<close> when it is none.
\<close>

record jose =
  jo_sign :: "string \<Rightarrow> string \<Rightarrow> string option"
  jo_verify :: "string \<Rightarrow> string \<Rightarrow> string \<Rightarrow> bool"
  jo_text :: "any \<Rightarrow> string"
  jo_parse :: "string \<Rightarrow> any option"

definition signs_ok :: "jose \<Rightarrow> bool" where
  "signs_ok J \<longleftrightarrow> (\<forall>k h s. jo_sign J k h = Some s \<longrightarrow> jo_verify J k h s)"

definition json_reads :: "jose \<Rightarrow> any \<Rightarrow> bool" where
  "json_reads J v \<longleftrightarrow> jo_parse J (jo_text J v) = Some (json_norm v)"

text \<open>
  The state: valkey, PostgreSQL, WildDuck (with the mail it sends) and the counter of the random
  source and of the uuids.
\<close>

record ('r, 'w) world =
  w_kv :: 'r
  w_db :: db
  w_wd :: 'w
  w_rng :: nat

text \<open>
  A request: \<open>hf_parsed\<close> says that \<open>ParseForm\<close> has no error, \<open>hf_form\<close> is \<open>r.Form\<close> after it, \<open>hf_post\<close> is
  \<open>r.PostForm\<close> and \<open>hf_query\<close> is \<open>r.URL.Query()\<close>; \<open>hf_remote\<close> is \<open>r.RemoteAddr\<close> and \<open>hf_cookie\<close> the value of the session
  cookie.
\<close>

record http_form =
  hf_now :: int
  hf_parsed :: bool
  hf_form :: uvalues
  hf_post :: uvalues
  hf_query :: uvalues
  hf_remote :: string
  hf_basic :: "(string \<times> string) option"
  hf_cookie :: "string option"
  hf_auth :: string

text \<open>
  \<open>an_location\<close> is the address handed to \<open>http.Redirect\<close> or set as the Location header.
\<close>

record cookie =
  ck_value :: string
  ck_max_age :: int

record answer =
  an_status :: nat
  an_body :: "any option"
  an_location :: "string option"
  an_cookie :: "cookie option"

text \<open>
  Fosite, the interface \<open>fosite.OAuth2Provider\<close>: \<open>oa_introspect\<close> is \<open>IntrospectToken\<close>, which reads the
  client from PostgreSQL and the token session from valkey; the \<open>New\<close> functions make a request or a
  response, and may return both a request and an error; the \<open>oa_write\<close> functions are the responses that
  the \<open>Write\<close> methods send.  The session of an access request is the one handed to
  \<open>NewAccessRequest\<close> (\<open>aq_own\<close>) or one that fosite read from the storage.
\<close>

record access_request =
  aq_request :: frequest
  aq_grants :: slice
  aq_own :: bool

record introspection =
  in_active :: bool
  in_requester :: "frequest option"
  in_use :: token_type

record ('r, 'w) oauth =
  oa_introspect :: "int \<Rightarrow> string \<Rightarrow> db \<Rightarrow> 'r \<Rightarrow> unit res \<times> 'r"
  oa_authorize_request :: "http_form \<Rightarrow> string \<Rightarrow> ('r, 'w) world \<Rightarrow> (frequest \<times> goerr option) \<times> ('r, 'w) world"
  oa_authorize_response :: "http_form \<Rightarrow> frequest \<Rightarrow> fsession \<Rightarrow> ('r, 'w) world \<Rightarrow> gomap res \<times> ('r, 'w) world"
  oa_grant_scope :: "string \<Rightarrow> frequest \<Rightarrow> frequest"
  oa_grant_audience :: "string \<Rightarrow> frequest \<Rightarrow> frequest"
  oa_write_authorize :: "frequest \<Rightarrow> gomap \<Rightarrow> answer"
  oa_write_authorize_error :: "frequest \<Rightarrow> goerr \<Rightarrow> answer"
  oa_access_request :: "http_form \<Rightarrow> fsession \<Rightarrow> ('r, 'w) world \<Rightarrow> (access_request \<times> goerr option) \<times> ('r, 'w) world"
  oa_access_response :: "http_form \<Rightarrow> access_request \<Rightarrow> ('r, 'w) world \<Rightarrow> gomap res \<times> ('r, 'w) world"
  oa_write_access_error :: "access_request \<Rightarrow> goerr \<Rightarrow> answer"
  oa_introspection :: "http_form \<Rightarrow> ('r, 'w) world \<Rightarrow> introspection res \<times> ('r, 'w) world"
  oa_write_introspection_error :: "goerr \<Rightarrow> answer"
  oa_revocation :: "http_form \<Rightarrow> ('r, 'w) world \<Rightarrow> unit res \<times> ('r, 'w) world"
  oa_write_revocation :: "goerr option \<Rightarrow> answer"

record ('r, 'w) provider =
  pv_cfg :: config
  pv_redis :: "'r redis"
  pv_pg :: pg
  pv_uuid :: uuids
  pv_rand :: randsrc
  pv_crypto :: crypto
  pv_jose :: jose
  pv_url :: urllib
  pv_unicode :: unicode
  pv_wd :: "'w wildduck"
  pv_backend :: "'w backend option"
  pv_mailer :: "'w mailer option"
  pv_key :: string
  pv_keyID :: string
  pv_oauth :: "('r, 'w) oauth option"

definition sessionCookie :: string where "sessionCookie = ''idp.sid''"
definition codeName :: string where "codeName = ''AuthorizationCode''"
definition sessionName :: string where "sessionName = ''Session''"
definition interactionName :: string where "interactionName = ''Interaction''"
definition pwChangeName :: string where "pwChangeName = ''PendingPasswordChange''"
definition pwResetName :: string where "pwResetName = ''PendingPasswordReset''"
definition refreshName :: string where "refreshName = ''RefreshToken''"
definition revokedName :: string where "revokedName = ''RevokedToken''"
definition tokenExchangeGrant :: string where
  "tokenExchangeGrant = ''urn:ietf:params:oauth:grant-type:token-exchange''"
definition accessTokenType :: string where
  "accessTokenType = ''urn:ietf:params:oauth:token-type:access_token''"

section \<open>The store, from the world\<close>

definition get_artifact ::
  "('r, 'w) provider \<Rightarrow> int \<Rightarrow> string \<Rightarrow> string \<Rightarrow> ('r, 'w) world \<Rightarrow> gomap res \<times> ('r, 'w) world" where
  "get_artifact p now name i w =
     (let (x, s) = GetArtifact (pv_redis p) now name i (w_kv w) in (x, w\<lparr>w_kv := s\<rparr>))"

definition put_artifact ::
  "('r, 'w) provider \<Rightarrow> int \<Rightarrow> string \<Rightarrow> string \<Rightarrow> gomap \<Rightarrow> int \<Rightarrow> ('r, 'w) world \<Rightarrow>
     unit res \<times> ('r, 'w) world" where
  "put_artifact p now name i m ttl w =
     (let (x, s) = PutArtifact (pv_redis p) now name i m ttl (w_kv w) in (x, w\<lparr>w_kv := s\<rparr>))"

definition delete_artifact ::
  "('r, 'w) provider \<Rightarrow> int \<Rightarrow> string \<Rightarrow> string \<Rightarrow> ('r, 'w) world \<Rightarrow> unit res \<times> ('r, 'w) world" where
  "delete_artifact p now name i w =
     (let (x, s) = DeleteArtifact (pv_redis p) now name i (w_kv w) in (x, w\<lparr>w_kv := s\<rparr>))"

section \<open>Responses\<close>

definition json_answer :: "nat \<Rightarrow> any \<Rightarrow> answer" where
  "json_answer status v = \<lparr>an_status = status, an_body = Some v, an_location = None, an_cookie = None\<rparr>"

definition oauthError :: "nat \<Rightarrow> string \<Rightarrow> string \<Rightarrow> answer" where
  "oauthError status code desc =
     json_answer status (AMap [''error'' \<mapsto> AStr code, ''error_description'' \<mapsto> AStr desc])"

definition redirect_to :: "nat \<Rightarrow> string \<Rightarrow> answer" where
  "redirect_to status loc = \<lparr>an_status = status, an_body = None, an_location = Some loc, an_cookie = None\<rparr>"

text \<open>
  \<open>redirectError\<close> ignores the error of \<open>url.Parse\<close>; the nil URL panics in \<open>Query\<close>, and
  middleware.Recoverer answers 500.
\<close>

definition nil_panic :: "string" where
  "nil_panic = ''invalid memory address or nil pointer dereference''"

definition redirectError :: "urllib \<Rightarrow> string \<Rightarrow> string \<Rightarrow> string \<Rightarrow> string \<Rightarrow> answer go" where
  "redirectError UL redirectURI state code desc =
     (case ul_set UL redirectURI ([(''error'', code), (''error_description'', desc)]
             @ (if state \<noteq> [] then [(''state'', state)] else [])) of
        None \<Rightarrow> Panic nil_panic
      | Some u \<Rightarrow> Ok (redirect_to 302 u))"

definition bearer :: "http_form \<Rightarrow> string" where
  "bearer r = trim_prefix (hf_auth r) ''Bearer ''"

section \<open>Random identifiers and signed cookies\<close>

definition randomID :: "('r, 'w) provider \<Rightarrow> nat \<Rightarrow> ('r, 'w) world \<Rightarrow> string \<times> ('r, 'w) world" where
  "randomID p n w = (b64 (pv_rand p (w_rng w) n), w\<lparr>w_rng := Suc (w_rng w)\<rparr>)"

text \<open>The configuration has a cookie key (\<open>Load_ok\<close>), so the index is in range.\<close>

definition sign :: "('r, 'w) provider \<Rightarrow> string \<Rightarrow> string" where
  "sign p v = b64 (hmac256 (pv_crypto p) (case cf_cookie_keys (pv_cfg p) of k # _ \<Rightarrow> k | [] \<Rightarrow> []) v)"

definition signedCookie :: "('r, 'w) provider \<Rightarrow> string \<Rightarrow> int \<Rightarrow> cookie" where
  "signedCookie p v ttl = \<lparr>ck_value = v @ ''.'' @ sign p v, ck_max_age = ttl div second\<rparr>"

definition readSession :: "('r, 'w) provider \<Rightarrow> http_form \<Rightarrow> string option" where
  "readSession p r =
     (case hf_cookie r of
        None \<Rightarrow> None
      | Some v \<Rightarrow> (case split_n2 (CHR ''.'') v of
          [l, m] \<Rightarrow> if m = sign p l then Some l else None
        | _ \<Rightarrow> None))"

section \<open>JSON Web Tokens\<close>

definition jwt_header :: "('r, 'w) provider \<Rightarrow> any" where
  "jwt_header p = AMap [''typ'' \<mapsto> AStr ''JWT'', ''alg'' \<mapsto> AStr ''RS256'', ''kid'' \<mapsto> AStr (pv_keyID p)]"

definition signJWT :: "('r, 'w) provider \<Rightarrow> gomap \<Rightarrow> string res" where
  "signJWT p claims =
     (let J = pv_jose p;
          signingInput = b64 (jo_text J (jwt_header p)) @ ''.'' @ b64 (jo_text J (AMap claims))
      in case jo_sign J (pv_key p) (sha256 (pv_crypto p) signingInput) of
           None \<Rightarrow> Inl (ExtErr ''crypto/rsa: sign'')
         | Some sig \<Rightarrow> Inr (signingInput @ ''.'' @ b64 sig))"

definition verifyJWT :: "('r, 'w) provider \<Rightarrow> string \<Rightarrow> gomap res" where
  "verifyJWT p token =
     (case split_on (CHR ''.'') token of
        [h, c, s] \<Rightarrow>
          (case unb64 s of None \<Rightarrow> Inl (ExtErr ''illegal base64 data'') | Some sig \<Rightarrow>
             if \<not> jo_verify (pv_jose p) (pv_key p) (sha256 (pv_crypto p) (h @ ''.'' @ c)) sig
             then Inl (ExtErr ''crypto/rsa: verification error'')
             else (case unb64 c of None \<Rightarrow> Inl (ExtErr ''illegal base64 data'') | Some payload \<Rightarrow>
                     (case jo_parse (pv_jose p) payload of None \<Rightarrow> Inl (ExtErr ''invalid JSON'')
                      | Some v \<Rightarrow> unmarshal_map v)))
      | _ \<Rightarrow> Inl (GoErr ''invalid jwt''))"

definition verifyPKCE :: "crypto \<Rightarrow> string \<Rightarrow> string \<Rightarrow> bool" where
  "verifyPKCE C challenge verifier \<longleftrightarrow> challenge = b64 (sha256 C verifier)"

section \<open>Client authentication\<close>

text \<open>A stored secret that makes \<open>Decrypt\<close> panic makes the handler panic.\<close>

definition authenticateClient :: "('r, 'w) provider \<Rightarrow> http_form \<Rightarrow> ('r, 'w) world \<Rightarrow> client go" where
  "authenticateClient p r w =
     (let (clientID, clientSecret) = (case hf_basic r of Some c \<Rightarrow> c
            | None \<Rightarrow> (vget (hf_form r) ''client_id'', vget (hf_form r) ''client_secret''))
      in case GetClientByClientID (pv_pg p) clientID (w_db w) of
           Inl e \<Rightarrow> Err e
         | Inr c \<Rightarrow>
             (case secret_Decrypt (pv_crypto p) (secret_New (pv_crypto p) (cf_secret_key (pv_cfg p))) (c_secret c) of
                Panic m \<Rightarrow> Panic m
              | Err e \<Rightarrow> Err e
              | Ok plain \<Rightarrow> if plain \<noteq> clientSecret then Err (GoErr ''bad secret'') else Ok c))"

section \<open>Access tokens\<close>

text \<open>\<open>int64\<close> of a float truncates toward zero.\<close>

definition trunc :: "rat \<Rightarrow> int" where
  "trunc q = (if 0 \<le> q then \<lfloor>q\<rfloor> else - \<lfloor>- q\<rfloor>)"

definition expired :: "int \<Rightarrow> gomap \<Rightarrow> bool" where
  "expired now claims = (case mget claims ''exp'' of AFloat q \<Rightarrow> trunc q < unix now | _ \<Rightarrow> False)"

definition verifyLegacyAccessToken ::
  "('r, 'w) provider \<Rightarrow> int \<Rightarrow> string \<Rightarrow> ('r, 'w) world \<Rightarrow> gomap res \<times> ('r, 'w) world" where
  "verifyLegacyAccessToken p now token w =
     (case verifyJWT p token of
        Inl e \<Rightarrow> (Inl e, w)
      | Inr claims \<Rightarrow>
          if expired now claims then (Inl (GoErr ''expired''), w)
          else
            let jti = claimString claims ''jti'' in
            if jti = [] then (Inr claims, w)
            else (case get_artifact p now revokedName jti w of
                    (Inr _, w1) \<Rightarrow> (Inl (GoErr ''revoked''), w1)
                  | (Inl _, w1) \<Rightarrow> (Inr claims, w1)))"

definition VerifyAccessToken ::
  "('r, 'w) provider \<Rightarrow> int \<Rightarrow> string \<Rightarrow> ('r, 'w) world \<Rightarrow> gomap res \<times> ('r, 'w) world" where
  "VerifyAccessToken p now token w =
     (case verifyLegacyAccessToken p now token w of
        (Inl e, w1) \<Rightarrow> (Inl e, w1)
      | (Inr claims, w1) \<Rightarrow>
          (case pv_oauth p of
             None \<Rightarrow> (Inr claims, w1)
           | Some oa \<Rightarrow>
               if claimString claims ''gty'' \<noteq> tokenExchangeGrant \<and> hasArrayAudience claims
               then (case oa_introspect oa now token (w_db w1) (w_kv w1) of
                       (Inl e, s) \<Rightarrow> (Inl e, w1\<lparr>w_kv := s\<rparr>)
                     | (Inr _, s) \<Rightarrow> (Inr claims, w1\<lparr>w_kv := s\<rparr>))
               else (Inr claims, w1)))"

definition revokeLegacyJWTIfOwned ::
  "('r, 'w) provider \<Rightarrow> int \<Rightarrow> string \<Rightarrow> client \<Rightarrow> ('r, 'w) world \<Rightarrow> ('r, 'w) world" where
  "revokeLegacyJWTIfOwned p now token c w =
     (if c_client_id c = [] then w
      else case verifyJWT p token of
          Inl _ \<Rightarrow> w
        | Inr claims \<Rightarrow>
            if claimString claims ''client_id'' \<noteq> [] \<and> claimString claims ''client_id'' \<noteq> c_client_id c then w
            else
              let jti = claimString claims ''jti'' in
              if jti = [] then w
              else snd (put_artifact p now revokedName jti [''revoked'' \<mapsto> ABool True]
                     (cf_refresh_ttl (pv_cfg p)) w))"

definition UserInfo :: "('r, 'w) provider \<Rightarrow> http_form \<Rightarrow> ('r, 'w) world \<Rightarrow> answer \<times> ('r, 'w) world" where
  "UserInfo p r w =
     (case VerifyAccessToken p (hf_now r) (bearer r) w of
        (Inl _, w1) \<Rightarrow> (oauthError 401 ''invalid_token'' ''token invalid'', w1)
      | (Inr claims, w1) \<Rightarrow> (json_answer 200 (AMap claims), w1))"

section \<open>Cookies and tokens read back\<close>

lemma sign_no_dot [simp]: "CHR ''.'' \<notin> set (sign p v)"
  by (simp add: sign_def)

text \<open>
  A session cookie the provider set is read back as the session id it was set for (ids are
  base64url text, which has no dot), and a cookie is accepted for an id only if it is that id
  followed by its signature.
\<close>

theorem session_cookie:
  "(CHR ''.'' \<notin> set v \<longrightarrow> hf_cookie r = Some (ck_value (signedCookie p v ttl)) \<longrightarrow> readSession p r = Some v)
   \<and> (readSession p r = Some u \<longrightarrow> hf_cookie r = Some (u @ ''.'' @ sign p u))"
proof (intro conjI impI)
  assume "CHR ''.'' \<notin> set v" "hf_cookie r = Some (ck_value (signedCookie p v ttl))"
  then show "readSession p r = Some v"
    by (simp add: readSession_def signedCookie_def split_n2_append)
next
  assume "readSession p r = Some u"
  then show "hf_cookie r = Some (u @ ''.'' @ sign p u)"
    by (auto simp: readSession_def split_n2_def dest!: cut_Some
        split: option.splits list.splits if_splits prod.splits)
qed

lemma split_jwt: "split_on (CHR ''.'') ((b64 x @ ''.'' @ b64 y) @ ''.'' @ b64 z) = [b64 x, b64 y, b64 z]"
proof -
  have "(b64 x @ ''.'' @ b64 y) @ ''.'' @ b64 z = b64 x @ CHR ''.'' # b64 y @ CHR ''.'' # b64 z"
    by simp
  then show ?thesis
    by (simp only: split_on_append split_on_no_sep b64_no_sep not_False_eq_True)
qed

lemma signJWT_verifies:
  assumes "signs_ok (pv_jose p)" and "json_reads (pv_jose p) (AMap claims)" and "signJWT p claims = Inr t"
  shows "verifyJWT p t = Inr (json_map claims)"
proof -
  let ?J = "pv_jose p"
  let ?si = "b64 (jo_text ?J (jwt_header p)) @ ''.'' @ b64 (jo_text ?J (AMap claims))"
  obtain sig where sig: "jo_sign ?J (pv_key p) (sha256 (pv_crypto p) ?si) = Some sig" "t = ?si @ ''.'' @ b64 sig"
    using assms(3) by (auto simp: signJWT_def Let_def split: option.splits)
  have "jo_verify ?J (pv_key p) (sha256 (pv_crypto p) ?si) sig"
       "jo_parse ?J (jo_text ?J (AMap claims)) = Some (AMap (json_map claims))"
    using assms(1,2) sig(1) by (simp_all add: signs_ok_def json_reads_def)
  then show ?thesis
    unfolding verifyJWT_def sig(2) split_jwt by simp
qed

text \<open>
  A token the provider signs is a token it verifies, and what verification returns are the
  claims as JSON keeps them.
\<close>

theorem jwt_roundtrip:
  assumes "signs_ok (pv_jose p)" and "json_reads (pv_jose p) (AMap claims)" and "signJWT p claims = Inr t"
  shows "verifyJWT p t = Inr (json_map claims)"
  by (rule signJWT_verifies [OF assms])

text \<open>What verification accepts is signed, not expired, and not known to be revoked.\<close>

lemma verifyLegacy_Inr:
  assumes "verifyLegacyAccessToken p now token w = (Inr claims, w')"
  shows "verifyJWT p token = Inr claims \<and> \<not> expired now claims
    \<and> (claimString claims ''jti'' \<noteq> [] \<longrightarrow>
         \<not> is_ok (fst (GetArtifact (pv_redis p) now revokedName (claimString claims ''jti'') (w_kv w))))"
  using assms
  by (auto simp: verifyLegacyAccessToken_def get_artifact_def Let_def
      split: sum.splits prod.splits if_splits)

lemma verifyLegacy_frame:
  "verifyLegacyAccessToken p now token w = (x, w') \<Longrightarrow> w_db w' = w_db w \<and> w_rng w' = w_rng w \<and> w_wd w' = w_wd w"
  by (auto simp: verifyLegacyAccessToken_def get_artifact_def Let_def
      split: sum.splits prod.splits if_splits)

lemma VerifyAccessToken_Inr:
  "VerifyAccessToken p now token w = (Inr claims, w') \<Longrightarrow>
     \<exists>w1. verifyLegacyAccessToken p now token w = (Inr claims, w1)"
  by (auto simp: VerifyAccessToken_def split: sum.splits prod.splits option.splits if_splits)

lemma VerifyAccessToken_frame:
  "VerifyAccessToken p now token w = (x, w') \<Longrightarrow> w_db w' = w_db w \<and> w_rng w' = w_rng w \<and> w_wd w' = w_wd w"
  by (auto simp: VerifyAccessToken_def dest!: verifyLegacy_frame
      split: sum.splits prod.splits option.splits if_splits)

lemma VerifyAccessToken_signed:
  assumes "VerifyAccessToken p now token w = (Inr claims, w')"
  shows "verifyJWT p token = Inr claims \<and> \<not> expired now claims"
  using VerifyAccessToken_Inr [OF assms] verifyLegacy_Inr by blast

lemma revoked_rejected:
  assumes "redis_server (pv_redis p) view" and "verifyJWT p token = Inr claims"
    and "claimString claims ''jti'' = jti" and "jti \<noteq> []" and "0 < cf_refresh_ttl (pv_cfg p)"
    and "put_artifact p t revokedName jti [''revoked'' \<mapsto> ABool True] (cf_refresh_ttl (pv_cfg p)) w = (Inr (), w1)"
    and "t \<le> now" and "now < the (px_deadline t (cf_refresh_ttl (pv_cfg p)))"
    and "VerifyAccessToken p now token w1 = (x, w2)"
  shows "\<not> is_ok x \<or> (\<exists>e s. GetArtifact (pv_redis p) now revokedName jti (w_kv w1) = (Inl (ExtErr e), s))"
proof (rule disjCI)
  assume up: "\<nexists>e s. GetArtifact (pv_redis p) now revokedName jti (w_kv w1) = (Inl (ExtErr e), s)"
  show "\<not> is_ok x"
  proof
    assume "is_ok x"
    then obtain c where "x = Inr c" by (auto simp: is_ok_iff)
    with VerifyAccessToken_Inr assms(9) obtain w3 where "verifyLegacyAccessToken p now token w1 = (Inr c, w3)"
      by blast
    from verifyLegacy_Inr [OF this] assms(2-4)
    have bad: "\<not> is_ok (fst (GetArtifact (pv_redis p) now revokedName jti (w_kv w1)))" by auto
    obtain y s where g: "GetArtifact (pv_redis p) now revokedName jti (w_kv w1) = (y, s)" by force
    obtain s1 where "PutArtifact (pv_redis p) t revokedName jti [''revoked'' \<mapsto> ABool True]
        (cf_refresh_ttl (pv_cfg p)) (w_kv w) = (Inr (), s1)" "w_kv w1 = s1"
      using assms(6) by (auto simp: put_artifact_def split: prod.splits)
    from redis_server.PutArtifact_at [OF assms(1) this(1) assms(5,7,8)] this(2) g up bad
      redis_server.GetArtifact_stored [OF assms(1) _ g]
    show False by auto
  qed
qed

text \<open>
  Revocation works while valkey answers: once a token's id has been stored as revoked, the
  provider rejects the token until the revocation expires, unless the read of the revocation fails.
\<close>

theorem revoked_token_rejected:
  assumes "redis_server (pv_redis p) view" and "verifyJWT p token = Inr claims"
    and "claimString claims ''jti'' = jti" and "jti \<noteq> []" and "0 < cf_refresh_ttl (pv_cfg p)"
    and "put_artifact p t revokedName jti [''revoked'' \<mapsto> ABool True] (cf_refresh_ttl (pv_cfg p)) w = (Inr (), w1)"
    and "t \<le> now" and "now < the (px_deadline t (cf_refresh_ttl (pv_cfg p)))"
    and "VerifyAccessToken p now token w1 = (x, w2)"
  shows "\<not> is_ok x \<or> (\<exists>e s. GetArtifact (pv_redis p) now revokedName jti (w_kv w1) = (Inl (ExtErr e), s))"
  by (rule revoked_rejected [OF assms])

text \<open>
  Revocation fails open: while the read of the revocation fails with an error, a revoked token
  is accepted like any other.
\<close>

theorem revocation_fails_open:
  assumes "verifyJWT p token = Inr claims" and "\<not> expired now claims"
    and "claimString claims ''jti'' = jti" and "jti \<noteq> []" and "pv_oauth p = None"
    and "GetArtifact (pv_redis p) now revokedName jti (w_kv w) = (Inl e, s)"
  shows "fst (VerifyAccessToken p now token w) = Inr claims"
  using assms by (simp add: VerifyAccessToken_def verifyLegacyAccessToken_def get_artifact_def Let_def)

section \<open>A concrete provider\<close>

text \<open>
  A provider on the reference server whose signatures are the digest under the key, and whose JSON
  text of a claims map is the map given.
\<close>

definition sample_jose :: "any \<Rightarrow> jose" where
  "sample_jose v = \<lparr>jo_sign = (\<lambda>k h. Some (k @ h)), jo_verify = (\<lambda>k h s. s = k @ h),
     jo_text = (\<lambda>_. ''{}''), jo_parse = (\<lambda>_. Some (json_norm v))\<rparr>"

lemma sample_jose_ok: "signs_ok (sample_jose v)" "json_reads (sample_jose v) v"
  by (simp_all add: signs_ok_def json_reads_def sample_jose_def)

definition sample_wildduck :: "unit wildduck" where
  "sample_wildduck = \<lparr>wd_resolve = (\<lambda>_ w. (Inl (ExtErr ''404''), w)), wd_get = (\<lambda>_ w. (Inl (ExtErr ''404''), w)),
     wd_update = (\<lambda>_ _ w. (Inl (ExtErr ''404''), w)), wd_authenticate = (\<lambda>_ _ _ w. (Inl (ExtErr ''403''), w)),
     wd_submit = (\<lambda>_ _ w. (Inl (ExtErr ''404''), w))\<rparr>"

definition sample_url :: urllib where
  "sample_url = \<lparr>ul_hostname = (\<lambda>_. Some ''app.example''), ul_set = (\<lambda>u _. Some u),
     ul_path_escape = (\<lambda>s. s), ul_query_escape = (\<lambda>s. s), ul_encode = (\<lambda>_. [])\<rparr>"

definition sample_provider :: "any \<Rightarrow> (mem, unit) provider" where
  "sample_provider v = \<lparr>pv_cfg = raw_config sample_unicode (\<lambda>_. None) sample_env, pv_redis = mem_redis,
     pv_pg = sample_pg, pv_uuid = (\<lambda>_. ''id''), pv_rand = sample_rand, pv_crypto = sample_crypto,
     pv_jose = sample_jose v, pv_url = sample_url, pv_unicode = sample_unicode, pv_wd = sample_wildduck,
     pv_backend = None, pv_mailer = None, pv_key = ''key'', pv_keyID = ''kid'', pv_oauth = None\<rparr>"

definition sample_world :: "(mem, unit) world" where
  "sample_world = \<lparr>w_kv = mem_start, w_db = empty_db, w_wd = (), w_rng = 0\<rparr>"

definition sample_form :: http_form where
  "sample_form = \<lparr>hf_now = 0, hf_parsed = True, hf_form = (\<lambda>_. []), hf_post = (\<lambda>_. []),
     hf_query = (\<lambda>_. []), hf_remote = ''ip'', hf_basic = None, hf_cookie = None, hf_auth = []\<rparr>"

lemma sample_provider_simps [simp]:
  "pv_redis (sample_provider v) = mem_redis" "pv_jose (sample_provider v) = sample_jose v"
  "pv_oauth (sample_provider v) = None" "pv_pg (sample_provider v) = sample_pg"
  "cf_refresh_ttl (pv_cfg (sample_provider v)) = 30 * 24 * hour"
  "cf_access_ttl (pv_cfg (sample_provider v)) = 10 * minute"
  "cf_code_ttl (pv_cfg (sample_provider v)) = 5 * minute"
  by (simp_all add: sample_provider_def raw_config_def Let_def)

theorem session_cookie_witness:
  "readSession (sample_provider ANil) (sample_form\<lparr>hf_cookie :=
       Some (ck_value (signedCookie (sample_provider ANil) ''abc'' hour))\<rparr>) = Some ''abc''"
  using session_cookie [of "''abc''" "sample_form\<lparr>hf_cookie :=
       Some (ck_value (signedCookie (sample_provider ANil) ''abc'' hour))\<rparr>" "sample_provider ANil" hour]
  by simp

definition sample_claims :: gomap where
  "sample_claims = [''sub'' \<mapsto> AStr ''u1'', ''jti'' \<mapsto> AStr ''j1'', ''client_id'' \<mapsto> AStr ''app'',
     ''scope'' \<mapsto> AStr ''read'']"

definition sample_token :: string where
  "sample_token = (case signJWT (sample_provider (AMap sample_claims)) sample_claims of Inr t \<Rightarrow> t | Inl _ \<Rightarrow> [])"

lemma sample_signed: "signJWT (sample_provider (AMap sample_claims)) sample_claims = Inr sample_token"
  by (simp add: sample_token_def signJWT_def sample_jose_def Let_def)

theorem jwt_roundtrip_witness:
  "verifyJWT (sample_provider (AMap sample_claims)) sample_token = Inr (json_map sample_claims)"
  by (rule jwt_roundtrip [OF _ _ sample_signed]) (simp_all add: sample_jose_ok)

text \<open>The same fact for the other concrete runs.\<close>

lemma sample_verified:
  "verifyJWT (sample_provider (AMap sample_claims)) sample_token = Inr (json_map sample_claims)"
proof -
  have si: "split_on (CHR ''.'') sample_token =
      [b64 ''{}'', b64 ''{}'', b64 (''key'' @ sha256 sample_crypto (b64 ''{}'' @ ''.'' @ b64 ''{}''))]"
    using split_jwt [of "''{}''" "''{}''"]
    by (simp add: sample_token_def signJWT_def sample_jose_def sample_provider_def Let_def)
  show ?thesis
    unfolding verifyJWT_def si
    by (simp add: sample_provider_def) (simp add: sample_jose_def)
qed

lemma sample_jti: "claimString (json_map sample_claims) ''jti'' = ''j1''"
    "\<not> expired t (json_map sample_claims)"
  by (simp_all add: claimString_def expired_def sample_claims_def valid_utf8_of_ascii ascii_def)

theorem revoked_token_rejected_witness:
  "\<exists>w1. put_artifact (sample_provider (AMap sample_claims)) 0 revokedName ''j1'' [''revoked'' \<mapsto> ABool True]
        (30 * 24 * hour) sample_world = (Inr (), w1)
     \<and> (\<not> is_ok (fst (VerifyAccessToken (sample_provider (AMap sample_claims)) second sample_token w1))
        \<or> (\<exists>e s. GetArtifact mem_redis second revokedName ''j1'' (w_kv w1) = (Inl (ExtErr e), s)))"
proof -
  let ?p = "sample_provider (AMap sample_claims)"
  obtain w1 where put: "put_artifact ?p 0 revokedName ''j1'' [''revoked'' \<mapsto> ABool True]
      (30 * 24 * hour) sample_world = (Inr (), w1)"
    by (simp add: put_artifact_def PutArtifact_def kv_Set_def sample_world_def mem_start_of mem_eval)
  obtain x w2 where ver: "VerifyAccessToken ?p second sample_token w1 = (x, w2)" by force
  have "0 < 30 * 24 * hour" "0 \<le> second" "second < the (px_deadline 0 (30 * 24 * hour))"
    by (simp_all add: px_deadline_def time_units)
  with revoked_token_rejected [of ?p m_ks sample_token _ "''j1''" 0 sample_world w1 second x w2,
      OF _ sample_verified sample_jti(1)] put ver mem.redis_server_axioms
  show ?thesis by (intro exI [of _ w1]) simp
qed

theorem revocation_fails_open_witness:
  "fst (VerifyAccessToken (sample_provider (AMap sample_claims)) 0 sample_token
      (sample_world\<lparr>w_kv := \<lparr>m_ks = Map.empty, m_faults = [True]\<rparr>\<rparr>)) = Inr (json_map sample_claims)"
  by (rule revocation_fails_open [OF sample_verified sample_jti(2,1), where e = "ExtErr ''connection refused''"
        and s = "mem_of Map.empty"])
    (simp_all add: GetArtifact_def kv_Get_def mem_redis_def mem_do_def mem_of_def)

end
