(* ===== verification/Token_Exchange.thy ===== *)
theory Token_Exchange
  imports Provider
begin

text \<open>
  \<open>tokenExchange\<close> of internal/idp/provider.go: the OAuth token exchange (RFC 8693) with its policy
  check and its audit event, which the deferred function writes on every way out.
\<close>

section \<open>The handler\<close>

text \<open>
  The body up to the response, without the deferred log: the answer, the event and the world.
  \<open>fail\<close> in the code sets the event's error to the description it answers with.
\<close>

definition failed :: "tx_event \<Rightarrow> string \<Rightarrow> string \<Rightarrow> ('r, 'w) world \<Rightarrow> answer \<times> tx_event \<times> ('r, 'w) world" where
  "failed ev code desc w = (oauthError 400 code desc, ev\<lparr>ev_error := Some desc\<rparr>, w)"

definition cloneMap :: "gomap \<Rightarrow> gomap" where
  "cloneMap m = m"

text \<open>The claims of the issued token.\<close>

definition exchange_claims ::
  "config \<Rightarrow> int \<Rightarrow> client \<Rightarrow> gomap \<Rightarrow> string \<Rightarrow> string list \<Rightarrow> string \<Rightarrow> string \<Rightarrow> gomap" where
  "exchange_claims cfg now c subjectClaims audience requestedScopes jti actorSubject =
     (let subject = claimString subjectClaims ''sub'';
          claims = (cloneMap subjectClaims)
            (''iss'' \<mapsto> AStr (cf_issuer cfg), ''aud'' \<mapsto> AStr audience, ''client_id'' \<mapsto> AStr (c_client_id c),
             ''scope'' \<mapsto> AStr (join '' '' requestedScopes), ''jti'' \<mapsto> AStr jti,
             ''iat'' \<mapsto> AInt (unix now), ''exp'' \<mapsto> AInt (unix (now + cf_access_ttl cfg)),
             ''gty'' \<mapsto> AStr tokenExchangeGrant,
             ''token_exchange'' \<mapsto> AMap [''subject_token_jti'' \<mapsto> AStr (claimString subjectClaims ''jti''),
               ''subject_token_type'' \<mapsto> AStr accessTokenType]);
          claims' = (if actorSubject \<noteq> [] then claims(''act'' \<mapsto> AMap [''sub'' \<mapsto> AStr actorSubject]) else claims)
      in if actorSubject \<noteq> [] \<and> subject \<noteq> [] \<and> subject \<noteq> actorSubject
         then claims'(''may_act'' \<mapsto> AMap [''sub'' \<mapsto> AStr subject]) else claims')"

text \<open>From the policy on: the scopes, the claims, the signature.\<close>

definition exchange_grant ::
  "('r, 'w) provider \<Rightarrow> http_form \<Rightarrow> client \<Rightarrow> gomap \<Rightarrow> string \<Rightarrow> string \<Rightarrow> tx_policy \<Rightarrow> tx_event \<Rightarrow>
     ('r, 'w) world \<Rightarrow> answer \<times> tx_event \<times> ('r, 'w) world" where
  "exchange_grant p r c subjectClaims audience actorSubject policy ev0 w =
     (let ev1 = ev0\<lparr>ev_policy_id := Some (tp_id policy)\<rparr>;
          subjectScopes = parseScopes (claimString subjectClaims ''scope'');
          asked = parseScopes (vget (hf_form r) ''scope'');
          requestedScopes = (if asked = [] then subjectScopes else asked);
          ev = ev1\<lparr>ev_requested_scopes := Some requestedScopes\<rparr>
      in if \<not> scopeSubset requestedScopes subjectScopes
         then failed ev ''invalid_scope'' ''requested scope exceeds the rights of the subject_token'' w
         else if \<not> policyAllowsScopes (tp_scopes policy) requestedScopes
         then failed ev ''invalid_scope'' ''requested scope is not permitted by policy'' w
         else
           let (jti, w1) = randomID p 16 w;
               claims = exchange_claims (pv_cfg p) (hf_now r) c subjectClaims audience requestedScopes jti actorSubject
           in case signJWT p claims of
                Inl _ \<Rightarrow> (oauthError 500 ''server_error'' ''failed to sign token'',
                  ev\<lparr>ev_error := Some ''failed to sign token''\<rparr>, w1)
              | Inr accessToken \<Rightarrow>
                  (json_answer 200 (AMap [''access_token'' \<mapsto> AStr accessToken,
                     ''issued_token_type'' \<mapsto> AStr accessTokenType, ''token_type'' \<mapsto> AStr ''Bearer'',
                     ''expires_in'' \<mapsto> AInt (cf_access_ttl (pv_cfg p) div second),
                     ''scope'' \<mapsto> AStr (join '' '' requestedScopes)]),
                   ev\<lparr>ev_success := True, ev_error := None, ev_granted_audience := Some audience,
                      ev_granted_scopes := Some requestedScopes, ev_issued_token_id := Some jti\<rparr>, w1))"

text \<open>The actor token: its subject, empty without one, and the event.\<close>

definition exchange_actor ::
  "('r, 'w) provider \<Rightarrow> http_form \<Rightarrow> client \<Rightarrow> tx_event \<Rightarrow> ('r, 'w) world \<Rightarrow>
     ((string \<times> string) + string) \<times> tx_event \<times> ('r, 'w) world" where
  "exchange_actor p r c ev w =
     (let tok = vget (hf_form r) ''actor_token''; ty = vget (hf_form r) ''actor_token_type'' in
      if tok = [] \<and> ty = [] then (Inr [], ev, w)
      else if tok = [] \<or> ty = []
      then (Inl (''invalid_request'', ''actor_token and actor_token_type must be provided together''), ev, w)
      else if ty \<noteq> accessTokenType
      then (Inl (''invalid_request'', ''actor_token_type must be access_token''), ev, w)
      else case VerifyAccessToken p (hf_now r) tok w of
          (Inl _, w1) \<Rightarrow> (Inl (''invalid_grant'', ''actor_token is invalid''), ev, w1)
        | (Inr actorClaims, w1) \<Rightarrow>
            if claimString actorClaims ''client_id'' \<noteq> c_client_id c
            then (Inl (''invalid_grant'', ''actor_token was not issued to the authenticated client''), ev, w1)
            else
              let s = claimString actorClaims ''sub''
              in (Inr s, ev\<lparr>ev_actor_subject := optionalClaim s\<rparr>, w1))"

text \<open>With the subject token's claims: the audience, the actor and the policy.\<close>

definition exchange_checked ::
  "('r, 'w) provider \<Rightarrow> http_form \<Rightarrow> client \<Rightarrow> gomap \<Rightarrow> tx_event \<Rightarrow> ('r, 'w) world \<Rightarrow>
     answer \<times> tx_event \<times> ('r, 'w) world" where
  "exchange_checked p r c subjectClaims ev w =
     (let subject = claimString subjectClaims ''sub'';
          ev1 = ev\<lparr>ev_subject := optionalClaim subject,
            ev_subject_token_id := optionalClaim (claimString subjectClaims ''jti'')\<rparr>
      in case resolveTokenExchangeAudience (hf_form r) of
           Inl (GoErr m) \<Rightarrow> failed ev1 ''invalid_request'' m w
         | Inl _ \<Rightarrow> failed ev1 ''invalid_request'' [] w
         | Inr audience \<Rightarrow>
             let ev2 = ev1\<lparr>ev_requested_audience := Some audience\<rparr>;
                 actorPresent = (vget (hf_form r) ''actor_token'' \<noteq> [])
             in case exchange_actor p r c ev2 w of
                  (Inl (code, desc), ev3, w2) \<Rightarrow> failed ev3 code desc w2
                | (Inr actorSubject, ev3, w2) \<Rightarrow>
                    (case FindTokenExchangePolicy (pv_pg p) (c_client_id c) subject accessTokenType
                            audience actorPresent (w_db w2) of
                       Inl _ \<Rightarrow> failed ev3 ''invalid_grant''
                         ''token exchange is not permitted for this subject or audience'' w2
                     | Inr policy \<Rightarrow>
                         exchange_grant p r c subjectClaims audience actorSubject policy ev3 w2))"

definition start_event :: "http_form \<Rightarrow> client \<Rightarrow> tx_event" where
  "start_event r c = \<lparr>ev_client_id = c_client_id c, ev_policy_id = None, ev_subject = None,
     ev_subject_token_type = firstNonEmpty [vget (hf_form r) ''subject_token_type'', ''unknown''],
     ev_subject_token_id = None, ev_requested_audience = None, ev_granted_audience = None,
     ev_requested_scopes = Some (parseScopes (vget (hf_form r) ''scope'')), ev_granted_scopes = None,
     ev_actor_subject = None, ev_success = False, ev_error = None, ev_issued_token_id = None\<rparr>"

definition exchange_body ::
  "('r, 'w) provider \<Rightarrow> http_form \<Rightarrow> client \<Rightarrow> ('r, 'w) world \<Rightarrow> answer \<times> tx_event \<times> ('r, 'w) world" where
  "exchange_body p r c w =
     (let form = hf_form r; ev = start_event r c; requested = vget form ''requested_token_type''
      in if \<not> contains (c_grants c) tokenExchangeGrant
         then failed ev ''unauthorized_client'' ''client is not allowed to use token exchange'' w
         else if requested \<noteq> [] \<and> requested \<noteq> accessTokenType
         then failed ev ''invalid_request'' ''requested_token_type is not supported'' w
         else if vget form ''subject_token_type'' \<noteq> accessTokenType
         then failed ev ''invalid_request'' ''subject_token_type must be access_token'' w
         else if vget form ''subject_token'' = []
         then failed ev ''invalid_request'' ''subject_token is required'' w
         else case VerifyAccessToken p (hf_now r) (vget form ''subject_token'') w of
           (Inl _, w1) \<Rightarrow> failed ev ''invalid_grant'' ''subject_token is invalid'' w1
         | (Inr subjectClaims, w1) \<Rightarrow>
             if claimString subjectClaims ''client_id'' \<noteq> c_client_id c
             then failed ev ''invalid_grant'' ''subject_token was not issued to the authenticated client'' w1
             else exchange_checked p r c subjectClaims ev w1)"

text \<open>The deferred function logs the event; its error is dropped.\<close>

definition log_event :: "('r, 'w) provider \<Rightarrow> tx_event \<Rightarrow> ('r, 'w) world \<Rightarrow> ('r, 'w) world" where
  "log_event p ev w =
     (let (_, d, n) = LogTokenExchangeEvent (pv_pg p) ev (w_db w, w_rng w) in w\<lparr>w_db := d, w_rng := n\<rparr>)"

definition tokenExchange ::
  "('r, 'w) provider \<Rightarrow> http_form \<Rightarrow> client \<Rightarrow> ('r, 'w) world \<Rightarrow> answer \<times> ('r, 'w) world" where
  "tokenExchange p r c w =
     (case exchange_body p r c w of (a, ev, w1) \<Rightarrow> (a, log_event p ev w1))"

section \<open>What an exchange grants\<close>

lemma exchange_grant_200:
  assumes "exchange_grant p r c sc aud act pol ev w = (a, ev', w')" "an_status a = 200"
  shows "\<exists>jti scopes tok. signJWT p (exchange_claims (pv_cfg p) (hf_now r) c sc aud scopes jti act) = Inr tok
    \<and> an_body a = Some (AMap [''access_token'' \<mapsto> AStr tok, ''issued_token_type'' \<mapsto> AStr accessTokenType,
        ''token_type'' \<mapsto> AStr ''Bearer'', ''expires_in'' \<mapsto> AInt (cf_access_ttl (pv_cfg p) div second),
        ''scope'' \<mapsto> AStr (join '' '' scopes)])
    \<and> set scopes \<subseteq> set (parseScopes (claimString sc ''scope''))
    \<and> policyAllowsScopes (tp_scopes pol) scopes
    \<and> (parseScopes (vget (hf_form r) ''scope'') \<noteq> [] \<longrightarrow> scopes = parseScopes (vget (hf_form r) ''scope''))
    \<and> ev_success ev' \<and> ev_error ev' = None \<and> ev_policy_id ev' = Some (tp_id pol)
    \<and> ev_granted_audience ev' = Some aud \<and> ev_granted_scopes ev' = Some scopes
    \<and> ev_issued_token_id ev' = Some jti \<and> ev_client_id ev' = ev_client_id ev"
  using assms
  by (auto simp: exchange_grant_def failed_def oauthError_def json_answer_def Let_def scopeSubset_iff
      split: if_splits prod.splits sum.splits)

lemma exchange_actor_ev:
  "exchange_actor p r c ev w = (x, ev', w') \<Longrightarrow> ev_client_id ev' = ev_client_id ev \<and> w_db w' = w_db w"
  by (auto simp: exchange_actor_def Let_def dest!: VerifyAccessToken_frame
      split: if_splits prod.splits sum.splits)

lemma exchange_grant_frame:
  "exchange_grant p r c sc aud act pol ev w = (a, ev', w') \<Longrightarrow>
     w_db w' = w_db w \<and> ev_client_id ev' = ev_client_id ev
     \<and> (\<not> ev_success ev \<longrightarrow> (ev_success ev' \<longleftrightarrow> an_status a = 200) \<and> (ev_success ev' \<longleftrightarrow> ev_error ev' = None))"
  by (auto simp: exchange_grant_def failed_def oauthError_def json_answer_def randomID_def Let_def
      split: if_splits prod.splits sum.splits)

lemma failed_frame:
  "failed ev code desc w = (a, ev', w') \<Longrightarrow> w' = w \<and> ev' = ev\<lparr>ev_error := Some desc\<rparr> \<and> an_status a = 400"
  by (auto simp: failed_def oauthError_def json_answer_def)

lemma exchange_actor_frame:
  "exchange_actor p r c ev w = (x, ev', w') \<Longrightarrow>
     ev_client_id ev' = ev_client_id ev \<and> ev_success ev' = ev_success ev \<and> w_db w' = w_db w"
  by (auto simp: exchange_actor_def Let_def dest!: VerifyAccessToken_frame
      split: if_splits prod.splits sum.splits)

lemma exchange_checked_frame:
  assumes "exchange_checked p r c sc ev w = (a, ev', w')" "\<not> ev_success ev"
  shows "w_db w' = w_db w \<and> ev_client_id ev' = ev_client_id ev
     \<and> (ev_success ev' \<longleftrightarrow> an_status a = 200) \<and> (ev_success ev' \<longleftrightarrow> ev_error ev' = None)"
proof -
  obtain x ev3 w2 where act: "exchange_actor p r c
      (ev\<lparr>ev_subject := optionalClaim (claimString sc ''sub''),
         ev_subject_token_id := optionalClaim (claimString sc ''jti''),
         ev_requested_audience := Some (case resolveTokenExchangeAudience (hf_form r) of Inr y \<Rightarrow> y | Inl _ \<Rightarrow> [])\<rparr>) w
      = (x, ev3, w2)" by (metis prod_cases3)
  from exchange_actor_frame [OF act] assms(2)
  have ev3: "ev_client_id ev3 = ev_client_id ev" "\<not> ev_success ev3" "w_db w2 = w_db w" by simp_all
  show ?thesis
  proof (cases "resolveTokenExchangeAudience (hf_form r)")
    case (Inl e)
    with assms show ?thesis
      by (cases e) (auto simp: exchange_checked_def Let_def dest!: failed_frame)
  next
    case (Inr y)
    with act assms(1) ev3 show ?thesis
      by (auto simp: exchange_checked_def Let_def dest!: failed_frame exchange_grant_frame
          split: sum.splits prod.splits)
  qed
qed

lemma exchange_body_frame:
  assumes "exchange_body p r c w = (a, ev, w')"
  shows "w_db w' = w_db w \<and> ev_client_id ev = c_client_id c
     \<and> (ev_success ev \<longleftrightarrow> an_status a = 200) \<and> (ev_success ev \<longleftrightarrow> ev_error ev = None)"
proof -
  have ev0: "ev_client_id (start_event r c) = c_client_id c" "\<not> ev_success (start_event r c)"
    by (simp_all add: start_event_def)
  with assms show ?thesis
    by (auto simp: exchange_body_def Let_def dest!: failed_frame VerifyAccessToken_frame
        dest: exchange_checked_frame [OF _ ev0(2)] split: if_splits prod.splits sum.splits)
qed

text \<open>
  C32. Every token exchange is audited once: whatever way the handler takes, exactly one event is
  appended to the audit table (if the insert is accepted), it names the authenticated client, it is
  a success exactly when the answer is 200, it carries an error exactly otherwise, and nothing else in
  the database changes.
\<close>

theorem exchange_audited:
  assumes "tokenExchange p r c w = (a, w')" and "\<And>e d. pg_fault (pv_pg p) (XLogTxEvent e) d = None"
  shows "\<exists>ev. w_db w' = (w_db w)\<lparr>t_tx_events := t_tx_events (w_db w) @ [ev]\<rparr>
    \<and> ev_client_id ev = c_client_id c \<and> (ev_success ev \<longleftrightarrow> an_status a = 200)
    \<and> (ev_success ev \<longleftrightarrow> ev_error ev = None)"
proof -
  obtain ev w1 where b: "exchange_body p r c w = (a, ev, w1)" and w': "w' = log_event p ev w1"
    using assms(1) by (auto simp: tokenExchange_def split: prod.splits)
  from exchange_body_frame [OF b] show ?thesis
    by (auto simp: w' log_event_def LogTokenExchangeEvent_def assms(2) Let_def)
qed



section \<open>A concrete exchange\<close>

definition exchange_form :: http_form where
  "exchange_form = sample_form\<lparr>hf_form := (\<lambda>_. [])(''subject_token_type'' := [accessTokenType],
     ''subject_token'' := [sample_token], ''audience'' := [''api''])\<rparr>"

definition exchange_client :: client where
  "exchange_client = zero_client\<lparr>c_client_id := ''app'', c_grants := Some [tokenExchangeGrant]\<rparr>"

definition exchange_world :: "(mem, unit) world" where
  "exchange_world = sample_world\<lparr>w_db := empty_db\<lparr>t_tx_policies := [sample_policy_row ''p'' 1]\<rparr>\<rparr>"

lemma exchange_setup:
  "vget (hf_form exchange_form) ''subject_token'' = sample_token"
  "vget (hf_form exchange_form) ''subject_token_type'' = accessTokenType"
  "vget (hf_form exchange_form) ''requested_token_type'' = []"
  "vget (hf_form exchange_form) ''actor_token'' = []"
  "vget (hf_form exchange_form) ''actor_token_type'' = []"
  "vget (hf_form exchange_form) ''scope'' = []"
  "hf_now exchange_form = 0" "contains (c_grants exchange_client) tokenExchangeGrant"
  "c_client_id exchange_client = ''app''"
  by (simp_all add: exchange_form_def exchange_client_def vget_def sample_form_def contains_def)

lemma exchange_audience: "resolveTokenExchangeAudience (hf_form exchange_form) = Inr ''api''"
proof -
  have "is_word ''api''"
    by (rule is_word_plain) (simp_all add: is_space_def list_all_iff)
  then show ?thesis
    by (simp add: resolveTokenExchangeAudience_def exchange_form_def trim_space_word)
qed

lemma exchange_token_nonempty: "sample_token \<noteq> []"
  by (simp add: sample_token_def signJWT_def sample_jose_def Let_def)

lemma exchange_verified:
  "\<exists>w. VerifyAccessToken (sample_provider (AMap sample_claims)) 0 sample_token exchange_world
     = (Inr (json_map sample_claims), w) \<and> w_db w = w_db exchange_world"
  using sample_jti
  by (simp add: VerifyAccessToken_def verifyLegacyAccessToken_def sample_verified get_artifact_def
      GetArtifact_def kv_Get_def exchange_world_def sample_world_def mem_start_of mem_eval purge_def Let_def)

lemma exchange_runs:
  "\<exists>a w'. tokenExchange (sample_provider (AMap sample_claims)) exchange_form exchange_client exchange_world
     = (a, w') \<and> an_status a = 200"
proof -
  let ?p = "sample_provider (AMap sample_claims)"
  obtain w1 where v: "VerifyAccessToken ?p 0 sample_token exchange_world = (Inr (json_map sample_claims), w1)"
      and db: "w_db w1 = w_db exchange_world"
    using exchange_verified by blast
  have cs: "claimString (json_map sample_claims) ''client_id'' = ''app''"
    by (simp add: claimString_def sample_claims_def valid_utf8_of_ascii ascii_def)
  obtain pol where pol: "FindTokenExchangePolicy sample_pg ''app'' sub accessTokenType ''api'' False (w_db w1)
      = Inr pol" "tp_scopes pol = None" for sub
  proof -
    have "FindTokenExchangePolicy sample_pg ''app'' sub accessTokenType ''api'' False (w_db w1)
      = Inr (scanTokenExchangePolicy (sample_policy_row ''p'' 1))" for sub
      by (simp add: FindTokenExchangePolicy_def db exchange_world_def policy_rows_def order_by_def
          tokenExchangePolicyMatches_def scanTokenExchangePolicy_def sample_policy_row_def
          matchesList_def unmarshal_strings_def)
    with that show thesis
      by (simp add: scanTokenExchangePolicy_def sample_policy_row_def unmarshal_strings_def)
  qed
  have ps: "parseScopes [] = []" by (simp add: parseScopes_fields str_fields_def)
  have sg: "signJWT ?p m \<noteq> Inl e" for m e
    by (simp add: signJWT_def sample_jose_def Let_def)
  have "an_status (fst (tokenExchange ?p exchange_form exchange_client exchange_world)) = 200"
    using v cs pol sg
    by (auto simp: tokenExchange_def exchange_body_def exchange_checked_def exchange_actor_def exchange_grant_def
        exchange_setup exchange_audience exchange_token_nonempty Let_def scopeSubset_iff policyAllowsScopes_def
        ps json_answer_def split: prod.splits sum.splits)
  then show ?thesis by (metis prod.collapse)
qed

theorem exchange_audited_witness:
  "\<exists>w' ev. snd (tokenExchange (sample_provider (AMap sample_claims)) exchange_form exchange_client exchange_world) = w'
     \<and> t_tx_events (w_db w') = [ev] \<and> ev_client_id ev = ''app'' \<and> ev_success ev"
proof -
  obtain a w' where run: "tokenExchange (sample_provider (AMap sample_claims)) exchange_form exchange_client
      exchange_world = (a, w')" "an_status a = 200"
    using exchange_runs by blast
  from exchange_audited [OF run(1)] run show ?thesis
    by (auto simp: exchange_world_def empty_db_def exchange_setup)
qed


end
