(* ===== verification/Login.thy ===== *)
theory Login
  imports Token_Exchange
begin

text \<open>
  The login half of internal/idp/provider.go: signing in with the lockout of repeated failures,
  the forced password change, the password reset by mail, and the views of an interaction.
\<close>

section \<open>WildDuck accounts\<close>

text \<open>The struct \<open>Account\<close> of the provider.\<close>

record idp_account =
  ac_id :: string
  ac_email :: string
  ac_username :: string
  ac_name :: string
  ac_activated :: bool
  ac_suspended :: bool
  ac_disabled :: bool
  ac_meta :: gomap
  ac_internal :: gomap

definition on_wd :: "('w \<Rightarrow> 'a \<times> 'w) \<Rightarrow> ('r, 'w) world \<Rightarrow> 'a \<times> ('r, 'w) world" where
  "on_wd f w = (let (x, s) = f (w_wd w) in (x, w\<lparr>w_wd := s\<rparr>))"

definition account_of :: "gomap \<Rightarrow> idp_account" where
  "account_of user = \<lparr>ac_id = str (mget user ''id''), ac_email = str (mget user ''address''),
     ac_username = str (mget user ''username''), ac_name = str (mget user ''name''),
     ac_activated = boolv (mget user ''activated''), ac_suspended = boolv (mget user ''suspended''),
     ac_disabled = boolv (mget user ''disabled''), ac_meta = mapv (mget user ''metaData''),
     ac_internal = mapv (mget user ''internalData'')\<rparr>"

definition FetchAccount :: "('r, 'w) provider \<Rightarrow> string \<Rightarrow> ('r, 'w) world \<Rightarrow> idp_account res \<times> ('r, 'w) world" where
  "FetchAccount p userID w =
     (case on_wd (wd_get (pv_wd p) userID) w of
        (Inl _, w1) \<Rightarrow> (Inl (GoErr ''wildduck user not found''), w1)
      | (Inr user, w1) \<Rightarrow>
          if \<not> success user then (Inl (GoErr ''wildduck user not found''), w1)
          else (Inr (account_of user), w1))"

definition ac_usable :: "idp_account \<Rightarrow> bool" where
  "ac_usable a \<longleftrightarrow> ac_activated a \<and> \<not> ac_suspended a \<and> \<not> ac_disabled a"

text \<open>A present key overwrites; \<open>role\<close> comes after \<open>roles\<close> and wins.\<close>

definition copy_key :: "gomap \<Rightarrow> string \<Rightarrow> string \<Rightarrow> gomap \<Rightarrow> gomap" where
  "copy_key src k k' m = (case src k of None \<Rightarrow> m | Some v \<Rightarrow> m(k' \<mapsto> v))"

definition BuildClaims :: "idp_account \<Rightarrow> gomap" where
  "BuildClaims a =
     (let base = [''sub'' \<mapsto> AStr (ac_id a), ''email'' \<mapsto> AStr (ac_email a),
            ''email_verified'' \<mapsto> ABool (ac_usable a),
            ''preferred_username'' \<mapsto> AStr (firstNonEmpty [ac_username a, ac_email a])];
          named = (if ac_name a \<noteq> [] then base(''name'' \<mapsto> AStr (ac_name a)) else base);
          cid = str (mget (ac_internal a) ''cid'');
          owned = (if cid \<noteq> [] then named(''customer_id'' \<mapsto> AStr cid) else named);
          roled = copy_key (ac_internal a) ''roles'' ''roles'' owned;
          roled' = (case ac_internal a ''role'' of None \<Rightarrow> roled
            | Some role \<Rightarrow> roled(''roles'' \<mapsto> AArr [role]));
          permitted = copy_key (ac_internal a) ''permissions'' ''permissions'' roled'
      in copy_key (mapv (mget (ac_meta a) ''idp'')) ''branding'' ''branding'' permitted)"

section \<open>Signing in\<close>

definition ipLockAfter :: int where "ipLockAfter = 5"
definition userLockAfter :: int where "userLockAfter = 20"
definition lockFor :: int where "lockFor = 15 * minute"

definition login_locked ::
  "('r, 'w) provider \<Rightarrow> int \<Rightarrow> string \<Rightarrow> ('r, 'w) world \<Rightarrow> (bool \<times> int option) res \<times> ('r, 'w) world" where
  "login_locked p now k w = (let (x, s) = LoginLocked (pv_redis p) now k (w_kv w) in (x, w\<lparr>w_kv := s\<rparr>))"

fun check_locks :: "('r, 'w) provider \<Rightarrow> int \<Rightarrow> string list \<Rightarrow> ('r, 'w) world \<Rightarrow> unit res \<times> ('r, 'w) world" where
  "check_locks p now [] w = (Inr (), w)"
| "check_locks p now (k # ks) w =
     (case login_locked p now k w of
        (Inl e, w1) \<Rightarrow> (Inl e, w1)
      | (Inr (locked, _), w1) \<Rightarrow>
          if locked then (Inl (GoErr ''locked''), w1) else check_locks p now ks w1)"

definition ip_key :: "string \<Rightarrow> string \<Rightarrow> string" where
  "ip_key uname ip = uname @ ''|'' @ ip"

definition user_key :: "string \<Rightarrow> string" where
  "user_key uname = ''user|'' @ uname"

text \<open>Errors of the two recordings and of the two resets are dropped.\<close>

definition recordFailure ::
  "('r, 'w) provider \<Rightarrow> int \<Rightarrow> string \<Rightarrow> string \<Rightarrow> ('r, 'w) world \<Rightarrow> ('r, 'w) world" where
  "recordFailure p now ipKey userKey w =
     (let s1 = snd (RecordLoginFailure (pv_redis p) now ipKey ipLockAfter lockFor (w_kv w));
          s2 = snd (RecordLoginFailure (pv_redis p) now userKey userLockAfter lockFor s1)
      in w\<lparr>w_kv := s2\<rparr>)"

definition reset_failures ::
  "('r, 'w) provider \<Rightarrow> int \<Rightarrow> string \<Rightarrow> string \<Rightarrow> ('r, 'w) world \<Rightarrow> ('r, 'w) world" where
  "reset_failures p now ipKey userKey w =
     (let s1 = snd (ResetLoginFailures (pv_redis p) now ipKey (w_kv w));
          s2 = snd (ResetLoginFailures (pv_redis p) now userKey s1)
      in w\<lparr>w_kv := s2\<rparr>)"

text \<open>The id is returned whether or not the session could be stored.\<close>

definition startSession ::
  "('r, 'w) provider \<Rightarrow> int \<Rightarrow> string \<Rightarrow> string \<Rightarrow> ('r, 'w) world \<Rightarrow> string \<times> ('r, 'w) world" where
  "startSession p now sub email w =
     (let (sid, w1) = randomID p 32 w in
      (sid, snd (put_artifact p now sessionName sid [''sub'' \<mapsto> AStr sub, ''email'' \<mapsto> AStr email]
              (24 * hour) w1)))"

text \<open>Credentials at WildDuck: the answer of the authentication and the account.\<close>

definition accepted ::
  "('r, 'w) provider \<Rightarrow> int \<Rightarrow> string \<Rightarrow> string \<Rightarrow> string \<Rightarrow> gomap \<Rightarrow> idp_account \<Rightarrow> ('r, 'w) world \<Rightarrow>
     string res \<times> ('r, 'w) world" where
  "accepted p now uid ipKey userKey auth account w =
     (let w1 = reset_failures p now ipKey userKey w in
      if boolv (mget auth ''requirePasswordChange'')
      then (case put_artifact p now pwChangeName uid
                   [''sub'' \<mapsto> AStr (ac_id account), ''email'' \<mapsto> AStr (ac_email account)] (10 * minute) w1 of
              (Inl e, w2) \<Rightarrow> (Inl e, w2)
            | (Inr _, w2) \<Rightarrow> (Inl PasswordChangeRequired, w2))
      else (let (sid, w2) = startSession p now (ac_id account) (ac_email account) w1 in (Inr sid, w2)))"

definition sign_in ::
  "('r, 'w) provider \<Rightarrow> int \<Rightarrow> string \<Rightarrow> string \<Rightarrow> string \<Rightarrow> string \<Rightarrow> string \<Rightarrow> ('r, 'w) world \<Rightarrow>
     string res \<times> ('r, 'w) world" where
  "sign_in p now uid username password ipKey userKey w =
     (let refuse = (\<lambda>w'. (Inl (GoErr ''invalid credentials''), recordFailure p now ipKey userKey w')) in
      case on_wd (wd_authenticate (pv_wd p) username password [''scope'' \<mapsto> AStr ''master'']) w of
        (Inl _, w1) \<Rightarrow> refuse w1
      | (Inr auth, w1) \<Rightarrow>
          if \<not> success auth then refuse w1
          else
            let userID = str (mget auth ''id'') in
            if userID = [] then refuse w1
            else (case FetchAccount p userID w1 of
                    (Inl e, w2) \<Rightarrow> (Inl e, w2)
                  | (Inr account, w2) \<Rightarrow>
                      if \<not> ac_activated account \<or> ac_suspended account \<or> ac_disabled account
                      then refuse w2
                      else accepted p now uid ipKey userKey auth account w2))"

definition FinishLogin ::
  "('r, 'w) provider \<Rightarrow> int \<Rightarrow> string \<Rightarrow> string \<Rightarrow> string \<Rightarrow> string \<Rightarrow> ('r, 'w) world \<Rightarrow>
     string res \<times> ('r, 'w) world" where
  "FinishLogin p now uid username password ip w =
     (case get_artifact p now interactionName uid w of
        (Inl e, w1) \<Rightarrow> (Inl e, w1)
      | (Inr _, w1) \<Rightarrow>
          let uname = to_lower (pv_unicode p) username;
              ipKey = ip_key uname ip; userKey = user_key uname
          in case check_locks p now [ipKey, userKey] w1 of
               (Inl e, w2) \<Rightarrow> (Inl e, w2)
             | (Inr _, w2) \<Rightarrow> sign_in p now uid username password ipKey userKey w2)"

section \<open>The forced password change\<close>

definition CompletePasswordChange ::
  "('r, 'w) provider \<Rightarrow> int \<Rightarrow> string \<Rightarrow> string \<Rightarrow> ('r, 'w) world \<Rightarrow> string res \<times> ('r, 'w) world" where
  "CompletePasswordChange p now uid newPassword w =
     (case get_artifact p now pwChangeName uid w of
        (Inl e, w1) \<Rightarrow> (Inl e, w1)
      | (Inr pending, w1) \<Rightarrow>
          let sub = str (mget pending ''sub'') in
          if sub = [] then (Inl (GoErr ''invalid password change request''), w1)
          else (case on_wd (wd_update (pv_wd p) sub [''password'' \<mapsto> AStr newPassword]) w1 of
                  (Inl _, w2) \<Rightarrow> (Inl (GoErr ''password change failed''), w2)
                | (Inr r, w2) \<Rightarrow>
                    if \<not> success r then (Inl (GoErr ''password change failed''), w2)
                    else
                      let w3 = snd (delete_artifact p now pwChangeName uid w2);
                          (sid, w4) = startSession p now sub (str (mget pending ''email'')) w3
                      in (Inr sid, w4)))"

section \<open>The password reset\<close>

definition destinationMatches :: "crypto \<Rightarrow> unicode \<Rightarrow> destination list \<Rightarrow> string \<Rightarrow> bool" where
  "destinationMatches C UC dests email =
     (let h = hex (sha256 C email)
      in list_ex (\<lambda>d. (ds_address d \<noteq> [] \<and> equal_fold UC (ds_address d) email)
           \<or> (ds_hash d \<noteq> [] \<and> equal_fold UC (ds_hash d) h)) dests)"

definition reset_link :: "('r, 'w) provider \<Rightarrow> string \<Rightarrow> string" where
  "reset_link p token = trim_right (CHR ''/'') (cf_public_base (pv_cfg p)) @ ''/reset?token=''
     @ ul_query_escape (pv_url p) token"

definition clean_address :: "unicode \<Rightarrow> string \<Rightarrow> string" where
  "clean_address UC s = trim_space (to_lower UC s)"

text \<open>From the verified destination on: the token and the mail.\<close>

definition send_reset ::
  "('r, 'w) provider \<Rightarrow> 'w mailer \<Rightarrow> int \<Rightarrow> account \<Rightarrow> string \<Rightarrow> ('r, 'w) world \<Rightarrow> ('r, 'w) world" where
  "send_reset p m now acc email w =
     (let (token, w1) = randomID p 32 w in
      case put_artifact p now pwResetName token [''sub'' \<mapsto> AStr (au_id acc), ''email'' \<mapsto> AStr email]
             (cf_reset_ttl (pv_cfg p)) w1 of
        (Inl _, w2) \<Rightarrow> w2
      | (Inr _, w2) \<Rightarrow> snd (on_wd (ml_SendPasswordReset m email (au_name acc) (reset_link p token)) w2))"

definition BeginPasswordReset ::
  "('r, 'w) provider \<Rightarrow> int \<Rightarrow> string \<Rightarrow> string \<Rightarrow> ('r, 'w) world \<Rightarrow> ('r, 'w) world" where
  "BeginPasswordReset p now login0 email0 w =
     (let login = clean_address (pv_unicode p) login0; email = clean_address (pv_unicode p) email0 in
      if login = [] \<or> email = [] then w
      else case (pv_backend p, pv_mailer p) of
          (Some b, Some m) \<Rightarrow>
            (case on_wd (bk_FindByLogin b login) w of
               (Inr (acc, True), w1) \<Rightarrow>
                 if \<not> Usable acc then w1
                 else (case on_wd (bk_RecoveryDestinations b acc) w1 of
                         (Inl _, w2) \<Rightarrow> w2
                       | (Inr dests, w2) \<Rightarrow>
                           if \<not> destinationMatches (pv_crypto p) (pv_unicode p) dests email then w2
                           else send_reset p m now acc email w2)
             | (_, w1) \<Rightarrow> w1)
        | _ \<Rightarrow> w)"

definition ResetTokenValid ::
  "('r, 'w) provider \<Rightarrow> int \<Rightarrow> string \<Rightarrow> ('r, 'w) world \<Rightarrow> bool \<times> ('r, 'w) world" where
  "ResetTokenValid p now token w =
     (if token = [] then (False, w)
      else (let (x, w1) = get_artifact p now pwResetName token w in (is_ok x, w1)))"

text \<open>Without a backend the call on the nil interface panics.\<close>

definition CompletePasswordReset ::
  "('r, 'w) provider \<Rightarrow> int \<Rightarrow> string \<Rightarrow> string \<Rightarrow> ('r, 'w) world \<Rightarrow> string go \<times> ('r, 'w) world" where
  "CompletePasswordReset p now token newPassword w =
     (case get_artifact p now pwResetName token w of
        (Inl _, w1) \<Rightarrow> (Err (GoErr ''invalid or expired reset link''), w1)
      | (Inr pending, w1) \<Rightarrow>
          let sub = str (mget pending ''sub'') in
          if sub = [] then (Err (GoErr ''invalid reset request''), w1)
          else (case pv_backend p of
                  None \<Rightarrow> (Panic nil_panic, w1)
                | Some b \<Rightarrow>
                    (case on_wd (bk_SetPassword b sub newPassword) w1 of
                       (Inl _, w2) \<Rightarrow> (Err (GoErr ''password change failed''), w2)
                     | (Inr _, w2) \<Rightarrow>
                         let w3 = snd (delete_artifact p now pwResetName token w2);
                             (sid, w4) = startSession p now sub (str (mget pending ''email'')) w3
                         in (Ok sid, w4))))"

section \<open>The views of an interaction\<close>

record interaction_view =
  iv_uid :: string
  iv_mode :: string
  iv_client_id :: string
  iv_client :: string
  iv_scopes :: slice
  iv_audiences :: slice
  iv_error :: string

definition view_client :: "('r, 'w) provider \<Rightarrow> string \<Rightarrow> ('r, 'w) world \<Rightarrow> string" where
  "view_client p clientID w =
     (case GetClientByClientID (pv_pg p) clientID (w_db w) of
        Inr c \<Rightarrow> firstNonEmpty [c_name c, c_client_id c] | Inl _ \<Rightarrow> clientID)"

text \<open>\<open>session["sub"] != ""\<close> compares interfaces, so a session without subject counts.\<close>

definition InteractionView ::
  "('r, 'w) provider \<Rightarrow> http_form \<Rightarrow> string \<Rightarrow> string \<Rightarrow> ('r, 'w) world \<Rightarrow>
     interaction_view res \<times> ('r, 'w) world" where
  "InteractionView p r uid errorText w =
     (case get_artifact p (hf_now r) interactionName uid w of
        (Inl e, w1) \<Rightarrow> (Inl e, w1)
      | (Inr artifact, w1) \<Rightarrow>
          let clientID = str (mget artifact ''client_id'');
              view = \<lparr>iv_uid = uid, iv_mode = ''login'', iv_client_id = clientID,
                iv_client = view_client p clientID w1, iv_scopes = None, iv_audiences = None,
                iv_error = errorText\<rparr>
          in case readSession p r of
               None \<Rightarrow> (Inr view, w1)
             | Some sid \<Rightarrow>
                 (case get_artifact p (hf_now r) sessionName sid w1 of
                    (Inl _, w2) \<Rightarrow> (Inr view, w2)
                  | (Inr session, w2) \<Rightarrow>
                      (Inr (if mget session ''sub'' \<noteq> AStr []
                         then view\<lparr>iv_mode := ''consent'',
                           iv_scopes := Some (parseScopes (str (mget artifact ''scope''))),
                           iv_audiences := Some (parseScopes (str (mget artifact ''audience'')))\<rparr>
                         else view), w2)))"

definition PasswordChangeView ::
  "('r, 'w) provider \<Rightarrow> http_form \<Rightarrow> string \<Rightarrow> string \<Rightarrow> ('r, 'w) world \<Rightarrow>
     interaction_view res \<times> ('r, 'w) world" where
  "PasswordChangeView p r uid errorText w =
     (case InteractionView p r uid errorText w of
        (Inl e, w1) \<Rightarrow> (Inl e, w1)
      | (Inr view, w1) \<Rightarrow> (Inr (view\<lparr>iv_mode := ''password''\<rparr>), w1))"

section \<open>Back to the authorization endpoint\<close>

definition SetSessionCookie :: "('r, 'w) provider \<Rightarrow> string \<Rightarrow> answer \<Rightarrow> answer" where
  "SetSessionCookie p sid a = a\<lparr>an_cookie := Some (signedCookie p sid (24 * hour))\<rparr>"

definition resume_values :: "gomap \<Rightarrow> uvalues" where
  "resume_values artifact = vset (\<lambda>k. case artifact k of
       Some (AStr s) \<Rightarrow> if s \<noteq> [] \<and> k \<noteq> ''uid'' then [s] else [] | _ \<Rightarrow> []) ''response_type'' ''code''"

definition RedirectAfterLogin ::
  "('r, 'w) provider \<Rightarrow> int \<Rightarrow> string \<Rightarrow> string \<Rightarrow> ('r, 'w) world \<Rightarrow> answer \<times> ('r, 'w) world" where
  "RedirectAfterLogin p now uid sid w =
     (case get_artifact p now interactionName uid w of
        (Inl _, w1) \<Rightarrow> (SetSessionCookie p sid (oauthError 400 ''invalid_request'' ''interaction not found''), w1)
      | (Inr artifact, w1) \<Rightarrow>
          (SetSessionCookie p sid (redirect_to 303
             (''/oauth/authorize?'' @ ul_encode (pv_url p) (resume_values artifact))), w1))"

end
