(* ===== verification/Token_Endpoint.thy ===== *)
theory Token_Endpoint
  imports Login
begin

text \<open>
  The token, introspection and revocation endpoints of internal/idp/provider.go: the provider's own
  tokens and the adapters around fosite.  A handler reads the clock once.
\<close>

section \<open>Issuing tokens\<close>

text \<open>The claims of the access token; an account that cannot be fetched leaves its claims out.\<close>

definition token_claims ::
  "('r, 'w) provider \<Rightarrow> int \<Rightarrow> client \<Rightarrow> string \<Rightarrow> string \<Rightarrow> string \<Rightarrow> gomap \<Rightarrow> gomap" where
  "token_claims p now c sub scope jti base =
     (let claims = base(''iss'' \<mapsto> AStr (cf_issuer (pv_cfg p)), ''aud'' \<mapsto> AStr (c_client_id c),
            ''client_id'' \<mapsto> AStr (c_client_id c), ''scope'' \<mapsto> AStr scope, ''jti'' \<mapsto> AStr jti,
            ''iat'' \<mapsto> AInt (unix now), ''exp'' \<mapsto> AInt (unix (now + cf_access_ttl (pv_cfg p))))
      in if sub \<noteq> [] then claims(''sub'' \<mapsto> AStr sub) else claims)"

definition account_claims ::
  "('r, 'w) provider \<Rightarrow> string \<Rightarrow> ('r, 'w) world \<Rightarrow> gomap \<times> ('r, 'w) world" where
  "account_claims p sub w =
     (if sub = [] then (Map.empty, w)
      else case FetchAccount p sub w of
          (Inr account, w1) \<Rightarrow> (BuildClaims account, w1) | (Inl _, w1) \<Rightarrow> (Map.empty, w1))"

text \<open>A refresh token that could not be stored is handed out all the same.\<close>

definition add_refresh ::
  "('r, 'w) provider \<Rightarrow> int \<Rightarrow> client \<Rightarrow> string \<Rightarrow> string \<Rightarrow> gomap \<Rightarrow> ('r, 'w) world \<Rightarrow>
     gomap \<times> ('r, 'w) world" where
  "add_refresh p now c sub scope response w =
     (if contains (c_grants c) ''refresh_token'' \<and> hasScope scope ''offline_access''
      then (let (refresh, w1) = randomID p 32 w;
                w2 = snd (put_artifact p now refreshName refresh
                       [''client_id'' \<mapsto> AStr (c_client_id c), ''sub'' \<mapsto> AStr sub, ''scope'' \<mapsto> AStr scope]
                       (cf_refresh_ttl (pv_cfg p)) w1)
            in (response(''refresh_token'' \<mapsto> AStr refresh), w2))
      else (response, w))"

fun str_contains :: "string \<Rightarrow> string \<Rightarrow> bool" where
  "str_contains [] t = (t = [])"
| "str_contains (c # s) t = (has_prefix (c # s) t \<or> str_contains s t)"

text \<open>\<open>strings.Contains(" "+scope+" ", " openid ")\<close>, and an id token that fails to sign is empty.\<close>

definition openid_asked :: "string \<Rightarrow> bool" where
  "openid_asked scope \<longleftrightarrow> str_contains ('' '' @ scope @ '' '') '' openid ''"

definition add_id_token :: "('r, 'w) provider \<Rightarrow> int \<Rightarrow> string \<Rightarrow> string \<Rightarrow> gomap \<Rightarrow> gomap \<Rightarrow> gomap" where
  "add_id_token p now scope nonce claims response =
     (if openid_asked scope
      then response(''id_token'' \<mapsto> AStr (case signJWT p ((cloneMap claims)(''nonce'' \<mapsto> AStr nonce,
                ''exp'' \<mapsto> AInt (unix (now + cf_id_ttl (pv_cfg p))))) of Inr t \<Rightarrow> t | Inl _ \<Rightarrow> []))
      else response)"

definition issueTokenResponse ::
  "('r, 'w) provider \<Rightarrow> int \<Rightarrow> client \<Rightarrow> string \<Rightarrow> string \<Rightarrow> string \<Rightarrow> ('r, 'w) world \<Rightarrow>
     answer \<times> ('r, 'w) world" where
  "issueTokenResponse p now c sub scope nonce w =
     (let (base, w1) = account_claims p sub w;
          (jti, w2) = randomID p 16 w1;
          claims = token_claims p now c sub scope jti base
      in case signJWT p claims of
           Inl _ \<Rightarrow> (oauthError 500 ''server_error'' ''failed to sign token'', w2)
         | Inr accessToken \<Rightarrow>
             let response = [''access_token'' \<mapsto> AStr accessToken, ''token_type'' \<mapsto> AStr ''Bearer'',
                   ''expires_in'' \<mapsto> AInt (cf_access_ttl (pv_cfg p) div second), ''scope'' \<mapsto> AStr scope]
             in if sub \<noteq> []
                then (let (r1, w3) = add_refresh p now c sub scope response w2
                      in (json_answer 200 (AMap (add_id_token p now scope nonce claims r1)), w3))
                else (json_answer 200 (AMap response), w2))"

section \<open>The provider's own grants\<close>

definition tokenAuthorizationCode ::
  "('r, 'w) provider \<Rightarrow> http_form \<Rightarrow> client \<Rightarrow> ('r, 'w) world \<Rightarrow> answer \<times> ('r, 'w) world" where
  "tokenAuthorizationCode p r c w =
     (let code = vget (hf_form r) ''code'' in
      if \<not> contains (c_grants c) ''authorization_code''
      then (oauthError 400 ''unauthorized_client'' ''client is not allowed to use authorization_code'', w)
      else case get_artifact p (hf_now r) codeName code w of
          (Inl _, w1) \<Rightarrow> (oauthError 400 ''invalid_grant'' ''authorization code is invalid'', w1)
        | (Inr payload, w1) \<Rightarrow>
            if mget payload ''client_id'' \<noteq> AStr (c_client_id c)
               \<or> mget payload ''redirect_uri'' \<noteq> AStr (vget (hf_form r) ''redirect_uri'')
            then (oauthError 400 ''invalid_grant'' ''authorization code client or redirect mismatch'', w1)
            else
              let challenge = str (mget payload ''code_challenge'') in
              if challenge \<noteq> [] \<and> \<not> verifyPKCE (pv_crypto p) challenge (vget (hf_form r) ''code_verifier'')
              then (oauthError 400 ''invalid_grant'' ''code_verifier is invalid'', w1)
              else
                let w2 = snd (delete_artifact p (hf_now r) codeName code w1) in
                case allowedScopes c (str (mget payload ''scope'')) False of
                  Inl _ \<Rightarrow> (oauthError 400 ''invalid_scope'' ''requested scope is not allowed for this client'', w2)
                | Inr scope \<Rightarrow> issueTokenResponse p (hf_now r) c (str (mget payload ''sub'')) scope
                                (str (mget payload ''nonce'')) w2)"

definition tokenClientCredentials ::
  "('r, 'w) provider \<Rightarrow> http_form \<Rightarrow> client \<Rightarrow> ('r, 'w) world \<Rightarrow> answer \<times> ('r, 'w) world" where
  "tokenClientCredentials p r c w =
     (if \<not> contains (c_grants c) ''client_credentials''
      then (oauthError 400 ''unauthorized_client'' ''client is not allowed to use client_credentials'', w)
      else case allowedScopes c (vget (hf_form r) ''scope'') True of
          Inl _ \<Rightarrow> (oauthError 400 ''invalid_scope'' ''requested scope is not allowed for this client'', w)
        | Inr scope \<Rightarrow> issueTokenResponse p (hf_now r) c [] scope [] w)"

definition tokenRefresh ::
  "('r, 'w) provider \<Rightarrow> http_form \<Rightarrow> client \<Rightarrow> ('r, 'w) world \<Rightarrow> answer \<times> ('r, 'w) world" where
  "tokenRefresh p r c w =
     (let token = vget (hf_form r) ''refresh_token'';
          invalid = oauthError 400 ''invalid_grant'' ''refresh_token is invalid'' in
      if \<not> contains (c_grants c) ''refresh_token''
      then (oauthError 400 ''unauthorized_client'' ''client is not allowed to use refresh_token'', w)
      else case get_artifact p (hf_now r) refreshName token w of
          (Inl _, w1) \<Rightarrow> (invalid, w1)
        | (Inr payload, w1) \<Rightarrow>
            if mget payload ''client_id'' \<noteq> AStr (c_client_id c) then (invalid, w1)
            else case allowedScopes c (str (mget payload ''scope'')) False of
                Inl _ \<Rightarrow> (oauthError 400 ''invalid_scope''
                  ''refresh token scope is no longer allowed for this client'', w1)
              | Inr scope \<Rightarrow>
                  let w2 = snd (delete_artifact p (hf_now r) refreshName token w1)
                  in issueTokenResponse p (hf_now r) c (str (mget payload ''sub'')) scope [] w2)"

section \<open>The token endpoint and fosite\<close>

text \<open>The form and the post form of a request get the client's scopes when it asks for none.\<close>

definition normalizeClientCredentialsScope ::
  "('r, 'w) provider \<Rightarrow> http_form \<Rightarrow> ('r, 'w) world \<Rightarrow> http_form go" where
  "normalizeClientCredentialsScope p r w =
     (if vget (hf_form r) ''grant_type'' \<noteq> ''client_credentials'' \<or> vget (hf_form r) ''scope'' \<noteq> [] then Ok r
      else case authenticateClient p r w of
          Panic m \<Rightarrow> Panic m
        | Err _ \<Rightarrow> Ok r
        | Ok c \<Rightarrow>
            if elems (c_scopes c) = [] then Ok r
            else
              let all = join '' '' (elems (c_scopes c))
              in Ok (r\<lparr>hf_form := vset (hf_form r) ''scope'' all, hf_post := vset (hf_post r) ''scope'' all\<rparr>))"

text \<open>\<open>jwt.Headers.Add\<close> sets an entry of the header; a nil header is replaced by a new one.\<close>

definition populateClientTokenSession :: "('r, 'w) provider \<Rightarrow> string \<Rightarrow> fsession \<Rightarrow> fsession" where
  "populateClientTokenSession p clientID s =
     (let claims = [''client_id'' \<mapsto> AStr clientID];
          header = (case fs_jwt_header s of None \<Rightarrow> Map.empty | Some h \<Rightarrow> h)
      in s\<lparr>fs_subject := [], fs_username := clientID, fs_munin := (fs_munin s)\<lparr>mn_raw := claims\<rparr>,
           fs_extra := cloneMap claims, fs_jwt_claims := Some (zero_jwt_claims\<lparr>jc_extra := cloneMap claims\<rparr>),
           fs_jwt_header := Some (header(''kid'' \<mapsto> AStr (pv_keyID p)))\<rparr>)"

definition token_session :: "('r, 'w) provider \<Rightarrow> int \<Rightarrow> fsession" where
  "token_session p now =
     (let kid = [''kid'' \<mapsto> AStr (pv_keyID p)]
      in zero_session\<lparr>fs_jwt_claims := Some zero_jwt_claims, fs_jwt_header := Some kid,
           fs_id_claims := Some (zero_id_claims\<lparr>ic_requested := now\<rparr>), fs_id_header := Some kid\<rparr>)"

text \<open>\<open>ExactOne\<close> of fosite's \<open>Arguments\<close>: the one element.\<close>

definition exact_one :: "slice \<Rightarrow> string \<Rightarrow> bool" where
  "exact_one s v \<longleftrightarrow> elems s = [v]"

text \<open>The client grant is granted what it asks for; the session fosite did not replace is the client's.\<close>

definition grant_client :: "('r, 'w) oauth \<Rightarrow> access_request \<Rightarrow> access_request" where
  "grant_client oa aq =
     (if exact_one (aq_grants aq) ''client_credentials''
      then aq\<lparr>aq_request := oa_grant_audience oa (fc_id (fr_client (aq_request aq)))
             (fold (oa_grant_scope oa) (elems (fr_scopes (aq_request aq))) (aq_request aq))\<rparr>
      else aq)"

definition own_session :: "('r, 'w) provider \<Rightarrow> access_request \<Rightarrow> access_request" where
  "own_session p aq =
     (case fr_session (aq_request aq) of
        Munin s \<Rightarrow> if aq_own aq
          then aq\<lparr>aq_request := (aq_request aq)\<lparr>fr_session :=
                 Munin (populateClientTokenSession p (fc_id (fr_client (aq_request aq))) s)\<rparr>\<rparr>
          else aq
      | _ \<Rightarrow> aq)"

text \<open>The token type is spelled as the provider's own responses spell it.\<close>

definition writeCompatibleAccessResponse :: "unicode \<Rightarrow> gomap \<Rightarrow> answer" where
  "writeCompatibleAccessResponse UC payload =
     json_answer 200 (AMap (if equal_fold UC (str (mget payload ''token_type'')) ''bearer''
        then payload(''token_type'' \<mapsto> AStr ''Bearer'') else payload))"

definition tokenFosite ::
  "('r, 'w) provider \<Rightarrow> ('r, 'w) oauth \<Rightarrow> http_form \<Rightarrow> ('r, 'w) world \<Rightarrow> answer go \<times> ('r, 'w) world" where
  "tokenFosite p oa r0 w =
     (case normalizeClientCredentialsScope p r0 w of
        Panic m \<Rightarrow> (Panic m, w)
      | Err e \<Rightarrow> (Err e, w)
      | Ok r \<Rightarrow>
          (case oa_access_request oa r (token_session p (hf_now r)) w of
             ((aq, Some e), w1) \<Rightarrow> (Ok (oa_write_access_error oa aq e), w1)
           | ((aq0, None), w1) \<Rightarrow>
               let aq = own_session p (grant_client oa aq0)
               in case oa_access_response oa r aq w1 of
                    (Inl e, w2) \<Rightarrow> (Ok (oa_write_access_error oa aq e), w2)
                  | (Inr response, w2) \<Rightarrow> (Ok (writeCompatibleAccessResponse (pv_unicode p) response), w2)))"

definition Token :: "('r, 'w) provider \<Rightarrow> http_form \<Rightarrow> ('r, 'w) world \<Rightarrow> answer go \<times> ('r, 'w) world" where
  "Token p r w =
     (let grant = vget (hf_form r) ''grant_type'';
          own = (\<lambda>_::unit. case authenticateClient p r w of
              Panic m \<Rightarrow> (Panic m, w)
            | Err _ \<Rightarrow> (Ok (oauthError 401 ''invalid_client'' ''client authentication failed''), w)
            | Ok c \<Rightarrow>
                (let (a, w1) =
                   (if grant = ''authorization_code'' then tokenAuthorizationCode p r c w
                    else if grant = ''refresh_token'' then tokenRefresh p r c w
                    else if grant = ''client_credentials'' then tokenClientCredentials p r c w
                    else if grant = tokenExchangeGrant then tokenExchange p r c w
                    else (oauthError 400 ''unsupported_grant_type'' ''unsupported grant_type'', w))
                 in (Ok a, w1)))
      in if \<not> hf_parsed r then (Ok (oauthError 400 ''invalid_request'' ''invalid form''), w)
         else case pv_oauth p of
             None \<Rightarrow> own ()
           | Some oa \<Rightarrow> if grant \<noteq> tokenExchangeGrant then tokenFosite p oa r w else own ())"

section \<open>Introspection\<close>

text \<open>The provider's own answer; \<open>None\<close> when the client is not authenticated and nothing is written.\<close>

definition inactive :: answer where
  "inactive = json_answer 200 (AMap [''active'' \<mapsto> ABool False])"

definition legacyIntrospect ::
  "('r, 'w) provider \<Rightarrow> http_form \<Rightarrow> ('r, 'w) world \<Rightarrow> answer option go \<times> ('r, 'w) world" where
  "legacyIntrospect p r w =
     (let token = vget (hf_form r) ''token'' in
      case authenticateClient p r w of
        Panic m \<Rightarrow> (Panic m, w)
      | Err _ \<Rightarrow> (Ok None, w)
      | Ok c \<Rightarrow>
          (case verifyLegacyAccessToken p (hf_now r) token w of
             (Inl _, w1) \<Rightarrow>
               (case get_artifact p (hf_now r) refreshName token w1 of
                  (Inr payload, w2) \<Rightarrow>
                    (Ok (Some (if mget payload ''client_id'' = AStr (c_client_id c)
                       then json_answer 200 (AMap [''active'' \<mapsto> ABool True, ''token_type'' \<mapsto> AStr ''refresh_token'',
                              ''client_id'' \<mapsto> AStr (c_client_id c), ''sub'' \<mapsto> mget payload ''sub'',
                              ''scope'' \<mapsto> mget payload ''scope''])
                       else inactive)), w2)
                | (Inl _, w2) \<Rightarrow> (Ok (Some inactive), w2))
           | (Inr claims, w1) \<Rightarrow>
               if claimString claims ''client_id'' \<noteq> [] \<and> claimString claims ''client_id'' \<noteq> c_client_id c
               then (Ok (Some inactive), w1)
               else (Ok (Some (json_answer 200 (AMap (claims(''active'' \<mapsto> ABool True))))), w1)))"

text \<open>
  The Basic credentials of the form, when there are no others.  \<open>SetBasicAuth\<close> writes them with the
  standard alphabet and padding, and \<open>BasicAuth\<close> reads them up to the first colon.
\<close>

definition std_b64 :: "string \<Rightarrow> string" where
  "std_b64 s = (let t = map (\<lambda>c. if c = CHR ''-'' then CHR ''+'' else if c = CHR ''_'' then CHR ''/'' else c) (b64 s)
     in t @ replicate ((4 - length t mod 4) mod 4) CHR ''='')"

definition ensureBasicAuthFromForm :: "http_form \<Rightarrow> http_form" where
  "ensureBasicAuthFromForm r =
     (let i = vget (hf_form r) ''client_id''; s = vget (hf_form r) ''client_secret'' in
      if hf_basic r \<noteq> None \<or> i = [] \<or> s = [] then r
      else r\<lparr>hf_basic := cut (CHR '':'') (i @ '':'' @ s), hf_auth := ''Basic '' @ std_b64 (i @ '':'' @ s)\<rparr>)"

text \<open>
  The members fosite's answer sets over the claims of the token, each only when it is set; the extra
  claims of the session last, where nothing is yet.  The sessions of the storage are the
  repository's; the methods of a nil session panic.
\<close>

definition set_if :: "bool \<Rightarrow> string \<Rightarrow> any \<Rightarrow> gomap \<Rightarrow> gomap" where
  "set_if c k v m = (if c then m(k \<mapsto> v) else m)"

definition session_members :: "token_type \<Rightarrow> fsession option \<Rightarrow> gomap \<Rightarrow> gomap" where
  "session_members use s m =
     (let refresh = (use = RefreshToken);
          deadline = GetExpiresAt (if refresh then RefreshToken else AccessToken) s
      in set_if (deadline \<noteq> zero_time) ''exp'' (AInt (unix deadline))
           (m(''token_type'' \<mapsto> AStr (if refresh then ''refresh_token'' else ''Bearer''))))"

definition request_members :: "frequest \<Rightarrow> fsession option \<Rightarrow> token_type \<Rightarrow> gomap \<Rightarrow> gomap" where
  "request_members q s use m =
     fst (GetExtraClaims s) ++
     session_members use s
     (set_if (GetUsername s \<noteq> []) ''username'' (AStr (GetUsername s))
     (set_if (elems (fr_granted_audience q) \<noteq> []) ''aud'' (AStrs (fr_granted_audience q))
     (set_if (GetSubject s \<noteq> []) ''sub'' (AStr (GetSubject s))
     (set_if (fr_requested_at q \<noteq> zero_time) ''iat'' (AInt (unix (fr_requested_at q)))
     (set_if (elems (fr_granted q) \<noteq> []) ''scope'' (AStr (join '' '' (elems (fr_granted q))))
     (set_if (fc_id (fr_client q) \<noteq> []) ''client_id'' (AStr (fc_id (fr_client q))) m))))))"

definition writeCompatibleIntrospectionResponse ::
  "('r, 'w) provider \<Rightarrow> http_form \<Rightarrow> introspection \<Rightarrow> answer go" where
  "writeCompatibleIntrospectionResponse p r i =
     (let payload = (case verifyJWT p (vget (hf_form r) ''token'') of
            Inr claims \<Rightarrow> [''active'' \<mapsto> ABool True] ++ claims | Inl _ \<Rightarrow> [''active'' \<mapsto> ABool True])
      in if \<not> in_active i then Ok inactive
         else case in_requester i of
             None \<Rightarrow> Ok (json_answer 200 (AMap payload))
           | Some q \<Rightarrow>
               (case fr_session q of
                  Munin s \<Rightarrow> Ok (json_answer 200 (AMap (request_members q (Some s) (in_use i) payload)))
                | _ \<Rightarrow> Panic nil_panic))"

text \<open>Without fosite an unauthenticated request gets no body and the status of an empty response.\<close>

definition empty_ok :: answer where
  "empty_ok = \<lparr>an_status = 200, an_body = None, an_location = None, an_cookie = None\<rparr>"

definition Introspect :: "('r, 'w) provider \<Rightarrow> http_form \<Rightarrow> ('r, 'w) world \<Rightarrow> answer go \<times> ('r, 'w) world" where
  "Introspect p r0 w =
     (case pv_oauth p of
        Some oa \<Rightarrow>
          (let r = ensureBasicAuthFromForm r0 in
           case oa_introspection oa r w of
             (Inr i, w1) \<Rightarrow> (writeCompatibleIntrospectionResponse p r i, w1)
           | (Inl e, w1) \<Rightarrow>
               (case legacyIntrospect p r w1 of
                  (Panic m, w2) \<Rightarrow> (Panic m, w2)
                | (Ok (Some a), w2) \<Rightarrow> (Ok a, w2)
                | (_, w2) \<Rightarrow> (Ok (oa_write_introspection_error oa e), w2)))
      | None \<Rightarrow>
          (case legacyIntrospect p r0 w of
             (Panic m, w1) \<Rightarrow> (Panic m, w1)
           | (Ok (Some a), w1) \<Rightarrow> (Ok a, w1)
           | (_, w1) \<Rightarrow> (Ok empty_ok, w1)))"

section \<open>Revocation\<close>

text \<open>The client that \<open>authenticateClient\<close> returns with an error is the zero client.\<close>

definition Revoke :: "('r, 'w) provider \<Rightarrow> http_form \<Rightarrow> ('r, 'w) world \<Rightarrow> answer go \<times> ('r, 'w) world" where
  "Revoke p r w =
     (let token = vget (hf_form r) ''token''; now = hf_now r in
      case (pv_oauth p, authenticateClient p r w) of
        (_, Panic m) \<Rightarrow> (Panic m, w)
      | (Some oa, auth) \<Rightarrow>
          (let c = (case auth of Ok c \<Rightarrow> c | _ \<Rightarrow> zero_client) in
           case oa_revocation oa r w of
             (Inl e, w1) \<Rightarrow> (Ok (oa_write_revocation oa (Some e)), w1)
           | (Inr _, w1) \<Rightarrow> (Ok (oa_write_revocation oa None), revokeLegacyJWTIfOwned p now token c w1))
      | (None, Err _) \<Rightarrow> (Ok (oauthError 401 ''invalid_client'' ''client authentication failed''), w)
      | (None, Ok c) \<Rightarrow>
          (case VerifyAccessToken p now token w of
             (Inr claims, w1) \<Rightarrow>
               let jti = claimString claims ''jti'' in
               (Ok empty_ok, if jti \<noteq> []
                  then snd (put_artifact p now revokedName jti [''revoked'' \<mapsto> ABool True] (cf_refresh_ttl (pv_cfg p)) w1)
                  else w1)
           | (Inl _, w1) \<Rightarrow>
               (case get_artifact p now refreshName token w1 of
                  (Inr payload, w2) \<Rightarrow>
                    (Ok empty_ok, if mget payload ''client_id'' = AStr (c_client_id c)
                       then snd (delete_artifact p now refreshName token w2) else w2)
                | (Inl _, w2) \<Rightarrow> (Ok empty_ok, w2))))"

section \<open>The metadata\<close>

definition strs :: "string list \<Rightarrow> any" where
  "strs xs = AStrs (Some xs)"

definition Discovery :: "('r, 'w) provider \<Rightarrow> answer" where
  "Discovery p =
     (let endpoint = (\<lambda>path. AStr (cf_issuer (pv_cfg p) @ path)) in
      json_answer 200 (AMap [''issuer'' \<mapsto> endpoint [],
        ''authorization_endpoint'' \<mapsto> endpoint ''/oauth/authorize'', ''token_endpoint'' \<mapsto> endpoint ''/oauth/token'',
        ''jwks_uri'' \<mapsto> endpoint ''/oauth/jwks.json'', ''userinfo_endpoint'' \<mapsto> endpoint ''/userinfo'',
        ''introspection_endpoint'' \<mapsto> endpoint ''/oauth/introspect'', ''revocation_endpoint'' \<mapsto> endpoint ''/oauth/revoke'',
        ''end_session_endpoint'' \<mapsto> endpoint ''/oauth/logout'', ''response_types_supported'' \<mapsto> strs [''code''],
        ''grant_types_supported'' \<mapsto>
          strs [''authorization_code'', ''refresh_token'', ''client_credentials'', tokenExchangeGrant],
        ''subject_types_supported'' \<mapsto> strs [''public''],
        ''id_token_signing_alg_values_supported'' \<mapsto> strs [''RS256''],
        ''scopes_supported'' \<mapsto> strs [''openid'', ''profile'', ''email'', ''account'', ''offline_access''],
        ''token_endpoint_auth_methods_supported'' \<mapsto> strs [''client_secret_basic'', ''client_secret_post''],
        ''code_challenge_methods_supported'' \<mapsto> strs [''S256''],
        ''claims_supported'' \<mapsto> strs [''sub'', ''email'', ''email_verified'', ''preferred_username'', ''name'',
          ''given_name'', ''family_name'', ''customer_id'', ''roles'', ''permissions'', ''branding'']]))"

text \<open>The public key of the handle: modulus and exponent as big-endian bytes.\<close>

definition JWKS :: "('r, 'w) provider \<Rightarrow> (string \<Rightarrow> string \<times> string) \<Rightarrow> answer" where
  "JWKS p public =
     (let (n, e) = public (pv_key p) in
      json_answer 200 (AMap [''keys'' \<mapsto> AArr [AMap [''kty'' \<mapsto> AStr ''RSA'', ''use'' \<mapsto> AStr ''sig'',
        ''alg'' \<mapsto> AStr ''RS256'', ''kid'' \<mapsto> AStr (pv_keyID p), ''n'' \<mapsto> AStr (b64 n), ''e'' \<mapsto> AStr (b64 e)]]]))"

end
