(* ===== verification/Authorize.thy ===== *)
theory Authorize
  imports Login
begin

text \<open>
  The authorization endpoint of internal/idp/provider.go: the checks of an authorization request, the
  interaction that asks for login or consent, the consent, and the authorization code, the provider's
  own or fosite's.
\<close>

section \<open>Interactions\<close>

definition login_interaction :: "string \<Rightarrow> uvalues \<Rightarrow> gomap" where
  "login_interaction uid q =
     [''uid'' \<mapsto> AStr uid, ''client_id'' \<mapsto> AStr (vget q ''client_id''),
      ''redirect_uri'' \<mapsto> AStr (vget q ''redirect_uri''), ''scope'' \<mapsto> AStr (vget q ''scope''),
      ''state'' \<mapsto> AStr (vget q ''state''), ''nonce'' \<mapsto> AStr (vget q ''nonce''),
      ''prompt'' \<mapsto> AStr (vget q ''prompt''), ''code_challenge'' \<mapsto> AStr (vget q ''code_challenge''),
      ''code_challenge_method'' \<mapsto> AStr (vget q ''code_challenge_method'')]"

definition consent_interaction :: "string \<Rightarrow> client \<Rightarrow> string \<Rightarrow> uvalues \<Rightarrow> gomap" where
  "consent_interaction uid c sub q =
     [''uid'' \<mapsto> AStr uid, ''client_id'' \<mapsto> AStr (c_client_id c),
      ''redirect_uri'' \<mapsto> AStr (vget q ''redirect_uri''), ''scope'' \<mapsto> AStr (vget q ''scope''),
      ''audience'' \<mapsto> AStr (join '' '' (q ''audience'')),
      ''state'' \<mapsto> AStr (vget q ''state''), ''nonce'' \<mapsto> AStr (vget q ''nonce''),
      ''prompt'' \<mapsto> AStr (vget q ''prompt''), ''code_challenge'' \<mapsto> AStr (vget q ''code_challenge''),
      ''code_challenge_method'' \<mapsto> AStr (vget q ''code_challenge_method''), ''sub'' \<mapsto> AStr sub]"

text \<open>Storing an interaction and sending the browser to its page.\<close>

definition interaction_path :: "('r, 'w) provider \<Rightarrow> string \<Rightarrow> string" where
  "interaction_path p uid = ''/interaction/'' @ ul_path_escape (pv_url p) uid"

definition offer_interaction ::
  "('r, 'w) provider \<Rightarrow> int \<Rightarrow> string \<Rightarrow> gomap \<Rightarrow> ('r, 'w) world \<Rightarrow> answer \<times> ('r, 'w) world" where
  "offer_interaction p now uid m w =
     (case put_artifact p now interactionName uid m (10 * minute) w of
        (Inl _, w1) \<Rightarrow> (oauthError 500 ''server_error'' ''failed to store interaction'', w1)
      | (Inr _, w1) \<Rightarrow> (redirect_to 302 (interaction_path p uid), w1))"

definition redirectToConsent ::
  "('r, 'w) provider \<Rightarrow> http_form \<Rightarrow> client \<Rightarrow> string \<Rightarrow> uvalues \<Rightarrow> ('r, 'w) world \<Rightarrow>
     answer \<times> ('r, 'w) world" where
  "redirectToConsent p r c sub q w =
     (let (uid, w1) = randomID p 16 w
      in offer_interaction p (hf_now r) uid (consent_interaction uid c sub q) w1)"

definition valuesFromInteraction :: "gomap \<Rightarrow> uvalues" where
  "valuesFromInteraction artifact = vset (\<lambda>k.
     if k \<in> {''client_id'', ''redirect_uri'', ''scope'', ''state'', ''nonce'', ''prompt'',
             ''code_challenge'', ''code_challenge_method'', ''audience''}
        \<and> str (mget artifact k) \<noteq> []
     then [str (mget artifact k)] else []) ''response_type'' ''code''"

section \<open>The code\<close>

text \<open>The session fosite gets for a user: the claims of the account, or the subject without one.\<close>

definition newFositeSession ::
  "('r, 'w) provider \<Rightarrow> int \<Rightarrow> string \<Rightarrow> string \<Rightarrow> string \<Rightarrow> ('r, 'w) world \<Rightarrow> fsession \<times> ('r, 'w) world" where
  "newFositeSession p now sub clientID nonce w =
     (let (base, w1) = (if sub = [] then (Map.empty, w)
            else case FetchAccount p sub w of
                (Inr account, w1) \<Rightarrow> (BuildClaims account, w1)
              | (Inl _, w1) \<Rightarrow> ([''sub'' \<mapsto> AStr sub], w1));
          claims = base(''client_id'' \<mapsto> AStr clientID);
          s = NewSession now sub \<lparr>mn_email = claimString claims ''email'',
                mn_verified = boolClaim claims ''email_verified'',
                mn_customer = claimString claims ''customer_id'',
                mn_roles = stringsFromClaim (mget claims ''roles''), mn_groups = None,
                mn_raw = cloneMap claims\<rparr>;
          kid = [''kid'' \<mapsto> AStr (pv_keyID p)]
      in (s\<lparr>fs_jwt_header := Some kid, fs_id_header := Some kid,
            fs_jwt_claims := Some (zero_jwt_claims\<lparr>jc_subject := sub, jc_extra := cloneMap claims\<rparr>),
            fs_id_claims := Some (zero_id_claims\<lparr>ic_subject := sub, ic_nonce := nonce, ic_requested := now,
              ic_auth_time := now, ic_extra := cloneMap claims\<rparr>),
            fs_extra := cloneMap claims\<rparr>, w1))"

text \<open>Everything the request asks for is granted, and the client as audience.\<close>

definition grant_requested :: "('r, 'w) oauth \<Rightarrow> client \<Rightarrow> frequest \<Rightarrow> frequest" where
  "grant_requested oa c ar0 =
     (let ar1 = fold (oa_grant_scope oa) (elems (fr_scopes ar0)) ar0;
          ar2 = fold (oa_grant_audience oa) (elems (fr_audience ar1)) ar1
      in oa_grant_audience oa (c_client_id c) ar2)"

text \<open>
  \<open>http.NewRequestWithContext\<close> fails when the URL does not parse.  The request that fosite gets has this
  URL and the address, user agent and forwarding headers of the browser's request.
\<close>

definition finishAuthorizationFosite ::
  "('r, 'w) provider \<Rightarrow> ('r, 'w) oauth \<Rightarrow> http_form \<Rightarrow> client \<Rightarrow> string \<Rightarrow> uvalues \<Rightarrow> ('r, 'w) world \<Rightarrow>
     answer go \<times> ('r, 'w) world" where
  "finishAuthorizationFosite p oa r c sub q w =
     (let url = cf_issuer (pv_cfg p) @ ''/oauth/authorize?'' @ ul_encode (pv_url p) q in
      if ul_hostname (pv_url p) url = None
      then (redirectError (pv_url p) (vget q ''redirect_uri'') (vget q ''state'') ''server_error''
              ''failed to build authorization request'', w)
      else case oa_authorize_request oa r url w of
          ((ar, Some e), w1) \<Rightarrow> (Ok (oa_write_authorize_error oa ar e), w1)
        | ((ar0, None), w1) \<Rightarrow>
            let ar = grant_requested oa c ar0;
                (session, w2) = newFositeSession p (hf_now r) sub (c_client_id c) (vget q ''nonce'') w1
            in case oa_authorize_response oa r ar session w2 of
                 (Inl e, w3) \<Rightarrow> (Ok (oa_write_authorize_error oa ar e), w3)
               | (Inr response, w3) \<Rightarrow> (Ok (oa_write_authorize oa ar response), w3))"

definition code_payload :: "client \<Rightarrow> string \<Rightarrow> uvalues \<Rightarrow> gomap" where
  "code_payload c sub q =
     [''client_id'' \<mapsto> AStr (c_client_id c), ''redirect_uri'' \<mapsto> AStr (vget q ''redirect_uri''),
      ''scope'' \<mapsto> AStr (vget q ''scope''), ''sub'' \<mapsto> AStr sub, ''nonce'' \<mapsto> AStr (vget q ''nonce''),
      ''code_challenge'' \<mapsto> AStr (vget q ''code_challenge'')]"

text \<open>The nil URL of a redirect address that does not parse panics.\<close>

definition finishAuthorization ::
  "('r, 'w) provider \<Rightarrow> http_form \<Rightarrow> client \<Rightarrow> string \<Rightarrow> uvalues \<Rightarrow> ('r, 'w) world \<Rightarrow>
     answer go \<times> ('r, 'w) world" where
  "finishAuthorization p r c sub q w =
     (case pv_oauth p of
        Some oa \<Rightarrow> finishAuthorizationFosite p oa r c sub q w
      | None \<Rightarrow>
          (let (code, w1) = randomID p 32 w; uri = vget q ''redirect_uri''; state = vget q ''state'' in
           case put_artifact p (hf_now r) codeName code (code_payload c sub q) (cf_code_ttl (pv_cfg p)) w1 of
             (Inl _, w2) \<Rightarrow> (redirectError (pv_url p) uri state ''server_error''
                ''failed to store authorization code'', w2)
           | (Inr _, w2) \<Rightarrow>
               (case ul_set (pv_url p) uri ((''code'', code) # (if state \<noteq> [] then [(''state'', state)] else [])) of
                  None \<Rightarrow> (Panic nil_panic, w2)
                | Some u \<Rightarrow> (Ok (redirect_to 302 u), w2))))"

section \<open>The endpoint\<close>

definition canAutoGrantAuthorization ::
  "('r, 'w) provider \<Rightarrow> client \<Rightarrow> string \<Rightarrow> uvalues \<Rightarrow> ('r, 'w) world \<Rightarrow> bool" where
  "canAutoGrantAuthorization p c sub q w =
     (if trustedFirstPartyClient (pv_unicode p) (pv_url p) (cf_trusted_domains (pv_cfg p)) c then True
      else if vget q ''prompt'' = ''consent'' then False
      else case GetConsentGrant (pv_crypto p) (pv_pg p) sub (c_client_id c) (w_db w) of
          Inl _ \<Rightarrow> False
        | Inr grant \<Rightarrow> scopeSubset (parseScopes (vget q ''scope'')) (elems (cg_scopes grant))
            \<and> scopeSubset [c_client_id c] (elems (cg_audiences grant)))"

text \<open>With the checked request: the session decides between login, consent and code.\<close>

definition authorize_session ::
  "('r, 'w) provider \<Rightarrow> http_form \<Rightarrow> client \<Rightarrow> uvalues \<Rightarrow> ('r, 'w) world \<Rightarrow> answer go \<times> ('r, 'w) world" where
  "authorize_session p r c q w =
     (let ask = (\<lambda>w1. let (uid, w2) = randomID p 16 w1;
                          (a, w3) = offer_interaction p (hf_now r) uid (login_interaction uid q) w2
                      in (Ok a, w3)) in
      case readSession p r of
        None \<Rightarrow> ask w
      | Some sid \<Rightarrow>
          (case get_artifact p (hf_now r) sessionName sid w of
             (Inl _, w1) \<Rightarrow> ask w1
           | (Inr session, w1) \<Rightarrow>
               let sub = str (mget session ''sub'') in
               if \<not> canAutoGrantAuthorization p c sub q w1
               then (let (a, w2) = redirectToConsent p r c sub q w1 in (Ok a, w2))
               else finishAuthorization p r c sub q w1))"

definition Authorize :: "('r, 'w) provider \<Rightarrow> http_form \<Rightarrow> ('r, 'w) world \<Rightarrow> answer go \<times> ('r, 'w) world" where
  "Authorize p r w =
     (let q = hf_query r; uri = vget q ''redirect_uri'';
          refuse = redirectError (pv_url p) uri (vget q ''state'') in
      case GetClientByClientID (pv_pg p) (vget q ''client_id'') (w_db w) of
        Inl _ \<Rightarrow> (Ok (oauthError 400 ''invalid_client'' ''unknown client''), w)
      | Inr c \<Rightarrow>
          if \<not> contains (c_redirects c) uri
          then (Ok (oauthError 400 ''invalid_request'' ''redirect_uri is not registered''), w)
          else if vget q ''response_type'' \<noteq> ''code''
          then (refuse ''unsupported_response_type'' ''only code is supported'', w)
          else if vget q ''code_challenge'' = [] \<or> vget q ''code_challenge_method'' \<noteq> ''S256''
          then (refuse ''invalid_request'' ''PKCE S256 is required'', w)
          else case allowedScopes c (vget q ''scope'') False of
              Inl _ \<Rightarrow> (refuse ''invalid_scope'' ''requested scope is not allowed for this client'', w)
            | Inr scope \<Rightarrow> authorize_session p r c (vset q ''scope'' scope) w)"

definition abortInteraction ::
  "('r, 'w) provider \<Rightarrow> http_form \<Rightarrow> string \<Rightarrow> ('r, 'w) world \<Rightarrow> answer go \<times> ('r, 'w) world" where
  "abortInteraction p r uid w =
     (case get_artifact p (hf_now r) interactionName uid w of
        (Inl _, w1) \<Rightarrow> (Ok (oauthError 400 ''invalid_request'' ''interaction not found''), w1)
      | (Inr artifact, w1) \<Rightarrow>
          (redirectError (pv_url p) (str (mget artifact ''redirect_uri'')) (str (mget artifact ''state''))
             ''access_denied'' ''consent denied'', w1))"

text \<open>The consent of the signed-in user for the client of the interaction, then the code.\<close>

definition confirm ::
  "('r, 'w) provider \<Rightarrow> http_form \<Rightarrow> string \<Rightarrow> gomap \<Rightarrow> ('r, 'w) world \<Rightarrow> answer go \<times> ('r, 'w) world" where
  "confirm p r sub artifact w =
     (case GetClientByClientID (pv_pg p) (str (mget artifact ''client_id'')) (w_db w) of
        Inl _ \<Rightarrow> (Ok (oauthError 400 ''invalid_client'' ''unknown client''), w)
      | Inr c \<Rightarrow>
          let q = valuesFromInteraction artifact;
              scopes = parseScopes (vget q ''scope'');
              audiences = parseScopes (vget q ''audience'') @ [c_client_id c]
          in case PutConsentGrant (pv_crypto p) (pv_pg p) (hf_now r) sub (c_client_id c) (Some scopes)
                    (Some (uniqueStrings audiences)) (w_db w) of
               (Inl _, d) \<Rightarrow> (Ok (oauthError 500 ''server_error'' ''failed to store consent''), w\<lparr>w_db := d\<rparr>)
             | (Inr _, d) \<Rightarrow> finishAuthorization p r c sub q (w\<lparr>w_db := d\<rparr>))"

definition ConfirmConsent ::
  "('r, 'w) provider \<Rightarrow> http_form \<Rightarrow> string \<Rightarrow> ('r, 'w) world \<Rightarrow> answer go \<times> ('r, 'w) world" where
  "ConfirmConsent p r uid w =
     (if \<not> hf_parsed r then (Ok (oauthError 400 ''invalid_request'' ''invalid form''), w)
      else if vget (hf_form r) ''allow'' \<noteq> ''yes'' then abortInteraction p r uid w
      else case readSession p r of
          None \<Rightarrow> (Ok (redirect_to 303 (interaction_path p uid)), w)
        | Some sid \<Rightarrow>
            (case get_artifact p (hf_now r) sessionName sid w of
               (Inl _, w1) \<Rightarrow> (Ok (redirect_to 303 (interaction_path p uid)), w1)
             | (Inr session, w1) \<Rightarrow>
                 (case get_artifact p (hf_now r) interactionName uid w1 of
                    (Inl _, w2) \<Rightarrow> (Ok (oauthError 400 ''invalid_request'' ''interaction not found''), w2)
                  | (Inr artifact, w2) \<Rightarrow> confirm p r (str (mget session ''sub'')) artifact w2)))"

section \<open>The session cookie goes\<close>

text \<open>
  \<open>Logout\<close> sends the browser wherever the parameter says; \<open>FormValue\<close> reads the form and the query.
\<close>

definition Logout :: "('r, 'w) provider \<Rightarrow> http_form \<Rightarrow> ('r, 'w) world \<Rightarrow> answer \<times> ('r, 'w) world" where
  "Logout p r w =
     (let w1 = (case readSession p r of None \<Rightarrow> w
            | Some sid \<Rightarrow> snd (delete_artifact p (hf_now r) sessionName sid w));
          target = vget (hf_form r) ''post_logout_redirect_uri''
      in ((redirect_to 302 (if target = [] then ''/'' else target))\<lparr>an_cookie := Some \<lparr>ck_value = [], ck_max_age = -1\<rparr>\<rparr>, w1))"

end
