(* ===== verification/Lockout.thy ===== *)
theory Lockout
  imports Login
begin

text \<open>
  The login lockout from end to end: what a refused \<open>FinishLogin\<close> leaves in valkey, that enough
  refusals within the window lock the pair of user name and address, and what a successful sign-in
  has checked.
\<close>

section \<open>A server that is up\<close>

context redis_up
begin

lemma kv_Get_up: "up s \<Longrightarrow> kv_Get R t k s = (x, s') \<Longrightarrow> up s'"
  using get_up [of s t k] by (auto simp: kv_Get_def split: prod.splits sum.splits rerr.splits)

lemma GetArtifact_up: "up s \<Longrightarrow> GetArtifact R t n i s = (x, s') \<Longrightarrow> up s'"
  by (auto simp: GetArtifact_def split: prod.splits sum.splits goerr.splits dest: kv_Get_up)

lemma GetArtifact_up_same:
  assumes "up s" "GetArtifact R t n i s = (x, s')"
  shows "same_keyspace t (view s) (view s')"
  using get_up [OF assms(1), of t "artifactKey n i"] assms(2)
  by (auto simp: GetArtifact_def kv_Get_def intro!: same_keyspaceI
      split: prod.splits sum.splits rerr.splits goerr.splits)

lemma GetArtifact_up_stored:
  assumes "up s" "artifact_at t (view s) n i = Some m"
  shows "\<exists>s'. GetArtifact R t n i s = (Inr m, s') \<and> up s' \<and> same_keyspace t (view s) (view s')"
proof -
  obtain x s' where g: "GetArtifact R t n i s = (x, s')" by force
  have "x \<noteq> Inl (ExtErr e)" for e
  proof -
    obtain b d where b: "purge t (view s) (artifactKey n i) = Some (RStr b, d)" "unmarshal_payload b = Inr m"
      using assms(2) by (auto simp: artifact_at_def split: option.splits prod.splits rval.splits sum.splits)
    then have "ks_string (purge t (view s)) (artifactKey n i)" by (simp add: ks_string_def)
    moreover obtain y s1 where y: "rd_get R t (artifactKey n i) s = (y, s1)" by force
    ultimately have "\<forall>e. y \<noteq> Inl (RedisErr e)" using get_up [OF assms(1) y] by simp
    moreover have "\<forall>c. y = Inr c \<longrightarrow> c = b"
      using get_ok [of t "artifactKey n i" s _ s1] y b(1) by auto
    ultimately show ?thesis
      using g y b(2) by (auto simp: GetArtifact_def kv_Get_def split: sum.splits rerr.splits)
  qed
  with GetArtifact_stored [OF assms(2) g] have "x = Inr m" by blast
  with g GetArtifact_Inr [of t n i s m s'] GetArtifact_up [OF assms(1) g] show ?thesis by blast
qed

lemma PutArtifact_up: "up s \<Longrightarrow> PutArtifact R t n i m ttl s = (x, s') \<Longrightarrow> up s' \<and> x = Inr ()"
  using set_up [of s t "artifactKey n i" "Doc (json_norm (AMap m))" ttl]
  by (cases "rd_set R t (artifactKey n i) (Doc (json_norm (AMap m))) ttl s")
    (auto simp: PutArtifact_def kv_Set_def pass_def)

lemma DeleteArtifact_up: "up s \<Longrightarrow> DeleteArtifact R t n i s = (x, s') \<Longrightarrow> up s' \<and> x = Inr ()"
  using del_up [of s t "[artifactKey n i]"]
  by (cases "rd_del R t [artifactKey n i] s") (auto simp: DeleteArtifact_def kv_Del_def pass_def)

lemma LoginLocked_up:
  "up s \<Longrightarrow> LoginLocked R t k s = (x, s') \<Longrightarrow> up s' \<and> (\<exists>b u. x = Inr (b, u))"
  using pttl_up [of s t "loginLockKey k"]
  by (cases "rd_pttl R t (loginLockKey k) s")
    (auto simp: LoginLocked_def kv_PTTL_def pass_def split: sum.splits if_splits)

lemma kv_IncrTTL_up:
  assumes "up s" "ks_counter (purge t (view s)) k" "kv_IncrTTL R t k window s = (x, s')"
  shows "up s' \<and> (\<exists>n. x = Inr n)"
proof -
  obtain y s1 where i: "rd_incr R t k s = (y, s1)" by force
  with incr_up [OF assms(1) i] assms(2) obtain m where m: "y = Inr m" "up s1" by auto
  obtain z s2 where e: "rd_expire R t k window s1 = (z, s2)" by force
  with expire_up [OF m(2) e] i m assms(3) show ?thesis
    by (auto simp: kv_IncrTTL_def split: if_splits)
qed

lemma kv_Set_up: "up s \<Longrightarrow> kv_Set R t k b ttl s = (x, s') \<Longrightarrow> up s' \<and> x = Inr ()"
  using set_up [of s t k b ttl]
  by (cases "rd_set R t k b ttl s") (auto simp: kv_Set_def pass_def)

lemma RecordLoginFailure_up:
  assumes "up s" "ks_counter (purge t (view s)) (loginFailKey k)"
    and "RecordLoginFailure R t k la lf s = (x, s')"
  shows "up s' \<and> x = Inr ()"
proof -
  obtain y s1 where "kv_IncrTTL R t (loginFailKey k) lf s = (y, s1)" by force
  moreover from kv_IncrTTL_up [OF assms(1,2) this] obtain n where "y = Inr n" "up s1" by auto
  ultimately show ?thesis
    using assms(3) kv_Set_up [of s1] by (auto simp: RecordLoginFailure_def split: if_splits)
qed

lemma ResetLoginFailures_up:
  "up s \<Longrightarrow> ResetLoginFailures R t k s = (x, s') \<Longrightarrow> up s' \<and> x = Inr ()"
  using del_up [of s t "[loginFailKey k, loginLockKey k]"]
  by (cases "rd_del R t [loginFailKey k, loginLockKey k] s")
    (auto simp: ResetLoginFailures_def kv_Del_def pass_def)

end

section \<open>The shape of a login\<close>

lemma redis_error_ext: "redis_error e = ExtErr (case e of RedisNil \<Rightarrow> ''redis: nil'' | RedisErr m \<Rightarrow> m)"
  by (cases e) auto

lemma GetArtifact_errors: "GetArtifact R t n i s = (Inl e, s') \<Longrightarrow> e = ErrNotFound \<or> (\<exists>m. e = ExtErr m)"
proof -
  assume g: "GetArtifact R t n i s = (Inl e, s')"
  have "unmarshal_payload b = Inl e \<Longrightarrow> \<exists>m. e = ExtErr m" for b
  proof (cases b)
    case (Doc v)
    then show "unmarshal_payload b = Inl e \<Longrightarrow> \<exists>m. e = ExtErr m" by (cases v) auto
  qed auto
  with g show ?thesis
    by (auto simp: GetArtifact_def kv_Get_def split: prod.splits sum.splits rerr.splits goerr.splits)
qed

lemma PutArtifact_errors: "PutArtifact R t n i m ttl s = (Inl e, s') \<Longrightarrow> \<exists>x. e = ExtErr x"
  by (auto simp: PutArtifact_def kv_Set_def pass_def redis_error_ext split: prod.splits sum.splits)

lemma LoginLocked_errors: "LoginLocked R t k s = (Inl e, s') \<Longrightarrow> \<exists>x. e = ExtErr x"
  by (auto simp: LoginLocked_def kv_PTTL_def pass_def redis_error_ext split: prod.splits sum.splits)

lemma startSession_frame:
  "startSession p now sub email w = (sid, w') \<Longrightarrow> w_wd w' = w_wd w \<and> w_db w' = w_db w"
  by (auto simp: startSession_def randomID_def put_artifact_def split: prod.splits)

text \<open>The first part of a login that goes on: the interaction exists and neither key is locked.\<close>

definition admitted ::
  "('r, 'w) provider \<Rightarrow> int \<Rightarrow> string \<Rightarrow> string \<Rightarrow> string \<Rightarrow> ('r, 'w) world \<Rightarrow> ('r, 'w) world \<Rightarrow> bool" where
  "admitted p now uid ipKey userKey w w' \<longleftrightarrow>
     (\<exists>m s1 u1 s2 u2 s3. GetArtifact (pv_redis p) now interactionName uid (w_kv w) = (Inr m, s1)
        \<and> LoginLocked (pv_redis p) now ipKey s1 = (Inr (False, u1), s2)
        \<and> LoginLocked (pv_redis p) now userKey s2 = (Inr (False, u2), s3) \<and> w' = w\<lparr>w_kv := s3\<rparr>)"

lemma check_locks_admitted:
  "get_artifact p now interactionName uid w = (Inr m, w1) \<Longrightarrow>
   check_locks p now [ipKey, userKey] w1 = (Inr (), w2) \<Longrightarrow> admitted p now uid ipKey userKey w w2"
  by (fastforce simp: admitted_def get_artifact_def login_locked_def split: prod.splits sum.splits if_splits)

lemma check_locks_errors:
  "check_locks p now ks w = (Inl e, w') \<Longrightarrow> e = GoErr ''locked'' \<or> (\<exists>x. e = ExtErr x)"
  by (induction ks arbitrary: w)
    (auto simp: login_locked_def dest!: LoginLocked_errors split: prod.splits sum.splits if_splits)

lemma FinishLogin_cases:
  assumes "FinishLogin p now uid username password ip w = (x, w')"
  obtains (early) e where "x = Inl e" "w_wd w' = w_wd w" "w_db w' = w_db w" "w_rng w' = w_rng w"
      "e = ErrNotFound \<or> e = GoErr ''locked'' \<or> (\<exists>m. e = ExtErr m)"
  | (admitted) w2 where "admitted p now uid (ip_key (to_lower (pv_unicode p) username) ip)
        (user_key (to_lower (pv_unicode p) username)) w w2"
      "sign_in p now uid username password (ip_key (to_lower (pv_unicode p) username) ip)
         (user_key (to_lower (pv_unicode p) username)) w2 = (x, w')"
proof -
  let ?k = "[ip_key (to_lower (pv_unicode p) username) ip, user_key (to_lower (pv_unicode p) username)]"
  obtain y w1 where g: "get_artifact p now interactionName uid w = (y, w1)" by force
  obtain z w2 where c: "check_locks p now ?k w1 = (z, w2)" by force
  have frame: "w_wd w2 = w_wd w1 \<and> w_db w2 = w_db w1 \<and> w_rng w2 = w_rng w1"
    using c by (auto simp: login_locked_def split: prod.splits sum.splits if_splits)
  have frame1: "w_wd w1 = w_wd w \<and> w_db w1 = w_db w \<and> w_rng w1 = w_rng w"
    using g by (auto simp: get_artifact_def split: prod.splits)
  show thesis
  proof (cases y)
    case (Inl e)
    have "e = ErrNotFound \<or> (\<exists>m. e = ExtErr m)"
      using g Inl GetArtifact_errors [of "pv_redis p" now interactionName uid "w_kv w" e]
      by (auto simp: get_artifact_def split: prod.splits)
    with Inl g assms frame1 early [of e] show thesis by (auto simp: FinishLogin_def)
  next
    case (Inr m)
    show thesis
    proof (cases z)
      case (Inl e)
      with c check_locks_errors have "e = GoErr ''locked'' \<or> (\<exists>x. e = ExtErr x)" by blast
      with Inl Inr g c assms frame frame1 early [of e] show thesis by (auto simp: FinishLogin_def)
    next
      case (Inr u)
      with \<open>y = Inr m\<close> g c assms admitted [OF check_locks_admitted, of m w1 w2] show thesis
        by (simp add: FinishLogin_def Let_def del: check_locks.simps)
    qed
  qed
qed

lemma on_wd_frame: "on_wd f w = (x, w') \<Longrightarrow> w_kv w' = w_kv w \<and> w_db w' = w_db w \<and> w_rng w' = w_rng w"
  by (auto simp: on_wd_def split: prod.splits)

lemma FetchAccount_frame:
  "FetchAccount p i w = (x, w') \<Longrightarrow> w_kv w' = w_kv w \<and> w_db w' = w_db w \<and> w_rng w' = w_rng w
     \<and> (\<forall>e. x = Inl e \<longrightarrow> e = GoErr ''wildduck user not found'')"
  by (auto simp: FetchAccount_def dest!: on_wd_frame split: prod.splits sum.splits if_splits)

lemma accepted_result:
  "accepted p now uid ipKey userKey auth acc w = (Inl e, w') \<Longrightarrow>
     e = PasswordChangeRequired \<or> (\<exists>x. e = ExtErr x)"
  by (auto simp: accepted_def put_artifact_def Let_def dest!: PutArtifact_errors
      split: prod.splits sum.splits if_splits)

text \<open>A refusal records one failure for each key, and nothing else is stored.\<close>

lemma sign_in_refused:
  assumes "sign_in p now uid username password ipKey userKey w = (Inl (GoErr ''invalid credentials''), w')"
  shows "w_kv w' = snd (RecordLoginFailure (pv_redis p) now userKey userLockAfter lockFor
      (snd (RecordLoginFailure (pv_redis p) now ipKey ipLockAfter lockFor (w_kv w))))"
proof -
  let ?auth = "on_wd (wd_authenticate (pv_wd p) username password [''scope'' \<mapsto> AStr ''master''])"
  have refused: ?thesis if "recordFailure p now ipKey userKey v = w'" "w_kv v = w_kv w" for v
    using that by (auto simp: recordFailure_def Let_def)
  obtain y w1 where a: "?auth w = (y, w1)" by force
  note kv1 = on_wd_frame [OF a, THEN conjunct1]
  show ?thesis
  proof (cases "\<exists>auth. y = Inr auth \<and> success auth \<and> str (mget auth ''id'') \<noteq> []")
    case False
    then have "recordFailure p now ipKey userKey w1 = w'"
      using assms a by (auto simp: sign_in_def Let_def split: sum.splits if_splits)
    with kv1 show ?thesis by (rule refused [rotated])
  next
    case True
    then obtain auth where auth: "y = Inr auth" "success auth" "str (mget auth ''id'') \<noteq> []" by blast
    obtain z w2 where f: "FetchAccount p (str (mget auth ''id'')) w1 = (z, w2)" by force
    note kv2 = FetchAccount_frame [OF f]
    obtain acc where acc: "z = Inr acc"
      using assms a auth f kv2 by (cases z) (auto simp: sign_in_def Let_def)
    show ?thesis
    proof (cases "ac_usable acc")
      case True
      then have "accepted p now uid ipKey userKey auth acc w2 = (Inl (GoErr ''invalid credentials''), w')"
        using assms a auth f acc by (simp add: sign_in_def ac_usable_def)
      from accepted_result [OF this] show ?thesis by simp
    next
      case False
      then have "recordFailure p now ipKey userKey w2 = w'"
        using assms a auth f acc by (auto simp: sign_in_def ac_usable_def Let_def)
      with kv1 kv2 show ?thesis by (intro refused [of w2]) simp_all
    qed
  qed
qed

section \<open>Failures add up\<close>

lemma ks_counter_later: "ks_counter (purge t ks) k \<Longrightarrow> t \<le> t' \<Longrightarrow> ks_counter (purge t' ks) k"
  by (auto simp: ks_counter_def purge_def live_def split: option.splits rval.splits blob.splits)

context redis_up
begin

text \<open>
  After n refusals within the window: the server is up, the counter and the lock of the pair are
  those of n failures, and the counter of the user name is a number.
\<close>

definition refused_at :: "string \<Rightarrow> string \<Rightarrow> int \<Rightarrow> int \<Rightarrow> int \<Rightarrow> 'r \<Rightarrow> bool" where
  "refused_at ipKey userKey t0 n t s \<longleftrightarrow> up s \<and> failures_at ipLockAfter lockFor ipKey t0 n t s
     \<and> ks_counter (purge t (view s)) (loginFailKey userKey)"

lemma admitted_same:
  assumes "admitted p t uid ipKey userKey w w2" "pv_redis p = R" "up (w_kv w)"
  shows "up (w_kv w2) \<and> same_keyspace t (view (w_kv w)) (view (w_kv w2))"
proof -
  obtain m s1 u1 s2 u2 s3 where g: "GetArtifact R t interactionName uid (w_kv w) = (Inr m, s1)"
      and l1: "LoginLocked R t ipKey s1 = (Inr (False, u1), s2)"
      and l2: "LoginLocked R t userKey s2 = (Inr (False, u2), s3)" and w2: "w_kv w2 = s3"
    using assms(1,2) by (auto simp: admitted_def)
  have "up s1" by (rule GetArtifact_up [OF assms(3) g])
  with LoginLocked_up [OF _ l1] have "up s2" by blast
  with LoginLocked_up [OF _ l2] have "up s3" by blast
  with GetArtifact_Inr [OF g] LoginLocked_Inr [OF l1] LoginLocked_Inr [OF l2] w2 show ?thesis
    by (simp add: same_keyspace_def)
qed

text \<open>What the two recordings leave: the pair's keys as after one more failure.\<close>

lemma record_both:
  assumes "up s" "ks_counter (purge t (view s)) (loginFailKey ipKey)"
    and "ks_counter (purge t (view s)) (loginFailKey userKey)" "ipKey \<noteq> userKey"
    and "s1 = snd (RecordLoginFailure R t ipKey ipLockAfter lockFor s)"
    and "s2 = snd (RecordLoginFailure R t userKey userLockAfter lockFor s1)"
  shows "up s2 \<and> RecordLoginFailure R t ipKey ipLockAfter lockFor s = (Inr (), s1)
     \<and> purge t (view s2) (loginFailKey ipKey) = purge t (view s1) (loginFailKey ipKey)
     \<and> purge t (view s2) (loginLockKey ipKey) = purge t (view s1) (loginLockKey ipKey)
     \<and> ks_counter (purge t (view s2)) (loginFailKey userKey)"
proof -
  have pos: "0 < lockFor" by (simp add: lockFor_def)
  obtain x where x: "RecordLoginFailure R t ipKey ipLockAfter lockFor s = (x, s1)"
    using assms(5) by (metis prod.collapse)
  from RecordLoginFailure_up [OF assms(1,2) x] have r1: "RecordLoginFailure R t ipKey ipLockAfter lockFor s = (Inr (), s1)"
      and u1: "up s1" using x by auto
  note e1 = RecordLoginFailure_Inr [OF r1 pos assms(2)]
  have c1: "ks_counter (purge t (view s1)) (loginFailKey userKey)"
    using assms(3,4) by (simp add: ks_counter_def e1)
  obtain y where y: "RecordLoginFailure R t userKey userLockAfter lockFor s1 = (y, s2)"
    using assms(6) by (metis prod.collapse)
  from RecordLoginFailure_up [OF u1 c1 y] have r2: "RecordLoginFailure R t userKey userLockAfter lockFor s1 = (Inr (), s2)"
      and u2: "up s2" using y by auto
  note e2 = RecordLoginFailure_Inr [OF r2 pos c1]
  have "ks_counter (purge t (view s2)) (loginFailKey userKey)"
    by (simp add: ks_counter_def e2 window_entry_def)
  with u2 r1 assms(4) show ?thesis by (simp add: e2)
qed

lemma refused_first:
  assumes "FinishLogin p t uid user pw ip w = (Inl (GoErr ''invalid credentials''), w')" "pv_redis p = R"
    and "uname = to_lower (pv_unicode p) user" "ip_key uname ip \<noteq> user_key uname" "up (w_kv w)"
    and "purge t (view (w_kv w)) (loginFailKey (ip_key uname ip)) = None"
    and "purge t (view (w_kv w)) (loginLockKey (ip_key uname ip)) = None"
    and "ks_counter (purge t (view (w_kv w))) (loginFailKey (user_key uname))"
  shows "refused_at (ip_key uname ip) (user_key uname) t 1 t (w_kv w')"
  using assms(1)
proof (cases rule: FinishLogin_cases)
  case (admitted w2)
  let ?s = "w_kv w2"
  let ?s1 = "snd (RecordLoginFailure R t (ip_key uname ip) ipLockAfter lockFor ?s)"
  from admitted_same [OF admitted(1) assms(2,5)] have up: "up ?s"
      and eq: "purge t (view ?s) = purge t (view (w_kv w))"
    by (simp_all add: same_keyspace_def)
  have w': "w_kv w' = snd (RecordLoginFailure R t (user_key uname) userLockAfter lockFor ?s1)"
    using sign_in_refused [OF admitted(2)] by (simp add: assms(2,3))
  have "ks_counter (purge t (view ?s)) (loginFailKey (ip_key uname ip))"
    by (simp add: ks_counter_def eq assms(6))
  from record_both [OF up this _ assms(4) refl w'] assms(8)
  have b: "up (w_kv w')" "RecordLoginFailure R t (ip_key uname ip) ipLockAfter lockFor ?s = (Inr (), ?s1)"
     "purge t (view (w_kv w')) (loginFailKey (ip_key uname ip)) = purge t (view ?s1) (loginFailKey (ip_key uname ip))"
     "purge t (view (w_kv w')) (loginLockKey (ip_key uname ip)) = purge t (view ?s1) (loginLockKey (ip_key uname ip))"
     "ks_counter (purge t (view (w_kv w'))) (loginFailKey (user_key uname))"
    by (simp_all add: eq)
  from failures_first [OF b(2)] b assms(6,7) show ?thesis
    by (simp add: refused_at_def failures_at_def eq lockFor_def ipLockAfter_def)
qed simp

lemma refused_step:
  assumes "FinishLogin p t uid user pw ip w = (Inl (GoErr ''invalid credentials''), w')" "pv_redis p = R"
    and "uname = to_lower (pv_unicode p) user" "ip_key uname ip \<noteq> user_key uname"
    and "refused_at (ip_key uname ip) (user_key uname) t0 n t1 (w_kv w)" "0 < n"
    and "t1 \<le> t" "t < window_end lockFor t0"
  shows "refused_at (ip_key uname ip) (user_key uname) t0 (n + 1) t (w_kv w')"
  using assms(1)
proof (cases rule: FinishLogin_cases)
  case (admitted w2)
  let ?s = "w_kv w2"
  let ?ik = "ip_key uname ip"
  let ?s1 = "snd (RecordLoginFailure R t ?ik ipLockAfter lockFor ?s)"
  have up0: "up (w_kv w)" using assms(5) by (simp add: refused_at_def)
  from admitted_same [OF admitted(1) assms(2) up0] have up: "up ?s"
      and same: "same_keyspace t (view (w_kv w)) (view ?s)" by simp_all
  then have eq: "purge t (view ?s) = purge t (view (w_kv w))" by (simp add: same_keyspace_def)
  have w': "w_kv w' = snd (RecordLoginFailure R t (user_key uname) userLockAfter lockFor ?s1)"
    using sign_in_refused [OF admitted(2)] by (simp add: assms(2,3))
  have f: "failures_at ipLockAfter lockFor ?ik t0 n t1 (w_kv w)"
    using assms(5) by (simp add: refused_at_def)
  have cu: "ks_counter (purge t (view ?s)) (loginFailKey (user_key uname))"
    using ks_counter_later assms(5,7) by (auto simp: refused_at_def eq)
  have "ks_counter (purge t1 (view (w_kv w))) (loginFailKey ?ik)"
    using f by (simp add: failures_at_def ks_counter_def)
  then have ci: "ks_counter (purge t (view ?s)) (loginFailKey ?ik)"
    using ks_counter_later assms(7) by (auto simp: eq)
  from record_both [OF up ci cu assms(4) refl w'] have b:
     "up (w_kv w')" "RecordLoginFailure R t ?ik ipLockAfter lockFor ?s = (Inr (), ?s1)"
     "purge t (view (w_kv w')) (loginFailKey ?ik) = purge t (view ?s1) (loginFailKey ?ik)"
     "purge t (view (w_kv w')) (loginLockKey ?ik) = purge t (view ?s1) (loginLockKey ?ik)"
     "ks_counter (purge t (view (w_kv w'))) (loginFailKey (user_key uname))"
    by simp_all
  have "failures_at ipLockAfter lockFor ?ik t0 (n + 1) t ?s1"
    using failures_step_at [OF b(2) _ _ assms(6) f assms(7,8) eq] by (simp add: lockFor_def ipLockAfter_def)
  with b show ?thesis by (simp add: refused_at_def failures_at_def)
qed simp

end

section \<open>The lockout\<close>

text \<open>Attempts at the given times with the given passwords, for one user name and address.\<close>

fun login_attempts ::
  "('r, 'w) provider \<Rightarrow> string \<Rightarrow> string \<Rightarrow> string \<Rightarrow> (int \<times> string) list \<Rightarrow> ('r, 'w) world \<Rightarrow>
     string res list \<times> ('r, 'w) world" where
  "login_attempts p uid user ip [] w = ([], w)"
| "login_attempts p uid user ip ((t, pw) # as) w =
     (let (x, w1) = FinishLogin p t uid user pw ip w; (xs, w2) = login_attempts p uid user ip as w1
      in (x # xs, w2))"

context redis_up
begin

lemma attempts_refused_at:
  assumes "login_attempts p uid user ip as w = (rs, w')" "set rs \<subseteq> {Inl (GoErr ''invalid credentials'')}"
    and "pv_redis p = R" "uname = to_lower (pv_unicode p) user" "ip_key uname ip \<noteq> user_key uname"
    and "refused_at (ip_key uname ip) (user_key uname) t0 n t1 (w_kv w)" "0 < n"
    and "sorted (t1 # map fst as)" "\<forall>t \<in> fst ` set as. t < window_end lockFor t0"
  shows "refused_at (ip_key uname ip) (user_key uname) t0 (n + int (length as))
    (last (t1 # map fst as)) (w_kv w')"
  using assms(1,2,6-9)
proof (induction as arbitrary: w n t1 rs)
  case (Cons a as)
  obtain t pw where a: "a = (t, pw)" by force
  obtain x w1 where x: "FinishLogin p t uid user pw ip w = (x, w1)" by force
  obtain xs w2 where xs: "login_attempts p uid user ip as w1 = (xs, w2)" by force
  have r: "rs = x # xs" "w' = w2" using Cons.prems(1) by (simp_all add: a x xs)
  then have "x = Inl (GoErr ''invalid credentials'')" using Cons.prems(2) by simp
  with x have "FinishLogin p t uid user pw ip w = (Inl (GoErr ''invalid credentials''), w1)" by simp
  from refused_step [OF this assms(3-5) Cons.prems(3,4)] Cons.prems(5,6)
  have "refused_at (ip_key uname ip) (user_key uname) t0 (n + 1) t (w_kv w1)" by (simp add: a)
  from Cons.IH [OF _ _ this, of xs] xs r Cons.prems show ?case
    by (simp add: a algebra_simps)
qed simp

lemma locked_out:
  assumes "refused_at (ip_key uname ip) (user_key uname) t0 n t (w_kv w)" "ipLockAfter \<le> n"
    and "pv_redis p = R" "uname = to_lower (pv_unicode p) user" "t \<le> now" "now < t + lockFor"
    and "FinishLogin p now uid user pw ip w = (x, w')"
  shows "\<not> is_ok x \<and> w_wd w' = w_wd w \<and> w_rng w' = w_rng w"
  using assms(7)
proof (cases rule: FinishLogin_cases)
  case (admitted w2)
  have dl: "px_deadline t lockFor = Some (t + lockFor)"
    by (simp add: px_deadline_def lockFor_def time_units)
  have "purge t (view (w_kv w)) (loginLockKey (ip_key uname ip)) = Some (RStr (Raw ''1''), Some (t + lockFor))"
    using assms(1,2) by (simp add: refused_at_def failures_at_def dl)
  from purge_Some_later [OF this assms(5)] assms(6)
  have lock: "purge now (view (w_kv w)) (loginLockKey (ip_key uname ip)) =
      Some (RStr (Raw ''1''), Some (t + lockFor))"
    by (simp add: live_def)
  from admitted(1) obtain m s1 u s2 where
    g: "GetArtifact R now interactionName uid (w_kv w) = (Inr m, s1)"
    and l: "LoginLocked R now (ip_key uname ip) s1 = (Inr (False, u), s2)"
    by (auto simp: admitted_def assms(3,4))
  from GetArtifact_Inr [OF g] have "purge now (view s1) = purge now (view (w_kv w))"
    by (simp add: same_keyspace_def)
  with LoginLocked_Inr [OF l] lock show ?thesis by simp
qed simp

end

text \<open>
  C6. Guessing a password is stopped: with a valkey that answers, once five logins of one user name
  from one address have been refused within fifteen minutes of the first, starting from no failure,
  every further one in the fifteen minutes after the last is refused without asking WildDuck, for
  any interaction and any password, the right one included.
\<close>

theorem guessing_stopped:
  assumes "redis_up (pv_redis p) view up" and "up (w_kv w)" and "uname = to_lower (pv_unicode p) user"
    and "ip_key uname ip \<noteq> user_key uname"
    and "purge t (view (w_kv w)) (loginFailKey (ip_key uname ip)) = None"
    and "purge t (view (w_kv w)) (loginLockKey (ip_key uname ip)) = None"
    and "ks_counter (purge t (view (w_kv w))) (loginFailKey (user_key uname))"
    and "login_attempts p uid user ip ((t, pw) # as) w = (rs, w')"
    and "set rs = {Inl (GoErr ''invalid credentials'')}" and "length as = 4"
    and "sorted (t # map fst as)" and "\<forall>t' \<in> fst ` set as. t' < t + 15 * minute"
    and "last (t # map fst as) \<le> now" and "now < last (t # map fst as) + 15 * minute"
    and "FinishLogin p now uid' user pw' ip w' = (x, w'')"
  shows "\<not> is_ok x \<and> w_wd w'' = w_wd w' \<and> w_rng w'' = w_rng w'"
proof -
  have we: "window_end lockFor t = t + 15 * minute"
    by (simp add: window_end_def lockFor_def time_units)
  obtain y w1 where f: "FinishLogin p t uid user pw ip w = (y, w1)" by force
  obtain ys where ys: "login_attempts p uid user ip as w1 = (ys, w')" "rs = y # ys"
    using assms(8) f by (auto split: prod.splits)
  then have "y = Inl (GoErr ''invalid credentials'')" "set ys \<subseteq> {Inl (GoErr ''invalid credentials'')}"
    using assms(9) by auto
  with f ys(1) redis_up.attempts_refused_at [OF assms(1) ys(1) _ refl assms(3,4)
      redis_up.refused_first [OF assms(1) _ refl assms(3,4,2,5-7)]] assms(11,12)
  have r: "redis_up.refused_at view up (ip_key uname ip) (user_key uname) t (1 + int (length as))
      (last (t # map fst as)) (w_kv w')"
    by (simp add: we)
  show ?thesis
    by (rule redis_up.locked_out [OF assms(1) r _ refl assms(3,13) _ assms(15)])
      (use assms(10,14) in \<open>simp_all add: ipLockAfter_def lockFor_def\<close>)
qed

text \<open>A run on the reference server: the keys after n refusals at time 0.\<close>

definition refused_keys :: "nat \<Rightarrow> keyspace" where
  "refused_keys n = [artifactKey interactionName ''i'' \<mapsto> (RStr (Doc (AMap Map.empty)), Some hour)]
     ++ (if n = 0 then Map.empty else
          [loginFailKey ''bob|ip'' \<mapsto> (RStr (Num (int n)), Some (15 * minute)),
           loginFailKey ''user|bob'' \<mapsto> (RStr (Num (int n)), Some (15 * minute))])
     ++ (if n < 5 then Map.empty else
          [loginLockKey ''bob|ip'' \<mapsto> (RStr (Raw ''1''), Some (15 * minute))])"

lemma to_lower_bob: "to_lower sample_unicode ''bob'' = ''bob''"
  by (simp add: to_lower_def runes_of_ascii ascii_def lower_rune_def lower_ascii_def encode_rune_def
      rune_error_def char_of_def bit_0)

lemma purge_refused_keys: "purge 0 (refused_keys n) = refused_keys n"
  by (rule ext) (simp add: refused_keys_def purge_def live_def map_add_def)

lemma refused_keys_at:
  "refused_keys n (artifactKey interactionName ''i'') = Some (RStr (Doc (AMap Map.empty)), Some hour)"
  "refused_keys n (loginFailKey ''bob|ip'') =
     (if n = 0 then None else Some (RStr (Num (int n)), Some (15 * minute)))"
  "refused_keys n (loginFailKey ''user|bob'') =
     (if n = 0 then None else Some (RStr (Num (int n)), Some (15 * minute)))"
  "refused_keys n (loginLockKey ''bob|ip'') =
     (if n < 5 then None else Some (RStr (Raw ''1''), Some (15 * minute)))"
  "refused_keys n (loginLockKey ''user|bob'') = None"
  by (auto simp: refused_keys_def map_add_def)

lemma record_mem:
  assumes "purge 0 ks = ks" "ks_counter ks (loginFailKey k)" "n = ks_count ks (loginFailKey k)"
    and "n \<noteq> 0 \<longrightarrow> ks_deadline ks (loginFailKey k) = Some (15 * minute)" "0 < la"
  shows "RecordLoginFailure mem_redis 0 k la lockFor (mem_of ks) = (Inr (), mem_of
    (let ks1 = ks(loginFailKey k \<mapsto> (RStr (Num (n + 1)), Some (15 * minute)))
     in if la \<le> n + 1 then ks1(loginLockKey k \<mapsto> (RStr (Raw ''1''), Some (15 * minute))) else ks1))"
proof -
  let ?k = "loginFailKey k"
  have dl: "px_deadline 0 lockFor = Some (15 * minute)" and pos: "0 < lockFor" "0 < 15 * minute"
    and not_m1: "lockFor \<noteq> - 1" and ex: "max 1 (lockFor div second) * second = 15 * minute"
    by (simp_all add: px_deadline_def lockFor_def time_units)
  have p1: "purge 0 (ks(j \<mapsto> (v, Some (15 * minute)))) = ks(j \<mapsto> (v, Some (15 * minute)))" for j v
    using assms(1) by (simp add: purge_upd live_def time_units)
  have p2: "purge 0 (ks(j \<mapsto> (v, None))) = ks(j \<mapsto> (v, None))" for j v
    using assms(1) by (simp add: purge_upd live_def)
  have "kv_IncrTTL mem_redis 0 ?k lockFor (mem_of ks)
      = (Inr (n + 1), mem_of (ks(?k \<mapsto> (RStr (Num (n + 1)), Some (15 * minute)))))"
  proof (cases "n = 0")
    case True
    then have "ks ?k = None \<or> (\<exists>d. ks ?k = Some (RStr (Num 0), d))"
      using assms(2,3) by (auto simp: ks_counter_def ks_count_def split: option.splits rval.splits blob.splits)
    then have "live 0 (RStr (Num 1), ks_deadline ks ?k)"
    proof
      assume "\<exists>d. ks ?k = Some (RStr (Num 0), d)"
      then obtain d where d: "ks ?k = Some (RStr (Num 0), d)" by blast
      then have "purge 0 ks ?k = Some (RStr (Num 0), d)" using assms(1) by simp
      with d show ?thesis by (simp add: purge_Some ks_deadline_def live_def)
    qed (simp add: ks_deadline_def live_def)
    then have "purge 0 (ks_incr ?k ks) = ks_incr ?k ks"
      using assms(1) True by (simp add: ks_incr_def purge_upd assms(3) [symmetric])
    with True pos ex assms(1-3) show ?thesis
      by (simp add: kv_IncrTTL_def mem_eval ks_incr_def ks_expire_def)
  next
    case False
    with assms pos show ?thesis by (simp add: kv_IncrTTL_def mem_eval ks_incr_def)
  qed
  with assms(5) show ?thesis
    by (simp add: RecordLoginFailure_def kv_Set_def mem_eval ks_set_def p1 dl not_m1 Let_def)
qed

lemma refused_keys_step:
  assumes "n < 5"
  shows "FinishLogin (sample_provider v) 0 ''i'' ''bob'' pw ''ip'' (sample_world\<lparr>w_kv := mem_of (refused_keys n)\<rparr>)
    = (Inl (GoErr ''invalid credentials''), sample_world\<lparr>w_kv := mem_of (refused_keys (Suc n))\<rparr>)"
proof -
  have ip: "ip_key ''bob'' ''ip'' = ''bob|ip''" and uk: "user_key ''bob'' = ''user|bob''"
    by (simp_all add: ip_key_def user_key_def)
  let ?w = "\<lambda>ks. sample_world\<lparr>w_kv := mem_of ks\<rparr>"
  let ?p = "sample_provider v"
  let ?ks = "refused_keys n"
  let ?e = "\<lambda>m. (RStr (Num (int m)), Some (15 * minute))"
  let ?ks1 = "let ks1 = ?ks(loginFailKey ''bob|ip'' \<mapsto> ?e (Suc n))
     in if 5 \<le> int n + 1 then ks1(loginLockKey ''bob|ip'' \<mapsto> (RStr (Raw ''1''), Some (15 * minute))) else ks1"
  have count: "ks_count ?ks (loginFailKey k) = int n" "ks_counter ?ks (loginFailKey k)"
      "n \<noteq> 0 \<longrightarrow> ks_deadline ?ks (loginFailKey k) = Some (15 * minute)" if "k \<in> {''bob|ip'', ''user|bob''}" for k
    using that by (auto simp: ks_count_def ks_counter_def ks_deadline_def refused_keys_at)
  have r1: "RecordLoginFailure mem_redis 0 ''bob|ip'' 5 lockFor (mem_of ?ks) = (Inr (), mem_of ?ks1)"
    using record_mem [where ks = ?ks and k = "''bob|ip''" and n = "int n" and la = 5] count [of "''bob|ip''"]
    by (simp add: purge_refused_keys algebra_simps)
  have p1: "purge 0 ?ks1 = ?ks1"
    by (simp add: Let_def purge_upd purge_refused_keys live_def)
  have c1: "ks_count ?ks1 (loginFailKey ''user|bob'') = int n" "ks_counter ?ks1 (loginFailKey ''user|bob'')"
      "n \<noteq> 0 \<longrightarrow> ks_deadline ?ks1 (loginFailKey ''user|bob'') = Some (15 * minute)"
    using count [of "''user|bob''"] by (auto simp: ks_count_def ks_counter_def ks_deadline_def Let_def)
  have "RecordLoginFailure mem_redis 0 ''user|bob'' 20 lockFor (mem_of ?ks1)
      = (Inr (), mem_of (?ks1(loginFailKey ''user|bob'' \<mapsto> ?e (Suc n))))"
    using record_mem [where ks = ?ks1 and k = "''user|bob''" and n = "int n" and la = 20] p1 c1 assms
    by (simp add: algebra_simps del: fun_upd_apply)
  moreover have "?ks1(loginFailKey ''user|bob'' \<mapsto> ?e (Suc n)) = refused_keys (Suc n)"
    by (rule ext) (use assms in \<open>auto simp: refused_keys_def map_add_def Let_def\<close>)
  ultimately have rec: "recordFailure ?p 0 ''bob|ip'' ''user|bob'' (?w ?ks) = ?w (refused_keys (Suc n))"
    using r1 by (simp add: recordFailure_def ipLockAfter_def userLockAfter_def Let_def)
  have get: "get_artifact ?p 0 interactionName ''i'' (?w ?ks) = (Inr Map.empty, ?w ?ks)"
    by (simp add: get_artifact_def GetArtifact_def kv_Get_def mem_eval purge_refused_keys refused_keys_at)
  have lk: "check_locks ?p 0 [''bob|ip'', ''user|bob''] (?w ?ks) = (Inr (), ?w ?ks)"
    using assms
    by (simp add: login_locked_def LoginLocked_def kv_PTTL_def mem_eval purge_refused_keys refused_keys_at)
  have wd: "on_wd (wd_authenticate (pv_wd ?p) user pw m) w = (Inl (ExtErr ''403''), w)" for user m w
    by (simp add: on_wd_def sample_provider_def sample_wildduck_def)
  have "pv_unicode ?p = sample_unicode" by (simp add: sample_provider_def)
  then show ?thesis
    by (simp add: FinishLogin_def get to_lower_bob ip uk lk sign_in_def wd rec Let_def del: check_locks.simps)
qed

theorem guessing_stopped_witness:
  "\<exists>rs w' x w''. login_attempts (sample_provider ANil) ''i'' ''bob'' ''ip''
        [(0, ''a''), (0, ''b''), (0, ''c''), (0, ''d''), (0, ''e'')]
        (sample_world\<lparr>w_kv := mem_of (refused_keys 0)\<rparr>) = (rs, w')
     \<and> FinishLogin (sample_provider ANil) minute ''j'' ''bob'' ''right'' ''ip'' w' = (x, w'') \<and> \<not> is_ok x"
proof -
  let ?p = "sample_provider ANil"
  let ?as = "[(0, ''a''), (0, ''b''), (0, ''c''), (0, ''d''), (0, ''e'')] :: (int \<times> string) list"
  let ?w = "\<lambda>n. sample_world\<lparr>w_kv := mem_of (refused_keys n)\<rparr>"
  let ?e = "Inl (GoErr ''invalid credentials'') :: string res"
  have run: "login_attempts ?p ''i'' ''bob'' ''ip'' ?as (?w 0) = ([?e, ?e, ?e, ?e, ?e], ?w 5)"
    using refused_keys_step [of 0] refused_keys_step [of 1] refused_keys_step [of 2]
      refused_keys_step [of 3] refused_keys_step [of 4]
    by (simp add: eval_nat_numeral)
  obtain x w'' where last: "FinishLogin ?p minute ''j'' ''bob'' ''right'' ''ip'' (?w 5) = (x, w'')" by force
  have low: "''bob'' = to_lower (pv_unicode ?p) ''bob''"
    by (simp add: to_lower_bob sample_provider_def)
  have "\<not> is_ok x \<and> w_wd w'' = w_wd (?w 5) \<and> w_rng w'' = w_rng (?w 5)"
    by (rule guessing_stopped [OF _ _ low _ _ _ _ run _ _ _ _ _ _ last, where up = mem_up and view = m_ks])
      (simp_all add: mem.redis_up_axioms mem_up_def mem_of_def purge_refused_keys refused_keys_at ip_key_def user_key_def
        ks_counter_def time_units)
  with run last show ?thesis by blast
qed

section \<open>What a session needs\<close>

text \<open>
  C7. A session is started only after every check: the interaction exists and neither lock was
  reported, WildDuck accepted the password for an account that is activated and neither suspended
  nor disabled, and it does not demand a new password; the session is then that account's, and the
  failures of both keys have been reset.
\<close>

theorem sign_in_checked:
  assumes "FinishLogin p now uid user pw ip w = (Inr sid, w')"
    and "ipKey = ip_key (to_lower (pv_unicode p) user) ip" and "userKey = user_key (to_lower (pv_unicode p) user)"
  shows "\<exists>w1 auth w2 acc w3. admitted p now uid ipKey userKey w w1
    \<and> on_wd (wd_authenticate (pv_wd p) user pw [''scope'' \<mapsto> AStr ''master'']) w1 = (Inr auth, w2)
    \<and> success auth \<and> \<not> boolv (mget auth ''requirePasswordChange'')
    \<and> FetchAccount p (str (mget auth ''id'')) w2 = (Inr acc, w3) \<and> ac_usable acc
    \<and> startSession p now (ac_id acc) (ac_email acc) (reset_failures p now ipKey userKey w3) = (sid, w')"
  using assms(1)
proof (cases rule: FinishLogin_cases)
  case (admitted w1)
  obtain y w2 where a: "on_wd (wd_authenticate (pv_wd p) user pw [''scope'' \<mapsto> AStr ''master'']) w1 = (y, w2)"
    by force
  with admitted(2) obtain auth where auth: "y = Inr auth" "success auth" "str (mget auth ''id'') \<noteq> []"
    by (auto simp: sign_in_def Let_def split: sum.splits if_splits)
  obtain z w3 where f: "FetchAccount p (str (mget auth ''id'')) w2 = (z, w3)" by force
  with a auth admitted(2) obtain acc where acc: "z = Inr acc" "ac_usable acc"
      "accepted p now uid ipKey userKey auth acc w3 = (Inr sid, w')"
    by (auto simp: sign_in_def ac_usable_def assms(2,3) Let_def split: sum.splits if_splits)
  then have "\<not> boolv (mget auth ''requirePasswordChange'')"
      "startSession p now (ac_id acc) (ac_email acc) (reset_failures p now ipKey userKey w3) = (sid, w')"
    by (auto simp: accepted_def Let_def split: if_splits sum.splits prod.splits)
  with a auth f acc admitted(1) assms(2,3) show ?thesis by blast
qed simp

text \<open>An SDK that accepts one password for an activated account, for concrete runs.\<close>

definition open_wildduck :: "unit wildduck" where
  "open_wildduck = sample_wildduck\<lparr>wd_authenticate :=
       (\<lambda>u pw _ w. (Inr (if pw = ''right'' then [''success'' \<mapsto> ABool True, ''id'' \<mapsto> AStr ''u1''] else Map.empty), w)),
     wd_get := (\<lambda>i w. (Inr [''success'' \<mapsto> ABool True, ''id'' \<mapsto> AStr i, ''activated'' \<mapsto> ABool True], w))\<rparr>"

theorem sign_in_checked_witness:
  "\<exists>sid w'. FinishLogin (sample_provider ANil\<lparr>pv_wd := open_wildduck\<rparr>) 0 ''i'' ''bob'' ''right'' ''ip''
       (sample_world\<lparr>w_kv := mem_of (refused_keys 0)\<rparr>) = (Inr sid, w')
     \<and> (\<exists>acc w3. ac_usable acc \<and> fst (startSession (sample_provider ANil\<lparr>pv_wd := open_wildduck\<rparr>) 0
           (ac_id acc) (ac_email acc) w3) = sid)"
proof -
  let ?p = "sample_provider ANil\<lparr>pv_wd := open_wildduck\<rparr>"
  let ?w = "sample_world\<lparr>w_kv := mem_of (refused_keys 0)\<rparr>"
  have "is_ok (fst (FinishLogin ?p 0 ''i'' ''bob'' ''right'' ''ip'' ?w))"
    by (simp add: FinishLogin_def get_artifact_def GetArtifact_def kv_Get_def mem_eval purge_refused_keys
        refused_keys_at login_locked_def LoginLocked_def kv_PTTL_def sample_provider_def to_lower_bob
        ip_key_def user_key_def sign_in_def on_wd_def open_wildduck_def FetchAccount_def account_of_def
        success_def accepted_def Let_def split: prod.splits)
  then obtain sid w' where run: "FinishLogin ?p 0 ''i'' ''bob'' ''right'' ''ip'' ?w = (Inr sid, w')"
    by (metis is_ok_iff prod.collapse)
  from sign_in_checked [OF run refl refl] obtain acc w3 where
    "ac_usable acc" "startSession ?p 0 (ac_id acc) (ac_email acc) w3 = (sid, w')" by blast
  with run show ?thesis by (metis fst_conv)
qed

context redis_up
begin

lemma startSession_at:
  assumes "startSession p t sub email w = (sid, w')" "pv_redis p = R" "up (w_kv w)"
    and "t \<le> t'" "t' < t + 24 * hour"
  shows "up (w_kv w') \<and> CHR ''.'' \<notin> set sid \<and>
    artifact_at t' (view (w_kv w')) sessionName sid = Some (json_map [''sub'' \<mapsto> AStr sub, ''email'' \<mapsto> AStr email])"
proof -
  let ?m = "[''sub'' \<mapsto> AStr sub, ''email'' \<mapsto> AStr email]"
  have sid: "sid = b64 (pv_rand p (w_rng w) 32)"
    using assms(1) by (auto simp: startSession_def randomID_def split: prod.splits)
  obtain x s' where put: "PutArtifact R t sessionName sid ?m (24 * hour) (w_kv w) = (x, s')" by force
  have w': "w_kv w' = s'"
    using assms(1,2) put by (auto simp: startSession_def randomID_def put_artifact_def split: prod.splits)
  from PutArtifact_up [OF assms(3) put] have "up s'" and x: "x = Inr ()" by simp_all
  have dl: "0 < 24 * hour" "px_deadline t (24 * hour) = Some (t + 24 * hour)"
    by (simp_all add: px_deadline_def time_units)
  from PutArtifact_at [OF put [unfolded x] dl(1) assms(4)] assms(5) \<open>up s'\<close> w' show ?thesis
    by (simp add: dl(2) sid)
qed

end

text \<open>
  A session that was started is the one the cookie leads to: with a valkey that answers, for the
  next 24 hours a request that carries the cookie \<open>SetSessionCookie\<close> sets reads the session id, and
  the session stored under it names the user it was started for.
\<close>

theorem session_resolves:
  assumes "redis_up (pv_redis p) view up" and "up (w_kv w)" and "startSession p t sub email w = (sid, w')"
    and "t \<le> t'" and "t' < t + 24 * hour"
    and "hf_cookie r = map_option ck_value (an_cookie (SetSessionCookie p sid a))"
  shows "readSession p r = Some sid
    \<and> fst (GetArtifact (pv_redis p) t' sessionName sid (w_kv w'))
        = Inr (json_map [''sub'' \<mapsto> AStr sub, ''email'' \<mapsto> AStr email])"
proof -
  note at = redis_up.startSession_at [OF assms(1,3) refl assms(2,4,5)]
  with redis_up.GetArtifact_up_stored [OF assms(1), of "w_kv w'" t' sessionName sid]
  have "fst (GetArtifact (pv_redis p) t' sessionName sid (w_kv w'))
      = Inr (json_map [''sub'' \<mapsto> AStr sub, ''email'' \<mapsto> AStr email])"
    by fastforce
  moreover have "readSession p r = Some sid"
    using assms(6) at by (simp add: readSession_def SetSessionCookie_def signedCookie_def split_n2_append)
  ultimately show ?thesis by simp
qed

theorem session_resolves_witness:
  "readSession (sample_provider ANil) (sample_form\<lparr>hf_cookie :=
       Some (ck_value (signedCookie (sample_provider ANil)
         (fst (startSession (sample_provider ANil) 0 ''u1'' ''e'' sample_world)) (24 * hour)))\<rparr>)
     = Some (fst (startSession (sample_provider ANil) 0 ''u1'' ''e'' sample_world))"
  using session_resolves [of "sample_provider ANil" m_ks mem_up sample_world 0 "''u1''" "''e''"
      "fst (startSession (sample_provider ANil) 0 ''u1'' ''e'' sample_world)"
      "snd (startSession (sample_provider ANil) 0 ''u1'' ''e'' sample_world)" 0 "sample_form\<lparr>hf_cookie :=
       Some (ck_value (signedCookie (sample_provider ANil)
         (fst (startSession (sample_provider ANil) 0 ''u1'' ''e'' sample_world)) (24 * hour)))\<rparr>" "redirect_to 303 []"]
  by (simp add: mem.redis_up_axioms mem_up_def sample_world_def mem_start_def SetSessionCookie_def)

end
