(* ===== verification/Authorize_Safety.thy ===== *)
theory Authorize_Safety
  imports Authorize Lockout
begin

text \<open>
  What the authorization endpoint guarantees: no code without a registered client, PKCE and consent,
  no redirect to other than registered addresses, and consent that is remembered.
\<close>

section \<open>What a code needs\<close>

text \<open>The consent that lets a code go out without asking again.\<close>

definition consented :: "('r, 'w) provider \<Rightarrow> client \<Rightarrow> string \<Rightarrow> string list \<Rightarrow> string \<Rightarrow> db \<Rightarrow> bool" where
  "consented p c sub scopes prompt d \<longleftrightarrow>
     trustedFirstPartyClient (pv_unicode p) (pv_url p) (cf_trusted_domains (pv_cfg p)) c
     \<or> prompt \<noteq> ''consent'' \<and> (\<exists>g. GetConsentGrant (pv_crypto p) (pv_pg p) sub (c_client_id c) d = Inr g
          \<and> set scopes \<subseteq> set (elems (cg_scopes g)) \<and> c_client_id c \<in> set (elems (cg_audiences g)))"

text \<open>A request that may end in a code: of a registered client, for a signed-in user, consented to.\<close>

definition authorized :: "('r, 'w) provider \<Rightarrow> http_form \<Rightarrow> ('r, 'w) world \<Rightarrow> client \<Rightarrow> string \<Rightarrow> bool" where
  "authorized p r w c sub \<longleftrightarrow>
     GetClientByClientID (pv_pg p) (vget (hf_query r) ''client_id'') (w_db w) = Inr c
     \<and> vget (hf_query r) ''redirect_uri'' \<in> set (elems (c_redirects c))
     \<and> vget (hf_query r) ''response_type'' = ''code''
     \<and> vget (hf_query r) ''code_challenge'' \<noteq> [] \<and> vget (hf_query r) ''code_challenge_method'' = ''S256''
     \<and> set (parseScopes (vget (hf_query r) ''scope'')) \<subseteq> set (elems (c_scopes c))
     \<and> (\<exists>sid session s. readSession p r = Some sid
          \<and> GetArtifact (pv_redis p) (hf_now r) sessionName sid (w_kv w) = (Inr session, s)
          \<and> sub = str (mget session ''sub''))
     \<and> consented p c sub (parseScopes (vget (hf_query r) ''scope'')) (vget (hf_query r) ''prompt'') (w_db w)"

lemma canAutoGrant_iff:
  "canAutoGrantAuthorization p c sub q w \<longleftrightarrow>
     consented p c sub (parseScopes (vget q ''scope'')) (vget q ''prompt'') (w_db w)"
  by (auto simp: canAutoGrantAuthorization_def consented_def scopeSubset_iff split: sum.splits)

lemma allowedScopes_Inr:
  "allowedScopes c req False = Inr sc \<Longrightarrow> set (parseScopes req) \<subseteq> set (elems (c_scopes c)) \<and> parseScopes sc = parseScopes req"
proof -
  have "parseScopes [] = []" by (simp add: parseScopes_fields str_fields_def)
  then show "allowedScopes c req False = Inr sc \<Longrightarrow>
      set (parseScopes req) \<subseteq> set (elems (c_scopes c)) \<and> parseScopes sc = parseScopes req"
    by (auto simp: allowedScopes_def Let_def scopeSubset_iff parseScopes_idem split: if_splits)
qed

text \<open>An authorization request ends in \<open>finishAuthorization\<close>, or in a page that stores no code.\<close>

lemma Authorize_cases:
  assumes "Authorize p r w = (x, w')"
  obtains (finish) c sub sc session w1 where "authorized p r w c sub"
      "allowedScopes c (vget (hf_query r) ''scope'') False = Inr sc"
      "get_artifact p (hf_now r) sessionName (the (readSession p r)) w = (Inr session, w1)"
      "finishAuthorization p r c sub (vset (hf_query r) ''scope'' sc) w1 = (x, w')"
  | (error) a where "x = Ok a" "w' = w" "an_location a = None" "an_status a = 400"
  | (refused) c code desc where "w' = w"
      "GetClientByClientID (pv_pg p) (vget (hf_query r) ''client_id'') (w_db w) = Inr c"
      "vget (hf_query r) ''redirect_uri'' \<in> set (elems (c_redirects c))"
      "x = redirectError (pv_url p) (vget (hf_query r) ''redirect_uri'') (vget (hf_query r) ''state'') code desc"
  | (ask) a w1 m uid where "x = Ok a"
      "offer_interaction p (hf_now r) uid m (w1\<lparr>w_rng := Suc (w_rng w1)\<rparr>) = (a, w')"
      "w1 = w \<or> (\<exists>y. get_artifact p (hf_now r) sessionName (the (readSession p r)) w = (y, w1))"
proof -
  let ?q = "hf_query r"
  let ?err = "\<lambda>code desc. Ok (oauthError 400 code desc)"
  have plain: "an_location (oauthError 400 code desc) = None" "an_status (oauthError 400 code desc) = 400" for code desc
    by (simp_all add: oauthError_def json_answer_def)
  show thesis
  proof (cases "GetClientByClientID (pv_pg p) (vget ?q ''client_id'') (w_db w)")
    case (Inl e)
    with assms plain error show thesis by (auto simp: Authorize_def Let_def)
  next
    case (Inr c)
    show thesis
    proof (cases "contains (c_redirects c) (vget ?q ''redirect_uri'')")
      case False
      with Inr assms plain error show thesis by (auto simp: Authorize_def Let_def)
    next
      case uri: True
      have ref: thesis if "(redirectError (pv_url p) (vget ?q ''redirect_uri'') (vget ?q ''state'') code desc, w) = (x, w')"
        for code desc
        using that Inr uri by (intro refused [of c code desc]) (auto simp: contains_iff)
      show thesis
      proof (cases "vget ?q ''response_type'' = ''code'' \<and> vget ?q ''code_challenge'' \<noteq> []
          \<and> vget ?q ''code_challenge_method'' = ''S256'' \<and> is_ok (allowedScopes c (vget ?q ''scope'') False)")
        case False
        with Inr uri assms ref show thesis
          by (auto simp: Authorize_def Let_def split: if_splits sum.splits)
      next
        case ok: True
        then obtain sc where sc: "allowedScopes c (vget ?q ''scope'') False = Inr sc" by (auto simp: is_ok_iff)
        let ?q' = "vset ?q ''scope'' sc"
        have ses: "authorize_session p r c ?q' w = (x, w')"
          using assms Inr uri ok sc by (simp add: Authorize_def Let_def)
        show thesis
        proof (cases "readSession p r")
          case None
          with ses ask show thesis
            by (auto simp: authorize_session_def randomID_def Let_def split: prod.splits)
        next
          case (Some sid)
          obtain y w1 where g: "get_artifact p (hf_now r) sessionName sid w = (y, w1)" by force
          show thesis
          proof (cases y)
            case (Inl e)
            with ses ask Some g show thesis
              by (auto simp: authorize_session_def randomID_def Let_def split: prod.splits)
          next
            case y: (Inr session)
            let ?sub = "str (mget session ''sub'')"
            show thesis
            proof (cases "canAutoGrantAuthorization p c ?sub ?q' w1")
              case False
              with ses Some g y ask show thesis
                by (auto simp: authorize_session_def redirectToConsent_def randomID_def Let_def split: prod.splits)
            next
              case True
              have "GetArtifact (pv_redis p) (hf_now r) sessionName sid (w_kv w) = (Inr session, w_kv w1)"
                  "w_db w1 = w_db w"
                using g y by (auto simp: get_artifact_def split: prod.splits)
              moreover from this True allowedScopes_Inr [OF sc]
              have "consented p c ?sub (parseScopes (vget ?q ''scope'')) (vget ?q ''prompt'') (w_db w)"
                by (simp add: canAutoGrant_iff)
              ultimately have "authorized p r w c ?sub"
                using Inr uri ok Some allowedScopes_Inr [OF sc] by (auto simp: authorized_def contains_iff)
              moreover have "finishAuthorization p r c ?sub ?q' w1 = (x, w')"
                using ses Some g y True by (simp add: authorize_session_def Let_def)
              ultimately show thesis using finish sc g y Some by simp
            qed
          qed
        qed
      qed
    qed
  qed
qed

text \<open>And an authorized request does get there.\<close>

lemma Authorize_finish:
  assumes "authorized p r w c sub" "allowedScopes c (vget (hf_query r) ''scope'') False = Inr sc"
    and "get_artifact p (hf_now r) sessionName (the (readSession p r)) w = (y, w1)"
  shows "Authorize p r w = finishAuthorization p r c sub (vset (hf_query r) ''scope'' sc) w1"
proof -
  let ?q = "vset (hf_query r) ''scope'' sc"
  obtain sid session where s: "readSession p r = Some sid" "y = Inr session" "sub = str (mget session ''sub'')"
      "w_db w1 = w_db w"
    using assms(1,3) by (auto simp: authorized_def get_artifact_def split: prod.splits)
  with assms(1) allowedScopes_Inr [OF assms(2)] have "canAutoGrantAuthorization p c sub ?q w1"
    by (simp add: canAutoGrant_iff authorized_def)
  with assms s show ?thesis
    by (simp add: Authorize_def authorize_session_def authorized_def contains_iff Let_def)
qed

context redis_up
begin

lemma get_artifact_same:
  assumes "get_artifact p t n i w = (x, w')" "pv_redis p = R" "up (w_kv w)"
  shows "up (w_kv w') \<and> same_keyspace t (view (w_kv w)) (view (w_kv w')) \<and> w_db w' = w_db w \<and> w_rng w' = w_rng w \<and> w_wd w' = w_wd w"
  using assms GetArtifact_up_same GetArtifact_up by (auto simp: get_artifact_def split: prod.splits)

lemma put_artifact_up:
  assumes "put_artifact p t n i m ttl w = (x, w')" "pv_redis p = R" "up (w_kv w)" "0 < ttl" "t \<le> t'"
  shows "x = Inr () \<and> up (w_kv w') \<and> w_db w' = w_db w \<and> w_rng w' = w_rng w \<and> w_wd w' = w_wd w
    \<and> (artifactKey n' j \<noteq> artifactKey n i \<longrightarrow>
         artifact_at t' (view (w_kv w')) n' j = artifact_at t' (view (w_kv w)) n' j)
    \<and> artifact_at t' (view (w_kv w')) n i = (if t' < the (px_deadline t ttl) then Some (json_map m) else None)"
proof -
  obtain s' where s': "PutArtifact R t n i m ttl (w_kv w) = (x, s')" "w' = w\<lparr>w_kv := s'\<rparr>"
    using assms(1,2) by (auto simp: put_artifact_def split: prod.splits)
  from PutArtifact_up [OF assms(3) s'(1)] have u: "up s'" "x = Inr ()" by simp_all
  note put = s'(1) [unfolded u(2)]
  show ?thesis
    using s'(2) u PutArtifact_other [OF put assms(4,5)] PutArtifact_at [OF put assms(4,5)]
      PutArtifact_expired [OF put assms(4)] by auto
qed

lemma offer_interaction_codes:
  assumes "offer_interaction p t uid m w = (a, w')" "pv_redis p = R" "up (w_kv w)" "t \<le> t'"
  shows "artifact_at t' (view (w_kv w')) codeName k = artifact_at t' (view (w_kv w)) codeName k"
proof -
  obtain y w1 where p: "put_artifact p t interactionName uid m (10 * minute) w = (y, w1)" by force
  have k: "artifactKey codeName k \<noteq> artifactKey interactionName uid"
    using artifactKey_inj [of codeName k interactionName uid] by (auto simp: codeName_def interactionName_def)
  have "0 < 10 * minute" by (simp add: time_units)
  from put_artifact_up [OF p assms(2,3) this assms(4), of codeName k] k p assms(1) show ?thesis
    by (auto simp: offer_interaction_def)
qed

lemma finishAuthorization_codes:
  assumes "finishAuthorization p r c sub q w = (x, w')" "pv_oauth p = None" "pv_redis p = R" "up (w_kv w)"
    and "0 < cf_code_ttl (pv_cfg p)" "hf_now r \<le> t'"
  shows "up (w_kv w') \<and> artifact_at t' (view (w_kv w')) codeName k =
    (if k = b64 (pv_rand p (w_rng w) 32)
     then (if t' < the (px_deadline (hf_now r) (cf_code_ttl (pv_cfg p)))
           then Some (json_map (code_payload c sub q)) else None)
     else artifact_at t' (view (w_kv w)) codeName k)"
proof -
  let ?w = "w\<lparr>w_rng := Suc (w_rng w)\<rparr>" and ?code = "b64 (pv_rand p (w_rng w) 32)"
  obtain y w2 where p: "put_artifact p (hf_now r) codeName ?code (code_payload c sub q) (cf_code_ttl (pv_cfg p)) ?w
      = (y, w2)" by force
  have "w' = w2"
    using assms(1,2) p
    by (auto simp: finishAuthorization_def randomID_def Let_def split: sum.splits option.splits prod.splits)
  with put_artifact_up [OF p assms(3) _ assms(5,6), of codeName k] assms(4) show ?thesis by auto
qed

end


text \<open>Nothing before \<open>finishAuthorization\<close> looks at fosite.\<close>

lemma without_oauth:
  "sign (p\<lparr>pv_oauth := oa\<rparr>) = sign p" "get_artifact (p\<lparr>pv_oauth := oa\<rparr>) = get_artifact p"
  "put_artifact (p\<lparr>pv_oauth := oa\<rparr>) = put_artifact p" "randomID (p\<lparr>pv_oauth := oa\<rparr>) = randomID p"
  "interaction_path (p\<lparr>pv_oauth := oa\<rparr>) = interaction_path p"
  by (simp_all add: fun_eq_iff sign_def get_artifact_def put_artifact_def randomID_def interaction_path_def)

lemma readSession_oauth: "readSession (p\<lparr>pv_oauth := oa\<rparr>) = readSession p"
  unfolding fun_eq_iff readSession_def without_oauth by simp

lemma pages_oauth:
  "offer_interaction (p\<lparr>pv_oauth := oa\<rparr>) = offer_interaction p"
  "redirectToConsent (p\<lparr>pv_oauth := oa\<rparr>) = redirectToConsent p"
  "canAutoGrantAuthorization (p\<lparr>pv_oauth := oa\<rparr>) = canAutoGrantAuthorization p"
  unfolding fun_eq_iff offer_interaction_def redirectToConsent_def without_oauth
  by (simp_all add: canAutoGrantAuthorization_def)

lemma authorize_session_oauth:
  assumes "\<And>sid session w1. readSession p r = Some sid \<Longrightarrow>
      get_artifact p (hf_now r) sessionName sid w = (Inr session, w1) \<Longrightarrow>
      \<not> canAutoGrantAuthorization p c (str (mget session ''sub'')) q w1"
  shows "authorize_session (p\<lparr>pv_oauth := oa\<rparr>) r c q w = authorize_session p r c q w"
  using assms unfolding authorize_session_def pages_oauth readSession_oauth without_oauth
  by (auto simp: Let_def split: option.splits prod.splits sum.splits)

text \<open>
  Fosite is asked for a code only for such a request: without an authorized client and user the
  answer and the state are the same whatever fosite would do.
\<close>

theorem fosite_asked_after_consent:
  assumes "\<And>c sub. \<not> authorized p r w c sub"
  shows "Authorize (p\<lparr>pv_oauth := oa\<rparr>) r w = Authorize p r w"
proof -
  have "authorize_session (p\<lparr>pv_oauth := oa\<rparr>) r c (vset (hf_query r) ''scope'' sc) w
      = authorize_session p r c (vset (hf_query r) ''scope'' sc) w"
    if c: "GetClientByClientID (pv_pg p) (vget (hf_query r) ''client_id'') (w_db w) = Inr c"
      "contains (c_redirects c) (vget (hf_query r) ''redirect_uri'')"
      "vget (hf_query r) ''response_type'' = ''code''" "vget (hf_query r) ''code_challenge'' \<noteq> []"
      "vget (hf_query r) ''code_challenge_method'' = ''S256''"
      and sc: "allowedScopes c (vget (hf_query r) ''scope'') False = Inr sc" for c sc
  proof (rule authorize_session_oauth, rule notI)
    fix sid session w1
    assume s: "readSession p r = Some sid" "get_artifact p (hf_now r) sessionName sid w = (Inr session, w1)"
      and g: "canAutoGrantAuthorization p c (str (mget session ''sub'')) (vset (hf_query r) ''scope'' sc) w1"
    have "GetArtifact (pv_redis p) (hf_now r) sessionName sid (w_kv w) = (Inr session, w_kv w1)" "w_db w1 = w_db w"
      using s(2) by (auto simp: get_artifact_def split: prod.splits)
    with g s(1) c allowedScopes_Inr [OF sc] have "authorized p r w c (str (mget session ''sub''))"
      by (auto simp: authorized_def canAutoGrant_iff contains_iff)
    with assms show False by blast
  qed
  then show ?thesis
    by (auto simp: Authorize_def Let_def split: sum.splits)
qed


section \<open>Consent is remembered\<close>

text \<open>Fosite reaches PostgreSQL through the storage of internal/fositestore, which only reads it.\<close>

definition oauth_reads_db :: "('r, 'w) oauth \<Rightarrow> bool" where
  "oauth_reads_db oa \<longleftrightarrow> (\<forall>r u w. w_db (snd (oa_authorize_request oa r u w)) = w_db w)
     \<and> (\<forall>r ar se w. w_db (snd (oa_authorize_response oa r ar se w)) = w_db w)"

lemma newFositeSession_frame:
  assumes "newFositeSession p now sub cid nonce w = (se, w')"
  shows "w_db w' = w_db w"
proof -
  obtain x w1 where f: "FetchAccount p sub w = (x, w1)" by force
  have "w' = w \<or> w' = w1"
    using assms f by (auto simp: newFositeSession_def Let_def split: if_splits sum.splits)
  with FetchAccount_frame [OF f] show ?thesis by auto
qed

lemma finishAuthorization_db:
  assumes "finishAuthorization p r c sub q w = (x, w')" "\<forall>oa. pv_oauth p = Some oa \<longrightarrow> oauth_reads_db oa"
  shows "w_db w' = w_db w"
proof (cases "pv_oauth p")
  case None
  with assms(1) show ?thesis
    by (auto simp: finishAuthorization_def randomID_def put_artifact_def Let_def
        split: prod.splits sum.splits option.splits)
next
  case (Some oa)
  let ?url = "cf_issuer (pv_cfg p) @ ''/oauth/authorize?'' @ ul_encode (pv_url p) q"
  obtain ar e w1 where ar: "oa_authorize_request oa r ?url w = ((ar, e), w1)" by (metis surj_pair)
  obtain se w2 where se: "newFositeSession p (hf_now r) sub (c_client_id c) (vget q ''nonce'') w1 = (se, w2)" by force
  obtain y w3 where y: "oa_authorize_response oa r (grant_requested oa c ar) se w2 = (y, w3)" by force
  have ok: "oauth_reads_db oa" using assms(2) Some by blast
  have "w_db w1 = w_db w"
    using ok unfolding oauth_reads_db_def by (metis ar snd_conv)
  moreover have "w_db w3 = w_db w2"
    using ok unfolding oauth_reads_db_def by (metis y snd_conv)
  ultimately show ?thesis
    using assms(1) Some ar se y newFositeSession_frame [OF se]
    by (auto simp: finishAuthorization_def finishAuthorizationFosite_def Let_def
        split: if_splits option.splits sum.splits)
qed

lemma uniqueStrings_word: "is_word a \<Longrightarrow> a \<in> set (uniqueStrings (xs @ [a]))"
  by (auto simp: uniqueStrings_def set_dedup trim_space_word word_nonempty)

lemma vget_interaction:
  "vget (valuesFromInteraction m) ''scope'' = str (mget m ''scope'')"
  "vget (valuesFromInteraction m) ''audience'' = str (mget m ''audience'')"
  by (simp_all add: valuesFromInteraction_def) (simp_all add: vget_def)

text \<open>
  C31. Consent is asked for once: after the user consented to an interaction of a client, every later
  request of that client for no more scopes, without \<open>prompt=consent\<close>, is granted without asking.
\<close>

theorem consent_remembered:
  assumes "consent_table (w_db w)" and "\<And>call d. pg_fault (pv_pg p) call d = None"
    and "\<forall>oa. pv_oauth p = Some oa \<longrightarrow> oauth_reads_db oa"
    and "GetClientByClientID (pv_pg p) (str (mget artifact ''client_id'')) (w_db w) = Inr c"
    and "is_word (c_client_id c)" and "valid_utf8_of (c_client_id c) = c_client_id c"
    and "\<forall>s \<in> set (parseScopes (str (mget artifact ''scope''))). valid_utf8_of s = s"
    and "confirm p r sub artifact w = (x, w')"
    and "set (parseScopes (vget q ''scope'')) \<subseteq> set (parseScopes (str (mget artifact ''scope'')))"
    and "vget q ''prompt'' \<noteq> ''consent''"
  shows "canAutoGrantAuthorization p c sub q w'"
proof -
  let ?q = "valuesFromInteraction artifact"
  let ?scopes = "parseScopes (vget ?q ''scope'')"
  let ?auds = "uniqueStrings (parseScopes (vget ?q ''audience'') @ [c_client_id c])"
  obtain d where put: "PutConsentGrant (pv_crypto p) (pv_pg p) (hf_now r) sub (c_client_id c) (Some ?scopes)
      (Some ?auds) (w_db w) = (Inr (), d)"
    by (simp add: PutConsentGrant_def assms(2))
  have fin: "finishAuthorization p r c sub ?q (w\<lparr>w_db := d\<rparr>) = (x, w')"
    using assms(4,8) put by (simp add: confirm_def Let_def)
  have db: "w_db w' = d" using finishAuthorization_db [OF fin assms(3)] by simp
  from PutConsentGrant_get [OF assms(1) put assms(2)]
  obtain g where g: "GetConsentGrant (pv_crypto p) (pv_pg p) sub (c_client_id c) d = Inr g"
      "elems (cg_scopes g) = filter (\<lambda>s. s \<noteq> []) (map valid_utf8_of ?scopes)"
      "elems (cg_audiences g) = filter (\<lambda>s. s \<noteq> []) (map valid_utf8_of ?auds)"
    by (auto simp: elems_def)
  have "set ?scopes \<subseteq> set (elems (cg_scopes g))"
    using assms(7) parseScopes_words word_nonempty by (force simp: g(2) vget_interaction image_iff)
  moreover have "c_client_id c \<in> set (elems (cg_audiences g))"
    using uniqueStrings_word [OF assms(5)] assms(5,6) word_nonempty by (force simp: g(3) image_iff)
  ultimately show ?thesis
    using g(1) db assms(9,10) by (auto simp: canAutoGrant_iff consented_def vget_interaction)
qed

text \<open>
  Unlike the endpoint, \<open>Logout\<close> sends the browser to any address the request names.
\<close>

theorem logout_open_redirect:
  "u \<noteq> [] \<Longrightarrow> vget (hf_form r) ''post_logout_redirect_uri'' = u \<Longrightarrow> an_location (fst (Logout p r w)) = Some u"
  by (simp add: Logout_def redirect_to_def Let_def)

section \<open>Concrete runs\<close>

text \<open>One client, one signed-in user, and the user's consent for the client.\<close>

definition app_row :: client_row where
  "app_row = \<lparr>cr_id = ''1'', cr_client_id = ''app'', cr_secret = ''pw'', cr_name = ''App'',
     cr_redirects = AArr [AStr ''https://app/cb''],
     cr_grants = AArr [AStr ''authorization_code'', AStr ''refresh_token''], cr_scopes = AArr [AStr ''openid''],
     cr_logouts = None, cr_customer = None, cr_by_subject = None, cr_by_email = None,
     cr_created = 0, cr_updated = 0\<rparr>"

definition app_client :: client where
  "app_client = scanClient_row app_row"

definition app_db :: db where
  "app_db = empty_db\<lparr>t_clients := [app_row]\<rparr>"

definition session_keys :: keyspace where
  "session_keys = [artifactKey sessionName ''sid'' \<mapsto> (RStr (Doc (AMap [''sub'' \<mapsto> AStr ''u1''])), None)]"

definition app_world :: "db \<Rightarrow> (mem, unit) world" where
  "app_world d = sample_world\<lparr>w_kv := mem_of session_keys, w_db := d\<rparr>"

definition app_form :: http_form where
  "app_form = sample_form\<lparr>hf_query := (\<lambda>_. [])(''client_id'' := [''app''], ''redirect_uri'' := [''https://app/cb''],
       ''response_type'' := [''code''], ''code_challenge'' := [''xyz''], ''code_challenge_method'' := [''S256'']),
     hf_cookie := Some (''sid.'' @ sign (sample_provider ANil) ''sid'')\<rparr>"

lemma app_client_simps:
  "GetClientByClientID sample_pg ''app'' (d\<lparr>t_clients := [app_row]\<rparr>) = Inr app_client"
  "c_client_id app_client = ''app''" "c_redirects app_client = Some [''https://app/cb'']"
  "c_scopes app_client = Some [''openid'']" "c_secret app_client = ''pw''"
  "c_grants app_client = Some [''authorization_code'', ''refresh_token'']"
  by (simp_all add: GetClientByClientID_def scanClients_def first_client_def app_client_def app_row_def
      scanClient_row_def unmarshal_strings_def)

lemma session_keys_simps [simp]:
  "purge t session_keys = session_keys"
  "session_keys (artifactKey sessionName ''sid'') = Some (RStr (Doc (AMap [''sub'' \<mapsto> AStr ''u1''])), None)"
  by (auto simp: session_keys_def purge_def live_def)

lemma app_form_session: "readSession (sample_provider v) app_form = Some ''sid''"
proof -
  have "sign (sample_provider v) ''sid'' = sign (sample_provider ANil) ''sid''"
    by (simp add: sign_def sample_provider_def)
  moreover have "split_n2 (CHR ''.'') (''sid.'' @ x) = [''sid'', x]" for x
    using split_n2_append [of "CHR ''.''" "''sid''" x] by simp
  ultimately show ?thesis by (simp add: readSession_def app_form_def)
qed

lemma app_session:
  "GetArtifact mem_redis t sessionName ''sid'' (w_kv (app_world d)) = (Inr [''sub'' \<mapsto> AStr ''u1''], w_kv (app_world d))"
  "get_artifact (sample_provider v) t sessionName ''sid'' (app_world d) = (Inr [''sub'' \<mapsto> AStr ''u1''], app_world d)"
  by (simp_all add: get_artifact_def GetArtifact_def kv_Get_def app_world_def mem_eval sample_world_def)

lemma app_form_query:
  "vget (hf_query app_form) k = (if k = ''client_id'' then ''app'' else if k = ''redirect_uri'' then ''https://app/cb''
      else if k = ''response_type'' then ''code'' else if k = ''code_challenge'' then ''xyz''
      else if k = ''code_challenge_method'' then ''S256'' else [])"
  "hf_now app_form = 0"
  by (simp_all add: app_form_def vget_def sample_form_def)

lemma app_db_client: "GetClientByClientID sample_pg ''app'' app_db = Inr app_client" "consent_table app_db"
  unfolding app_db_def by (rule app_client_simps) (simp add: consent_table_def empty_db_def)

lemma no_scopes [simp]: "parseScopes [] = []"
  by (simp add: parseScopes_fields str_fields_def)

lemma consent_db:
  "\<exists>d'. PutConsentGrant sample_crypto sample_pg 0 ''u1'' ''app'' (Some []) (Some [''app'']) app_db = (Inr (), d')
     \<and> consented (sample_provider v) app_client ''u1'' [] [] d'
     \<and> GetClientByClientID sample_pg ''app'' d' = Inr app_client"
proof -
  obtain d' where put: "PutConsentGrant sample_crypto sample_pg 0 ''u1'' ''app'' (Some []) (Some [''app'']) app_db = (Inr (), d')"
      and d': "\<exists>rows. d' = app_db\<lparr>t_adapter := rows\<rparr>"
    by (auto simp: PutConsentGrant_def)
  from PutConsentGrant_get [OF app_db_client(2) put] have "consented (sample_provider v) app_client ''u1'' [] [] d'"
    by (auto simp: consented_def app_client_simps sample_provider_def valid_utf8_of_ascii ascii_def)
  moreover have "GetClientByClientID sample_pg ''app'' d' = Inr app_client"
    using d' app_client_simps(1) by (auto simp: app_db_def GetClientByClientID_def)
  ultimately show ?thesis using put by blast
qed

lemma app_authorized:
  assumes "consented (sample_provider v) app_client ''u1'' [] [] d" "GetClientByClientID sample_pg ''app'' d = Inr app_client"
  shows "authorized (sample_provider v) app_form (app_world d) app_client ''u1''"
proof -
  have "w_db (app_world d) = d" by (simp add: app_world_def)
  with assms show ?thesis
    by (simp add: authorized_def app_form_query app_form_session app_client_simps app_session(1))
qed



theorem fosite_asked_after_consent_witness:
  "\<forall>oa. Authorize (sample_provider ANil\<lparr>pv_oauth := oa\<rparr>) (app_form\<lparr>hf_cookie := None\<rparr>) (app_world app_db)
     = Authorize (sample_provider ANil) (app_form\<lparr>hf_cookie := None\<rparr>) (app_world app_db)"
  by (intro allI, rule fosite_asked_after_consent) (simp add: authorized_def readSession_def)

theorem consent_remembered_witness:
  "\<exists>x w'. confirm (sample_provider ANil) app_form ''u1'' [''client_id'' \<mapsto> AStr ''app''] (app_world app_db) = (x, w')
     \<and> canAutoGrantAuthorization (sample_provider ANil) app_client ''u1'' (hf_query app_form) w'"
proof -
  let ?m = "[''client_id'' \<mapsto> AStr ''app'']"
  obtain x w' where run: "confirm (sample_provider ANil) app_form ''u1'' ?m (app_world app_db) = (x, w')" by force
  have "is_word ''app''" by (simp add: is_word_def runes_of_ascii ascii_def is_space_def)
  then have "canAutoGrantAuthorization (sample_provider ANil) app_client ''u1'' (hf_query app_form) w'"
    using app_client_simps
    by - (rule consent_remembered [OF _ _ _ _ _ _ _ run],
      simp_all add: app_form_query app_world_def app_db_client valid_utf8_of_ascii ascii_def)
  with run show ?thesis by blast
qed

end
