(* ===== verification/Token_Safety.thy ===== *)
theory Token_Safety
  imports Token_Endpoint Authorize_Safety
begin

text \<open>
  What the token endpoint guarantees in the provider's own mode: codes and refresh tokens are used
  once, tokens carry no more than the client may have, and revocation is effective.
\<close>

section \<open>What a token response is\<close>

lemma issueTokenResponse_200:
  assumes "issueTokenResponse p now c sub scope nonce w = (a, w')" "an_status a = 200"
  shows "\<exists>base jti tok m. signJWT p (token_claims p now c sub scope jti base) = Inr tok
    \<and> an_body a = Some (AMap m) \<and> m ''access_token'' = Some (AStr tok) \<and> m ''scope'' = Some (AStr scope)
    \<and> base = fst (account_claims p sub w)"
proof -
  obtain base w1 where b: "account_claims p sub w = (base, w1)" by force
  obtain jti w2 where j: "randomID p 16 w1 = (jti, w2)" by force
  show ?thesis
  proof (cases "signJWT p (token_claims p now c sub scope jti base)")
    case (Inl e)
    with assms b j show ?thesis
      by (auto simp: issueTokenResponse_def oauthError_def json_answer_def)
  next
    case (Inr tok)
    with assms b j have "\<exists>m. an_body a = Some (AMap m) \<and> m ''access_token'' = Some (AStr tok) \<and> m ''scope'' = Some (AStr scope)"
      by (auto simp: issueTokenResponse_def json_answer_def add_id_token_def add_refresh_def Let_def
          split: if_splits prod.splits)
    with Inr b show ?thesis by auto
  qed
qed

lemma issueTokenResponse_ok:
  assumes "\<And>claims. is_ok (signJWT p claims)"
  shows "an_status (fst (issueTokenResponse p now c sub scope nonce w)) = 200"
proof -
  obtain base w1 where b: "account_claims p sub w = (base, w1)" by force
  obtain jti w2 where j: "randomID p 16 w1 = (jti, w2)" by force
  obtain tok where "signJWT p (token_claims p now c sub scope jti base) = Inr tok"
    using assms by (meson is_ok_iff)
  with b j show ?thesis
    by (simp add: issueTokenResponse_def json_answer_def Let_def split: prod.splits)
qed

lemma account_claims_frame:
  "account_claims p sub w = (m, w') \<Longrightarrow> w_kv w' = w_kv w \<and> w_db w' = w_db w \<and> w_rng w' = w_rng w"
  by (auto simp: account_claims_def dest!: FetchAccount_frame split: if_splits prod.splits sum.splits)

lemma token_claims_at:
  "token_claims p now c sub scope jti base ''client_id'' = Some (AStr (c_client_id c))"
  "token_claims p now c sub scope jti base ''scope'' = Some (AStr scope)"
  "token_claims p now c sub scope jti base ''exp'' = Some (AInt (unix (now + cf_access_ttl (pv_cfg p))))"
  "sub \<noteq> [] \<Longrightarrow> token_claims p now c sub scope jti base ''sub'' = Some (AStr sub)"
  by (simp_all add: token_claims_def Let_def)

context redis_up
begin

text \<open>Issuing stores nothing but a refresh token, under a fresh random name and for the same user.\<close>

lemma issueTokenResponse_kv:
  assumes "issueTokenResponse p now c sub scope nonce w = (a, w')" "pv_redis p = R" "up (w_kv w)"
    and "0 < cf_refresh_ttl (pv_cfg p)" "now \<le> t" "CHR '':'' \<notin> set n"
  shows "up (w_kv w') \<and> (artifact_at t (view (w_kv w')) n k = artifact_at t (view (w_kv w)) n k
    \<or> n = refreshName \<and> k = b64 (pv_rand p (Suc (w_rng w)) 32) \<and> sub \<noteq> []
      \<and> contains (c_grants c) ''refresh_token'' \<and> hasScope scope ''offline_access''
      \<and> (\<forall>m. artifact_at t (view (w_kv w')) n k = Some m \<longrightarrow> m = json_map [''client_id'' \<mapsto> AStr (c_client_id c),
           ''sub'' \<mapsto> AStr sub, ''scope'' \<mapsto> AStr scope]))"
proof -
  obtain base w1 where b: "account_claims p sub w = (base, w1)" by force
  let ?w2 = "w1\<lparr>w_rng := Suc (w_rng w1)\<rparr>" and ?new = "b64 (pv_rand p (Suc (w_rng w)) 32)"
  let ?m = "[''client_id'' \<mapsto> AStr (c_client_id c), ''sub'' \<mapsto> AStr sub, ''scope'' \<mapsto> AStr scope] :: gomap"
  obtain y w3 where put: "put_artifact p now refreshName ?new ?m (cf_refresh_ttl (pv_cfg p))
      (w1\<lparr>w_rng := Suc (Suc (w_rng w1))\<rparr>) = (y, w3)" by force
  note f = account_claims_frame [OF b]
  have "w_kv w' = w_kv w \<or> w_kv w' = w_kv w3 \<and> sub \<noteq> [] \<and> contains (c_grants c) ''refresh_token'' \<and> hasScope scope ''offline_access''"
    using assms(1) b put f
    by (auto simp: issueTokenResponse_def randomID_def add_refresh_def Let_def split: if_splits sum.splits)
  then show ?thesis
  proof
    assume "w_kv w' = w_kv w3 \<and> sub \<noteq> [] \<and> contains (c_grants c) ''refresh_token'' \<and> hasScope scope ''offline_access''"
    moreover have "n = refreshName \<and> k = ?new" if "artifactKey n k = artifactKey refreshName ?new"
      using artifactKey_inj [OF that assms(6)] by (simp add: refreshName_def)
    ultimately show ?thesis
      using put_artifact_up [OF put assms(2) _ assms(4,5), of n k] f assms(3) by (auto split: if_splits)
  qed (use assms(3) in simp)
qed

lemma delete_artifact_up:
  assumes "delete_artifact p t n i w = (x, w')" "pv_redis p = R" "up (w_kv w)" "t \<le> t'"
  shows "up (w_kv w') \<and> w_db w' = w_db w \<and> w_rng w' = w_rng w \<and> w_wd w' = w_wd w
    \<and> artifact_at t' (view (w_kv w')) m j =
        (if artifactKey m j = artifactKey n i then None else artifact_at t' (view (w_kv w)) m j)"
proof -
  obtain s' where s': "DeleteArtifact R t n i (w_kv w) = (x, s')" "w' = w\<lparr>w_kv := s'\<rparr>"
    using assms(1,2) by (auto simp: delete_artifact_def split: prod.splits)
  from DeleteArtifact_up [OF assms(3) s'(1)] have u: "up s'" "x = Inr ()" by simp_all
  with DeleteArtifact_at [OF s'(1) [unfolded u(2)] assms(4)] s'(2) show ?thesis by simp
qed

end

section \<open>Codes and refresh tokens are used once\<close>

lemma oauthError_status [simp]: "an_status (oauthError st code desc) = st" "an_location (oauthError st code desc) = None"
  by (simp_all add: oauthError_def json_answer_def)

lemma tokenAuthorizationCode_200:
  assumes "tokenAuthorizationCode p r c w = (a, w')" "an_status a = 200"
  obtains payload scope w1 where "contains (c_grants c) ''authorization_code''"
    "get_artifact p (hf_now r) codeName (vget (hf_form r) ''code'') w = (Inr payload, w1)"
    "mget payload ''client_id'' = AStr (c_client_id c)"
    "mget payload ''redirect_uri'' = AStr (vget (hf_form r) ''redirect_uri'')"
    "str (mget payload ''code_challenge'') \<noteq> [] \<longrightarrow>
       verifyPKCE (pv_crypto p) (str (mget payload ''code_challenge'')) (vget (hf_form r) ''code_verifier'')"
    "allowedScopes c (str (mget payload ''scope'')) False = Inr scope"
    "issueTokenResponse p (hf_now r) c (str (mget payload ''sub'')) scope (str (mget payload ''nonce''))
       (snd (delete_artifact p (hf_now r) codeName (vget (hf_form r) ''code'') w1)) = (a, w')"
  using assms by (auto simp: tokenAuthorizationCode_def Let_def split: if_splits prod.splits sum.splits)

lemma tokenRefresh_200:
  assumes "tokenRefresh p r c w = (a, w')" "an_status a = 200"
  obtains payload scope w1 where "contains (c_grants c) ''refresh_token''"
    "get_artifact p (hf_now r) refreshName (vget (hf_form r) ''refresh_token'') w = (Inr payload, w1)"
    "mget payload ''client_id'' = AStr (c_client_id c)"
    "allowedScopes c (str (mget payload ''scope'')) False = Inr scope"
    "issueTokenResponse p (hf_now r) c (str (mget payload ''sub'')) scope []
       (snd (delete_artifact p (hf_now r) refreshName (vget (hf_form r) ''refresh_token'') w1)) = (a, w')"
  using assms by (auto simp: tokenRefresh_def Let_def split: if_splits prod.splits sum.splits)

context redis_up
begin

lemma get_delete:
  assumes "get_artifact p t n i w = (Inr m, w1)" "pv_redis p = R" "up (w_kv w)" "t \<le> t'"
  shows "up (w_kv (snd (delete_artifact p t n i w1))) \<and> artifact_at t (view (w_kv w)) n i = Some m
    \<and> w_rng (snd (delete_artifact p t n i w1)) = w_rng w
    \<and> artifact_at t' (view (w_kv (snd (delete_artifact p t n i w1)))) n i = None"
proof -
  from get_artifact_same [OF assms(1-3)] have u: "up (w_kv w1)" "w_rng w1 = w_rng w" by simp_all
  have "artifact_at t (view (w_kv w)) n i = Some m"
    using assms(1,2) GetArtifact_Inr by (auto simp: get_artifact_def split: prod.splits)
  moreover obtain x w2 where d: "delete_artifact p t n i w1 = (x, w2)" by force
  ultimately show ?thesis
    using delete_artifact_up [OF d assms(2) u(1) assms(4), of n i] u(2) by simp
qed

lemma absent_get:
  assumes "artifact_at t (view (w_kv w)) n i = None" "pv_redis p = R"
  shows "\<not> is_ok (fst (get_artifact p t n i w))"
proof -
  obtain x s where "GetArtifact R t n i (w_kv w) = (x, s)" by force
  with GetArtifact_absent [OF assms(1) this] assms(2) show ?thesis by (simp add: get_artifact_def)
qed

end

lemma tokenAuthorizationCode_absent:
  "\<not> is_ok (fst (get_artifact p (hf_now r) codeName (vget (hf_form r) ''code'') w)) \<Longrightarrow>
     an_status (fst (tokenAuthorizationCode p r c w)) = 400"
  by (cases "get_artifact p (hf_now r) codeName (vget (hf_form r) ''code'') w")
    (auto simp: tokenAuthorizationCode_def is_ok_iff Let_def split: sum.splits)

lemma tokenRefresh_absent:
  "\<not> is_ok (fst (get_artifact p (hf_now r) refreshName (vget (hf_form r) ''refresh_token'') w)) \<Longrightarrow>
     an_status (fst (tokenRefresh p r c w)) = 400"
  by (cases "get_artifact p (hf_now r) refreshName (vget (hf_form r) ''refresh_token'') w")
    (auto simp: tokenRefresh_def is_ok_iff Let_def split: sum.splits)

text \<open>
  C2. An authorization code is redeemed once, by its client, for its redirect address and with its
  verifier: a token answer means that such a code was stored, and every later request with the code is
  refused.
\<close>

theorem code_redeemed_once:
  assumes "redis_up (pv_redis p) view up" and "up (w_kv w)" and "0 < cf_refresh_ttl (pv_cfg p)"
    and "tokenAuthorizationCode p r c w = (a, w')" and "an_status a = 200"
    and "vget (hf_form r2) ''code'' = vget (hf_form r) ''code''" and "hf_now r \<le> hf_now r2"
  shows "an_status (fst (tokenAuthorizationCode p r2 c2 w')) = 400
    \<and> (\<exists>payload. artifact_at (hf_now r) (view (w_kv w)) codeName (vget (hf_form r) ''code'') = Some payload
         \<and> mget payload ''client_id'' = AStr (c_client_id c)
         \<and> mget payload ''redirect_uri'' = AStr (vget (hf_form r) ''redirect_uri'')
         \<and> (str (mget payload ''code_challenge'') \<noteq> [] \<longrightarrow>
              str (mget payload ''code_challenge'') = b64 (sha256 (pv_crypto p) (vget (hf_form r) ''code_verifier'')))
         \<and> set (parseScopes (str (mget payload ''scope''))) \<subseteq> set (elems (c_scopes c)))"
proof -
  obtain payload scope w1 where g: "get_artifact p (hf_now r) codeName (vget (hf_form r) ''code'') w = (Inr payload, w1)"
    and m: "mget payload ''client_id'' = AStr (c_client_id c)"
      "mget payload ''redirect_uri'' = AStr (vget (hf_form r) ''redirect_uri'')"
      "str (mget payload ''code_challenge'') \<noteq> [] \<longrightarrow>
         verifyPKCE (pv_crypto p) (str (mget payload ''code_challenge'')) (vget (hf_form r) ''code_verifier'')"
    and sc: "allowedScopes c (str (mget payload ''scope'')) False = Inr scope"
    and iss: "issueTokenResponse p (hf_now r) c (str (mget payload ''sub'')) scope (str (mget payload ''nonce''))
       (snd (delete_artifact p (hf_now r) codeName (vget (hf_form r) ''code'') w1)) = (a, w')"
    using assms(4,5) by (rule tokenAuthorizationCode_200)
  note d = redis_up.get_delete [OF assms(1) g refl assms(2,7)]
  have "artifact_at (hf_now r2) (view (w_kv w')) codeName (vget (hf_form r) ''code'') = None"
    using redis_up.issueTokenResponse_kv [OF assms(1) iss refl _ assms(3,7), of codeName "vget (hf_form r) ''code''"] d
    by (auto simp: codeName_def refreshName_def)
  then have "\<not> is_ok (fst (get_artifact p (hf_now r2) codeName (vget (hf_form r2) ''code'') w'))"
    using redis_up.absent_get [OF assms(1) _ refl] assms(6) by simp
  from tokenAuthorizationCode_absent [OF this] d m allowedScopes_Inr [OF sc] show ?thesis
    by (auto simp: verifyPKCE_def)
qed

text \<open>
  C20. Refresh tokens rotate: a token answer to a refresh token means that it was stored for the client;
  afterwards every request with it is refused, and a refresh token that appeared is bound to the client
  and the user of the old one.
\<close>

theorem refresh_rotates:
  assumes "redis_up (pv_redis p) view up" and "up (w_kv w)" and "0 < cf_refresh_ttl (pv_cfg p)"
    and "tokenRefresh p r c w = (a, w')" and "an_status a = 200"
    and "vget (hf_form r2) ''refresh_token'' = vget (hf_form r) ''refresh_token''" and "hf_now r \<le> hf_now r2"
    and "vget (hf_form r) ''refresh_token'' \<noteq> b64 (pv_rand p (Suc (w_rng w)) 32)"
  shows "an_status (fst (tokenRefresh p r2 c2 w')) = 400
    \<and> (\<exists>payload. artifact_at (hf_now r) (view (w_kv w)) refreshName (vget (hf_form r) ''refresh_token'') = Some payload
         \<and> mget payload ''client_id'' = AStr (c_client_id c)
         \<and> set (parseScopes (str (mget payload ''scope''))) \<subseteq> set (elems (c_scopes c))
         \<and> (\<forall>m. artifact_at (hf_now r2) (view (w_kv w')) refreshName (b64 (pv_rand p (Suc (w_rng w)) 32)) = Some m
              \<longrightarrow> artifact_at (hf_now r2) (view (w_kv w)) refreshName (b64 (pv_rand p (Suc (w_rng w)) 32)) = Some m
                \<or> mget m ''client_id'' = AStr (valid_utf8_of (c_client_id c))
                  \<and> mget m ''sub'' = AStr (valid_utf8_of (str (mget payload ''sub'')))))"
proof -
  let ?old = "vget (hf_form r) ''refresh_token''" and ?new = "b64 (pv_rand p (Suc (w_rng w)) 32)"
  obtain payload scope w1 where g: "get_artifact p (hf_now r) refreshName ?old w = (Inr payload, w1)"
    and m: "mget payload ''client_id'' = AStr (c_client_id c)"
    and sc: "allowedScopes c (str (mget payload ''scope'')) False = Inr scope"
    and iss: "issueTokenResponse p (hf_now r) c (str (mget payload ''sub'')) scope []
       (snd (delete_artifact p (hf_now r) refreshName ?old w1)) = (a, w')"
    using assms(4,5) by (rule tokenRefresh_200)
  obtain x w2 where del: "delete_artifact p (hf_now r) refreshName ?old w1 = (x, w2)" by force
  note same = redis_up.get_artifact_same [OF assms(1) g refl assms(2)]
  note d = redis_up.get_delete [OF assms(1) g refl assms(2,7)]
  note kv = redis_up.issueTokenResponse_kv [OF assms(1) iss refl _ assms(3,7), where n = refreshName]
  have no: "CHR '':'' \<notin> set refreshName" by (simp add: refreshName_def)
  have "artifact_at (hf_now r2) (view (w_kv w')) refreshName ?old = None"
    using kv [of ?old] d no assms(8) by auto
  then have "\<not> is_ok (fst (get_artifact p (hf_now r2) refreshName (vget (hf_form r2) ''refresh_token'') w'))"
    using redis_up.absent_get [OF assms(1) _ refl] assms(6) by simp
  moreover have "artifact_at (hf_now r2) (view (w_kv w2)) refreshName ?new = artifact_at (hf_now r2) (view (w_kv w)) refreshName ?new"
    using redis_up.delete_artifact_up [OF assms(1) del refl _ assms(7), of refreshName ?new] same assms(8)
    by (simp add: same_artifact [OF _ assms(7)])
  ultimately show ?thesis
    using tokenRefresh_absent [of p r2 w' c2] d m allowedScopes_Inr [OF sc] kv [of ?new] del no
    by (intro conjI exI [of _ payload]) auto
qed

section \<open>What tokens carry\<close>

text \<open>An answer with a token that carries these claims and verifies to them.\<close>

lemma issued_token:
  assumes "issueTokenResponse p now c sub scope nonce w1 = (a, w')" "an_status a = 200" "signs_ok (pv_jose p)"
  shows "\<exists>m tok claims. an_body a = Some (AMap m) \<and> m ''access_token'' = Some (AStr tok) \<and> m ''scope'' = Some (AStr scope)
    \<and> signJWT p claims = Inr tok
    \<and> (json_reads (pv_jose p) (AMap claims) \<longrightarrow> verifyJWT p tok = Inr (json_map claims))
    \<and> claims ''client_id'' = Some (AStr (c_client_id c)) \<and> claims ''scope'' = Some (AStr scope)
    \<and> claims ''exp'' = Some (AInt (unix (now + cf_access_ttl (pv_cfg p))))"
proof -
  obtain base jti tok m where t: "signJWT p (token_claims p now c sub scope jti base) = Inr tok"
      "an_body a = Some (AMap m)" "m ''access_token'' = Some (AStr tok)" "m ''scope'' = Some (AStr scope)"
    using issueTokenResponse_200 [OF assms(1,2)] by blast
  with signJWT_verifies [OF assms(3) _ t(1)] show ?thesis
    by (intro exI [of _ m] exI [of _ tok] exI [of _ "token_claims p now c sub scope jti base"])
      (simp add: token_claims_at)
qed

text \<open>
  C21. A token of the provider's own grants is for an authenticated client that may use the grant, for
  scopes of that client only; it is a token the provider verifies (when its JSON text reads back),
  naming the client, the scopes and its expiry.
\<close>

theorem token_grants_allowed:
  assumes "Token p r w = (Ok a, w')" and "an_status a = 200" and "pv_oauth p = None"
    and "vget (hf_form r) ''grant_type'' \<noteq> tokenExchangeGrant"
    and "\<And>c. authenticateClient p r w = Ok c \<Longrightarrow> list_all is_word (elems (c_scopes c))"
    and "signs_ok (pv_jose p)"
  shows "\<exists>c m tok scope claims. authenticateClient p r w = Ok c \<and> contains (c_grants c) (vget (hf_form r) ''grant_type'')
    \<and> an_body a = Some (AMap m) \<and> m ''access_token'' = Some (AStr tok) \<and> m ''scope'' = Some (AStr scope)
    \<and> set (parseScopes scope) \<subseteq> set (elems (c_scopes c))
    \<and> signJWT p claims = Inr tok
    \<and> (json_reads (pv_jose p) (AMap claims) \<longrightarrow> verifyJWT p tok = Inr (json_map claims))
    \<and> claims ''client_id'' = Some (AStr (c_client_id c)) \<and> claims ''scope'' = Some (AStr scope)
    \<and> claims ''exp'' = Some (AInt (unix (hf_now r + cf_access_ttl (pv_cfg p))))"
proof -
  let ?g = "vget (hf_form r) ''grant_type''"
  note issued = issued_token [OF _ assms(2,6)]
  obtain c where c: "authenticateClient p r w = Ok c"
    using assms(1-4) by (auto simp: Token_def Let_def split: go.splits if_splits)
  note run = assms(1) [unfolded Token_def Let_def assms(3)] assms(2,4) c
  consider (code) "?g = ''authorization_code''" "tokenAuthorizationCode p r c w = (a, w')"
    | (refresh) "?g = ''refresh_token''" "tokenRefresh p r c w = (a, w')"
    | (own) "?g = ''client_credentials''" "tokenClientCredentials p r c w = (a, w')"
    using run by (auto split: if_splits prod.splits)
  then show ?thesis
  proof cases
    case code
    from tokenAuthorizationCode_200 [OF code(2) assms(2)] obtain scope req w1 sub nonce where
      "contains (c_grants c) ?g" "allowedScopes c req False = Inr scope"
      "issueTokenResponse p (hf_now r) c sub scope nonce w1 = (a, w')" by (metis code(1))
    with issued allowedScopes_Inr c show ?thesis by metis
  next
    case refresh
    from tokenRefresh_200 [OF refresh(2) assms(2)] obtain scope req w1 sub where
      "contains (c_grants c) ?g" "allowedScopes c req False = Inr scope"
      "issueTokenResponse p (hf_now r) c sub scope [] w1 = (a, w')" by (metis refresh(1))
    with issued allowedScopes_Inr c show ?thesis by metis
  next
    case own
    then obtain scope where g: "contains (c_grants c) ?g" "allowedScopes c (vget (hf_form r) ''scope'') True = Inr scope"
      "issueTokenResponse p (hf_now r) c [] scope [] w = (a, w')"
      using assms(2) by (auto simp: tokenClientCredentials_def split: if_splits sum.splits)
    have "set (parseScopes scope) \<subseteq> set (elems (c_scopes c))"
      using g(2) assms(5) [OF c]
      by (auto simp: allowedScopes_def Let_def scopeSubset_iff parseScopes_idem parseScopes_join set_dedup split: if_splits)
    with issued [OF g(3)] g(1) c show ?thesis by metis
  qed
qed

section \<open>Refusals and revocation\<close>

text \<open>
  C36. A refused code stays: a request with another client, another redirect address or a wrong
  verifier is answered with 400 and leaves every stored artifact and the tables as they were, so the
  rightful client can still redeem the code.
\<close>

theorem refused_code_kept:
  assumes "redis_up (pv_redis p) view up" and "up (w_kv w)"
    and "artifact_at (hf_now r) (view (w_kv w)) codeName (vget (hf_form r) ''code'') = Some payload"
    and "mget payload ''client_id'' \<noteq> AStr (c_client_id c)
      \<or> mget payload ''redirect_uri'' \<noteq> AStr (vget (hf_form r) ''redirect_uri'')
      \<or> str (mget payload ''code_challenge'') \<notin> {[], b64 (sha256 (pv_crypto p) (vget (hf_form r) ''code_verifier''))}"
    and "tokenAuthorizationCode p r c w = (a, w')"
  shows "an_status a = 400 \<and> w_db w' = w_db w \<and> same_keyspace (hf_now r) (view (w_kv w)) (view (w_kv w'))"
proof -
  obtain y w1 where g: "get_artifact p (hf_now r) codeName (vget (hf_form r) ''code'') w = (y, w1)" by force
  note same = redis_up.get_artifact_same [OF assms(1) g refl assms(2)]
  have "y = Inr payload"
    using redis_up.GetArtifact_up_stored [OF assms(1-3)] g by (auto simp: get_artifact_def split: prod.splits)
  with g assms(4,5) have "an_status a = 400 \<and> (w' = w \<or> w' = w1)"
    by (auto simp: tokenAuthorizationCode_def verifyPKCE_def Let_def split: if_splits)
  with same show ?thesis by (auto simp: same_keyspace_def)
qed

context redis_up
begin

text \<open>With a valkey that answers, a stored revocation is seen.\<close>

lemma put_revoked:
  assumes "verifyJWT p token = Inr claims" "claimString claims ''jti'' = jti" "jti \<noteq> []" "0 < cf_refresh_ttl (pv_cfg p)"
    and "put_artifact p t revokedName jti [''revoked'' \<mapsto> ABool True] (cf_refresh_ttl (pv_cfg p)) w = (x, w1)"
    and "t \<le> now" "now < the (px_deadline t (cf_refresh_ttl (pv_cfg p)))" "pv_redis p = R" "up (w_kv w)"
  shows "\<not> is_ok (fst (VerifyAccessToken p now token w1))"
proof -
  from put_artifact_up [OF assms(5,8,9,4,6), of revokedName jti] assms(7)
  have u: "up (w_kv w1)" "x = Inr ()"
      "artifact_at now (view (w_kv w1)) revokedName jti = Some (json_map [''revoked'' \<mapsto> ABool True])" by simp_all
  obtain s where "GetArtifact R now revokedName jti (w_kv w1) = (Inr (json_map [''revoked'' \<mapsto> ABool True]), s)"
    using GetArtifact_up_stored [OF u(1,3)] by blast
  moreover obtain z w2 where "VerifyAccessToken p now token w1 = (z, w2)" by force
  moreover have "redis_server (pv_redis p) view" using redis_server_axioms assms(8) by simp
  ultimately show ?thesis
    using revoked_rejected [OF _ assms(1-4) assms(5) [unfolded u(2)] assms(6,7)] assms(8) by fastforce
qed

lemma verifyLegacy_up:
  "verifyLegacyAccessToken p t token w = (x, w') \<Longrightarrow> pv_redis p = R \<Longrightarrow> up (w_kv w) \<Longrightarrow> up (w_kv w')"
  using get_artifact_same [of p t] by (auto simp: verifyLegacyAccessToken_def Let_def split: sum.splits prod.splits if_splits)

end

text \<open>What a revocation by its own client stores; fosite is asked first when there is one.\<close>

definition fosite_keeps_up :: "('r, 'w) provider \<Rightarrow> ('r \<Rightarrow> bool) \<Rightarrow> bool" where
  "fosite_keeps_up p up \<longleftrightarrow> (\<forall>oa r w. pv_oauth p = Some oa \<longrightarrow> up (w_kv w) \<longrightarrow> up (w_kv (snd (oa_revocation oa r w))))"

lemma fosite_keeps_upD:
  "fosite_keeps_up p up \<Longrightarrow> up (w_kv w) \<Longrightarrow> pv_oauth p = Some oa \<Longrightarrow> up (w_kv (snd (oa_revocation oa r w)))"
  by (simp add: fosite_keeps_up_def)

definition revocation_accepted :: "('r, 'w) provider \<Rightarrow> http_form \<Rightarrow> ('r, 'w) world \<Rightarrow> bool" where
  "revocation_accepted p r w \<longleftrightarrow> (case pv_oauth p of
       Some oa \<Rightarrow> is_ok (fst (oa_revocation oa r w))
     | None \<Rightarrow> is_ok (fst (VerifyAccessToken p (hf_now r) (vget (hf_form r) ''token'') w)))"

lemma Revoke_stores:
  assumes "redis_up (pv_redis p) view up" "up (w_kv w)"
    and "\<And>oa. pv_oauth p = Some oa \<Longrightarrow> up (w_kv (snd (oa_revocation oa r w)))" "revocation_accepted p r w"
    and "authenticateClient p r w = Ok c" "c_client_id c \<noteq> []" "verifyJWT p (vget (hf_form r) ''token'') = Inr claims"
    and "pv_oauth p = None \<or> claimString claims ''client_id'' = c_client_id c" "claimString claims ''jti'' \<noteq> []"
    and "Revoke p r w = (Ok a, w')"
  shows "\<exists>x w1. up (w_kv w1) \<and> put_artifact p (hf_now r) revokedName (claimString claims ''jti'')
      [''revoked'' \<mapsto> ABool True] (cf_refresh_ttl (pv_cfg p)) w1 = (x, w')"
proof (cases "pv_oauth p")
  case None
  obtain v w1 where v: "verifyLegacyAccessToken p (hf_now r) (vget (hf_form r) ''token'') w = (v, w1)" by force
  then have acc: "VerifyAccessToken p (hf_now r) (vget (hf_form r) ''token'') w = (v, w1)"
    using None by (auto simp: VerifyAccessToken_def split: sum.splits)
  with assms(4) None obtain c' where "v = Inr c'" by (auto simp: revocation_accepted_def is_ok_iff)
  with verifyLegacy_Inr v assms(7) have "v = Inr claims" by fastforce
  with None assms(5,9,10) acc have "w' = snd (put_artifact p (hf_now r) revokedName (claimString claims ''jti'')
      [''revoked'' \<mapsto> ABool True] (cf_refresh_ttl (pv_cfg p)) w1)"
    by (simp add: Revoke_def Let_def)
  with redis_up.verifyLegacy_up [OF assms(1) v refl assms(2)] show ?thesis by (metis prod.collapse)
next
  case (Some oa)
  obtain y w1 where y: "oa_revocation oa r w = (y, w1)" by force
  with assms(4) Some obtain u where "y = Inr u" by (auto simp: revocation_accepted_def is_ok_iff)
  with Some assms(5,10) y have "w' = revokeLegacyJWTIfOwned p (hf_now r) (vget (hf_form r) ''token'') c w1"
    by (auto simp: Revoke_def Let_def)
  with assms(6-9) Some have "w' = snd (put_artifact p (hf_now r) revokedName (claimString claims ''jti'')
      [''revoked'' \<mapsto> ABool True] (cf_refresh_ttl (pv_cfg p)) w1)"
    by (simp add: revokeLegacyJWTIfOwned_def Let_def)
  moreover have "up (w_kv w1)"
    using assms(3) [OF Some] y by simp
  ultimately show ?thesis by (metis prod.collapse)
qed

text \<open>
  Revocation is effective: after a client's revocation request for one of its tokens was accepted,
  every verification of the token fails until the revocation expires, with fosite and without.
\<close>

theorem revocation_effective:
  assumes "redis_up (pv_redis p) view up" and "up (w_kv w)" and "fosite_keeps_up p up" and "revocation_accepted p r w"
    and "authenticateClient p r w = Ok c" and "c_client_id c \<noteq> []"
    and "verifyJWT p (vget (hf_form r) ''token'') = Inr claims" and "claimString claims ''client_id'' = c_client_id c"
    and "claimString claims ''jti'' \<noteq> []" and "Revoke p r w = (Ok a, w')" and "0 < cf_refresh_ttl (pv_cfg p)"
    and "hf_now r \<le> now" and "now < the (px_deadline (hf_now r) (cf_refresh_ttl (pv_cfg p)))"
  shows "\<not> is_ok (fst (VerifyAccessToken p now (vget (hf_form r) ''token'') w'))"
  using Revoke_stores [OF assms(1,2) fosite_keeps_upD [OF assms(3,2)] assms(4-7) disjI2 [OF assms(8)] assms(9,10)]
    redis_up.put_revoked [OF assms(1,7) refl assms(9,11) _ assms(12,13) refl]
  by blast

text \<open>
  Without fosite the owner is not compared: any authenticated client revokes any valid access token
  (for a refresh token the code does compare, and so does \<open>revokeLegacyJWTIfOwned\<close>).
\<close>

theorem revoke_checks_no_owner:
  assumes "redis_up (pv_redis p) view up" and "up (w_kv w)" and "pv_oauth p = None"
    and "is_ok (fst (VerifyAccessToken p (hf_now r) (vget (hf_form r) ''token'') w))"
    and "authenticateClient p r w = Ok c" and "c_client_id c \<noteq> []"
    and "verifyJWT p (vget (hf_form r) ''token'') = Inr claims" and "claimString claims ''jti'' \<noteq> []"
    and "Revoke p r w = (Ok a, w')" and "0 < cf_refresh_ttl (pv_cfg p)"
    and "hf_now r \<le> now" and "now < the (px_deadline (hf_now r) (cf_refresh_ttl (pv_cfg p)))"
  shows "\<not> is_ok (fst (VerifyAccessToken p now (vget (hf_form r) ''token'') w'))"
proof -
  have up: "pv_oauth p = Some oa \<Longrightarrow> up (w_kv (snd (oa_revocation oa r w)))" for oa
    using assms(3) by simp
  have "revocation_accepted p r w"
    using assms(3,4) by (simp add: revocation_accepted_def)
  from Revoke_stores [OF assms(1,2) up this assms(5-7) disjI1 [OF assms(3)] assms(8,9)]
    redis_up.put_revoked [OF assms(1,7) refl assms(8,10) _ assms(11,12) refl]
  show ?thesis by blast
qed

text \<open>A token is issued although WildDuck no longer knows the account; only its claims are missing.\<close>

theorem issue_without_account:
  assumes "FetchAccount p sub w = (Inl e, w1)" and "sub \<noteq> []" and "\<And>claims. is_ok (signJWT p claims)"
  shows "account_claims p sub w = (Map.empty, w1) \<and> an_status (fst (issueTokenResponse p now c sub scope nonce w)) = 200"
  using issueTokenResponse_ok [OF assms(3)] assms(1,2) by (simp add: account_claims_def)

text \<open>Without fosite an unauthenticated introspection request is answered 200 with no body.\<close>

theorem introspect_silent:
  "pv_oauth p = None \<Longrightarrow> authenticateClient p r w = Err e \<Longrightarrow> Introspect p r w = (Ok empty_ok, w)"
  by (simp add: Introspect_def legacyIntrospect_def Let_def)

section \<open>The code flow from end to end\<close>

lemma b64_ascii: "ascii (b64 s)"
  using b64_chars [of _ s] by (auto simp: ascii_def b64_plain_def Let_def list_all_iff)


section \<open>Concrete runs\<close>

text \<open>A stored code and a stored refresh token of the client \<open>app\<close>, and the requests that use them.\<close>

definition grant_payload :: gomap where
  "grant_payload = [''client_id'' \<mapsto> AStr ''app'', ''redirect_uri'' \<mapsto> AStr ''https://app/cb'', ''scope'' \<mapsto> AStr [],
     ''sub'' \<mapsto> AStr ''u1'']"

definition grant_world :: "string \<Rightarrow> (mem, unit) world" where
  "grant_world n = sample_world\<lparr>w_kv := mem_of [artifactKey n ''o.k'' \<mapsto> (RStr (Doc (AMap grant_payload)), None)],
     w_db := app_db\<rparr>"

definition grant_form :: "string \<Rightarrow> http_form" where
  "grant_form gty = sample_form\<lparr>hf_form := (\<lambda>_. [])(''grant_type'' := [gty], ''code'' := [''o.k''],
     ''refresh_token'' := [''o.k''], ''redirect_uri'' := [''https://app/cb'']), hf_basic := Some (''app'', ''pw'')\<rparr>"

lemma vget_upd:
  "vget (q(k := v # vs)) j = (if j = k then v else vget q j)" "vget (\<lambda>_. []) j = []"
  by (simp_all add: vget_def)

lemma grant_form_simps [simp]:
  "vget (hf_form (grant_form g)) k = (if k = ''grant_type'' then g else if k \<in> {''code'', ''refresh_token''} then ''o.k''
     else if k = ''redirect_uri'' then ''https://app/cb'' else [])"
  "hf_now (grant_form g) = 0" "hf_basic (grant_form g) = Some (''app'', ''pw'')" "hf_parsed (grant_form g)"
  by (simp_all add: grant_form_def sample_form_def vget_def)

lemma grant_world_simps [simp]:
  "w_db (grant_world n) = app_db" "w_rng (grant_world n) = 0" "mem_up (w_kv (grant_world n))"
  by (simp_all add: grant_world_def sample_world_def mem_up_def mem_of_def)

lemma grant_world_get:
  "get_artifact (sample_provider v) 0 n ''o.k'' (grant_world n) = (Inr grant_payload, grant_world n)"
  "artifact_at 0 (m_ks (w_kv (grant_world n))) n ''o.k'' = Some grant_payload"
proof -
  have p: "purge 0 [artifactKey n ''o.k'' \<mapsto> (RStr (Doc (AMap grant_payload)), None)] =
      [artifactKey n ''o.k'' \<mapsto> (RStr (Doc (AMap grant_payload)), None)]"
    by (auto simp: purge_def live_def)
  show "get_artifact (sample_provider v) 0 n ''o.k'' (grant_world n) = (Inr grant_payload, grant_world n)"
    "artifact_at 0 (m_ks (w_kv (grant_world n))) n ''o.k'' = Some grant_payload"
    by (simp_all add: get_artifact_def GetArtifact_def kv_Get_def grant_world_def sample_world_def mem_eval p artifact_at_def)
qed

lemma sample_signs [simp]: "is_ok (signJWT (sample_provider v) m)"
  by (simp add: signJWT_def sample_jose_def Let_def)

lemma grant_payload_at: "mget grant_payload k = (if k = ''client_id'' then AStr ''app'' else if k = ''redirect_uri'' then AStr ''https://app/cb''
    else if k = ''scope'' then AStr [] else if k = ''sub'' then AStr ''u1'' else ANil)"
  by (simp add: grant_payload_def)

lemma code_run: "an_status (fst (tokenAuthorizationCode (sample_provider v) (grant_form g) app_client (grant_world codeName))) = 200"
  by (simp add: tokenAuthorizationCode_def app_client_simps contains_def grant_world_get grant_payload_at
      allowedScopes_def issueTokenResponse_ok Let_def)

lemma refresh_run: "an_status (fst (tokenRefresh (sample_provider v) (grant_form g) app_client (grant_world refreshName))) = 200"
  by (simp add: tokenRefresh_def app_client_simps contains_def grant_world_get grant_payload_at
      allowedScopes_def issueTokenResponse_ok Let_def)

theorem code_redeemed_once_witness:
  "\<exists>a w'. tokenAuthorizationCode (sample_provider ANil) (grant_form []) app_client (grant_world codeName) = (a, w')
     \<and> an_status a = 200
     \<and> an_status (fst (tokenAuthorizationCode (sample_provider ANil) (grant_form []) app_client w')) = 400"
proof -
  obtain a w' where run: "tokenAuthorizationCode (sample_provider ANil) (grant_form []) app_client (grant_world codeName)
      = (a, w')" by force
  with code_run [of ANil "[]"] have "an_status a = 200" by simp
  with code_redeemed_once [of "sample_provider ANil" m_ks mem_up, OF _ _ _ run this, of "grant_form []" app_client] run
  show ?thesis by (simp add: mem.redis_up_axioms)
qed

theorem refresh_rotates_witness:
  "\<exists>a w'. tokenRefresh (sample_provider ANil) (grant_form []) app_client (grant_world refreshName) = (a, w')
     \<and> an_status a = 200
     \<and> an_status (fst (tokenRefresh (sample_provider ANil) (grant_form []) app_client w')) = 400"
proof -
  obtain a w' where run: "tokenRefresh (sample_provider ANil) (grant_form []) app_client (grant_world refreshName)
      = (a, w')" by force
  with refresh_run [of ANil "[]"] have ok: "an_status a = 200" by simp
  have "''o.k'' \<noteq> b64 x" for x using b64_no_sep(1) [of x] by (metis list.set_intros(1,2))
  with refresh_rotates [of "sample_provider ANil" m_ks mem_up, OF _ _ _ run ok, of "grant_form []" app_client] run ok
  show ?thesis by (simp add: mem.redis_up_axioms)
qed

lemma app_authenticates:
  "w_db w = app_db \<Longrightarrow> authenticateClient (sample_provider v) (grant_form g) w = Ok app_client"
  by (simp add: authenticateClient_def app_db_client app_client_simps secret_Decrypt_def IsEncrypted_def
      has_prefix_def enc_prefix_def)

theorem token_grants_allowed_witness:
  "\<exists>a w' m scope. Token (sample_provider ANil) (grant_form ''authorization_code'') (grant_world codeName) = (Ok a, w')
     \<and> an_body a = Some (AMap m) \<and> m ''scope'' = Some (AStr scope) \<and> set (parseScopes scope) \<subseteq> {''openid''}"
proof -
  let ?p = "sample_provider ANil" and ?r = "grant_form ''authorization_code''" and ?w = "grant_world codeName"
  obtain a w' where run: "tokenAuthorizationCode ?p ?r app_client ?w = (a, w')" by force
  with code_run [of ANil "''authorization_code''"] have ok: "an_status a = 200" by simp
  have tok: "Token ?p ?r ?w = (Ok a, w')"
    using run by (simp add: Token_def app_authenticates Let_def)
  have word: "list_all is_word (elems (c_scopes c))" if "authenticateClient ?p ?r ?w = Ok c" for c
    using that by (simp add: app_authenticates app_client_simps is_word_def runes_of_ascii ascii_def is_space_def)
  have "''authorization_code'' \<noteq> tokenExchangeGrant" by (simp add: tokenExchangeGrant_def)
  with token_grants_allowed [OF tok ok _ _ word] tok show ?thesis
    by (fastforce simp: sample_jose_ok app_authenticates app_client_simps)
qed

theorem refused_code_kept_witness:
  "\<exists>a w'. tokenAuthorizationCode (sample_provider ANil) (grant_form []) (app_client\<lparr>c_client_id := ''evil''\<rparr>)
        (grant_world codeName) = (a, w') \<and> an_status a = 400
     \<and> same_keyspace 0 (m_ks (w_kv (grant_world codeName))) (m_ks (w_kv w'))"
proof -
  obtain a w' where run: "tokenAuthorizationCode (sample_provider ANil) (grant_form []) (app_client\<lparr>c_client_id := ''evil''\<rparr>)
      (grant_world codeName) = (a, w')" by force
  from refused_code_kept [of "sample_provider ANil" m_ks mem_up, OF _ _ _ _ run] run show ?thesis
    by (simp add: mem.redis_up_axioms grant_world_get grant_payload_at)
qed

theorem revocation_effective_witness:
  "\<exists>a w'. Revoke (sample_provider (AMap sample_claims)) (grant_form []\<lparr>hf_form := (\<lambda>_. [])(''token'' := [sample_token])\<rparr>)
        (sample_world\<lparr>w_db := app_db\<rparr>) = (Ok a, w')
     \<and> \<not> is_ok (fst (VerifyAccessToken (sample_provider (AMap sample_claims)) second sample_token w'))"
proof -
  let ?p = "sample_provider (AMap sample_claims)" and ?r = "grant_form []\<lparr>hf_form := (\<lambda>_. [])(''token'' := [sample_token])\<rparr>"
    and ?w = "sample_world\<lparr>w_db := app_db\<rparr>"
  have tok: "vget (hf_form ?r) ''token'' = sample_token" "hf_now ?r = 0" by (simp_all add: vget_def)
  have auth: "authenticateClient ?p ?r ?w = Ok app_client"
    using app_authenticates [of ?w "AMap sample_claims" "[]"] by (simp add: authenticateClient_def)
  have cid: "claimString (json_map sample_claims) ''client_id'' = ''app''"
    by (simp add: claimString_def sample_claims_def valid_utf8_of_ascii ascii_def)
  have acc: "is_ok (fst (VerifyAccessToken ?p 0 sample_token ?w))"
    by (simp add: VerifyAccessToken_def verifyLegacyAccessToken_def sample_verified sample_jti get_artifact_def
        GetArtifact_def kv_Get_def sample_world_def mem_start_of mem_eval purge_def Let_def)
  then obtain claims w1 where "VerifyAccessToken ?p 0 sample_token ?w = (Inr claims, w1)"
    by (metis is_ok_iff prod.collapse)
  then obtain a w' where run: "Revoke ?p ?r ?w = (Ok a, w')"
    using auth by (simp add: Revoke_def vget_def Let_def)
  have up: "mem_up (w_kv ?w)" by (simp add: sample_world_def mem_start_def mem_up_def)
  from revocation_effective [of ?p m_ks mem_up, OF _ up _ _ auth _ _ _ _ run, of "json_map sample_claims" second]
  have "\<not> is_ok (fst (VerifyAccessToken ?p second sample_token w'))"
    using acc cid sample_jti(1) sample_verified
    by (simp add: mem.redis_up_axioms fosite_keeps_up_def revocation_accepted_def vget_upd app_client_simps
        px_deadline_def time_units)
  with run show ?thesis by blast
qed

lemma b64_nonempty: "s \<noteq> [] \<Longrightarrow> b64 s \<noteq> []"
  by (cases "map byte_of s :: nat list" rule: b64_bytes.cases) (auto simp: b64_def)

definition flow_form :: http_form where
  "flow_form = app_form\<lparr>hf_query := (hf_query app_form)(''code_challenge'' := [b64 (sha256 sample_crypto ''ver'')])\<rparr>"

lemma flow_authorized:
  assumes "consented (sample_provider v) app_client ''u1'' [] [] d" "GetClientByClientID sample_pg ''app'' d = Inr app_client"
  shows "authorized (sample_provider v) flow_form (app_world d) app_client ''u1''"
proof -
  have q: "vget (hf_query flow_form) k = (if k = ''code_challenge'' then b64 (sha256 sample_crypto ''ver'')
      else vget (hf_query app_form) k)" for k
    by (simp add: flow_form_def vget_def)
  have "readSession (sample_provider v) flow_form = Some ''sid''"
    using app_form_session [of v] by (simp add: flow_form_def readSession_def)
  moreover have "length (sha256 sample_crypto ''ver'') = 32" by (simp add: sample_crypto_def)
  then have "b64 (sha256 sample_crypto ''ver'') \<noteq> []" by (intro b64_nonempty) auto
  moreover have "hf_now flow_form = 0" by (simp add: flow_form_def app_form_query)
  ultimately show ?thesis
    using app_authorized [OF assms] by (simp add: authorized_def q app_form_session app_session(1))
qed


end
