(* ===== verification/Redeem_Steps.thy ===== *)
theory Redeem_Steps
  imports Interleave Token_Safety
begin

text \<open>
  The authorization code and the refresh token grants of internal/idp/provider.go as steps that
  interleave: \<open>tokenAuthorizationCode\<close> and \<open>tokenRefresh\<close> are cut at their calls to valkey and
  WildDuck, and a step reads the clock at the time it is taken.
\<close>

section \<open>The two grants as steps\<close>

datatype grant = CodeGrant | RefreshGrant

record redeemer =
  rq_grant :: grant
  rq_form :: http_form
  rq_client :: client

text \<open>
  Where a handler is: before \<open>GetArtifact\<close>, before \<open>DeleteArtifact\<close>, before \<open>FetchAccount\<close>, before
  the tokens are signed and stored, and after its answer.
\<close>

datatype stage =
    Asked
  | Checked string string string
  | Redeemed string string string
  | Fetched string string string gomap
  | Answered answer

fun artifact_name :: "grant \<Rightarrow> string" where
  "artifact_name CodeGrant = codeName"
| "artifact_name RefreshGrant = refreshName"

fun artifact_param :: "grant \<Rightarrow> string" where
  "artifact_param CodeGrant = ''code''"
| "artifact_param RefreshGrant = ''refresh_token''"

definition rq_name :: "redeemer \<Rightarrow> string" where
  "rq_name q = artifact_name (rq_grant q)"

definition rq_id :: "redeemer \<Rightarrow> string" where
  "rq_id q = vget (hf_form (rq_form q)) (artifact_param (rq_grant q))"

text \<open>What is decided from the payload that was read.\<close>

definition check_code :: "('r, 'w) provider \<Rightarrow> redeemer \<Rightarrow> gomap \<Rightarrow> stage" where
  "check_code p q payload =
     (let r = rq_form q; challenge = str (mget payload ''code_challenge'') in
      if mget payload ''client_id'' \<noteq> AStr (c_client_id (rq_client q))
         \<or> mget payload ''redirect_uri'' \<noteq> AStr (vget (hf_form r) ''redirect_uri'')
      then Answered (oauthError 400 ''invalid_grant'' ''authorization code client or redirect mismatch'')
      else if challenge \<noteq> [] \<and> \<not> verifyPKCE (pv_crypto p) challenge (vget (hf_form r) ''code_verifier'')
      then Answered (oauthError 400 ''invalid_grant'' ''code_verifier is invalid'')
      else Checked (str (mget payload ''sub'')) (str (mget payload ''scope'')) (str (mget payload ''nonce'')))"

definition check_refresh :: "redeemer \<Rightarrow> gomap \<Rightarrow> stage" where
  "check_refresh q payload =
     (if mget payload ''client_id'' \<noteq> AStr (c_client_id (rq_client q))
      then Answered (oauthError 400 ''invalid_grant'' ''refresh_token is invalid'')
      else case allowedScopes (rq_client q) (str (mget payload ''scope'')) False of
          Inl _ \<Rightarrow> Answered (oauthError 400 ''invalid_scope''
            ''refresh token scope is no longer allowed for this client'')
        | Inr scope \<Rightarrow> Checked (str (mget payload ''sub'')) scope [])"

definition ask ::
  "('r, 'w) provider \<Rightarrow> redeemer \<Rightarrow> int \<Rightarrow> ('r, 'w) world \<Rightarrow> stage \<times> ('r, 'w) world" where
  "ask p q t w =
     (case rq_grant q of
        CodeGrant \<Rightarrow>
          if \<not> contains (c_grants (rq_client q)) ''authorization_code''
          then (Answered (oauthError 400 ''unauthorized_client''
            ''client is not allowed to use authorization_code''), w)
          else (case get_artifact p t codeName (rq_id q) w of
              (Inl _, w1) \<Rightarrow> (Answered (oauthError 400 ''invalid_grant'' ''authorization code is invalid''), w1)
            | (Inr payload, w1) \<Rightarrow> (check_code p q payload, w1))
      | RefreshGrant \<Rightarrow>
          if \<not> contains (c_grants (rq_client q)) ''refresh_token''
          then (Answered (oauthError 400 ''unauthorized_client'' ''client is not allowed to use refresh_token''), w)
          else (case get_artifact p t refreshName (rq_id q) w of
              (Inl _, w1) \<Rightarrow> (Answered (oauthError 400 ''invalid_grant'' ''refresh_token is invalid''), w1)
            | (Inr payload, w1) \<Rightarrow> (check_refresh q payload, w1)))"

text \<open>The code grant looks at the scopes after it deleted the code.\<close>

definition redeem ::
  "('r, 'w) provider \<Rightarrow> redeemer \<Rightarrow> int \<Rightarrow> string \<Rightarrow> string \<Rightarrow> string \<Rightarrow> ('r, 'w) world \<Rightarrow>
     stage \<times> ('r, 'w) world" where
  "redeem p q t sub scope nonce w =
     (let w1 = snd (delete_artifact p t (rq_name q) (rq_id q) w) in
      case rq_grant q of
        RefreshGrant \<Rightarrow> (Redeemed sub scope nonce, w1)
      | CodeGrant \<Rightarrow>
          (case allowedScopes (rq_client q) scope False of
             Inl _ \<Rightarrow> (Answered (oauthError 400 ''invalid_scope''
               ''requested scope is not allowed for this client''), w1)
           | Inr allowed \<Rightarrow> (Redeemed sub allowed nonce, w1)))"

text \<open>\<open>issueTokenResponse\<close> after the account was fetched.\<close>

definition issue_signed ::
  "('r, 'w) provider \<Rightarrow> int \<Rightarrow> client \<Rightarrow> string \<Rightarrow> string \<Rightarrow> string \<Rightarrow> gomap \<Rightarrow> ('r, 'w) world \<Rightarrow>
     answer \<times> ('r, 'w) world" where
  "issue_signed p now c sub scope nonce base w =
     (let (jti, w2) = randomID p 16 w;
          claims = token_claims p now c sub scope jti base
      in case signJWT p claims of
           Inl _ \<Rightarrow> (oauthError 500 ''server_error'' ''failed to sign token'', w2)
         | Inr accessToken \<Rightarrow>
             let response = [''access_token'' \<mapsto> AStr accessToken, ''token_type'' \<mapsto> AStr ''Bearer'',
                   ''expires_in'' \<mapsto> AInt (cf_access_ttl (pv_cfg p) div second), ''scope'' \<mapsto> AStr scope]
             in if sub \<noteq> []
                then (let (r1, w3) = add_refresh p now c sub scope response w2
                      in (json_answer 200 (AMap (add_id_token p now scope nonce claims r1)), w3))
                else (json_answer 200 (AMap response), w2))"

fun advance ::
  "('r, 'w) provider \<Rightarrow> redeemer \<Rightarrow> int \<Rightarrow> stage \<Rightarrow> ('r, 'w) world \<Rightarrow> stage \<times> ('r, 'w) world" where
  "advance p q t Asked w = ask p q t w"
| "advance p q t (Checked sub scope nonce) w = redeem p q t sub scope nonce w"
| "advance p q t (Redeemed sub scope nonce) w =
     (let (base, w1) = account_claims p sub w in (Fetched sub scope nonce base, w1))"
| "advance p q t (Fetched sub scope nonce base) w =
     (let (a, w1) = issue_signed p t (rq_client q) sub scope nonce base w in (Answered a, w1))"
| "advance p q t (Answered a) w = (Answered a, w)"

fun answered :: "stage \<Rightarrow> bool" where
  "answered (Answered a) = True"
| "answered _ = False"

text \<open>The steps a handler may still take.\<close>

fun work :: "stage \<Rightarrow> nat" where
  "work Asked = 4"
| "work (Checked _ _ _) = 3"
| "work (Redeemed _ _ _) = 2"
| "work (Fetched _ _ _ _) = 1"
| "work (Answered _) = 0"

fun run_steps ::
  "nat \<Rightarrow> ('r, 'w) provider \<Rightarrow> redeemer \<Rightarrow> int \<Rightarrow> stage \<times> ('r, 'w) world \<Rightarrow> stage \<times> ('r, 'w) world" where
  "run_steps 0 p q t s = s"
| "run_steps (Suc n) p q t s = run_steps n p q t (advance p q t (fst s) (snd s))"

text \<open>The handler as one function, as the token endpoint calls it.\<close>

definition redeem_request ::
  "('r, 'w) provider \<Rightarrow> redeemer \<Rightarrow> ('r, 'w) world \<Rightarrow> answer \<times> ('r, 'w) world" where
  "redeem_request p q w =
     (case rq_grant q of
        CodeGrant \<Rightarrow> tokenAuthorizationCode p (rq_form q) (rq_client q) w
      | RefreshGrant \<Rightarrow> tokenRefresh p (rq_form q) (rq_client q) w)"

lemma issueTokenResponse_steps:
  "issueTokenResponse p now c sub scope nonce w =
     (let (base, w1) = account_claims p sub w in issue_signed p now c sub scope nonce base w1)"
  by (simp add: issueTokenResponse_def issue_signed_def Let_def)

lemma run_answered [simp]: "run_steps n p q t (Answered a, w) = (Answered a, w)"
  by (induction n) simp_all

lemma run_redeemed:
  "run_steps 2 p q t (Redeemed sub scope nonce, w) =
     apfst Answered (issueTokenResponse p t (rq_client q) sub scope nonce w)"
  by (simp add: numeral_2_eq_2 issueTokenResponse_steps split_beta apfst_def map_prod_def)

lemma run_four:
  "run_steps 4 p q t (Asked, w) = run_steps 2 p q t (case_prod (advance p q t) (ask p q t w))"
  by (simp add: numeral_eq_Suc split_beta)


section \<open>Every handler answers\<close>

interpretation redeemers: progressing "advance p" answered work for p
proof unfold_locales
  show "work (fst (advance p q t st w)) < work st" if "\<not> answered st" for st q t w
    using that by (cases st)
      (auto simp: ask_def check_code_def check_refresh_def redeem_def Let_def
        split: grant.split sum.split prod.split)
qed (case_tac st; simp)


section \<open>What is gone stays gone\<close>

text \<open>
  An artifact that is not stored, now and later; and a valkey that answers, with an identifier the
  random source does not give again.
\<close>

definition spent :: "('r \<Rightarrow> keyspace) \<Rightarrow> string \<times> string \<Rightarrow> int \<Rightarrow> ('r, 'w) world \<Rightarrow> bool" where
  "spent view k t w \<longleftrightarrow> (\<forall>t' \<ge> t. artifact_at t' (view (w_kv w)) (fst k) (snd k) = None)"

definition unissued :: "('r, 'w) provider \<Rightarrow> string \<Rightarrow> ('r, 'w) world \<Rightarrow> bool" where
  "unissued p k w \<longleftrightarrow> (\<forall>m \<ge> w_rng w. k \<noteq> b64 (pv_rand p m 32))"

definition settled :: "('r, 'w) provider \<Rightarrow> ('r \<Rightarrow> bool) \<Rightarrow> string \<times> string \<Rightarrow> ('r, 'w) world \<Rightarrow> bool" where
  "settled p up k w \<longleftrightarrow> up (w_kv w) \<and> unissued p (snd k) w \<and> CHR '':'' \<notin> set (fst k)"

lemma unissued_later: "unissued p k w \<Longrightarrow> w_rng w \<le> w_rng w' \<Longrightarrow> unissued p k w'"
  by (simp add: unissued_def)

lemma settled_later: "settled p up k w \<Longrightarrow> up (w_kv w') \<Longrightarrow> w_rng w \<le> w_rng w' \<Longrightarrow> settled p up k w'"
  by (auto simp: settled_def intro: unissued_later)

lemma spent_later: "spent view k t w \<Longrightarrow> t \<le> t' \<Longrightarrow> spent view k t' w"
  by (simp add: spent_def)

fun redeemed :: "stage \<Rightarrow> bool" where
  "redeemed (Redeemed _ _ _) = True"
| "redeemed (Fetched _ _ _ _) = True"
| "redeemed (Answered a) = (an_status a = 200)"
| "redeemed _ = False"

lemma stages_not_redeemed [simp]:
  "\<not> redeemed (check_code p q payload)" "\<not> redeemed (check_refresh q payload)"
  by (auto simp: check_code_def check_refresh_def Let_def split: sum.split)

lemma randomID_rng: "randomID p n w = (b64 (pv_rand p (w_rng w) n), w\<lparr>w_rng := Suc (w_rng w)\<rparr>)"
  by (simp add: randomID_def)

definition rq_key :: "redeemer \<Rightarrow> string \<times> string" where
  "rq_key q = (rq_name q, rq_id q)"

lemma settled_rq: "settled p up (rq_key q) w \<longleftrightarrow> up (w_kv w) \<and> unissued p (rq_id q) w"
  by (cases "rq_grant q") (simp_all add: settled_def rq_key_def rq_name_def codeName_def refreshName_def)

context redis_up
begin

lemma get_keeps:
  assumes "get_artifact p t n i w = (x, w')" "pv_redis p = R" "up (w_kv w)"
  shows "up (w_kv w') \<and> w_rng w' = w_rng w \<and> spent view k t w' = spent view k t w"
  using get_artifact_same [OF assms] by (auto simp: spent_def same_artifact)

lemma delete_keeps:
  assumes "delete_artifact p t n i w = (x, w')" "pv_redis p = R" "up (w_kv w)"
  shows "up (w_kv w') \<and> w_rng w' = w_rng w \<and> (spent view k t w \<longrightarrow> spent view k t w') \<and> spent view (n, i) t w'"
  using delete_artifact_up [OF assms] delete_artifact_up [OF assms order_refl] by (auto simp: spent_def)

lemma put_keeps:
  assumes "put_artifact p t n i m ttl w = (x, w')" "pv_redis p = R" "up (w_kv w)" "0 < ttl"
    and "(n, i) \<noteq> k" "CHR '':'' \<notin> set n" "CHR '':'' \<notin> set (fst k)"
  shows "up (w_kv w') \<and> w_rng w' = w_rng w \<and> (spent view k t w \<longrightarrow> spent view k t w')"
proof -
  have "artifactKey (fst k) (snd k) \<noteq> artifactKey n i"
    using artifactKey_inj [of n i "fst k" "snd k"] assms(5-7) by (cases k) auto
  with put_artifact_up [OF assms(1-4)] put_artifact_up [OF assms(1-4) order_refl] show ?thesis
    by (auto simp: spent_def)
qed

end

text \<open>A provider whose valkey answers.\<close>

locale provider_up = redis_up "pv_redis p" view up
  for p :: "('r, 'w) provider" and view :: "'r \<Rightarrow> keyspace" and up :: "'r \<Rightarrow> bool" +
  assumes refresh_ttl: "0 < cf_refresh_ttl (pv_cfg p)"
begin

lemma issue_signed_keeps:
  assumes "issue_signed p t c sub scope nonce base w = (a, w')" "settled p up k w"
  shows "settled p up k w' \<and> (spent view k t w \<longrightarrow> spent view k t w')"
proof -
  let ?new = "b64 (pv_rand p (Suc (w_rng w)) 32)" and ?w = "w\<lparr>w_rng := Suc (Suc (w_rng w))\<rparr>"
    and ?m = "[''client_id'' \<mapsto> AStr (c_client_id c), ''sub'' \<mapsto> AStr sub, ''scope'' \<mapsto> AStr scope] :: gomap"
  obtain y w3 where put: "put_artifact p t refreshName ?new ?m (cf_refresh_ttl (pv_cfg p)) ?w = (y, w3)" by force
  have "snd k \<noteq> ?new" using assms(2) by (simp add: settled_def unissued_def)
  then have "(refreshName, ?new) \<noteq> k" "CHR '':'' \<notin> set refreshName" by (auto simp: refreshName_def)
  from put_keeps [OF put refl _ refresh_ttl this] assms(2)
  have "settled p up k w3 \<and> (spent view k t w \<longrightarrow> spent view k t w3)"
    by (auto simp: settled_def unissued_def spent_def)
  moreover have "w_kv w' = w_kv w \<and> w_rng w \<le> w_rng w' \<or> w' = w3"
    using assms(1) put
    by (auto simp: issue_signed_def randomID_rng add_refresh_def Let_def split: if_splits sum.splits)
  ultimately show ?thesis
    using assms(2) by (auto simp: spent_def settled_def intro: unissued_later)
qed

text \<open>A step keeps what is gone, and a handler that redeems leaves its artifact gone.\<close>

lemma advance_keeps:
  assumes "advance p q t st w = (st', w')" "settled p up k w"
  shows "settled p up k w' \<and> (spent view k t w \<longrightarrow> spent view k t w')
    \<and> (redeemed st' \<longrightarrow> \<not> redeemed st \<longrightarrow> spent view (rq_key q) t w')"
proof (cases st)
  case Asked
  with assms(1) have a: "ask p q t w = (st', w')" by simp
  then have "\<not> redeemed st'" "w' = w \<or> (\<exists>n x. get_artifact p t n (rq_id q) w = (x, w'))"
    by (auto simp: ask_def split: grant.splits if_splits prod.splits sum.splits)
  moreover have "up (w_kv w)" using assms(2) by (simp add: settled_def)
  ultimately have "up (w_kv w') \<and> w_rng w' = w_rng w \<and> spent view k t w' = spent view k t w" "\<not> redeemed st'"
    using get_keeps [OF _ refl] by blast+
  with assms(2) show ?thesis by (simp add: settled_def unissued_def)
next
  case (Checked sub scope nonce)
  obtain x where d: "delete_artifact p t (rq_name q) (rq_id q) w = (x, w')"
    using assms(1) Checked
    by (cases "delete_artifact p t (rq_name q) (rq_id q) w") (auto simp: redeem_def Let_def split: grant.splits sum.splits)
  from delete_keeps [OF this refl] assms(2) show ?thesis
    by (auto simp: settled_def rq_key_def intro: unissued_later)
next
  case (Redeemed sub scope nonce)
  with assms(1) have "w_kv w' = w_kv w" "w_rng w' = w_rng w"
    using account_claims_frame [of p sub w] by (auto split: prod.splits)
  with assms(2) Redeemed show ?thesis by (simp add: spent_def settled_def unissued_def)
next
  case (Fetched sub scope nonce base)
  with assms(1) obtain a where "issue_signed p t (rq_client q) sub scope nonce base w = (a, w')"
    by (auto split: prod.splits)
  from issue_signed_keeps [OF this assms(2)] Fetched show ?thesis by simp
qed (use assms in simp)

lemma ask_spent:
  assumes "ask p q t w = (st, w')" "spent view (rq_key q) t w"
  shows "\<exists>a. st = Answered a \<and> an_status a = 400"
proof -
  have "artifact_at t (view (w_kv w)) (rq_name q) (rq_id q) = None"
    using assms(2) by (simp add: spent_def rq_key_def)
  from absent_get [OF this refl] assms(1) show ?thesis
    by (cases "rq_grant q")
      (auto simp: ask_def rq_name_def is_ok_iff split: if_splits prod.splits sum.splits)
qed

end

text \<open>A handler that was refused.\<close>

fun refused :: "stage \<Rightarrow> bool" where
  "refused (Answered a) = (an_status a = 400)"
| "refused _ = False"

sublocale provider_up \<subseteq> code: one_use "advance p" answered rq_key "\<lambda>st. st = Asked" redeemed refused
    "settled p up" "spent view"
proof unfold_locales
  show "spent view (rq_key q) t w'"
    if "settled p up (rq_key q) w" "advance p q t st w = (st', w')" "redeemed st'" "\<not> redeemed st" for q t st w st' w'
    using advance_keeps [OF that(2,1)] that by blast
  show "refused st'" if "spent view (rq_key q) t w" "st = Asked" "advance p q t st w = (st', w')" for q t st w st' w'
    using ask_spent [of q t w st' w'] that by auto
  show "answered st" if "refused st" for st using that by (cases st) auto
  show "settled p up k w'" "spent view k t w \<Longrightarrow> spent view k t w'"
    if "settled p up k w" "advance p q t st w = (st', w')" for k q t st w st' w'
    using advance_keeps [OF that(2,1)] by blast+
  show "spent view k t' w" if "spent view k t w" "t \<le> t'" for k t t' w
    using that by (rule spent_later)
qed simp

context provider_up
begin

lemmas redeemed_refused = code.refused_after_redeemed

end

text \<open>Requests of the client credentials grant, for one, may run beside.\<close>

definition client_grant :: "('r, 'w) provider \<Rightarrow> int \<Rightarrow> ('r, 'w) world \<Rightarrow> ('r, 'w) world \<Rightarrow> bool" where
  "client_grant p t w w' \<longleftrightarrow> (\<exists>r c. hf_now r = t \<and> w' = snd (tokenClientCredentials p r c w))"

lemma client_grant_quiet: "quiet (settled p up) (spent view) k (client_grant p)"
proof -
  have "w_kv (snd (tokenClientCredentials p r c w)) = w_kv w
      \<and> w_rng w \<le> w_rng (snd (tokenClientCredentials p r c w))" for r c w
    by (auto simp: tokenClientCredentials_def issueTokenResponse_def account_claims_def randomID_rng Let_def
        split: sum.split)
  then show ?thesis
    by (auto simp: quiet_def client_grant_def spent_def settled_def intro: unissued_later)
qed

text \<open>
  C14. Once a handler has redeemed a code or a refresh token, a request with it that has not read it yet
  is refused, however the handlers interleave from then on and whatever else runs beside them that does
  not store the code or the refresh token again.
\<close>

theorem redeemed_for_all:
  assumes "net_run (advance p) answered rel (t, w, map (\<lambda>q. (q, Asked)) qs) ls (t1, w1, ps)"
    and "(q, st) \<in> set ps" and "redeemed st"
    and "i < length ps" and "ps ! i = (q2, Asked)" and "rq_key q2 = rq_key q"
    and "net_run (advance p) answered rel (t1, w1, ps) ls2 (t2, w2, ps2)" and "ps2 ! i = (q3, Answered a)"
    and "redis_up (pv_redis p) view up" and "up (w_kv w)" and "0 < cf_refresh_ttl (pv_cfg p)"
    and "unissued p (rq_id q) w" and "quiet (settled p up) (spent view) (rq_key q) rel"
  shows "an_status a = 400"
proof -
  have p: "provider_up p view up"
    using assms(9,11) by (simp add: provider_up_def provider_up_axioms_def)
  have "settled p up (rq_key q) w" using assms(10,12) by (simp add: settled_rq)
  from provider_up.redeemed_refused [OF p assms(1) _ assms(2-5) refl assms(6-8) _ this assms(13)]
  show ?thesis by simp
qed

section \<open>Requests that all read the code\<close>

text \<open>What a request does with the payload of its artifact.\<close>

definition decide :: "('r, 'w) provider \<Rightarrow> redeemer \<Rightarrow> gomap \<Rightarrow> stage" where
  "decide p q payload = (case rq_grant q of
     CodeGrant \<Rightarrow> check_code p q payload | RefreshGrant \<Rightarrow> check_refresh q payload)"

definition may_use :: "redeemer \<Rightarrow> bool" where
  "may_use q \<longleftrightarrow> contains (c_grants (rq_client q))
     (case rq_grant q of CodeGrant \<Rightarrow> ''authorization_code'' | RefreshGrant \<Rightarrow> ''refresh_token'')"

definition good_payload :: "('r, 'w) provider \<Rightarrow> redeemer \<Rightarrow> gomap \<Rightarrow> bool" where
  "good_payload p q payload \<longleftrightarrow> may_use q \<and> (\<exists>sub scope nonce. decide p q payload = Checked sub scope nonce
     \<and> (rq_grant q = CodeGrant \<longrightarrow> is_ok (allowedScopes (rq_client q) scope False)))"

context redis_up
begin

lemma ask_stored:
  assumes "artifact_at t (view (w_kv w)) (rq_name q) (rq_id q) = Some payload" "pv_redis p = R" "up (w_kv w)" "may_use q"
  obtains w' where "ask p q t w = (decide p q payload, w')" "up (w_kv w')"
    "\<And>n k. artifact_at t (view (w_kv w')) n k = artifact_at t (view (w_kv w)) n k"
proof -
  obtain s where "GetArtifact R t (rq_name q) (rq_id q) (w_kv w) = (Inr payload, s)"
    using GetArtifact_up_stored [OF assms(3,1)] by blast
  then have g: "get_artifact p t (rq_name q) (rq_id q) w = (Inr payload, w\<lparr>w_kv := s\<rparr>)"
    using assms(2) by (simp add: get_artifact_def)
  from get_artifact_same [OF g assms(2,3)] g assms(4) show ?thesis
    by (intro that [of "w\<lparr>w_kv := s\<rparr>"])
      (auto simp: ask_def rq_name_def decide_def may_use_def same_artifact split: grant.splits)
qed

lemma get_artifact_stored:
  "get_artifact p t n k w = (Inr payload, w1) \<Longrightarrow> pv_redis p = R \<Longrightarrow>
     artifact_at t (view (w_kv w)) n k = Some payload"
  using GetArtifact_Inr by (auto simp: get_artifact_def split: prod.splits)

lemma redeem_request_200:
  assumes "redeem_request p q w = (a, w')" "an_status a = 200" "pv_redis p = R"
  shows "\<exists>payload. artifact_at (hf_now (rq_form q)) (view (w_kv w)) (rq_name q) (rq_id q) = Some payload
    \<and> good_payload p q payload"
proof (cases "rq_grant q")
  case CodeGrant
  with assms(1) have "tokenAuthorizationCode p (rq_form q) (rq_client q) w = (a, w')"
    by (simp add: redeem_request_def)
  then show ?thesis
    using assms(2)
  proof (rule tokenAuthorizationCode_200, goal_cases)
    case (1 payload scope w1)
    from get_artifact_stored [OF 1(2) assms(3)] 1 show ?case
      by (intro exI [of _ payload])
        (auto simp: CodeGrant good_payload_def may_use_def decide_def check_code_def rq_name_def rq_id_def Let_def)
  qed
next
  case RefreshGrant
  with assms(1) have "tokenRefresh p (rq_form q) (rq_client q) w = (a, w')"
    by (simp add: redeem_request_def)
  then show ?thesis
    using assms(2)
  proof (rule tokenRefresh_200, goal_cases)
    case (1 payload scope w1)
    from get_artifact_stored [OF 1(2) assms(3)] 1 show ?case
      by (intro exI [of _ payload])
        (simp add: RefreshGrant good_payload_def may_use_def decide_def check_refresh_def rq_name_def rq_id_def)
  qed
qed

end

text \<open>The rounds of requests that go on: redeem, fetch the account, issue.\<close>

lemma redeem_round:
  assumes "good_payload p q payload"
  shows "\<not> answered (decide p q payload) \<and> (\<exists>sub scope nonce w'.
    advance p q t (decide p q payload) w = (Redeemed sub scope nonce, w'))"
  using assms
  by (cases "rq_grant q") (auto simp: redeem_def good_payload_def is_ok_iff Let_def)

lemma fetch_round:
  "\<exists>base w'. advance p q t (Redeemed sub scope nonce) w = (Fetched sub scope nonce base, w')"
  by (simp split: prod.split)

lemma issue_round:
  assumes "\<And>claims. is_ok (signJWT p claims)"
  shows "\<exists>a w'. advance p q t (Fetched sub scope nonce base) w = (Answered a, w') \<and> an_status a = 200"
proof -
  obtain tok where "signJWT p (token_claims p t (rq_client q) sub scope (b64 (pv_rand p (w_rng w) 16)) base) = Inr tok"
    using assms by (meson is_ok_iff)
  then show ?thesis
    by (simp add: issue_signed_def randomID_rng json_answer_def Let_def split_beta)
qed

definition in_stage :: "nat \<Rightarrow> stage \<Rightarrow> bool" where
  "in_stage n st \<longleftrightarrow> (case st of Redeemed _ _ _ \<Rightarrow> n = 2 | Fetched _ _ _ _ \<Rightarrow> n = 1
     | Answered a \<Rightarrow> n = 0 \<and> an_status a = 200 | _ \<Rightarrow> False)"

lemma later_rounds:
  assumes "\<And>claims. is_ok (signJWT p claims)" "in_stage (Suc n) st"
  shows "\<not> answered st \<and> (\<exists>st' w'. advance p q t st w = (st', w') \<and> in_stage n st')"
proof (cases st)
  case (Redeemed sub scope nonce)
  with assms(2) fetch_round [of p q t sub scope nonce w] show ?thesis by (auto simp: in_stage_def split: prod.splits)
next
  case (Fetched sub scope nonce base)
  from issue_round [OF assms(1)] obtain a w' where
    "advance p q t (Fetched sub scope nonce base) w = (Answered a, w')" "an_status a = 200" by metis
  with assms(2) show ?thesis by (simp add: Fetched in_stage_def del: advance.simps)
qed (use assms(2) in \<open>simp_all add: in_stage_def\<close>)

text \<open>
  C18. The read of a code or refresh token and its deletion are not one operation: requests that would
  each be answered with tokens are all answered with tokens, as many as there are, when all of them read
  before one deletes.
\<close>

theorem all_redeem_together:
  assumes "redis_up (pv_redis p) view up" and "up (w_kv w)" and "\<And>claims. is_ok (signJWT p claims)"
    and "\<And>q. q \<in> set qs \<Longrightarrow> rq_key q = k \<and> hf_now (rq_form q) = t \<and> an_status (fst (redeem_request p q w)) = 200"
  shows "\<exists>ls w' ps. net_run (advance p) answered rel (t, w, map (\<lambda>q. (q, Asked)) qs) ls (t, w', ps)
    \<and> map fst ps = qs \<and> (\<forall>(q, st) \<in> set ps. \<exists>a. st = Answered a \<and> an_status a = 200)"
proof (cases "qs = []")
  case True
  then show ?thesis by (intro exI [of _ "[]"]) auto
next
  case False
  have stored: "\<exists>pay. artifact_at t (view (w_kv w)) (fst k) (snd k) = Some pay \<and> good_payload p q pay"
    if "q \<in> set qs" for q
    using redis_up.redeem_request_200 [OF assms(1) _ _ refl, of q w] assms(4) [OF that]
    by (auto simp: rq_key_def) (metis prod.collapse)
  with False obtain pay where pay: "artifact_at t (view (w_kv w)) (fst k) (snd k) = Some pay" by (metis last_in_set)
  with stored have good: "good_payload p q pay" if "q \<in> set qs" for q using that by force
  let ?P = "\<lambda>v. up (w_kv v) \<and> artifact_at t (view (w_kv v)) (fst k) (snd k) = Some pay"
  let ?run = "\<lambda>w ps ls w' ps'. net_run (advance p) answered rel (t, w, ps) ls (t, w', ps') \<and> map fst ps' = map fst ps"
  have read: "\<exists>w'. ask p q t v = (decide p q pay, w') \<and> ?P w'" if "q \<in> set qs" "?P v" for q v
  proof -
    have k: "(rq_name q, rq_id q) = k" using assms(4) [OF that(1)] by (simp add: rq_key_def)
    have "may_use q" using good [OF that(1)] by (simp add: good_payload_def)
    with redis_up.ask_stored [OF assms(1), of t v q pay p] that(2) k show ?thesis by (metis fst_conv snd_conv)
  qed
  obtain l1 w1 ps1 where 1: "?run w (map (\<lambda>q. (q, Asked)) qs) l1 w1 ps1"
      "\<forall>(q, st) \<in> set ps1. q \<in> set qs \<and> st = decide p q pay"
    using net_round [of "map (\<lambda>q. (q, Asked)) qs" "\<lambda>q st. q \<in> set qs \<and> st = Asked" ?P answered "advance p" t
        "\<lambda>q st. q \<in> set qs \<and> st = decide p q pay" w rel "[]"] read assms(2) pay by force
  obtain l2 w2 ps2 where 2: "?run w1 ps1 l2 w2 ps2" "\<forall>(q, st) \<in> set ps2. in_stage 2 st"
    using net_round [of ps1 "\<lambda>q st. q \<in> set qs \<and> st = decide p q pay" "\<lambda>_. True" answered "advance p" t
        "\<lambda>_. in_stage 2" w1 rel "[]"] redeem_round [OF good] 1(2) by (force simp: in_stage_def)
  have later: "\<exists>ls w' ps'. ?run v ps ls w' ps' \<and> (\<forall>(q, st) \<in> set ps'. in_stage n st)"
    if "\<forall>(q, st) \<in> set ps. in_stage (Suc n) st" for v ps n
    using net_round [of ps "\<lambda>_. in_stage (Suc n)" "\<lambda>_. True" answered "advance p" t "\<lambda>_. in_stage n" v rel "[]"]
      later_rounds [OF assms(3)] that by force
  obtain l3 w3 ps3 where 3: "?run w2 ps2 l3 w3 ps3" "\<forall>(q, st) \<in> set ps3. in_stage 1 st"
    using later [of ps2 1 w2] 2(2) by (auto simp: numeral_2_eq_2)
  obtain l4 w4 ps4 where 4: "?run w3 ps3 l4 w4 ps4" "\<forall>(q, st) \<in> set ps4. in_stage 0 st"
    using later [of ps3 0 w3] 3(2) by auto
  have "?run w (map (\<lambda>q. (q, Asked)) qs) (l1 @ l2 @ l3 @ l4) w4 ps4"
    using 1(1) 2(1) 3(1) 4(1) by (auto intro: net_run_append)
  moreover have "\<forall>(q, st) \<in> set ps4. \<exists>a. st = Answered a \<and> an_status a = 200"
    using 4(2) by (force simp: in_stage_def split: stage.splits)
  moreover have "map fst ps4 = qs" using 1(1) 2(1) 3(1) 4(1) by (simp add: comp_def)
  ultimately show ?thesis by blast
qed

section \<open>Concrete runs\<close>

interpretation sample_up: provider_up "sample_provider v" m_ks mem_up for v
  by (rule provider_up.intro) (simp_all add: mem.redis_up_axioms provider_up_axioms_def)

definition code_request :: redeemer where
  "code_request = \<lparr>rq_grant = CodeGrant, rq_form = grant_form [], rq_client = app_client\<rparr>"

lemma code_request_simps [simp]:
  "rq_name code_request = codeName" "rq_id code_request = ''o.k''" "rq_grant code_request = CodeGrant"
  "hf_now (rq_form code_request) = 0" "rq_client code_request = app_client"
  by (simp_all add: code_request_def rq_name_def rq_id_def)

lemma code_request_steps:
  "ask (sample_provider v) code_request 0 (grant_world codeName) = (Checked ''u1'' [] [], grant_world codeName)"
  "redeem (sample_provider v) code_request 0 ''u1'' [] [] w =
     (Redeemed ''u1'' [] [], snd (delete_artifact (sample_provider v) 0 codeName ''o.k'' w))"
  by (simp_all add: ask_def app_client_simps contains_def grant_world_get check_code_def grant_payload_at
      code_request_def rq_id_def redeem_def rq_name_def allowedScopes_def Let_def)

abbreviation "sample_run \<equiv> net_run (advance (sample_provider ANil)) answered (client_grant (sample_provider ANil))"

lemma redeem_run:
  "sample_run (0, grant_world codeName, map (\<lambda>q. (q, Asked)) [code_request, code_request]) [Some 0, Some 0]
     (0, snd (delete_artifact (sample_provider ANil) 0 codeName ''o.k'' (grant_world codeName)),
        [(code_request, Redeemed ''u1'' [] []), (code_request, Asked)])"
proof -
  let ?p = "sample_provider ANil" and ?rel = "client_grant (sample_provider ANil)"
  note move = net_move_at [of "advance ?p" code_request 0 _ _ _ _ answered ?rel "[]", simplified]
  show ?thesis by (simp, rule move, simp add: code_request_steps(1), simp, rule move, simp add: code_request_steps(2), simp, simp)
qed


theorem redeemed_for_all_witness:
  "\<exists>w1 w2 a. sample_run (0, grant_world codeName, map (\<lambda>q. (q, Asked)) [code_request, code_request]) [Some 0, Some 0]
        (0, w1, [(code_request, Redeemed ''u1'' [] []), (code_request, Asked)])
     \<and> sample_run (0, w1, [(code_request, Redeemed ''u1'' [] []), (code_request, Asked)]) [Some 1]
        (0, w2, [(code_request, Redeemed ''u1'' [] []), (code_request, Answered a)])
     \<and> an_status a = 400"
proof -
  let ?p = "sample_provider ANil" and ?w = "grant_world codeName"
  let ?w1 = "snd (delete_artifact ?p 0 codeName ''o.k'' ?w)"
  obtain st w2 where a: "ask ?p code_request 0 ?w1 = (st, w2)" by force
  obtain x where "delete_artifact ?p 0 codeName ''o.k'' ?w = (x, ?w1)" by (metis prod.collapse)
  from sample_up.delete_keeps [OF this refl] have "spent m_ks (rq_key code_request) 0 ?w1"
    by (simp add: rq_key_def)
  from sample_up.ask_spent [OF a this] obtain b where st: "st = Answered b" by blast
  have two: "sample_run (0, ?w1, [(code_request, Redeemed ''u1'' [] []), (code_request, Asked)]) [Some 1]
      (0, w2, [(code_request, Redeemed ''u1'' [] []), (code_request, Answered b)])"
    using net_move_at [of "advance ?p" code_request 0 Asked ?w1 st w2 answered "client_grant ?p"
        "[(code_request, Redeemed ''u1'' [] [])]" "[]"] a st by simp
  have "''o.k'' \<noteq> b64 x" for x using b64_no_sep(1) [of x] by (metis list.set_intros(1,2))
  then have "unissued ?p (rq_id code_request) ?w" by (simp add: unissued_def)
  from redeemed_for_all [OF redeem_run _ _ _ _ refl two, of code_request "Redeemed ''u1'' [] []" 1 code_request b
      m_ks mem_up] this redeem_run two
  show ?thesis by (auto simp: mem.redis_up_axioms client_grant_quiet intro!: exI)
qed

theorem all_redeem_together_witness:
  "\<exists>ls w' ps. sample_run (0, grant_world codeName, map (\<lambda>q. (q, Asked)) [code_request, code_request]) ls (0, w', ps)
     \<and> map fst ps = [code_request, code_request] \<and> (\<forall>(q, st) \<in> set ps. \<exists>a. st = Answered a \<and> an_status a = 200)"
proof -
  have run: "an_status (fst (redeem_request (sample_provider ANil) code_request (grant_world codeName))) = 200"
    using code_run [of ANil "[]"] by (simp add: redeem_request_def) (simp add: code_request_def)
  show ?thesis
    by (rule all_redeem_together [of "sample_provider ANil" m_ks mem_up _ _ "rq_key code_request"])
      (auto simp: mem.redis_up_axioms run)
qed

end
