(* ===== verification/Html_Template.thy ===== *)
theory Html_Template
  imports Backend
begin

text \<open>
  What the pages use of Go's html/template, and how a browser finds the markup of a page.  A template is
  a list of parts over the data it is executed with; a value is inserted with the escaper that html/template
  chooses for the place it stands at: the text of an element, an attribute in quotes, or the path of a URL
  in such an attribute.  The function \<open>context_of\<close> is the analysis behind that choice: it follows the markup
  through the parts, fails where the escaper does not fit the place, and asks that the branches of a
  condition end at the same kind of place.  What it accepts keeps its markup whatever the data
  (\<open>context_markup\<close>).
\<close>

section \<open>Escapers\<close>

text \<open>The table of the escapers of text and attributes; html.EscapeString has neither of its ends.\<close>

definition escaped_char :: "char \<Rightarrow> string" where
  "escaped_char c =
     (if c = CHR 0x00 then [CHR 0xEF, CHR 0xBF, CHR 0xBD]
      else if c = CHR 0x22 then ''&#34;''
      else if c = CHR ''&'' then ''&amp;''
      else if c = CHR 0x27 then ''&#39;''
      else if c = CHR ''+'' then ''&#43;''
      else if c = CHR ''<'' then ''&lt;''
      else if c = CHR ''>'' then ''&gt;''
      else [c])"

definition htmlEscaper :: "string \<Rightarrow> string" where
  "htmlEscaper s = concat (map escaped_char s)"

text \<open>In a path what may stand in a URL is kept, and so is an escape that is one already.\<close>

definition hex_digit :: "nat \<Rightarrow> char" where
  "hex_digit n = ''0123456789abcdef'' ! n"

definition percent :: "char \<Rightarrow> string" where
  "percent c = [CHR ''%'', hex_digit (byte_of c div 16), hex_digit (byte_of c mod 16)]"

definition is_hex :: "char \<Rightarrow> bool" where
  "is_hex c \<longleftrightarrow> c \<in> set ''0123456789abcdefABCDEF''"

definition url_kept :: "char \<Rightarrow> bool" where
  "url_kept c \<longleftrightarrow> c \<in> set ''!#$&*+,/:;=?@[]-._~''
     \<or> c \<in> set ''abcdefghijklmnopqrstuvwxyzABCDEFGHIJKLMNOPQRSTUVWXYZ0123456789''"

fun urlNormalizer :: "string \<Rightarrow> string" where
  "urlNormalizer [] = []"
| "urlNormalizer (c # s) =
     (if url_kept c \<or> c = CHR ''%'' \<and> 2 \<le> length s \<and> is_hex (s ! 0) \<and> is_hex (s ! 1) then [c] else percent c)
     @ urlNormalizer s"

datatype place = InText | InAttr | InUrlAttr

definition escape_at :: "place \<Rightarrow> string \<Rightarrow> string" where
  "escape_at pl s = (case pl of InUrlAttr \<Rightarrow> htmlEscaper (urlNormalizer s) | _ \<Rightarrow> htmlEscaper s)"

section \<open>Templates\<close>

text \<open>
  A text is given by its lines.  Comments in a style or script element are not written: one of CSS leaves a
  space, line comments of JavaScript leave their line ends.
\<close>

datatype 'v tpart =
    Txt "string list"
  | CssNote "string list"
  | JsNote "string list"
  | Put place "'v \<Rightarrow> string"
  | Cond "'v \<Rightarrow> bool" "'v tpart list" "'v tpart list"
  | Each "'v \<Rightarrow> string list" string place string

fun joined :: "string list \<Rightarrow> string" where
  "joined [] = []"
| "joined [l] = l"
| "joined (l # l' # ls) = l @ CHR 0x0A # joined (l' # ls)"

definition note_left :: "string list \<Rightarrow> string" where
  "note_left ls = replicate (length ls - 1) (CHR 0x0A)"

fun Execute :: "'v \<Rightarrow> 'v tpart list \<Rightarrow> string" where
  "Execute v [] = []"
| "Execute v (Txt ls # ps) = joined ls @ Execute v ps"
| "Execute v (CssNote ls # ps) = CHR '' '' # Execute v ps"
| "Execute v (JsNote ls # ps) = note_left ls @ Execute v ps"
| "Execute v (Put pl f # ps) = escape_at pl (f v) @ Execute v ps"
| "Execute v (Cond c xs ys # ps) = (if c v then Execute v xs else Execute v ys) @ Execute v ps"
| "Execute v (Each f pre pl post # ps) =
     concat (map (\<lambda>x. pre @ escape_at pl x @ post) (f v)) @ Execute v ps"

section \<open>How a page is read\<close>

text \<open>
  The place a browser is at while it reads a page: in text, in a tag (with the name of the element as far as
  it was read, and whether it is still being read), in an attribute value with its quote, or in an element
  whose content is text up to its end tag, of which some characters have matched.
\<close>

datatype hplace = HText | HTag string bool | HValue char | HRaw string nat

definition raw_element :: "string \<Rightarrow> bool" where
  "raw_element n \<longleftrightarrow> n \<in> {''style'', ''script'', ''title''}"

fun hstep :: "hplace \<Rightarrow> char \<Rightarrow> hplace" where
  "hstep HText c = (if c = CHR ''<'' then HTag [] True else HText)"
| "hstep (HTag n r) c =
     (if c = CHR ''>'' then (if raw_element n then HRaw n 0 else HText)
      else if c = CHR 0x22 \<or> c = CHR 0x27 then HValue c
      else if r \<and> c \<noteq> CHR '' '' then HTag (n @ [c]) True
      else HTag n False)"
| "hstep (HValue d) c = (if c = d then HTag [] False else HValue d)"
| "hstep (HRaw n k) c =
     (if c = (''</'' @ n) ! k then (if k = length n + 1 then HTag [] False else HRaw n (Suc k))
      else if c = CHR ''<'' then HRaw n 1
      else HRaw n 0)"

definition read_from :: "hplace \<Rightarrow> string \<Rightarrow> hplace" where
  "read_from = foldl hstep"

text \<open>The markup: everything but the characters of texts and of attribute values.\<close>

fun inert :: "hplace \<Rightarrow> char \<Rightarrow> bool" where
  "inert HText c \<longleftrightarrow> c \<noteq> CHR ''<''"
| "inert (HValue d) c \<longleftrightarrow> c \<noteq> d"
| "inert _ _ \<longleftrightarrow> False"

fun markup_from :: "hplace \<Rightarrow> string \<Rightarrow> string" where
  "markup_from st [] = []"
| "markup_from st (c # s) = (if inert st c then [] else [c]) @ markup_from (hstep st c) s"

abbreviation markup :: "string \<Rightarrow> string" where
  "markup \<equiv> markup_from HText"

lemma read_simps [simp]:
  "read_from st [] = st" "read_from st (c # s) = read_from (hstep st c) s"
  "read_from st (s @ s') = read_from (read_from st s) s'"
  by (simp_all add: read_from_def)

lemma markup_append [simp]: "markup_from st (s @ s') = markup_from st s @ markup_from (read_from st s) s'"
  by (induction st s rule: markup_from.induct) simp_all

lemma inert_step: "inert st c \<Longrightarrow> hstep st c = st"
  by (cases st) auto

lemma inert_all: "list_all (inert st) s \<Longrightarrow> read_from st s = st \<and> markup_from st s = []"
  by (induction s) (auto simp: inert_step)

section \<open>Escaped values carry no markup\<close>

lemma htmlEscaper_simps [simp]:
  "htmlEscaper [] = []" "htmlEscaper (c # s) = escaped_char c @ htmlEscaper s"
  by (simp_all add: htmlEscaper_def)

lemma htmlEscaper_safe: "c \<in> set (htmlEscaper s) \<Longrightarrow> c \<notin> {CHR ''<'', CHR ''>'', CHR 0x22, CHR 0x27}"
  by (induction s) (auto simp: escaped_char_def split: if_splits)

lemma escape_at_safe: "c \<in> set (escape_at pl s) \<Longrightarrow> c \<notin> {CHR ''<'', CHR ''>'', CHR 0x22, CHR 0x27}"
  using htmlEscaper_safe by (cases pl) (simp_all add: escape_at_def)

section \<open>The analysis of contexts\<close>

text \<open>Where the value of an escaper may stand.\<close>

fun fits :: "place \<Rightarrow> hplace \<Rightarrow> bool" where
  "fits InText st \<longleftrightarrow> st = HText"
| "fits InAttr st \<longleftrightarrow> st = HValue (CHR 0x22)"
| "fits InUrlAttr st \<longleftrightarrow> st = HValue (CHR 0x22)"

lemma fits_inert:
  assumes "fits pl st"
  shows "read_from st (escape_at pl s) = st" "markup_from st (escape_at pl s) = []"
proof -
  have "list_all (inert st) (escape_at pl s)"
    using assms escape_at_safe [of _ pl s] by (cases pl) (auto simp: list_all_iff)
  then show "read_from st (escape_at pl s) = st" "markup_from st (escape_at pl s) = []"
    using inert_all by auto
qed

fun context_of :: "hplace \<Rightarrow> 'v tpart list \<Rightarrow> hplace option" where
  "context_of st [] = Some st"
| "context_of st (Txt ls # ps) = context_of (read_from st (joined ls)) ps"
| "context_of st (CssNote ls # ps) = context_of (hstep st (CHR '' '')) ps"
| "context_of st (JsNote ls # ps) = context_of (read_from st (note_left ls)) ps"
| "context_of st (Put pl f # ps) = (if fits pl st then context_of st ps else None)"
| "context_of st (Cond c xs ys # ps) =
     (case context_of st xs of
        None \<Rightarrow> None
      | Some st1 \<Rightarrow> if context_of st ys = Some st1 then context_of st1 ps else None)"
| "context_of st (Each f pre pl post # ps) =
     (let st1 = read_from st pre in
      if fits pl st1 \<and> read_from st1 (post) = st then context_of st ps else None)"

text \<open>Two data that take the same way through a template.\<close>

fun same_way :: "'v \<Rightarrow> 'v \<Rightarrow> 'v tpart list \<Rightarrow> bool" where
  "same_way v v' [] \<longleftrightarrow> True"
| "same_way v v' (Cond c xs ys # ps) \<longleftrightarrow>
     c v = c v' \<and> (if c v then same_way v v' xs else same_way v v' ys) \<and> same_way v v' ps"
| "same_way v v' (Each f pre pl post # ps) \<longleftrightarrow> length (f v) = length (f v') \<and> same_way v v' ps"
| "same_way v v' (p # ps) \<longleftrightarrow> same_way v v' ps"

lemma context_each:
  assumes "fits pl (read_from st pre)" "read_from (read_from st pre) post = st"
  shows "read_from st (concat (map (\<lambda>x. pre @ escape_at pl x @ post) xs)) = st"
    "markup_from st (concat (map (\<lambda>x. pre @ escape_at pl x @ post) xs))
     = concat (replicate (length xs) (markup_from st pre @ markup_from (read_from st pre) post))"
  using assms by (induction xs) (simp_all add: fits_inert)

text \<open>The place after a template does not depend on the data,\<close>

lemma context_read: "context_of st ps = Some st' \<Longrightarrow> read_from st (Execute v ps) = st'"
  by (induction v ps arbitrary: st st' rule: Execute.induct)
    (auto simp: fits_inert context_each Let_def split: if_splits option.splits)

text \<open>and neither does its markup, but for the way it takes.\<close>

lemma context_markup:
  assumes "context_of st ps = Some st'" "same_way v v' ps"
  shows "markup_from st (Execute v ps) = markup_from st (Execute v' ps)"
  using assms
  by (induction v v' ps arbitrary: st st' rule: same_way.induct)
    (auto simp: fits_inert context_each context_read Let_def split: if_splits option.splits)

section \<open>A value is read back\<close>

text \<open>The references the escapers write, read as a browser reads them.\<close>

fun unescaped :: "string \<Rightarrow> string" where
  "unescaped [] = []"
| "unescaped (c # s) =
     (if c \<noteq> CHR ''&'' then c # unescaped s
      else if take 4 s = ''#34;'' then CHR 0x22 # unescaped (drop 4 s)
      else if take 4 s = ''amp;'' then CHR ''&'' # unescaped (drop 4 s)
      else if take 4 s = ''#39;'' then CHR 0x27 # unescaped (drop 4 s)
      else if take 4 s = ''#43;'' then CHR ''+'' # unescaped (drop 4 s)
      else if take 3 s = ''lt;'' then CHR ''<'' # unescaped (drop 3 s)
      else if take 3 s = ''gt;'' then CHR ''>'' # unescaped (drop 3 s)
      else CHR ''&'' # unescaped s)"

lemma unescaped_escaped: "CHR 0x00 \<notin> set s \<Longrightarrow> unescaped (htmlEscaper s) = s"
  by (induction s) (auto simp: escaped_char_def)

text \<open>The attribute values of a page, as the browser gets them.\<close>

fun attr_values :: "hplace \<Rightarrow> string \<Rightarrow> string \<Rightarrow> string list" where
  "attr_values st acc [] = []"
| "attr_values (HValue d) acc (c # s) =
     (if c = d then unescaped acc # attr_values (HTag [] False) [] s else attr_values (HValue d) (acc @ [c]) s)"
| "attr_values st acc (c # s) = attr_values (hstep st c) [] s"

lemma attr_value_end: "d \<notin> set s \<Longrightarrow> attr_values (HValue d) acc (s @ d # post)
    = unescaped (acc @ s) # attr_values (HTag [] False) [] post"
  by (induction s arbitrary: acc) auto

text \<open>A value written between the quotes of an attribute is one of them.\<close>

lemma attr_value_in:
  assumes "read_from st pre = HTag n r" "CHR 0x22 \<notin> set s"
  shows "unescaped s \<in> set (attr_values st acc (pre @ CHR 0x22 # s @ CHR 0x22 # post))"
  using assms
proof (induction st acc pre rule: attr_values.induct)
  case (1 st acc)
  then show ?case using attr_value_end [of "CHR 0x22" s "[]" post] by simp
qed auto

end
