(* ===== verification/Password_Reset.thy ===== *)
theory Password_Reset
  imports Lockout
begin

text \<open>
  What the password reset guarantees: mail goes to a verified destination only, the link works
  until it expires, once, and sets the password of the account it was issued for.
\<close>

section \<open>The mail\<close>

lemma destinationMatches_iff:
  "destinationMatches C UC dests email \<longleftrightarrow>
     (\<exists>d \<in> set dests. (ds_address d \<noteq> [] \<and> equal_fold UC (ds_address d) email)
        \<or> (ds_hash d \<noteq> [] \<and> equal_fold UC (ds_hash d) (hex (sha256 C email))))"
  by (auto simp: destinationMatches_def Let_def list_ex_iff)

text \<open>
  C23. Reset mail goes to verified destinations only: if the lookups of the backend send no mail
  (\<open>sent\<close> is what has been sent), then mail is sent by \<open>BeginPasswordReset\<close> only for a usable account, to
  the address typed, which is one of the account's recovery addresses or has one of its recovery
  hashes, after a token for that account has been stored, and the mail holds the link with it.
\<close>

theorem reset_mail_verified:
  assumes "BeginPasswordReset p now login email w = w'" and "sent (w_wd w') \<noteq> sent (w_wd w)"
    and "\<And>b l v. pv_backend p = Some b \<Longrightarrow> sent (snd (bk_FindByLogin b l v)) = sent v"
    and "\<And>b a v. pv_backend p = Some b \<Longrightarrow> sent (snd (bk_RecoveryDestinations b a v)) = sent v"
  shows "\<exists>b m acc dests w1 w2 token w3 w4. pv_backend p = Some b \<and> pv_mailer p = Some m
    \<and> on_wd (bk_FindByLogin b (clean_address (pv_unicode p) login)) w = (Inr (acc, True), w1) \<and> Usable acc
    \<and> on_wd (bk_RecoveryDestinations b acc) w1 = (Inr dests, w2)
    \<and> (\<exists>d \<in> set dests. (ds_address d \<noteq> []
            \<and> equal_fold (pv_unicode p) (ds_address d) (clean_address (pv_unicode p) email))
        \<or> (ds_hash d \<noteq> [] \<and> equal_fold (pv_unicode p) (ds_hash d)
             (hex (sha256 (pv_crypto p) (clean_address (pv_unicode p) email)))))
    \<and> put_artifact p now pwResetName token [''sub'' \<mapsto> AStr (au_id acc),
        ''email'' \<mapsto> AStr (clean_address (pv_unicode p) email)] (cf_reset_ttl (pv_cfg p)) w3 = (Inr (), w4)
    \<and> w' = snd (on_wd (ml_SendPasswordReset m (clean_address (pv_unicode p) email) (au_name acc)
        (reset_link p token)) w4)"
proof -
  let ?l = "clean_address (pv_unicode p) login" and ?e = "clean_address (pv_unicode p) email"
  have ne: "w' \<noteq> w" using assms(2) by auto
  then obtain b m where bm: "pv_backend p = Some b" "pv_mailer p = Some m" "?l \<noteq> []" "?e \<noteq> []"
    using assms(1) by (auto simp: BeginPasswordReset_def Let_def split: if_splits option.splits)
  obtain x w1 where f: "on_wd (bk_FindByLogin b ?l) w = (x, w1)" by force
  have s1: "sent (w_wd w1) = sent (w_wd w)"
    using f assms(3) [OF bm(1), of ?l "w_wd w"] by (auto simp: on_wd_def split: prod.splits)
  with assms(2) have "w' \<noteq> w1" by auto
  then obtain acc where x: "x = Inr (acc, True)" "Usable acc"
    using assms(1) bm f
    by (auto simp: BeginPasswordReset_def Let_def split: sum.splits prod.splits bool.splits if_splits)
  obtain y w2 where d: "on_wd (bk_RecoveryDestinations b acc) w1 = (y, w2)" by force
  have s2: "sent (w_wd w2) = sent (w_wd w)"
    using d s1 assms(4) [OF bm(1), of acc "w_wd w1"] by (auto simp: on_wd_def split: prod.splits)
  with assms(2) have "w' \<noteq> w2" by auto
  then obtain dests where y: "y = Inr dests" "destinationMatches (pv_crypto p) (pv_unicode p) dests ?e"
      "w' = send_reset p m now acc ?e w2"
    using assms(1) bm f x d by (auto simp: BeginPasswordReset_def Let_def split: sum.splits if_splits)
  obtain token w3 where t: "randomID p 32 w2 = (token, w3)" by force
  then have s3: "sent (w_wd w3) = sent (w_wd w)" using s2 by (auto simp: randomID_def)
  obtain z w4 where put: "put_artifact p now pwResetName token [''sub'' \<mapsto> AStr (au_id acc), ''email'' \<mapsto> AStr ?e]
      (cf_reset_ttl (pv_cfg p)) w3 = (z, w4)" by force
  then have "sent (w_wd w4) = sent (w_wd w)" using s3 by (auto simp: put_artifact_def split: prod.splits)
  with assms(2) have "w' \<noteq> w4" by auto
  with y(3) t put have z: "z = Inr ()" and
      w': "w' = snd (on_wd (ml_SendPasswordReset m ?e (au_name acc) (reset_link p token)) w4)"
    by (auto simp: send_reset_def split: sum.splits)
  from bm f x d y(1) put z w' y(2) [unfolded destinationMatches_iff] show ?thesis by blast
qed

section \<open>The link\<close>

context redis_up
begin

lemma get_absent_artifact:
  assumes "artifact_at t (view (w_kv w)) n i = None" "pv_redis p = R"
  shows "\<exists>e. fst (get_artifact p t n i w) = Inl e"
proof -
  obtain x s where g: "GetArtifact R t n i (w_kv w) = (x, s)" by force
  from GetArtifact_absent [OF assms(1) g] g assms(2) show ?thesis
    by (cases x) (auto simp: get_artifact_def)
qed

lemma CompletePasswordReset_consumes:
  assumes "CompletePasswordReset p t token pw w = (Ok sid, w')" "pv_redis p = R" "up (w_kv w)" "t \<le> t'"
  shows "artifact_at t' (view (w_kv w')) pwResetName token = None"
proof -
  obtain pending s1 where g: "GetArtifact R t pwResetName token (w_kv w) = (Inr pending, s1)"
    using assms(1,2) by (auto simp: CompletePasswordReset_def get_artifact_def split: prod.splits sum.splits)
  note u1 = GetArtifact_up [OF assms(3) g]
  obtain x s2 where d: "DeleteArtifact R t pwResetName token s1 = (x, s2)" by force
  from DeleteArtifact_up [OF u1 d] have x: "x = Inr ()" and u2: "up s2" by simp_all
  obtain email w2 where st: "startSession p t (str (mget pending ''sub'')) email w2 = (sid, w')" "w_kv w2 = s2"
    using assms(1,2) g d
    by (auto simp: CompletePasswordReset_def get_artifact_def delete_artifact_def on_wd_def Let_def
        split: sum.splits prod.splits if_splits option.splits)
  obtain y where put: "PutArtifact R t sessionName sid [''sub'' \<mapsto> AStr (str (mget pending ''sub'')),
      ''email'' \<mapsto> AStr email] (24 * hour) s2 = (y, w_kv w')"
    using st assms(2) by (auto simp: startSession_def randomID_def put_artifact_def split: prod.splits)
  from PutArtifact_up [OF u2 put] have y: "y = Inr ()" by simp
  have "artifactKey pwResetName token \<noteq> artifactKey sessionName sid"
    using artifactKey_inj [of pwResetName token sessionName sid] by (auto simp: pwResetName_def sessionName_def)
  from PutArtifact_other [OF put [unfolded y] _ assms(4) this] DeleteArtifact_at [OF d [unfolded x] assms(4)]
  show ?thesis by simp
qed

end

text \<open>
  A reset link works once: with a valkey that answers, after a reset has succeeded the token is
  not valid any more and a second reset with it fails, whatever the time and the password.
\<close>

theorem reset_token_once:
  assumes "redis_up (pv_redis p) view up" and "up (w_kv w)"
    and "CompletePasswordReset p t token pw w = (Ok sid, w')" and "t \<le> t'"
  shows "fst (ResetTokenValid p t' token w') = False
    \<and> fst (CompletePasswordReset p t' token pw' w') = Err (GoErr ''invalid or expired reset link'')"
proof -
  note gone = redis_up.CompletePasswordReset_consumes [OF assms(1,3) refl assms(2,4)]
  from redis_up.get_absent_artifact [OF assms(1) gone refl] show ?thesis
    by (auto simp: ResetTokenValid_def CompletePasswordReset_def split: prod.splits)
qed

text \<open>
  C34. A reset link works until it expires: with a valkey that answers, once the token has been stored
  for an account, every reset before the deadline asks the backend to set the new password for that
  account and, if the backend does, starts a session of that account and succeeds.
\<close>

theorem reset_link_works:
  assumes "redis_up (pv_redis p) view up" and "up (w_kv w)" and "pv_backend p = Some b"
    and "put_artifact p t pwResetName token [''sub'' \<mapsto> AStr sub, ''email'' \<mapsto> AStr email]
       (cf_reset_ttl (pv_cfg p)) w = (Inr (), w1)"
    and "ascii sub" and "sub \<noteq> []" and "0 < cf_reset_ttl (pv_cfg p)"
    and "t \<le> t'" and "t' < the (px_deadline t (cf_reset_ttl (pv_cfg p)))"
    and "bk_SetPassword b sub pw (w_wd w1) = (Inr (), v)"
  shows "\<exists>sid w2 w3. CompletePasswordReset p t' token pw w1 = (Ok sid, w2) \<and> w_wd w2 = v
    \<and> startSession p t' sub (valid_utf8_of email) w3 = (sid, w2)"
proof -
  obtain s where put: "PutArtifact (pv_redis p) t pwResetName token [''sub'' \<mapsto> AStr sub, ''email'' \<mapsto> AStr email]
      (cf_reset_ttl (pv_cfg p)) (w_kv w) = (Inr (), s)" "w1 = w\<lparr>w_kv := s\<rparr>"
    using assms(4) by (auto simp: put_artifact_def split: prod.splits)
  have up1: "up (w_kv w1)" using redis_up.PutArtifact_up [OF assms(1,2) put(1)] put(2) by simp
  have rs: "redis_server (pv_redis p) view" using assms(1) by (rule redis_up.axioms(1))
  from redis_server.PutArtifact_at [OF rs put(1) assms(7,8,9)] put(2)
  have "artifact_at t' (view (w_kv w1)) pwResetName token
      = Some (json_map [''sub'' \<mapsto> AStr sub, ''email'' \<mapsto> AStr email])" by simp
  from redis_up.GetArtifact_up_stored [OF assms(1) up1 this] obtain s' where
    g: "GetArtifact (pv_redis p) t' pwResetName token (w_kv w1)
      = (Inr (json_map [''sub'' \<mapsto> AStr sub, ''email'' \<mapsto> AStr email]), s')" by blast
  obtain w3 where d: "delete_artifact p t' pwResetName token (w1\<lparr>w_kv := s', w_wd := v\<rparr>) = w3" by blast
  obtain sid w2 where st: "startSession p t' sub (valid_utf8_of email) (snd w3) = (sid, w2)" by force
  have "CompletePasswordReset p t' token pw w1 = (Ok sid, w2)"
    using g d st assms(3,5,6,10)
    by (simp add: CompletePasswordReset_def get_artifact_def on_wd_def valid_utf8_of_ascii Let_def)
  moreover have "w_wd w2 = v"
    using startSession_frame [OF st] d by (auto simp: delete_artifact_def split: prod.splits)
  ultimately show ?thesis using st by blast
qed

section \<open>A concrete reset\<close>

lemma to_lower_plain:
  assumes "list_all (\<lambda>c. byte_of c < (0x80 :: nat) \<and> \<not> (65 \<le> byte_of c \<and> byte_of c \<le> (90 :: nat))) s"
  shows "to_lower U s = s"
proof -
  have a: "ascii s" using assms by (auto simp: ascii_def list_all_iff)
  have "encode_rune (lower_rune U (byte_of c)) = [c]" if "c \<in> set s" for c
  proof -
    have "byte_of c < (0x80 :: nat)" "\<not> (65 \<le> byte_of c \<and> byte_of c \<le> (90 :: nat))"
      using assms that by (auto simp: list_all_iff)
    then have "lower_rune U (byte_of c) = byte_of c" "encode_rune (byte_of c) = [c]"
      by (auto simp: lower_rune_def lower_ascii_def encode_rune_def rune_error_def)
    then show ?thesis by simp
  qed
  then have "to_lower U s = concat (map (\<lambda>c. [c]) s)"
    unfolding to_lower_def runes_of_ascii [OF a] map_map o_def fst_conv by (metis (no_types, lifting) map_eq_conv)
  then show ?thesis by simp
qed

lemma clean_address_plain:
  assumes "s \<noteq> []" "list_all (\<lambda>c. byte_of c < (0x80 :: nat) \<and> \<not> (65 \<le> byte_of c \<and> byte_of c \<le> (90 :: nat))
      \<and> \<not> is_space (byte_of c)) s"
  shows "clean_address U s = s"
proof -
  have "to_lower U s = s" by (rule to_lower_plain) (use assms(2) in \<open>auto simp: list_all_iff\<close>)
  moreover have "is_word s" by (rule is_word_plain) (use assms in \<open>auto simp: list_all_iff\<close>)
  ultimately show ?thesis by (simp add: clean_address_def trim_space_word)
qed

text \<open>An SDK with one account, whose state is the list of the mails submitted.\<close>

definition mail_wildduck :: "gomap list wildduck" where
  "mail_wildduck = \<lparr>wd_resolve = (\<lambda>_ w. (Inr [''id'' \<mapsto> AStr ''u1''], w)),
     wd_get = (\<lambda>i w. (Inr [''success'' \<mapsto> ABool True, ''id'' \<mapsto> AStr i, ''activated'' \<mapsto> ABool True,
        ''metaData'' \<mapsto> AMap [''profile'' \<mapsto> AMap [''recoveryEmail'' \<mapsto> AStr ''b@x.io'']]], w)),
     wd_update = (\<lambda>_ _ w. (Inr [''success'' \<mapsto> ABool True], w)),
     wd_authenticate = (\<lambda>_ _ _ w. (Inl (ExtErr ''403''), w)),
     wd_submit = (\<lambda>_ m w. (Inr [''success'' \<mapsto> ABool True], w @ [m]))\<rparr>"

definition mail_provider :: "(mem, gomap list) provider" where
  "mail_provider = \<lparr>pv_cfg = raw_config sample_unicode (\<lambda>_. None) sample_env, pv_redis = mem_redis,
     pv_pg = sample_pg, pv_uuid = (\<lambda>_. ''id''), pv_rand = sample_rand, pv_crypto = sample_crypto,
     pv_jose = sample_jose ANil, pv_url = sample_url, pv_unicode = sample_unicode, pv_wd = mail_wildduck,
     pv_backend = Some (NewBackend sample_unicode mail_wildduck),
     pv_mailer = Some (NewMailer mail_wildduck \<lparr>mc_sender = ''s'', mc_address = ''no-reply'', mc_name = ''N''\<rparr>),
     pv_key = ''key'', pv_keyID = ''kid'', pv_oauth = None\<rparr>"

definition mail_world :: "(mem, gomap list) world" where
  "mail_world = \<lparr>w_kv = mem_start, w_db = empty_db, w_wd = [], w_rng = 0\<rparr>"

lemma mail_provider_simps [simp]:
  "pv_redis mail_provider = mem_redis" "pv_rand mail_provider = sample_rand"
  "pv_backend mail_provider = Some (NewBackend sample_unicode mail_wildduck)"
  "cf_reset_ttl (pv_cfg mail_provider) = hour" "pv_unicode mail_provider = sample_unicode"
  by (simp_all add: mail_provider_def raw_config_def sample_env_def parseDuration_def Let_def)

lemma clean_b: "clean_address U ''b@x.io'' = ''b@x.io''" "clean_address U ''bob'' = ''bob''"
    "trim_space (to_lower U ''b@x.io'') = ''b@x.io''" "to_lower U (trim_space ''b@x.io'') = ''b@x.io''"
proof -
  show c: "clean_address U ''b@x.io'' = ''b@x.io''" "clean_address U ''bob'' = ''bob''"
    by (rule clean_address_plain; simp add: is_space_def)+
  show "trim_space (to_lower U ''b@x.io'') = ''b@x.io''"
    using c(1) by (simp add: clean_address_def)
  have "trim_space ''b@x.io'' = ''b@x.io''"
    by (rule trim_space_word, rule is_word_plain) (simp_all add: is_space_def)
  moreover have "to_lower U ''b@x.io'' = ''b@x.io''"
    by (rule to_lower_plain) simp
  ultimately show "to_lower U (trim_space ''b@x.io'') = ''b@x.io''" by simp
qed

definition mail_account :: account where
  "mail_account = \<lparr>au_id = ''u1'', au_email = [], au_username = [], au_name = [], au_activated = True,
     au_suspended = False, au_disabled = False\<rparr>"

lemma mail_lookups:
  "wd_FindByLogin mail_wildduck login v = (Inr (mail_account, True), v)"
  "wd_RecoveryDestinations sample_unicode mail_wildduck acc v =
     (Inr [\<lparr>ds_kind = ''email'', ds_address = ''b@x.io'', ds_hash = []\<rparr>], v)"
proof -
  have "to_lower sample_unicode (trim_space []) = []"
    by (simp add: trim_space_def to_lower_def)
  then show "wd_FindByLogin mail_wildduck login v = (Inr (mail_account, True), v)"
    "wd_RecoveryDestinations sample_unicode mail_wildduck acc v =
     (Inr [\<lparr>ds_kind = ''email'', ds_address = ''b@x.io'', ds_hash = []\<rparr>], v)"
    by (simp_all add: wd_FindByLogin_def wd_RecoveryDestinations_def mail_wildduck_def mail_account_def
        toAccount_def success_def wd_destinations_def clean_b Let_def)
qed

lemma mail_run:
  "\<exists>m. w_wd (BeginPasswordReset mail_provider 0 ''bob'' ''b@x.io'' mail_world) = [m]"
proof -
  have m: "\<exists>m. w_wd (send_reset mail_provider (NewMailer mail_wildduck
      \<lparr>mc_sender = ''s'', mc_address = ''no-reply'', mc_name = ''N''\<rparr>) 0 mail_account ''b@x.io'' mail_world) = [m]"
    by (simp add: send_reset_def randomID_def put_artifact_def PutArtifact_def kv_Set_def mail_world_def
        mem_start_of mem_eval on_wd_def NewMailer_def wd_SendPasswordReset_def mail_wildduck_def success_def
        Let_def)
  have mailer: "pv_mailer mail_provider = Some (NewMailer mail_wildduck
      \<lparr>mc_sender = ''s'', mc_address = ''no-reply'', mc_name = ''N''\<rparr>)"
    by (simp add: mail_provider_def)
  have "on_wd (bk_FindByLogin (NewBackend sample_unicode mail_wildduck) l) mail_world
      = (Inr (mail_account, True), mail_world)" for l
    by (simp add: on_wd_def NewBackend_def mail_lookups)
  moreover have "on_wd (bk_RecoveryDestinations (NewBackend sample_unicode mail_wildduck) mail_account) mail_world
      = (Inr [\<lparr>ds_kind = ''email'', ds_address = ''b@x.io'', ds_hash = []\<rparr>], mail_world)"
    by (simp add: on_wd_def NewBackend_def mail_lookups)
  moreover have "Usable mail_account" by (simp add: Usable_def mail_account_def)
  moreover have "destinationMatches C U [\<lparr>ds_kind = ''email'', ds_address = ''b@x.io'', ds_hash = []\<rparr>] ''b@x.io''" for C U
    by (simp add: destinationMatches_iff)
  ultimately show ?thesis
    using m by (simp add: BeginPasswordReset_def clean_b mailer)
qed

theorem reset_mail_verified_witness:
  "\<exists>m token w4. pv_mailer mail_provider = Some m \<and> BeginPasswordReset mail_provider 0 ''bob'' ''b@x.io'' mail_world
     = snd (on_wd (ml_SendPasswordReset m ''b@x.io'' [] (reset_link mail_provider token)) w4)"
proof -
  let ?w = "BeginPasswordReset mail_provider 0 ''bob'' ''b@x.io'' mail_world"
  have keep: "length (snd (bk_FindByLogin b l v)) = length v" "length (snd (bk_RecoveryDestinations b a v)) = length v"
    if "pv_backend mail_provider = Some b" for b l v a
    using that by (auto simp: NewBackend_def mail_lookups)
  have "length (w_wd ?w) \<noteq> length (w_wd mail_world)"
    using mail_run by (auto simp: mail_world_def)
  from reset_mail_verified [of mail_provider 0 "''bob''" "''b@x.io''" mail_world ?w length, OF refl this keep]
  obtain b m acc w1 token w4 where "pv_backend mail_provider = Some b" "pv_mailer mail_provider = Some m"
      "on_wd (bk_FindByLogin b (clean_address sample_unicode ''bob'')) mail_world = (Inr (acc, True), w1)"
      "?w = snd (on_wd (ml_SendPasswordReset m (clean_address sample_unicode ''b@x.io'') (au_name acc)
          (reset_link mail_provider token)) w4)"
    by (auto simp del: One_nat_def)
  moreover from this have "au_name acc = []"
    by (auto simp: NewBackend_def on_wd_def mail_lookups mail_account_def)
  ultimately show ?thesis by (auto simp: clean_b)
qed

lemma mail_token_stored:
  "\<exists>s. put_artifact mail_provider 0 pwResetName ''tok'' [''sub'' \<mapsto> AStr ''u1'', ''email'' \<mapsto> AStr ''e''] hour mail_world
     = (Inr (), mail_world\<lparr>w_kv := mem_of s\<rparr>)
     \<and> purge 1 s (artifactKey pwResetName ''tok'') = Some (RStr (Doc (json_norm (AMap [''sub'' \<mapsto> AStr ''u1'',
          ''email'' \<mapsto> AStr ''e'']))), px_deadline 0 hour)"
  by (intro exI [of _ "ks_set 0 (artifactKey pwResetName ''tok'') (Doc (json_norm (AMap [''sub'' \<mapsto> AStr ''u1'',
        ''email'' \<mapsto> AStr ''e'']))) hour (purge 0 Map.empty)"])
    (simp add: put_artifact_def PutArtifact_def kv_Set_def mail_world_def mem_start_of mem_eval ks_set_def
      purge_upd live_def px_deadline_def time_units)

theorem reset_link_works_witness:
  "\<exists>w1 sid w2. put_artifact mail_provider 0 pwResetName ''tok'' [''sub'' \<mapsto> AStr ''u1'', ''email'' \<mapsto> AStr ''e'']
       hour mail_world = (Inr (), w1) \<and> CompletePasswordReset mail_provider 1 ''tok'' ''new'' w1 = (Ok sid, w2)"
proof -
  obtain s where s: "put_artifact mail_provider 0 pwResetName ''tok'' [''sub'' \<mapsto> AStr ''u1'', ''email'' \<mapsto> AStr ''e'']
      hour mail_world = (Inr (), mail_world\<lparr>w_kv := mem_of s\<rparr>)" using mail_token_stored by blast
  have dl: "0 < hour" "1 < the (px_deadline 0 hour)" by (simp_all add: px_deadline_def time_units)
  have sp: "bk_SetPassword (NewBackend sample_unicode mail_wildduck) ''u1'' ''new'' v = (Inr (), v)" for v
    by (simp add: NewBackend_def wd_SetPassword_def mail_wildduck_def success_def)
  have up: "redis_up (pv_redis mail_provider) m_ks mem_up" "mem_up (w_kv mail_world)"
    by (simp_all add: mem.redis_up_axioms mem_up_def mail_world_def mem_start_def)
  have "\<exists>sid w2 w3. CompletePasswordReset mail_provider 1 ''tok'' ''new'' (mail_world\<lparr>w_kv := mem_of s\<rparr>) = (Ok sid, w2)
      \<and> w_wd w2 = [] \<and> startSession mail_provider 1 ''u1'' (valid_utf8_of ''e'') w3 = (sid, w2)"
    by (rule reset_link_works [OF up mail_provider_simps(3), where t = 0])
      (use s dl sp in \<open>simp_all add: ascii_def mail_world_def\<close>)
  with s show ?thesis by blast
qed

theorem reset_token_once_witness:
  "\<exists>w1 sid w2. CompletePasswordReset mail_provider 1 ''tok'' ''new'' w1 = (Ok sid, w2)
     \<and> fst (ResetTokenValid mail_provider 2 ''tok'' w2) = False"
proof -
  obtain s where s: "purge 1 s (artifactKey pwResetName ''tok'') = Some (RStr (Doc (json_norm (AMap [''sub'' \<mapsto> AStr ''u1'',
          ''email'' \<mapsto> AStr ''e'']))), px_deadline 0 hour)" using mail_token_stored by blast
  let ?w = "mail_world\<lparr>w_kv := mem_of s\<rparr>"
  obtain sid w2 where run: "CompletePasswordReset mail_provider 1 ''tok'' ''new'' ?w = (Ok sid, w2)"
    using s by (cases "CompletePasswordReset mail_provider 1 ''tok'' ''new'' ?w") (simp add: CompletePasswordReset_def get_artifact_def GetArtifact_def kv_Get_def mem_eval
        on_wd_def NewBackend_def wd_SetPassword_def mail_wildduck_def success_def valid_utf8_of_ascii ascii_def
        Let_def split: prod.splits, metis)
  have "fst (ResetTokenValid mail_provider 2 ''tok'' w2) = False"
    using reset_token_once [of mail_provider m_ks mem_up ?w 1 "''tok''" "''new''" sid w2 2] run
    by (simp add: mem.redis_up_axioms mem_up_def mem_of_def)
  with run show ?thesis by blast
qed

end
