(* ===== verification/Auth_Pages.thy ===== *)
theory Auth_Pages
  imports Password_Reset
begin

text \<open>
  The handlers of internal/handlers/auth.go and reset.go.  An HTML page is given by the data its
  template is executed with; the templates are in \<open>Html_Pages\<close>.
\<close>

section \<open>Pages\<close>

record reset_view =
  rv_mode :: string
  rv_token :: string
  rv_error :: string
  rv_notice :: string

text \<open>A page of the interaction or reset template, \<open>http.Error\<close>, or an answer of the provider.\<close>

datatype web_page =
    Page nat interaction_view
  | Reset nat reset_view "cookie option"
  | PlainError nat string
  | Answer answer
  | Panicked string

definition reset_page :: "string \<Rightarrow> reset_view" where
  "reset_page mode = \<lparr>rv_mode = mode, rv_token = [], rv_error = [], rv_notice = []\<rparr>"

definition expiredLinkMsg :: string where
  "expiredLinkMsg = ''This reset link is invalid or has expired. Please request a new one.''"

section \<open>The password policy\<close>

text \<open>The class of a rune in the switch; letters and white space count for nothing.\<close>

definition is_special :: "unicode \<Rightarrow> rune \<Rightarrow> bool" where
  "is_special UC c \<longleftrightarrow> \<not> is_upper UC c \<and> \<not> is_digit UC c \<and> \<not> is_letter UC c \<and> \<not> is_space c"

definition passwordPolicyError :: "unicode \<Rightarrow> string \<Rightarrow> string" where
  "passwordPolicyError UC pw =
     (let rs = map fst (runes pw);
          hasUpper = list_ex (is_upper UC) rs;
          hasDigit = list_ex (\<lambda>c. \<not> is_upper UC c \<and> is_digit UC c) rs;
          hasSpecial = list_ex (is_special UC) rs
      in if length rs < 10 \<or> \<not> hasUpper \<or> \<not> hasDigit \<or> \<not> hasSpecial
         then ''Password must be at least 10 characters and include an uppercase letter, a digit, and a special character.''
         else [])"

section \<open>auth.go\<close>

definition ShowInteraction ::
  "('r, 'w) provider \<Rightarrow> http_form \<Rightarrow> string \<Rightarrow> ('r, 'w) world \<Rightarrow> web_page \<times> ('r, 'w) world" where
  "ShowInteraction p r uid w =
     (case InteractionView p r uid (vget (hf_query r) ''error'') w of
        (Inl _, w1) \<Rightarrow> (PlainError 400 ''interaction not found'', w1)
      | (Inr view, w1) \<Rightarrow> (Page 200 view, w1))"

definition handler_Login ::
  "('r, 'w) provider \<Rightarrow> http_form \<Rightarrow> string \<Rightarrow> ('r, 'w) world \<Rightarrow> web_page \<times> ('r, 'w) world" where
  "handler_Login p r uid w =
     (if \<not> hf_parsed r then (PlainError 400 ''invalid form'', w)
      else case FinishLogin p (hf_now r) uid (vget (hf_form r) ''username'') (vget (hf_form r) ''password'')
             (hf_remote r) w of
          (Inr sid, w1) \<Rightarrow> (let (a, w2) = RedirectAfterLogin p (hf_now r) uid sid w1 in (Answer a, w2))
        | (Inl PasswordChangeRequired, w1) \<Rightarrow>
            (case PasswordChangeView p r uid [] w1 of
               (Inl _, w2) \<Rightarrow> (PlainError 400 ''interaction not found'', w2)
             | (Inr view, w2) \<Rightarrow> (Page 200 view, w2))
        | (Inl _, w1) \<Rightarrow>
            (case InteractionView p r uid ''Invalid username or password.'' w1 of
               (Inl _, w2) \<Rightarrow> (PlainError 401 ''invalid credentials'', w2)
             | (Inr view, w2) \<Rightarrow> (Page 401 view, w2)))"

definition render_change ::
  "('r, 'w) provider \<Rightarrow> http_form \<Rightarrow> string \<Rightarrow> string \<Rightarrow> ('r, 'w) world \<Rightarrow> web_page \<times> ('r, 'w) world" where
  "render_change p r uid msg w =
     (case PasswordChangeView p r uid msg w of
        (Inl _, w1) \<Rightarrow> (PlainError 400 ''interaction not found'', w1)
      | (Inr view, w1) \<Rightarrow> (Page 400 view, w1))"

definition ChangePassword ::
  "('r, 'w) provider \<Rightarrow> http_form \<Rightarrow> string \<Rightarrow> ('r, 'w) world \<Rightarrow> web_page \<times> ('r, 'w) world" where
  "ChangePassword p r uid w =
     (let pw = vget (hf_form r) ''new_password'' in
      if \<not> hf_parsed r then (PlainError 400 ''invalid form'', w)
      else if pw \<noteq> vget (hf_form r) ''confirm_password''
      then render_change p r uid ''Passwords do not match.'' w
      else if passwordPolicyError (pv_unicode p) pw \<noteq> []
      then render_change p r uid (passwordPolicyError (pv_unicode p) pw) w
      else case CompletePasswordChange p (hf_now r) uid pw w of
          (Inl _, w1) \<Rightarrow>
            render_change p r uid ''Could not change password. Choose a different password and try again.'' w1
        | (Inr sid, w1) \<Rightarrow> (let (a, w2) = RedirectAfterLogin p (hf_now r) uid sid w1 in (Answer a, w2)))"

section \<open>reset.go\<close>

definition ForgotForm :: web_page where
  "ForgotForm = Reset 200 (reset_page ''forgot'') None"

definition ForgotSubmit ::
  "('r, 'w) provider \<Rightarrow> http_form \<Rightarrow> ('r, 'w) world \<Rightarrow> web_page \<times> ('r, 'w) world" where
  "ForgotSubmit p r w =
     (if \<not> hf_parsed r then (PlainError 400 ''invalid form'', w)
      else (Reset 200 (reset_page ''notice''\<lparr>rv_notice := ''If an account with that address exists, we'' @ [CHR 0x27]
             @ ''ve sent password reset instructions to its recovery email. The link expires shortly.''\<rparr>) None,
            BeginPasswordReset p (hf_now r) (vget (hf_form r) ''username'')
              (vget (hf_form r) ''recovery_email'') w))"

definition ResetForm ::
  "('r, 'w) provider \<Rightarrow> http_form \<Rightarrow> ('r, 'w) world \<Rightarrow> web_page \<times> ('r, 'w) world" where
  "ResetForm p r w =
     (let token = vget (hf_query r) ''token'' in
      case ResetTokenValid p (hf_now r) token w of
        (False, w1) \<Rightarrow> (Reset 200 (reset_page ''notice''\<lparr>rv_error := expiredLinkMsg\<rparr>) None, w1)
      | (True, w1) \<Rightarrow> (Reset 200 (reset_page ''reset''\<lparr>rv_token := token\<rparr>) None, w1))"

definition ResetSubmit ::
  "('r, 'w) provider \<Rightarrow> http_form \<Rightarrow> ('r, 'w) world \<Rightarrow> web_page \<times> ('r, 'w) world" where
  "ResetSubmit p r w =
     (let token = vget (hf_form r) ''token''; pw = vget (hf_form r) ''new_password'';
          render = (\<lambda>msg. Reset 400 (reset_page ''reset''\<lparr>rv_token := token, rv_error := msg\<rparr>) None)
      in if \<not> hf_parsed r then (PlainError 400 ''invalid form'', w)
         else if pw \<noteq> vget (hf_form r) ''confirm_password'' then (render ''Passwords do not match.'', w)
         else if passwordPolicyError (pv_unicode p) pw \<noteq> []
         then (render (passwordPolicyError (pv_unicode p) pw), w)
         else case CompletePasswordReset p (hf_now r) token pw w of
             (Panic m, w1) \<Rightarrow> (Panicked m, w1)
           | (Err _, w1) \<Rightarrow> (Reset 400 (reset_page ''notice''\<lparr>rv_error := expiredLinkMsg\<rparr>) None, w1)
           | (Ok sid, w1) \<Rightarrow>
               (Reset 200 (reset_page ''done''\<lparr>rv_notice := ''Your password has been updated and you'' @ [CHR 0x27]
                   @ ''re signed in. You can close this tab and continue where you left off.''\<rparr>)
                  (Some (signedCookie p sid (24 * hour))), w1))"

section \<open>What the pages let happen\<close>

text \<open>What the policy demands.\<close>

lemma passwordPolicyError_ok:
  "passwordPolicyError UC pw = [] \<longleftrightarrow> 10 \<le> length (runes pw)
     \<and> (\<exists>c \<in> fst ` set (runes pw). is_upper UC c)
     \<and> (\<exists>c \<in> fst ` set (runes pw). \<not> is_upper UC c \<and> is_digit UC c)
     \<and> (\<exists>c \<in> fst ` set (runes pw). is_special UC c)"
  by (auto simp: passwordPolicyError_def Let_def list_ex_iff)

lemma CompletePasswordReset_wd:
  assumes "CompletePasswordReset p now token pw w = (x, w')" "w_wd w' \<noteq> w_wd w"
  shows "\<exists>pending s b. GetArtifact (pv_redis p) now pwResetName token (w_kv w) = (Inr pending, s)
    \<and> str (mget pending ''sub'') \<noteq> [] \<and> pv_backend p = Some b
    \<and> w_wd w' = snd (bk_SetPassword b (str (mget pending ''sub'')) pw (w_wd w))"
  using assms
  by (auto simp: CompletePasswordReset_def get_artifact_def on_wd_def delete_artifact_def startSession_def
      randomID_def put_artifact_def Let_def split: sum.splits prod.splits if_splits option.splits)

text \<open>
  C24. A password reset page changes WildDuck only for a valid request: the form was parsed, the new
  password was typed twice and has ten characters, an upper-case letter, a digit and a special
  character, and the token of the form is stored for an account that has an id; the change is then
  the backend's for that account and that password.
\<close>

theorem reset_submit_safe:
  assumes "ResetSubmit p r w = (page, w')" and "w_wd w' \<noteq> w_wd w"
    and "pw = vget (hf_form r) ''new_password''"
  shows "hf_parsed r \<and> pw = vget (hf_form r) ''confirm_password'' \<and> 10 \<le> length (runes pw)
    \<and> (\<exists>c \<in> fst ` set (runes pw). is_upper (pv_unicode p) c)
    \<and> (\<exists>c \<in> fst ` set (runes pw). \<not> is_upper (pv_unicode p) c \<and> is_digit (pv_unicode p) c)
    \<and> (\<exists>c \<in> fst ` set (runes pw). is_special (pv_unicode p) c)
    \<and> (\<exists>pending s b. GetArtifact (pv_redis p) (hf_now r) pwResetName (vget (hf_form r) ''token'') (w_kv w)
            = (Inr pending, s)
         \<and> str (mget pending ''sub'') \<noteq> [] \<and> pv_backend p = Some b
         \<and> w_wd w' = snd (bk_SetPassword b (str (mget pending ''sub'')) pw (w_wd w)))"
proof -
  obtain x w1 where c: "CompletePasswordReset p (hf_now r) (vget (hf_form r) ''token'') pw w = (x, w1)" by force
  have g: "hf_parsed r \<and> pw = vget (hf_form r) ''confirm_password''
      \<and> passwordPolicyError (pv_unicode p) pw = [] \<and> w' = w1"
    using assms c by (auto simp: ResetSubmit_def Let_def split: if_splits go.splits)
  then have pol: "passwordPolicyError (pv_unicode p) pw = []" and "w_wd w1 \<noteq> w_wd w"
    using assms(2) by auto
  from g CompletePasswordReset_wd [OF c this(2)] pol [unfolded passwordPolicyError_ok] show ?thesis
    by blast
qed

text \<open>
  The page that asks for a reset tells nothing about accounts: the answer to a form that parses
  is the same page for every login, address, provider and state.
\<close>

theorem forgot_no_enumeration:
  assumes "hf_parsed r" and "hf_parsed r'"
  shows "fst (ForgotSubmit p r w) = fst (ForgotSubmit p' r' w')"
  using assms by (simp add: ForgotSubmit_def)

section \<open>Concrete requests\<close>

definition reset_form :: http_form where
  "reset_form = sample_form\<lparr>hf_now := 1, hf_form := (\<lambda>_. [])(''token'' := [''tok''],
     ''new_password'' := [''Secret-123''], ''confirm_password'' := [''Secret-123''])\<rparr>"

lemma sample_policy: "passwordPolicyError sample_unicode ''Secret-123'' = []"
  by (simp add: passwordPolicyError_def runes_of_ascii ascii_def is_upper_def is_digit_def is_special_def
      is_letter_def is_space_def)

text \<open>An SDK that counts the changes of passwords.\<close>

definition count_wildduck :: "nat wildduck" where
  "count_wildduck = \<lparr>wd_resolve = (\<lambda>_ w. (Inl (ExtErr ''404''), w)), wd_get = (\<lambda>_ w. (Inl (ExtErr ''404''), w)),
     wd_update = (\<lambda>_ _ w. (Inr [''success'' \<mapsto> ABool True], Suc w)),
     wd_authenticate = (\<lambda>_ _ _ w. (Inl (ExtErr ''403''), w)),
     wd_submit = (\<lambda>_ _ w. (Inl (ExtErr ''404''), w))\<rparr>"

definition count_provider :: "(mem, nat) provider" where
  "count_provider = \<lparr>pv_cfg = raw_config sample_unicode (\<lambda>_. None) sample_env, pv_redis = mem_redis,
     pv_pg = sample_pg, pv_uuid = (\<lambda>_. ''id''), pv_rand = sample_rand, pv_crypto = sample_crypto,
     pv_jose = sample_jose ANil, pv_url = sample_url, pv_unicode = sample_unicode, pv_wd = count_wildduck,
     pv_backend = Some (NewBackend sample_unicode count_wildduck), pv_mailer = None,
     pv_key = ''key'', pv_keyID = ''kid'', pv_oauth = None\<rparr>"

theorem reset_submit_safe_witness:
  "\<exists>ks page w'. ResetSubmit count_provider reset_form \<lparr>w_kv = mem_of ks, w_db = empty_db, w_wd = 0, w_rng = 0\<rparr>
       = (page, w') \<and> w_wd w' = 1
     \<and> (\<exists>pending s. GetArtifact mem_redis 1 pwResetName ''tok'' (mem_of ks) = (Inr pending, s)
          \<and> str (mget pending ''sub'') \<noteq> [])"
proof -
  let ?ks = "[artifactKey pwResetName ''tok'' \<mapsto> (RStr (Doc (AMap [''sub'' \<mapsto> AStr ''u1''])), Some hour)] :: keyspace"
  let ?w = "\<lparr>w_kv = mem_of ?ks, w_db = empty_db, w_wd = 0, w_rng = 0\<rparr> :: (mem, nat) world"
  obtain page w' where run: "ResetSubmit count_provider reset_form ?w = (page, w')" by force
  have form: "vget (hf_form reset_form) ''new_password'' = ''Secret-123''"
      "vget (hf_form reset_form) ''confirm_password'' = ''Secret-123''"
      "vget (hf_form reset_form) ''token'' = ''tok''" "hf_parsed reset_form" "hf_now reset_form = 1"
    by (simp_all add: reset_form_def vget_def sample_form_def)
  have p: "pv_redis count_provider = mem_redis" "pv_unicode count_provider = sample_unicode"
      "pv_backend count_provider = Some (NewBackend sample_unicode count_wildduck)"
    by (simp_all add: count_provider_def)
  have g: "get_artifact count_provider 1 pwResetName ''tok'' ?w = (Inr [''sub'' \<mapsto> AStr ''u1''], ?w\<lparr>w_kv := mem_of (purge 1 ?ks)\<rparr>)"
    by (simp add: get_artifact_def GetArtifact_def kv_Get_def mem_eval p) (simp add: purge_def live_def time_units)
  have set: "bk_SetPassword (NewBackend sample_unicode count_wildduck) i pw v = (Inr (), Suc v)" for i pw v
    by (simp add: NewBackend_def wd_SetPassword_def count_wildduck_def success_def)
  have "w_wd (snd (CompletePasswordReset count_provider 1 ''tok'' ''Secret-123'' ?w)) = 1"
    by (auto simp: CompletePasswordReset_def g p on_wd_def set delete_artifact_def Let_def
        dest!: startSession_frame split: prod.splits)
  moreover have "w' = snd (CompletePasswordReset count_provider 1 ''tok'' ''Secret-123'' ?w)"
    using arg_cong [OF run, of snd]
    by (cases "CompletePasswordReset count_provider 1 ''tok'' ''Secret-123'' ?w"; cases "fst
        (CompletePasswordReset count_provider 1 ''tok'' ''Secret-123'' ?w)")
      (simp_all add: ResetSubmit_def form p sample_policy)
  ultimately have w': "w_wd w' = 1" by simp
  then have "w_wd w' \<noteq> w_wd ?w" by simp
  from reset_submit_safe [OF run this refl] obtain pending s where
    "GetArtifact mem_redis 1 pwResetName ''tok'' (mem_of ?ks) = (Inr pending, s)" "str (mget pending ''sub'') \<noteq> []"
    by (auto simp only: form p world.simps)
  with run w' show ?thesis by blast
qed

theorem forgot_no_enumeration_witness:
  "fst (ForgotSubmit (sample_provider ANil) reset_form sample_world) = fst (ForgotSubmit mail_provider sample_form mail_world)"
  by (rule forgot_no_enumeration) (simp_all add: reset_form_def sample_form_def)

end
