(* ===== verification/Html_Pages.thy ===== *)
theory Html_Pages
  imports Gui_Page Auth_Pages
begin

text \<open>
  The two templates of internal/handlers, with the text of the sources line by line: the page of an
  interaction (auth.go) with sign-in, consent and the forced password change, and the pages of the password
  reset (reset.go); and what follows from html/template's analysis of them.
\<close>

section \<open>auth.go\<close>

definition pageHead :: "interaction_view tpart list" where
  \<open>pageHead =
  [Txt [''<!doctype html>'',
        ''<html lang="en">'',
        ''<head>'',
        ''<meta charset="utf-8" />'',
        ''<meta name="viewport" content="width=device-width, initial-scale=1, viewport-fit=cover" />'',
        ''<meta name="color-scheme" content="light" />'',
        ''<meta name="theme-color" content="#f1f5f9" />'',
        ''<title>''],
   Cond (\<lambda>v. iv_mode v = ''consent'')
     [Txt [''Consent'']]
     [Txt [''Sign in'']],
   Txt ['' '' @ [CHR 0xC2, CHR 0xB7] @ '' MuninID</title>'',
        ''<style>'',
        ''*{box-sizing:border-box}'',
        []],
   CssNote [''/* Force a single light theme so Chrome's "Darken websites" (force-dark) can't'',
            ''   half-invert the page or flicker against a prefers-color-scheme block. */''],
   Txt [[],
        '':root{color-scheme:light}'',
        ''body{margin:0;min-height:100vh;display:flex;align-items:center;justify-content:center;'',
        ''  padding:24px;background:#f1f5f9;color:#0f172a;-webkit-text-size-adjust:100%;'',
        ''  font-family:system-ui,-apple-system,"Segoe UI",Roboto,Helvetica,Arial,sans-serif;line-height:1.45}'',
        ''.card{width:100%;max-width:400px;background:#fff;border:1px solid #e2e8f0;border-radius:16px;'',
        ''  padding:28px 24px;box-shadow:0 10px 30px rgba(15,23,42,.06)}'',
        ''.logo{width:48px;height:48px;border-radius:12px;background:#1d4ed8;color:#fff;display:flex;'',
        ''  align-items:center;justify-content:center;font-weight:800;font-size:22px;margin-bottom:18px}'',
        ''h1{margin:0 0 4px;font-size:1.4rem;font-weight:700}'',
        ''.sub{margin:0 0 22px;color:#64748b;font-size:.95rem}'',
        ''label{display:block;font-size:.85rem;font-weight:600;color:#334155;margin-bottom:6px}'',
        ''input{width:100%;padding:12px 14px;font-size:16px;border:1px solid #cbd5e1;border-radius:10px;'',
        ''  background:#fff;color:#0f172a;margin-bottom:16px}'',
        ''input:focus{outline:none;border-color:#1d4ed8;box-shadow:0 0 0 3px rgba(29,78,216,.15)}'',
        ''button{width:100%;padding:13px 16px;font-size:1rem;font-weight:700;border:none;border-radius:10px;cursor:pointer}'',
        ''.btn-primary{background:#1d4ed8;color:#fff}'',
        ''.btn-primary:active{background:#1e40af}'',
        ''.btn-secondary{background:#f1f5f9;color:#334155;margin-top:10px}'',
        ''.error{background:#fef2f2;border:1px solid #fecaca;color:#b91c1c;padding:10px 12px;border-radius:10px;'',
        ''  font-size:.9rem;margin-bottom:18px}'',
        ''.scopes{list-style:none;padding:0;margin:0 0 20px}'',
        ''.scopes li{display:flex;align-items:center;gap:10px;padding:10px 0;border-bottom:1px solid #f1f5f9;'',
        ''  color:#334155;font-size:.95rem}'',
        ''.scopes li:last-child{border-bottom:none}'',
        ''.dot{width:7px;height:7px;border-radius:50%;background:#1d4ed8;flex:none}'',
        ''.muted{color:#94a3b8;font-size:.8rem;margin-top:20px;text-align:center}'',
        ''.meter{display:flex;gap:6px;margin:-8px 0 8px}'',
        ''.meter span{height:6px;flex:1;border-radius:999px;background:#e2e8f0;transition:background .2s ease}'',
        ''.strength{font-size:.8rem;font-weight:600;color:#64748b;margin:0 0 14px;min-height:1.1em}'',
        ''</style>'',
        ''</head>'',
        ''<body>'',
        ''<main class="card">'',
        ''<div class="logo" aria-hidden="true">M</div>'',
        []]]\<close>

definition pageConsent :: "interaction_view tpart list" where
  \<open>pageConsent =
  [Txt [[], ''<h1>Review access</h1>'', ''<p class="sub">Allow ''],
   Put InText iv_client,
   Txt ['' to use your MuninID account.</p>'', []],
   Cond (\<lambda>v. iv_error v \<noteq> [])
    [Txt [''<div class="error" role="alert">''],
     Put InText iv_error,
     Txt [''</div>'']]
    [],
   Txt [[], ''<ul class="scopes">''],
   Cond (\<lambda>v. elems (iv_scopes v) \<noteq> [])
    [Each (\<lambda>v. elems (iv_scopes v)) (''<li><span class="dot"></span>'') InText (''</li>'')]
    [Txt [''<li>No scopes requested</li>'']],
   Txt [''</ul>'', ''<form method="post" action="/interaction/''],
   Put InUrlAttr iv_uid,
   Txt [''/confirm"><input type="hidden" name="allow" value="yes" /><button class="btn-primary" type="submit">Allow access</button></form>'',
       ''<form method="post" action="/interaction/''],
   Put InUrlAttr iv_uid,
   Txt [''/abort"><button class="btn-secondary" type="submit">Deny</button></form>'', []]]\<close>

definition pagePassword :: "interaction_view tpart list" where
  \<open>pagePassword =
  [Txt [[],
       ''<h1>Update your password</h1>'',
       ''<p class="sub">Your password must be changed before continuing.</p>'',
       []],
   Cond (\<lambda>v. iv_error v \<noteq> [])
    [Txt [''<div class="error" role="alert">''],
     Put InText iv_error,
     Txt [''</div>'']]
    [],
   Txt [[], ''<form method="post" action="/interaction/''],
   Put InUrlAttr iv_uid,
   Txt [''/password">'', ''<input type="hidden" name="uid" value="''],
   Put InAttr iv_uid,
   Txt [''" />'',
       ''<label for="new_password">New password</label>'',
       ''<input id="new_password" type="password" name="new_password" autocomplete="new-password" required placeholder="New password" autofocus />'',
       ''<div class="meter" id="pw-meter" aria-hidden="true"><span></span><span></span><span></span><span></span></div>'',
       ''<p class="strength" id="pw-strength" aria-live="polite"></p>'',
       ''<label for="confirm_password">Confirm new password</label>'',
       ''<input id="confirm_password" type="password" name="confirm_password" autocomplete="new-password" required placeholder="Confirm new password" />'',
       ''<button class="btn-primary" type="submit">Update password</button>'',
       ''</form>'',
       []]]\<close>

definition pageLogin :: "interaction_view tpart list" where
  \<open>pageLogin =
  [Txt [[], ''<h1>Sign in</h1>'', ''<p class="sub">Continue to ''],
   Put InText iv_client,
   Txt [''</p>'', []],
   Cond (\<lambda>v. iv_error v \<noteq> [])
    [Txt [''<div class="error" role="alert">''],
     Put InText iv_error,
     Txt [''</div>'']]
    [],
   Txt [[], ''<form method="post" action="/interaction/''],
   Put InUrlAttr iv_uid,
   Txt [''/login">'', ''<input type="hidden" name="uid" value="''],
   Put InAttr iv_uid,
   Txt [''" />'',
       ''<label for="username">Email</label>'',
       ''<input id="username" type="email" name="username" autocomplete="username" inputmode="email" required placeholder="you@company.com" autofocus />'',
       ''<label for="password">Password</label>'',
       ''<input id="password" type="password" name="password" autocomplete="current-password" required placeholder="Your password" />'',
       ''<button class="btn-primary" type="submit">Continue</button>'',
       ''</form>'',
       ''<p class="muted"><a href="/forgot">Forgot your password?</a></p>'',
       []]]\<close>

definition pageScript :: "interaction_view tpart list" where
  \<open>pageScript =
  [Txt [[], ''<p class="muted">Secured by MuninID</p>'', ''</main>'', ''<script>'', []],
   JsNote [''// Progressive-enhancement password strength meter. The form works without JS;'',
            ''// this only adds a live visual cue. Scoring follows the common rubric of'',
            ''// length-first (NIST SP 800-63B) plus character-class variety. The authoritative'',
            ''// breach/strength check is still performed server-side by WildDuck.''],
   Txt [[],
        ''(function () {'',
        ''  var pw = document.getElementById('new_password');'',
        ''  if (!pw) return;'',
        ''  var meter = document.getElementById('pw-meter');'',
        ''  var label = document.getElementById('pw-strength');'',
        ''  var segs = meter ? meter.children : [];'',
        ''  var levels = ['',
        ''    { text: '' @ [CHR 0x27, CHR 0x27] @ '', color: '#e2e8f0' },'',
        ''    { text: 'Weak', color: '#dc2626' },'',
        ''    { text: 'Fair', color: '#f59e0b' },'',
        ''    { text: 'Good', color: '#84cc16' },'',
        ''    { text: 'Strong', color: '#16a34a' }'',
        ''  ];'',
        ''  function score(v) {'',
        ''    if (!v) return 0;'',
        ''    var variety = 0;'',
        ''    if (/[a-z]/.test(v)) variety++;'',
        ''    if (/[A-Z]/.test(v)) variety++;'',
        ''    if (/[0-9]/.test(v)) variety++;'',
        ''    if (/[^A-Za-z0-9]/.test(v)) variety++;'',
        ''    var s = 0;'',
        ''    if (v.length >= 10) s++;'',
        ''    if (v.length >= 14) s++;'',
        ''    if (variety >= 3) s++;'',
        ''    if (variety === 4 && v.length >= 12) s++;'',
        ''    return Math.min(Math.max(s, 1), 4);'',
        ''  }'',
        ''  function update() {'',
        ''    var s = score(pw.value);'',
        ''    var lv = levels[s];'',
        ''    for (var i = 0; i < segs.length; i++) {'',
        ''      segs[i].style.background = i < s ? lv.color : '#e2e8f0';'',
        ''    }'',
        ''    if (label) {'',
        ''      label.textContent = pw.value ? lv.text : '' @ [CHR 0x27, CHR 0x27] @ '';'',
        ''      label.style.color = lv.color;'',
        ''    }'',
        ''  }'',
        ''  pw.addEventListener('input', update);'',
        ''  update();'',
        ''})();'',
        ''</script>'',
        ''</body>'',
        ''</html>'']]\<close>

definition interactionPage :: "interaction_view tpart list" where
  "interactionPage = pageHead @
     [Cond (\<lambda>v. iv_mode v = ''consent'') pageConsent
        [Cond (\<lambda>v. iv_mode v = ''password'') pagePassword pageLogin]]
     @ pageScript"

section \<open>reset.go\<close>

definition resetHead :: "reset_view tpart list" where
  \<open>resetHead =
  [Txt [''<!doctype html>'',
        ''<html lang="en">'',
        ''<head>'',
        ''<meta charset="utf-8" />'',
        ''<meta name="viewport" content="width=device-width, initial-scale=1, viewport-fit=cover" />'',
        ''<meta name="color-scheme" content="light" />'',
        ''<meta name="theme-color" content="#f1f5f9" />'',
        ''<title>Reset password '' @ [CHR 0xC2, CHR 0xB7] @ '' MuninID</title>'',
        ''<style>'',
        ''*{box-sizing:border-box}'',
        '':root{color-scheme:light}'',
        ''body{margin:0;min-height:100vh;display:flex;align-items:center;justify-content:center;'',
        ''  padding:24px;background:#f1f5f9;color:#0f172a;-webkit-text-size-adjust:100%;'',
        ''  font-family:system-ui,-apple-system,"Segoe UI",Roboto,Helvetica,Arial,sans-serif;line-height:1.45}'',
        ''.card{width:100%;max-width:400px;background:#fff;border:1px solid #e2e8f0;border-radius:16px;'',
        ''  padding:28px 24px;box-shadow:0 10px 30px rgba(15,23,42,.06)}'',
        ''.logo{width:48px;height:48px;border-radius:12px;background:#1d4ed8;color:#fff;display:flex;'',
        ''  align-items:center;justify-content:center;font-weight:800;font-size:22px;margin-bottom:18px}'',
        ''h1{margin:0 0 4px;font-size:1.4rem;font-weight:700}'',
        ''.sub{margin:0 0 22px;color:#64748b;font-size:.95rem}'',
        ''label{display:block;font-size:.85rem;font-weight:600;color:#334155;margin-bottom:6px}'',
        ''input{width:100%;padding:12px 14px;font-size:16px;border:1px solid #cbd5e1;border-radius:10px;'',
        ''  background:#fff;color:#0f172a;margin-bottom:16px}'',
        ''input:focus{outline:none;border-color:#1d4ed8;box-shadow:0 0 0 3px rgba(29,78,216,.15)}'',
        ''button{width:100%;padding:13px 16px;font-size:1rem;font-weight:700;border:none;border-radius:10px;cursor:pointer}'',
        ''.btn-primary{background:#1d4ed8;color:#fff}'',
        ''.btn-primary:active{background:#1e40af}'',
        ''.error{background:#fef2f2;border:1px solid #fecaca;color:#b91c1c;padding:10px 12px;border-radius:10px;'',
        ''  font-size:.9rem;margin-bottom:18px}'',
        ''.notice{background:#f0f9ff;border:1px solid #bae6fd;color:#075985;padding:12px 14px;border-radius:10px;'',
        ''  font-size:.92rem;margin-bottom:18px}'',
        ''.muted{color:#94a3b8;font-size:.8rem;margin-top:20px;text-align:center}'',
        ''.muted a{color:#64748b}'',
        ''.meter{display:flex;gap:6px;margin:-8px 0 8px}'',
        ''.meter span{height:6px;flex:1;border-radius:999px;background:#e2e8f0;transition:background .2s ease}'',
        ''.strength{font-size:.8rem;font-weight:600;color:#64748b;margin:0 0 14px;min-height:1.1em}'',
        ''</style>'',
        ''</head>'',
        ''<body>'',
        ''<main class="card">'',
        ''<div class="logo" aria-hidden="true">M</div>'',
        []]]\<close>

definition resetForgot :: "reset_view tpart list" where
  \<open>resetForgot =
  [Txt [[],
       ''<h1>Reset your password</h1>'',
       ''<p class="sub">Enter your account address and a recovery email you've registered. We'll email a reset link.</p>'',
       []],
   Cond (\<lambda>v. rv_error v \<noteq> [])
    [Txt [''<div class="error" role="alert">''],
     Put InText rv_error,
     Txt [''</div>'']]
    [],
   Txt [[],
       ''<form method="post" action="/forgot">'',
       ''<label for="username">Account address</label>'',
       ''<input id="username" type="email" name="username" autocomplete="username" inputmode="email" required placeholder="you@mailtrix.eu" autofocus />'',
       ''<label for="recovery_email">Recovery email</label>'',
       ''<input id="recovery_email" type="email" name="recovery_email" inputmode="email" required placeholder="you@personal.com" />'',
       ''<button class="btn-primary" type="submit">Send reset link</button>'',
       ''</form>'',
       []]]\<close>

definition resetChooseStart :: "reset_view tpart list" where
  \<open>resetChooseStart =
  [Txt [[],
       ''<h1>Choose a new password</h1>'',
       ''<p class="sub">Pick a strong password you don't use anywhere else.</p>'',
       []],
   Cond (\<lambda>v. rv_error v \<noteq> [])
    [Txt [''<div class="error" role="alert">''],
     Put InText rv_error,
     Txt [''</div>'']]
    [],
   Txt [[],
       ''<form method="post" action="/reset">'',
       ''<input type="hidden" name="token" value="'']]\<close>

definition resetChooseEnd :: "reset_view tpart list" where
  \<open>resetChooseEnd =
  [Txt [''" />'',
       ''<label for="new_password">New password</label>'',
       ''<input id="new_password" type="password" name="new_password" autocomplete="new-password" required placeholder="New password" autofocus />'',
       ''<div class="meter" id="pw-meter" aria-hidden="true"><span></span><span></span><span></span><span></span></div>'',
       ''<p class="strength" id="pw-strength" aria-live="polite"></p>'',
       ''<label for="confirm_password">Confirm new password</label>'',
       ''<input id="confirm_password" type="password" name="confirm_password" autocomplete="new-password" required placeholder="Confirm new password" />'',
       ''<button class="btn-primary" type="submit">Update password</button>'',
       ''</form>'',
       []]]\<close>

definition resetMessage :: "reset_view tpart list" where
  \<open>resetMessage =
  [Cond (\<lambda>v. rv_mode v = ''done'')
    [Txt [[], ''<h1>Password updated</h1>'', ''<div class="notice" role="status">''],
     Put InText rv_notice,
     Txt [''</div>'', []]]
    [Txt [[], ''<h1>Check your email</h1>'', []],
     Cond (\<lambda>v. rv_error v \<noteq> [])
      [Txt [''<div class="error" role="alert">''],
       Put InText rv_error,
       Txt [''</div><p class="muted"><a href="/forgot">Request a new reset link</a></p>'']]
      [Txt [''<div class="notice" role="status">''],
       Put InText rv_notice,
       Txt [''</div>'']],
     Txt [[], []]]]\<close>

definition resetScript :: "reset_view tpart list" where
  \<open>resetScript =
  [Txt [[], ''<p class="muted">Secured by MuninID</p>'', ''</main>'', ''<script>'', []],
   JsNote [''// Progressive-enhancement strength meter (mirrors the login page). The'',
            ''// authoritative check is server-side.''],
   Txt [[],
        ''(function () {'',
        ''  var pw = document.getElementById('new_password');'',
        ''  if (!pw) return;'',
        ''  var meter = document.getElementById('pw-meter');'',
        ''  var label = document.getElementById('pw-strength');'',
        ''  var segs = meter ? meter.children : [];'',
        ''  var levels = ['',
        ''    { text: '' @ [CHR 0x27, CHR 0x27] @ '', color: '#e2e8f0' },'',
        ''    { text: 'Weak', color: '#dc2626' },'',
        ''    { text: 'Fair', color: '#f59e0b' },'',
        ''    { text: 'Good', color: '#84cc16' },'',
        ''    { text: 'Strong', color: '#16a34a' }'',
        ''  ];'',
        ''  function score(v) {'',
        ''    if (!v) return 0;'',
        ''    var variety = 0;'',
        ''    if (/[a-z]/.test(v)) variety++;'',
        ''    if (/[A-Z]/.test(v)) variety++;'',
        ''    if (/[0-9]/.test(v)) variety++;'',
        ''    if (/[^A-Za-z0-9]/.test(v)) variety++;'',
        ''    var s = 0;'',
        ''    if (v.length >= 10) s++;'',
        ''    if (v.length >= 14) s++;'',
        ''    if (variety >= 3) s++;'',
        ''    if (variety === 4 && v.length >= 12) s++;'',
        ''    return Math.min(Math.max(s, 1), 4);'',
        ''  }'',
        ''  function update() {'',
        ''    var s = score(pw.value);'',
        ''    var lv = levels[s];'',
        ''    for (var i = 0; i < segs.length; i++) {'',
        ''      segs[i].style.background = i < s ? lv.color : '#e2e8f0';'',
        ''    }'',
        ''    if (label) {'',
        ''      label.textContent = pw.value ? lv.text : '' @ [CHR 0x27, CHR 0x27] @ '';'',
        ''      label.style.color = lv.color;'',
        ''    }'',
        ''  }'',
        ''  pw.addEventListener('input', update);'',
        ''  update();'',
        ''})();'',
        ''</script>'',
        ''</body>'',
        ''</html>'']]\<close>

definition resetPage :: "reset_view tpart list" where
  "resetPage = resetHead @
     [Cond (\<lambda>v. rv_mode v = ''forgot'') resetForgot
        [Cond (\<lambda>v. rv_mode v = ''reset'') (resetChooseStart @ Put InAttr rv_token # resetChooseEnd) resetMessage]]
     @ resetScript"

text \<open>The HTML of a page; the other answers have none.\<close>

definition page_html :: "web_page \<Rightarrow> string option" where
  "page_html pg = (case pg of
       Page _ v \<Rightarrow> Some (Execute v interactionPage)
     | Reset _ v _ \<Rightarrow> Some (Execute v resetPage)
     | _ \<Rightarrow> None)"

section \<open>The analysis of the templates\<close>

lemma interactionPage_context: "context_of HText interactionPage = Some HText"
  by code_simp

lemma resetPage_context: "context_of HText resetPage = Some HText"
  by code_simp

lemma same_way_append [simp]: "same_way v v' (ps @ qs) \<longleftrightarrow> same_way v v' ps \<and> same_way v v' qs"
  by (induction v v' ps rule: same_way.induct) auto

lemma Execute_append [simp]: "Execute v (ps @ qs) = Execute v ps @ Execute v qs"
  by (induction v ps rule: Execute.induct) simp_all

lemma elems_empty: "length (elems a) = length (elems b) \<Longrightarrow> (elems a = []) = (elems b = [])"
  by (metis length_0_conv)

text \<open>The ways through the templates: the mode, whether there is a message, how many scopes there are.\<close>

lemma interactionPage_way:
  assumes "iv_mode v = iv_mode v'" "(iv_error v = []) = (iv_error v' = [])"
    and "length (elems (iv_scopes v)) = length (elems (iv_scopes v'))"
  shows "same_way v v' interactionPage"
  using assms elems_empty [OF assms(3)]
  by (simp add: interactionPage_def pageHead_def pageConsent_def pagePassword_def pageLogin_def pageScript_def)

lemma resetPage_way:
  assumes "rv_mode v = rv_mode v'" "(rv_error v = []) = (rv_error v' = [])"
  shows "same_way v v' resetPage"
  using assms
  by (simp add: resetPage_def resetHead_def resetForgot_def resetChooseStart_def resetChooseEnd_def
      resetMessage_def resetScript_def)

text \<open>
  C33. What is shown cannot become markup: the tags and scripts of the sign-in, consent and password pages
  depend only on the mode, on whether there is a message and on the number of scopes, those of the reset
  pages only on the mode and the presence of a message, and those of the administration GUI on nothing;
  names, messages, scopes, ids and tokens may be any bytes.
\<close>

theorem pages_keep_markup:
  assumes "iv_mode v = iv_mode v'" and "(iv_error v = []) = (iv_error v' = [])"
    and "length (elems (iv_scopes v)) = length (elems (iv_scopes v'))"
    and "rv_mode u = rv_mode u'" and "(rv_error u = []) = (rv_error u' = [])"
  shows "markup (Execute v interactionPage) = markup (Execute v' interactionPage)
    \<and> markup (Execute u resetPage) = markup (Execute u' resetPage)
    \<and> markup (AdminGUI name) = markup (AdminGUI name')"
  using context_markup [OF interactionPage_context interactionPage_way [OF assms(1-3)]]
    context_markup [OF resetPage_context resetPage_way [OF assms(4,5)]] AdminGUI_markup
  by simp

section \<open>The reset form posts its token\<close>

definition posts :: "string \<Rightarrow> web_page \<Rightarrow> bool" where
  "posts token pg \<longleftrightarrow> (\<exists>h. page_html pg = Some h \<and> token \<in> set (attr_values HText [] h))"

lemma htmlEscaper_quote: "CHR 0x22 \<notin> set (htmlEscaper s)"
  using htmlEscaper_safe [of "CHR 0x22" s] by auto

lemma reset_token_place:
  "read_from HText (Execute v (resetHead @ resetChooseStart)) = HValue (CHR 0x22)"
  by (rule context_read) code_simp

lemma quote_opened:
  assumes "read_from st (s @ [c]) = HValue c"
  shows "\<exists>n r. read_from st s = HTag n r"
  using assms by (cases "read_from st s") (auto split: if_splits)

lemma reset_token_quotes:
  "\<exists>pre. Execute v (resetHead @ resetChooseStart) = pre @ [CHR 0x22]"
  "\<exists>post. Execute v resetChooseEnd = CHR 0x22 # post"
proof -
  have "Execute v (resetHead @ resetChooseStart) \<noteq> []"
    "last (Execute v (resetHead @ resetChooseStart)) = CHR 0x22"
    by (simp_all add: resetChooseStart_def)
  then show "\<exists>pre. Execute v (resetHead @ resetChooseStart) = pre @ [CHR 0x22]"
    by (metis append_butlast_last_id)
  show "\<exists>post. Execute v resetChooseEnd = CHR 0x22 # post" by (simp add: resetChooseEnd_def)
qed

lemma reset_token_posted:
  assumes "rv_mode v = ''reset''" "CHR 0x00 \<notin> set (rv_token v)"
  shows "rv_token v \<in> set (attr_values HText [] (Execute v resetPage))"
proof -
  obtain pre post where p: "Execute v (resetHead @ resetChooseStart) = pre @ [CHR 0x22]"
      "Execute v resetChooseEnd = CHR 0x22 # post"
    using reset_token_quotes by meson
  obtain n r where tag: "read_from HText pre = HTag n r"
    using quote_opened [of HText pre] reset_token_place [of v] p(1) by (metis (no_types, lifting))
  have "Execute v resetPage = pre @ CHR 0x22 # htmlEscaper (rv_token v) @ CHR 0x22 # post @ Execute v resetScript"
    using p assms(1) by (simp add: resetPage_def escape_at_def)
  with attr_value_in [OF tag htmlEscaper_quote] unescaped_escaped [OF assms(2)] show ?thesis by metis
qed


section \<open>Concrete pages\<close>

theorem pages_keep_markup_witness:
  "markup (Execute \<lparr>iv_uid = [CHR 0x22, CHR ''>''], iv_mode = ''login'', iv_client_id = [], iv_client = ''<b>'',
       iv_scopes = Some [''<''], iv_audiences = None, iv_error = ''<script>''\<rparr> interactionPage)
     = markup (Execute \<lparr>iv_uid = ''u'', iv_mode = ''login'', iv_client_id = [], iv_client = ''App'',
       iv_scopes = Some [''openid''], iv_audiences = None, iv_error = ''no''\<rparr> interactionPage)"
  by (rule pages_keep_markup [where u = "reset_page ''done''" and u' = "reset_page ''done''", THEN conjunct1]) simp_all


end
