(* ===== verification/Admin_Api.thy ===== *)
theory Admin_Api
  imports Store_Exchange Solutrix
begin

text \<open>
  internal/handlers/admin.go: the admin API.  The Go interface \<open>clientStore\<close> is the record
  \<open>client_store\<close> of its methods over a database state of their own; \<open>pg_store\<close> is the one the
  application installs.  A handler is a function from the request and the state to the response and
  the state; \<open>None\<close> as a customer is the nil pointer of the global routes.
\<close>

section \<open>Interfaces\<close>

record 'd client_store =
  st_ListClients :: "string option \<Rightarrow> 'd \<Rightarrow> client list res"
  st_GetClientByID :: "string \<Rightarrow> 'd \<Rightarrow> client res"
  st_CreateClient :: "int \<Rightarrow> client \<Rightarrow> 'd \<times> nat \<Rightarrow> client res \<times> 'd \<times> nat"
  st_UpdateClient :: "int \<Rightarrow> client \<Rightarrow> 'd \<Rightarrow> unit res \<times> 'd"
  st_DeleteClient :: "string \<Rightarrow> 'd \<Rightarrow> unit res \<times> 'd"
  st_ListServiceProviders :: "'d \<Rightarrow> saml_sp list res"
  st_GetServiceProvider :: "string \<Rightarrow> 'd \<Rightarrow> saml_sp res"
  st_CreateServiceProvider :: "int \<Rightarrow> saml_sp \<Rightarrow> 'd \<times> nat \<Rightarrow> saml_sp res \<times> 'd \<times> nat"
  st_UpdateServiceProvider :: "int \<Rightarrow> saml_sp \<Rightarrow> 'd \<Rightarrow> unit res \<times> 'd"
  st_DeleteServiceProvider :: "string \<Rightarrow> 'd \<Rightarrow> unit res \<times> 'd"
  st_ListPolicies :: "'d \<Rightarrow> identity_policy list res"
  st_GetPolicy :: "string \<Rightarrow> 'd \<Rightarrow> identity_policy res"
  st_CreatePolicy :: "int \<Rightarrow> identity_policy \<Rightarrow> 'd \<times> nat \<Rightarrow> identity_policy res \<times> 'd \<times> nat"
  st_UpdatePolicy :: "int \<Rightarrow> identity_policy \<Rightarrow> 'd \<Rightarrow> unit res \<times> 'd"
  st_DeletePolicy :: "string \<Rightarrow> 'd \<Rightarrow> unit res \<times> 'd"

definition pg_store :: "pg \<Rightarrow> uuids \<Rightarrow> db client_store" where
  "pg_store PG U = \<lparr>
     st_ListClients = ListClients PG, st_GetClientByID = GetClientByID PG,
     st_CreateClient = CreateClient PG U, st_UpdateClient = UpdateClient PG,
     st_DeleteClient = DeleteClient PG,
     st_ListServiceProviders = ListServiceProviders PG,
     st_GetServiceProvider = GetServiceProvider PG,
     st_CreateServiceProvider = CreateServiceProvider PG U,
     st_UpdateServiceProvider = UpdateServiceProvider PG,
     st_DeleteServiceProvider = DeleteServiceProvider PG,
     st_ListPolicies = ListPolicies PG, st_GetPolicy = GetPolicy PG,
     st_CreatePolicy = CreatePolicy PG U, st_UpdatePolicy = UpdatePolicy PG,
     st_DeletePolicy = DeletePolicy PG\<rparr>"

text \<open>The struct \<open>Admin\<close>, with the random source and the uuids its handlers draw from.\<close>

record ('d, 'a) admin =
  ad_idp :: "string \<Rightarrow> nat \<Rightarrow> string res \<times> nat"
  ad_store :: "'d client_store"
  ad_authz :: "'a authorizer"
  ad_rand :: randsrc
  ad_uuid :: uuids

record ('d, 'a) astate =
  as_db :: 'd
  as_authz :: 'a
  as_rng :: nat

text \<open>A request: its time, the \<open>id\<close> of the URL, the JSON body, and the context values.\<close>

record web_request =
  wr_now :: int
  wr_id :: string
  wr_body :: "any option"
  wr_claims :: "gomap option"
  wr_subject :: "subject option"

record web_reply =
  wp_status :: nat
  wp_body :: "any option"

definition writeJSON :: "nat \<Rightarrow> any \<Rightarrow> web_reply" where
  "writeJSON status payload = \<lparr>wp_status = status, wp_body = Some payload\<rparr>"

definition fail_with :: "nat \<Rightarrow> string \<Rightarrow> web_reply" where
  "fail_with status code = writeJSON status (AMap [''error'' \<mapsto> AStr code])"

definition no_content :: web_reply where
  "no_content = \<lparr>wp_status = 204, wp_body = None\<rparr>"

section \<open>Request bodies\<close>

record client_request =
  cq_name :: string
  cq_redirect_uris :: slice
  cq_redirectUris :: slice
  cq_grant_types :: slice
  cq_grantTypes :: slice
  cq_scopes :: slice
  cq_logout_uris :: slice
  cq_logoutUris :: slice
  cq_rotate :: bool
  cq_customer_id :: "string option"
  cq_customerId :: "string option"

fun dec_ptr :: "any \<Rightarrow> string option option" where
  "dec_ptr ANil = Some None"
| "dec_ptr (AStr s) = Some (Some s)"
| "dec_ptr _ = None"

fun dec_object :: "any \<Rightarrow> gomap option option" where
  "dec_object ANil = Some None"
| "dec_object (AMap m) = Some (Some m)"
| "dec_object _ = None"

definition dec_client_request :: "any \<Rightarrow> client_request option" where
  "dec_client_request v =
     (case dec_struct v of None \<Rightarrow> None | Some m \<Rightarrow>
       (case (dec_str (mget m ''name''), dec_strs (mget m ''redirect_uris''),
              dec_strs (mget m ''redirectUris''), dec_strs (mget m ''grant_types''),
              dec_strs (mget m ''grantTypes''), dec_strs (mget m ''scopes''),
              dec_strs (mget m ''post_logout_redirect_uris''),
              dec_strs (mget m ''postLogoutRedirectUris''), dec_bool (mget m ''rotate_secret''),
              dec_ptr (mget m ''customer_id''), dec_ptr (mget m ''customerId'')) of
          (Some n, Some r1, Some r2, Some g1, Some g2, Some s, Some l1, Some l2, Some rot, Some c1, Some c2)
            \<Rightarrow> Some \<lparr>cq_name = n, cq_redirect_uris = r1, cq_redirectUris = r2, cq_grant_types = g1,
                 cq_grantTypes = g2, cq_scopes = s, cq_logout_uris = l1, cq_logoutUris = l2,
                 cq_rotate = rot, cq_customer_id = c1, cq_customerId = c2\<rparr>
        | _ \<Rightarrow> None))"

record sp_request =
  sq_entity_id :: "string option"
  sq_entityId :: "string option"
  sq_metadata_xml :: "string option"
  sq_metadataXml :: "string option"
  sq_acs :: slice
  sq_acs_endpoints :: slice
  sq_acsEndpoints :: slice
  sq_binding :: string
  sq_attr_mapping :: "gomap option"
  sq_attribute_mapping :: "gomap option"
  sq_attributeMapping :: "gomap option"

definition dec_sp_request :: "any \<Rightarrow> sp_request option" where
  "dec_sp_request v =
     (case dec_struct v of None \<Rightarrow> None | Some m \<Rightarrow>
       (case (dec_ptr (mget m ''entity_id''), dec_ptr (mget m ''entityId''),
              dec_ptr (mget m ''metadata_xml''), dec_ptr (mget m ''metadataXml''),
              dec_strs (mget m ''acs''), dec_strs (mget m ''acs_endpoints''),
              dec_strs (mget m ''acsEndpoints''), dec_str (mget m ''binding''),
              dec_object (mget m ''attr_mapping''), dec_object (mget m ''attribute_mapping''),
              dec_object (mget m ''attributeMapping'')) of
          (Some e1, Some e2, Some x1, Some x2, Some a1, Some a2, Some a3, Some b, Some m1, Some m2, Some m3)
            \<Rightarrow> Some \<lparr>sq_entity_id = e1, sq_entityId = e2, sq_metadata_xml = x1, sq_metadataXml = x2,
                 sq_acs = a1, sq_acs_endpoints = a2, sq_acsEndpoints = a3, sq_binding = b,
                 sq_attr_mapping = m1, sq_attribute_mapping = m2, sq_attributeMapping = m3\<rparr>
        | _ \<Rightarrow> None))"

record policy_request =
  pq_name :: string
  pq_target_type :: "string option"
  pq_targetType :: "string option"
  pq_target_id :: "string option"
  pq_targetId :: "string option"
  pq_policy :: "gomap option"

definition dec_policy_request :: "any \<Rightarrow> policy_request option" where
  "dec_policy_request v =
     (case dec_struct v of None \<Rightarrow> None | Some m \<Rightarrow>
       (case (dec_str (mget m ''name''), dec_ptr (mget m ''target_type''),
              dec_ptr (mget m ''targetType''), dec_ptr (mget m ''target_id''),
              dec_ptr (mget m ''targetId''), dec_object (mget m ''policy'')) of
          (Some n, Some t1, Some t2, Some i1, Some i2, Some p)
            \<Rightarrow> Some \<lparr>pq_name = n, pq_target_type = t1, pq_targetType = t2, pq_target_id = i1,
                 pq_targetId = i2, pq_policy = p\<rparr>
        | _ \<Rightarrow> None))"

section \<open>Helpers\<close>

definition customerFromClaims :: "web_request \<Rightarrow> string option" where
  "customerFromClaims r =
     (let cid = str (mget (case wr_claims r of None \<Rightarrow> Map.empty | Some m \<Rightarrow> m) ''customer_id'')
      in if cid \<noteq> [] then Some cid else None)"

definition customerValue :: "(web_request \<Rightarrow> string option) option \<Rightarrow> web_request \<Rightarrow> string option" where
  "customerValue fn r = (case fn of None \<Rightarrow> None | Some f \<Rightarrow> f r)"

definition owned :: "client \<Rightarrow> string option \<Rightarrow> bool" where
  "owned c customerID \<longleftrightarrow> customerID = None \<or> (c_customer c \<noteq> None \<and> c_customer c = customerID)"

definition normalize :: "slice \<Rightarrow> slice \<Rightarrow> slice" where
  "normalize a b =
     (let a' = (if elems a = [] then b else a)
      in if elems a' = [] then None
         else Some (filter (\<lambda>item. item \<noteq> []) (map trim_space (elems a'))))"

fun firstString :: "string option list \<Rightarrow> string" where
  "firstString [] = []"
| "firstString (Some v # vs) = v"
| "firstString (None # vs) = firstString vs"

fun optionalString :: "string option list \<Rightarrow> string option" where
  "optionalString [] = None"
| "optionalString (None # vs) = optionalString vs"
| "optionalString (Some v # vs) = (let t = trim_space v in if t = [] then None else Some t)"

fun firstMap :: "gomap option list \<Rightarrow> gomap option" where
  "firstMap [] = None"
| "firstMap (Some v # vs) = Some v"
| "firstMap (None # vs) = firstMap vs"

definition onlyClientCredentials :: "slice \<Rightarrow> bool" where
  "onlyClientCredentials grants \<longleftrightarrow> elems grants = [''client_credentials'']"

definition ptr :: "string option \<Rightarrow> any" where
  "ptr s = (case s of None \<Rightarrow> ANil | Some v \<Rightarrow> AStr v)"

definition clientResponse :: "client \<Rightarrow> gomap" where
  "clientResponse c = [''id'' \<mapsto> AStr (c_id c), ''client_id'' \<mapsto> AStr (c_client_id c),
     ''name'' \<mapsto> AStr (c_name c), ''redirect_uris'' \<mapsto> AStrs (c_redirects c),
     ''grant_types'' \<mapsto> AStrs (c_grants c), ''scopes'' \<mapsto> AStrs (c_scopes c),
     ''post_logout_redirect_uris'' \<mapsto> AStrs (c_logouts c), ''customer_id'' \<mapsto> ptr (c_customer c),
     ''created_by_subject'' \<mapsto> ptr (c_by_subject c), ''created_by_email'' \<mapsto> ptr (c_by_email c),
     ''created_at'' \<mapsto> ATime (c_created c), ''updated_at'' \<mapsto> ATime (c_updated c)]"

text \<open>The JSON of the structs, with the members \<open>omitempty\<close> leaves out.\<close>

definition opt_member :: "string \<Rightarrow> string option \<Rightarrow> gomap" where
  "opt_member k v = (case v of None \<Rightarrow> Map.empty | Some s \<Rightarrow> [k \<mapsto> AStr s])"

definition client_json :: "client \<Rightarrow> any" where
  "client_json c = AMap ([''id'' \<mapsto> AStr (c_id c), ''client_id'' \<mapsto> AStr (c_client_id c),
     ''name'' \<mapsto> AStr (c_name c), ''redirect_uris'' \<mapsto> AStrs (c_redirects c),
     ''grant_types'' \<mapsto> AStrs (c_grants c), ''scopes'' \<mapsto> AStrs (c_scopes c),
     ''created_at'' \<mapsto> ATime (c_created c), ''updated_at'' \<mapsto> ATime (c_updated c)]
     ++ (if elems (c_logouts c) = [] then Map.empty
         else [''post_logout_redirect_uris'' \<mapsto> AStrs (c_logouts c)])
     ++ opt_member ''customer_id'' (c_customer c)
     ++ opt_member ''created_by_subject'' (c_by_subject c)
     ++ opt_member ''created_by_email'' (c_by_email c))"

definition object_json :: "gomap option \<Rightarrow> any" where
  "object_json m = (case m of None \<Rightarrow> ANil | Some g \<Rightarrow> AMap g)"

definition sp_json :: "saml_sp \<Rightarrow> any" where
  "sp_json p = AMap ([''id'' \<mapsto> AStr (sp_id p), ''entityId'' \<mapsto> AStr (sp_entity p),
     ''acsEndpoints'' \<mapsto> AStrs (sp_acs p), ''binding'' \<mapsto> AStr (sp_binding p),
     ''attributeMapping'' \<mapsto> object_json (sp_mapping p),
     ''createdAt'' \<mapsto> ATime (sp_created p), ''updatedAt'' \<mapsto> ATime (sp_updated p)]
     ++ opt_member ''metadataXml'' (sp_metadata p))"

definition policy_json :: "identity_policy \<Rightarrow> any" where
  "policy_json p = AMap ([''id'' \<mapsto> AStr (ip_id p), ''name'' \<mapsto> AStr (ip_name p),
     ''targetType'' \<mapsto> AStr (ip_target_type p), ''policy'' \<mapsto> object_json (ip_policy p),
     ''createdAt'' \<mapsto> ATime (ip_created p), ''updatedAt'' \<mapsto> ATime (ip_updated p)]
     ++ opt_member ''targetId'' (ip_target_id p))"

text \<open>A list read from the store is a nil slice when it has no rows.\<close>

definition rows_json :: "('b \<Rightarrow> any) \<Rightarrow> 'b list \<Rightarrow> any" where
  "rows_json f xs = (if xs = [] then ANil else AArr (map f xs))"

definition randomHex :: "randsrc \<Rightarrow> nat \<Rightarrow> nat \<Rightarrow> string \<times> nat" where
  "randomHex R k n = (hex (R n k), Suc n)"

end
