(* ===== verification/Admin_Handlers.thy ===== *)
theory Admin_Handlers
  imports Admin_Api
begin

text \<open>
  The handlers of internal/handlers/admin.go.  The client handlers take the function that gives the
  request's customer, \<open>None\<close> for the global routes, as their Go counterparts do; the lemmas and the
  properties about them are in \<open>Tenant\<close>.
\<close>

section \<open>Clients\<close>

definition new_client :: "string \<Rightarrow> string \<Rightarrow> string \<Rightarrow> client_request \<Rightarrow> string option \<Rightarrow> client" where
  "new_client i cid encrypted req owner = zero_client\<lparr>c_id := i, c_client_id := cid,
     c_secret := encrypted, c_name := trim_space (cq_name req),
     c_redirects := normalize (cq_redirect_uris req) (cq_redirectUris req),
     c_grants := normalize (cq_grant_types req) (cq_grantTypes req),
     c_scopes := normalize (cq_scopes req) None,
     c_logouts := normalize (cq_logout_uris req) (cq_logoutUris req), c_customer := owner\<rparr>"

definition invalid_client :: "client \<Rightarrow> bool" where
  "invalid_client c \<longleftrightarrow> c_name c = [] \<or> elems (c_grants c) = []
     \<or> (\<not> onlyClientCredentials (c_grants c) \<and> elems (c_redirects c) = [])"

definition apply_client_request :: "client_request \<Rightarrow> client \<Rightarrow> client" where
  "apply_client_request req c =
     (let c1 = (if cq_name req \<noteq> [] then c\<lparr>c_name := trim_space (cq_name req)\<rparr> else c);
          r = normalize (cq_redirect_uris req) (cq_redirectUris req);
          g = normalize (cq_grant_types req) (cq_grantTypes req);
          s = normalize (cq_scopes req) None;
          l = normalize (cq_logout_uris req) (cq_logoutUris req);
          c2 = (if r \<noteq> None then c1\<lparr>c_redirects := r\<rparr> else c1);
          c3 = (if g \<noteq> None then c2\<lparr>c_grants := g\<rparr> else c2);
          c4 = (if s \<noteq> None then c3\<lparr>c_scopes := s\<rparr> else c3)
      in if l \<noteq> None then c4\<lparr>c_logouts := l\<rparr> else c4)"

text \<open>\<open>client.ClientSecret, _ = h.idp.EncryptSecret(plain)\<close>: on an error the secret is empty.\<close>

definition encrypt_or_empty :: "('d, 'a) admin \<Rightarrow> string \<Rightarrow> nat \<Rightarrow> string \<times> nat" where
  "encrypt_or_empty h plain n =
     (case ad_idp h plain n of (Inl _, n') \<Rightarrow> ([], n') | (Inr v, n') \<Rightarrow> (v, n'))"

definition listClients ::
  "('d, 'a) admin \<Rightarrow> (web_request \<Rightarrow> string option) option \<Rightarrow> web_request \<Rightarrow> ('d, 'a) astate \<Rightarrow>
     web_reply \<times> ('d, 'a) astate" where
  "listClients h customer r s =
     (case st_ListClients (ad_store h) (customerValue customer r) (as_db s) of
        Inl _ \<Rightarrow> (fail_with 500 ''client_list_failed'', s)
      | Inr cs \<Rightarrow> (writeJSON 200 (rows_json client_json cs), s))"

text \<open>
  \<open>GetClientByID\<close> returns a zero client with any error, and only \<open>ErrNotFound\<close> is looked at:
  on another error the handlers go on with the zero client unless the customer does not own it.
\<close>

definition load_client ::
  "('d, 'a) admin \<Rightarrow> (web_request \<Rightarrow> string option) option \<Rightarrow> web_request \<Rightarrow> ('d, 'a) astate \<Rightarrow>
     client option" where
  "load_client h customer r s =
     (let (c, err) = (case st_GetClientByID (ad_store h) (wr_id r) (as_db s) of
                        Inl e \<Rightarrow> (zero_client, Some e) | Inr c \<Rightarrow> (c, None))
      in if err = Some ErrNotFound \<or> \<not> owned c (customerValue customer r) then None else Some c)"

definition getClient ::
  "('d, 'a) admin \<Rightarrow> (web_request \<Rightarrow> string option) option \<Rightarrow> web_request \<Rightarrow> ('d, 'a) astate \<Rightarrow>
     web_reply \<times> ('d, 'a) astate" where
  "getClient h customer r s =
     (case load_client h customer r s of
        None \<Rightarrow> (fail_with 404 ''client_not_found'', s)
      | Some c \<Rightarrow> (writeJSON 200 (client_json c), s))"

definition createClient ::
  "('d, 'a) admin \<Rightarrow> (web_request \<Rightarrow> string option) option \<Rightarrow> web_request \<Rightarrow> ('d, 'a) astate \<Rightarrow>
     web_reply \<times> ('d, 'a) astate" where
  "createClient h customer r s =
     (case Option.bind (wr_body r) dec_client_request of
        None \<Rightarrow> (fail_with 400 ''invalid_json'', s)
      | Some req \<Rightarrow>
          let (clientSecret, n1) = randomHex (ad_rand h) 32 (as_rng s) in
          case ad_idp h clientSecret n1 of
            (Inl _, n2) \<Rightarrow> (fail_with 500 ''secret_encrypt_failed'', s\<lparr>as_rng := n2\<rparr>)
          | (Inr encrypted, n2) \<Rightarrow>
              let c = new_client (ad_uuid h n2) (ad_uuid h (Suc n2)) encrypted req (customerValue customer r);
                  n4 = Suc (Suc n2)
              in if invalid_client c then (fail_with 400 ''invalid_client_payload'', s\<lparr>as_rng := n4\<rparr>)
                 else case st_CreateClient (ad_store h) (wr_now r) c (as_db s, n4) of
                   (Inl _, d, n) \<Rightarrow> (fail_with 500 ''client_create_failed'', s\<lparr>as_db := d, as_rng := n\<rparr>)
                 | (Inr created, d, n) \<Rightarrow>
                     (writeJSON 201 (AMap ((clientResponse created)(''client_secret'' \<mapsto> AStr clientSecret))),
                      s\<lparr>as_db := d, as_rng := n\<rparr>))"

definition updateClient ::
  "('d, 'a) admin \<Rightarrow> (web_request \<Rightarrow> string option) option \<Rightarrow> web_request \<Rightarrow> ('d, 'a) astate \<Rightarrow>
     web_reply \<times> ('d, 'a) astate" where
  "updateClient h customer r s =
     (case load_client h customer r s of
        None \<Rightarrow> (fail_with 404 ''client_not_found'', s)
      | Some c0 \<Rightarrow>
          (case Option.bind (wr_body r) dec_client_request of
             None \<Rightarrow> (fail_with 400 ''invalid_json'', s)
           | Some req \<Rightarrow>
               let c = apply_client_request req c0;
                   resp = clientResponse c;
                   (c', resp', n') = (if cq_rotate req
                      then let (plain, n1) = randomHex (ad_rand h) 32 (as_rng s);
                               (v, n2) = encrypt_or_empty h plain n1
                           in (c\<lparr>c_secret := v\<rparr>, resp(''client_secret'' \<mapsto> AStr plain), n2)
                      else (c, resp, as_rng s))
               in case st_UpdateClient (ad_store h) (wr_now r) c' (as_db s) of
                    (Inl _, d) \<Rightarrow> (fail_with 500 ''client_update_failed'', s\<lparr>as_db := d, as_rng := n'\<rparr>)
                  | (Inr _, d) \<Rightarrow> (writeJSON 200 (AMap resp'), s\<lparr>as_db := d, as_rng := n'\<rparr>)))"

definition rotateSecret ::
  "('d, 'a) admin \<Rightarrow> (web_request \<Rightarrow> string option) option \<Rightarrow> web_request \<Rightarrow> ('d, 'a) astate \<Rightarrow>
     web_reply \<times> ('d, 'a) astate" where
  "rotateSecret h customer r s =
     (case load_client h customer r s of
        None \<Rightarrow> (fail_with 404 ''client_not_found'', s)
      | Some c0 \<Rightarrow>
          let (plain, n1) = randomHex (ad_rand h) 32 (as_rng s);
              (v, n2) = encrypt_or_empty h plain n1;
              c = c0\<lparr>c_secret := v\<rparr>
          in case st_UpdateClient (ad_store h) (wr_now r) c (as_db s) of
               (Inl _, d) \<Rightarrow> (fail_with 500 ''client_update_failed'', s\<lparr>as_db := d, as_rng := n2\<rparr>)
             | (Inr _, d) \<Rightarrow> (writeJSON 200 (AMap ((clientResponse c)(''client_secret'' \<mapsto> AStr plain))),
                 s\<lparr>as_db := d, as_rng := n2\<rparr>))"

definition deleteClient ::
  "('d, 'a) admin \<Rightarrow> (web_request \<Rightarrow> string option) option \<Rightarrow> web_request \<Rightarrow> ('d, 'a) astate \<Rightarrow>
     web_reply \<times> ('d, 'a) astate" where
  "deleteClient h customer r s =
     (case load_client h customer r s of
        None \<Rightarrow> (fail_with 404 ''client_not_found'', s)
      | Some c \<Rightarrow>
          (case st_DeleteClient (ad_store h) (c_id c) (as_db s) of
             (Inl _, d) \<Rightarrow> (fail_with 500 ''client_delete_failed'', s\<lparr>as_db := d\<rparr>)
           | (Inr _, d) \<Rightarrow> (no_content, s\<lparr>as_db := d\<rparr>)))"

definition rotateKey :: "web_reply" where
  "rotateKey = writeJSON 202 (AMap [''status'' \<mapsto> AStr ''restart_with_new_key_or_extend_rotate_endpoint''])"

section \<open>Service providers\<close>

definition listServiceProviders :: "('d, 'a) admin \<Rightarrow> ('d, 'a) astate \<Rightarrow> web_reply \<times> ('d, 'a) astate" where
  "listServiceProviders h s =
     (case st_ListServiceProviders (ad_store h) (as_db s) of
        Inl _ \<Rightarrow> (fail_with 500 ''service_provider_list_failed'', s)
      | Inr ps \<Rightarrow> (writeJSON 200 (rows_json sp_json ps), s))"

definition getServiceProvider ::
  "('d, 'a) admin \<Rightarrow> web_request \<Rightarrow> ('d, 'a) astate \<Rightarrow> web_reply \<times> ('d, 'a) astate" where
  "getServiceProvider h r s =
     (case st_GetServiceProvider (ad_store h) (wr_id r) (as_db s) of
        Inl ErrNotFound \<Rightarrow> (fail_with 404 ''service_provider_not_found'', s)
      | Inl _ \<Rightarrow> (fail_with 500 ''service_provider_get_failed'', s)
      | Inr p \<Rightarrow> (writeJSON 200 (sp_json p), s))"

definition createServiceProvider ::
  "('d, 'a) admin \<Rightarrow> web_request \<Rightarrow> ('d, 'a) astate \<Rightarrow> web_reply \<times> ('d, 'a) astate" where
  "createServiceProvider h r s =
     (case Option.bind (wr_body r) dec_sp_request of
        None \<Rightarrow> (fail_with 400 ''invalid_json'', s)
      | Some req \<Rightarrow>
          let n = Suc (as_rng s);
              p = \<lparr>sp_id = ad_uuid h (as_rng s),
                   sp_entity = trim_space (firstString [sq_entity_id req, sq_entityId req]),
                   sp_metadata = optionalString [sq_metadata_xml req, sq_metadataXml req],
                   sp_acs = normalize (sq_acs req) (normalize (sq_acs_endpoints req) (sq_acsEndpoints req)),
                   sp_binding = trim_space (sq_binding req),
                   sp_mapping = firstMap [sq_attr_mapping req, sq_attribute_mapping req, sq_attributeMapping req],
                   sp_created = zero_time, sp_updated = zero_time\<rparr>
          in if sp_entity p = [] \<or> elems (sp_acs p) = [] \<or> sp_binding p = []
             then (fail_with 400 ''invalid_service_provider_payload'', s\<lparr>as_rng := n\<rparr>)
             else
               let p' = (if sp_mapping p = None then p\<lparr>sp_mapping := Some Map.empty\<rparr> else p)
               in case st_CreateServiceProvider (ad_store h) (wr_now r) p' (as_db s, n) of
                    (Inl _, d, n') \<Rightarrow>
                      (fail_with 500 ''service_provider_create_failed'', s\<lparr>as_db := d, as_rng := n'\<rparr>)
                  | (Inr created, d, n') \<Rightarrow> (writeJSON 201 (sp_json created), s\<lparr>as_db := d, as_rng := n'\<rparr>))"

definition updateServiceProvider ::
  "('d, 'a) admin \<Rightarrow> web_request \<Rightarrow> ('d, 'a) astate \<Rightarrow> web_reply \<times> ('d, 'a) astate" where
  "updateServiceProvider h r s =
     (case st_GetServiceProvider (ad_store h) (wr_id r) (as_db s) of
        Inl ErrNotFound \<Rightarrow> (fail_with 404 ''service_provider_not_found'', s)
      | Inl _ \<Rightarrow> (fail_with 500 ''service_provider_get_failed'', s)
      | Inr p0 \<Rightarrow>
          (case Option.bind (wr_body r) dec_sp_request of
             None \<Rightarrow> (fail_with 400 ''invalid_json'', s)
           | Some req \<Rightarrow>
               let v = firstString [sq_entity_id req, sq_entityId req];
                   p1 = (if v \<noteq> [] then p0\<lparr>sp_entity := trim_space v\<rparr> else p0);
                   p2 = (if sq_metadata_xml req \<noteq> None \<or> sq_metadataXml req \<noteq> None
                         then p1\<lparr>sp_metadata := optionalString [sq_metadata_xml req, sq_metadataXml req]\<rparr>
                         else p1);
                   acs = normalize (sq_acs req) (normalize (sq_acs_endpoints req) (sq_acsEndpoints req))
               in if acs \<noteq> None \<and> elems acs = [] then (fail_with 400 ''acs_endpoints_required'', s)
                  else
                    let p3 = (if acs \<noteq> None then p2\<lparr>sp_acs := acs\<rparr> else p2);
                        p4 = (if sq_binding req \<noteq> [] then p3\<lparr>sp_binding := trim_space (sq_binding req)\<rparr> else p3);
                        m = firstMap [sq_attr_mapping req, sq_attribute_mapping req, sq_attributeMapping req];
                        p = (if m \<noteq> None then p4\<lparr>sp_mapping := m\<rparr> else p4)
                    in case st_UpdateServiceProvider (ad_store h) (wr_now r) p (as_db s) of
                         (Inl _, d) \<Rightarrow> (fail_with 500 ''service_provider_update_failed'', s\<lparr>as_db := d\<rparr>)
                       | (Inr _, d) \<Rightarrow> (writeJSON 200 (sp_json p), s\<lparr>as_db := d\<rparr>)))"

definition deleteServiceProvider ::
  "('d, 'a) admin \<Rightarrow> web_request \<Rightarrow> ('d, 'a) astate \<Rightarrow> web_reply \<times> ('d, 'a) astate" where
  "deleteServiceProvider h r s =
     (case st_DeleteServiceProvider (ad_store h) (wr_id r) (as_db s) of
        (Inl ErrNotFound, d) \<Rightarrow> (fail_with 404 ''service_provider_not_found'', s\<lparr>as_db := d\<rparr>)
      | (Inl _, d) \<Rightarrow> (fail_with 500 ''service_provider_delete_failed'', s\<lparr>as_db := d\<rparr>)
      | (Inr _, d) \<Rightarrow> (no_content, s\<lparr>as_db := d\<rparr>))"

section \<open>Identity policies\<close>

definition listPolicies :: "('d, 'a) admin \<Rightarrow> ('d, 'a) astate \<Rightarrow> web_reply \<times> ('d, 'a) astate" where
  "listPolicies h s =
     (case st_ListPolicies (ad_store h) (as_db s) of
        Inl _ \<Rightarrow> (fail_with 500 ''policy_list_failed'', s)
      | Inr ps \<Rightarrow> (writeJSON 200 (rows_json policy_json ps), s))"

definition getPolicy ::
  "('d, 'a) admin \<Rightarrow> web_request \<Rightarrow> ('d, 'a) astate \<Rightarrow> web_reply \<times> ('d, 'a) astate" where
  "getPolicy h r s =
     (case st_GetPolicy (ad_store h) (wr_id r) (as_db s) of
        Inl ErrNotFound \<Rightarrow> (fail_with 404 ''policy_not_found'', s)
      | Inl _ \<Rightarrow> (fail_with 500 ''policy_get_failed'', s)
      | Inr p \<Rightarrow> (writeJSON 200 (policy_json p), s))"

definition createPolicy ::
  "('d, 'a) admin \<Rightarrow> web_request \<Rightarrow> ('d, 'a) astate \<Rightarrow> web_reply \<times> ('d, 'a) astate" where
  "createPolicy h r s =
     (case Option.bind (wr_body r) dec_policy_request of
        None \<Rightarrow> (fail_with 400 ''invalid_json'', s)
      | Some req \<Rightarrow>
          let n = Suc (as_rng s);
              p = \<lparr>ip_id = ad_uuid h (as_rng s), ip_name = trim_space (pq_name req),
                   ip_target_type = trim_space (firstString [pq_target_type req, pq_targetType req]),
                   ip_target_id = optionalString [pq_target_id req, pq_targetId req],
                   ip_policy = pq_policy req, ip_created = zero_time, ip_updated = zero_time\<rparr>
          in if ip_name p = [] \<or> ip_target_type p = []
             then (fail_with 400 ''invalid_policy_payload'', s\<lparr>as_rng := n\<rparr>)
             else
               let p' = (if ip_policy p = None then p\<lparr>ip_policy := Some Map.empty\<rparr> else p)
               in case st_CreatePolicy (ad_store h) (wr_now r) p' (as_db s, n) of
                    (Inl _, d, n') \<Rightarrow> (fail_with 500 ''policy_create_failed'', s\<lparr>as_db := d, as_rng := n'\<rparr>)
                  | (Inr created, d, n') \<Rightarrow>
                      (writeJSON 201 (policy_json created), s\<lparr>as_db := d, as_rng := n'\<rparr>))"

definition updatePolicy ::
  "('d, 'a) admin \<Rightarrow> web_request \<Rightarrow> ('d, 'a) astate \<Rightarrow> web_reply \<times> ('d, 'a) astate" where
  "updatePolicy h r s =
     (case st_GetPolicy (ad_store h) (wr_id r) (as_db s) of
        Inl ErrNotFound \<Rightarrow> (fail_with 404 ''policy_not_found'', s)
      | Inl _ \<Rightarrow> (fail_with 500 ''policy_get_failed'', s)
      | Inr p0 \<Rightarrow>
          (case Option.bind (wr_body r) dec_policy_request of
             None \<Rightarrow> (fail_with 400 ''invalid_json'', s)
           | Some req \<Rightarrow>
               let p1 = (if pq_name req \<noteq> [] then p0\<lparr>ip_name := trim_space (pq_name req)\<rparr> else p0);
                   v = firstString [pq_target_type req, pq_targetType req];
                   p2 = (if v \<noteq> [] then p1\<lparr>ip_target_type := trim_space v\<rparr> else p1);
                   p3 = (if pq_target_id req \<noteq> None \<or> pq_targetId req \<noteq> None
                         then p2\<lparr>ip_target_id := optionalString [pq_target_id req, pq_targetId req]\<rparr> else p2);
                   p = (if pq_policy req \<noteq> None then p3\<lparr>ip_policy := pq_policy req\<rparr> else p3)
               in case st_UpdatePolicy (ad_store h) (wr_now r) p (as_db s) of
                    (Inl _, d) \<Rightarrow> (fail_with 500 ''policy_update_failed'', s\<lparr>as_db := d\<rparr>)
                  | (Inr _, d) \<Rightarrow> (writeJSON 200 (policy_json p), s\<lparr>as_db := d\<rparr>)))"

definition deletePolicy ::
  "('d, 'a) admin \<Rightarrow> web_request \<Rightarrow> ('d, 'a) astate \<Rightarrow> web_reply \<times> ('d, 'a) astate" where
  "deletePolicy h r s =
     (case st_DeletePolicy (ad_store h) (wr_id r) (as_db s) of
        (Inl ErrNotFound, d) \<Rightarrow> (fail_with 404 ''policy_not_found'', s\<lparr>as_db := d\<rparr>)
      | (Inl _, d) \<Rightarrow> (fail_with 500 ''policy_delete_failed'', s\<lparr>as_db := d\<rparr>)
      | (Inr _, d) \<Rightarrow> (no_content, s\<lparr>as_db := d\<rparr>))"

section \<open>The routes\<close>

datatype client_op = ListOp | CreateOp | GetOp | UpdateOp | RotateOp | DeleteOp

fun serve_client ::
  "('d, 'a) admin \<Rightarrow> (web_request \<Rightarrow> string option) option \<Rightarrow> client_op \<Rightarrow> web_request \<Rightarrow>
     ('d, 'a) astate \<Rightarrow> web_reply \<times> ('d, 'a) astate" where
  "serve_client h cu ListOp = listClients h cu"
| "serve_client h cu CreateOp = createClient h cu"
| "serve_client h cu GetOp = getClient h cu"
| "serve_client h cu UpdateOp = updateClient h cu"
| "serve_client h cu RotateOp = rotateSecret h cu"
| "serve_client h cu DeleteOp = deleteClient h cu"

text \<open>\<open>TenantRoutes\<close>: the client handlers for the customer of the token.\<close>

definition TenantRoutes ::
  "('d, 'a) admin \<Rightarrow> client_op \<Rightarrow> web_request \<Rightarrow> ('d, 'a) astate \<Rightarrow> web_reply \<times> ('d, 'a) astate" where
  "TenantRoutes h = serve_client h (Some customerFromClaims)"

datatype global_op =
    ClientOp client_op | RotateKeyOp
  | ListSPOp | CreateSPOp | GetSPOp | UpdateSPOp | DeleteSPOp
  | ListPolicyOp | CreatePolicyOp | GetPolicyOp | UpdatePolicyOp | DeletePolicyOp

fun GlobalRoutes ::
  "('d, 'a) admin \<Rightarrow> global_op \<Rightarrow> web_request \<Rightarrow> ('d, 'a) astate \<Rightarrow> web_reply \<times> ('d, 'a) astate" where
  "GlobalRoutes h (ClientOp cop) r s = serve_client h None cop r s"
| "GlobalRoutes h RotateKeyOp r s = (rotateKey, s)"
| "GlobalRoutes h ListSPOp r s = listServiceProviders h s"
| "GlobalRoutes h CreateSPOp r s = createServiceProvider h r s"
| "GlobalRoutes h GetSPOp r s = getServiceProvider h r s"
| "GlobalRoutes h UpdateSPOp r s = updateServiceProvider h r s"
| "GlobalRoutes h DeleteSPOp r s = deleteServiceProvider h r s"
| "GlobalRoutes h ListPolicyOp r s = listPolicies h s"
| "GlobalRoutes h CreatePolicyOp r s = createPolicy h r s"
| "GlobalRoutes h GetPolicyOp r s = getPolicy h r s"
| "GlobalRoutes h UpdatePolicyOp r s = updatePolicy h r s"
| "GlobalRoutes h DeletePolicyOp r s = deletePolicy h r s"

end
