(* ===== verification/Self_Api.thy ===== *)
theory Self_Api
  imports Admin_Handlers
begin

text \<open>
  internal/handlers/self.go: the self-service client API, in which every decision is the
  authorizer's.
\<close>

section \<open>Authorization of a loaded client\<close>

definition derefString :: "string option \<Rightarrow> string" where
  "derefString s = (case s of None \<Rightarrow> [] | Some v \<Rightarrow> v)"

definition subjectCustomer :: "subject \<Rightarrow> string option" where
  "subjectCustomer sub = (if su_customer sub = [] then None else Some (su_customer sub))"

definition client_question :: "subject \<Rightarrow> string \<Rightarrow> client \<Rightarrow> request" where
  "client_question sub action c = \<lparr>rq_subject = sub, rq_action = action,
     rq_resource = \<lparr>re_type = ResourceClient, re_id = c_id c, re_owner = derefString (c_customer c)\<rparr>\<rparr>"

definition create_question :: "subject \<Rightarrow> string option \<Rightarrow> request" where
  "create_question sub owner = \<lparr>rq_subject = sub, rq_action = ActionCreate,
     rq_resource = \<lparr>re_type = ResourceClient, re_id = [], re_owner = derefString owner\<rparr>\<rparr>"

definition authorizeClient ::
  "('d, 'a) admin \<Rightarrow> int \<Rightarrow> subject \<Rightarrow> string \<Rightarrow> client \<Rightarrow> 'a \<Rightarrow> bool res \<times> 'a" where
  "authorizeClient h now sub action c a =
     (case az_authorize (ad_authz h) now (client_question sub action c) a of
        (Inl e, a') \<Rightarrow> (Inl e, a')
      | (Inr dec, a') \<Rightarrow> (Inr (de_allow dec), a'))"

definition loadOwnedClient ::
  "('d, 'a) admin \<Rightarrow> web_request \<Rightarrow> subject \<Rightarrow> string \<Rightarrow> ('d, 'a) astate \<Rightarrow>
     (web_reply + client) \<times> ('d, 'a) astate" where
  "loadOwnedClient h r sub action s =
     (case st_GetClientByID (ad_store h) (wr_id r) (as_db s) of
        Inl ErrNotFound \<Rightarrow> (Inl (fail_with 404 ''client_not_found''), s)
      | Inl _ \<Rightarrow> (Inl (fail_with 500 ''client_get_failed''), s)
      | Inr c \<Rightarrow>
          (case authorizeClient h (wr_now r) sub action c (as_authz s) of
             (Inl _, a) \<Rightarrow> (Inl (fail_with 500 ''authorization_failed''), s\<lparr>as_authz := a\<rparr>)
           | (Inr allowed, a) \<Rightarrow>
               (if allowed then Inr c else Inl (fail_with 403 ''forbidden''), s\<lparr>as_authz := a\<rparr>)))"

section \<open>The handlers\<close>

fun list_parts :: "'d client_store \<Rightarrow> string list \<Rightarrow> 'd \<Rightarrow> client list res" where
  "list_parts St [] d = Inr []"
| "list_parts St (cid # cids) d =
     (case st_ListClients St (Some cid) d of
        Inl e \<Rightarrow> Inl e
      | Inr part \<Rightarrow> (case list_parts St cids d of Inl e \<Rightarrow> Inl e | Inr rest \<Rightarrow> Inr (part @ rest)))"

definition selfListClients ::
  "('d, 'a) admin \<Rightarrow> web_request \<Rightarrow> ('d, 'a) astate \<Rightarrow> web_reply \<times> ('d, 'a) astate" where
  "selfListClients h r s =
     (case wr_subject r of
        None \<Rightarrow> (fail_with 401 ''unauthorized'', s)
      | Some sub \<Rightarrow>
          (case az_scope (ad_authz h) (wr_now r) sub ActionRead ResourceClient (as_authz s) of
             (Inl _, a) \<Rightarrow> (fail_with 500 ''authorization_failed'', s\<lparr>as_authz := a\<rparr>)
           | (Inr sc, a) \<Rightarrow>
               let s1 = s\<lparr>as_authz := a\<rparr> in
               if sc_all sc then
                 (case st_ListClients (ad_store h) None (as_db s) of
                    Inl _ \<Rightarrow> (fail_with 500 ''client_list_failed'', s1)
                  | Inr cs \<Rightarrow> (writeJSON 200 (rows_json client_json cs), s1))
               else
                 (case list_parts (ad_store h) (elems (sc_ids sc)) (as_db s) of
                    Inl _ \<Rightarrow> (fail_with 500 ''client_list_failed'', s1)
                  | Inr cs \<Rightarrow> (writeJSON 200 (AArr (map client_json cs)), s1))))"

definition selfCreateClient ::
  "('d, 'a) admin \<Rightarrow> web_request \<Rightarrow> ('d, 'a) astate \<Rightarrow> web_reply \<times> ('d, 'a) astate" where
  "selfCreateClient h r s =
     (case wr_subject r of
        None \<Rightarrow> (fail_with 401 ''unauthorized'', s)
      | Some sub \<Rightarrow>
          (case Option.bind (wr_body r) dec_client_request of
             None \<Rightarrow> (fail_with 400 ''invalid_json'', s)
           | Some req \<Rightarrow>
               let owner0 = optionalString [cq_customer_id req, cq_customerId req];
                   owner = (if owner0 = None then subjectCustomer sub else owner0)
               in case az_authorize (ad_authz h) (wr_now r) (create_question sub owner) (as_authz s) of
                    (Inl _, a) \<Rightarrow> (fail_with 500 ''authorization_failed'', s\<lparr>as_authz := a\<rparr>)
                  | (Inr dec, a) \<Rightarrow>
                      if \<not> de_allow dec then (fail_with 403 ''forbidden'', s\<lparr>as_authz := a\<rparr>)
                      else
                        let (clientSecret, n1) = randomHex (ad_rand h) 32 (as_rng s) in
                        case ad_idp h clientSecret n1 of
                          (Inl _, n2) \<Rightarrow>
                            (fail_with 500 ''secret_encrypt_failed'', s\<lparr>as_authz := a, as_rng := n2\<rparr>)
                        | (Inr encrypted, n2) \<Rightarrow>
                            let c = new_client (ad_uuid h n2) (ad_uuid h (Suc n2)) encrypted req owner;
                                n4 = Suc (Suc n2)
                            in if invalid_client c
                               then (fail_with 400 ''invalid_client_payload'', s\<lparr>as_authz := a, as_rng := n4\<rparr>)
                               else case st_CreateClient (ad_store h) (wr_now r) c (as_db s, n4) of
                                 (Inl _, d, n) \<Rightarrow> (fail_with 500 ''client_create_failed'',
                                    s\<lparr>as_db := d, as_authz := a, as_rng := n\<rparr>)
                               | (Inr created, d, n) \<Rightarrow>
                                   (writeJSON 201 (AMap ((clientResponse created)
                                       (''client_secret'' \<mapsto> AStr clientSecret))),
                                    s\<lparr>as_db := d, as_authz := a, as_rng := n\<rparr>)))"

text \<open>\<open>with_client\<close>: the prefix of the handlers that act on a loaded client.\<close>

definition with_client ::
  "('d, 'a) admin \<Rightarrow> web_request \<Rightarrow> string \<Rightarrow>
     (client \<Rightarrow> ('d, 'a) astate \<Rightarrow> web_reply \<times> ('d, 'a) astate) \<Rightarrow>
     ('d, 'a) astate \<Rightarrow> web_reply \<times> ('d, 'a) astate" where
  "with_client h r action f s =
     (case wr_subject r of
        None \<Rightarrow> (fail_with 401 ''unauthorized'', s)
      | Some sub \<Rightarrow>
          (case loadOwnedClient h r sub action s of
             (Inl w, s1) \<Rightarrow> (w, s1)
           | (Inr c, s1) \<Rightarrow> f c s1))"

definition selfGetClient ::
  "('d, 'a) admin \<Rightarrow> web_request \<Rightarrow> ('d, 'a) astate \<Rightarrow> web_reply \<times> ('d, 'a) astate" where
  "selfGetClient h r = with_client h r ActionRead (\<lambda>c s. (writeJSON 200 (AMap (clientResponse c)), s))"

text \<open>Storing a changed client and answering with \<open>resp\<close>.\<close>

definition store_client ::
  "('d, 'a) admin \<Rightarrow> web_request \<Rightarrow> client \<Rightarrow> gomap \<Rightarrow> ('d, 'a) astate \<Rightarrow> web_reply \<times> ('d, 'a) astate" where
  "store_client h r c resp s =
     (case st_UpdateClient (ad_store h) (wr_now r) c (as_db s) of
        (Inl _, d) \<Rightarrow> (fail_with 500 ''client_update_failed'', s\<lparr>as_db := d\<rparr>)
      | (Inr _, d) \<Rightarrow> (writeJSON 200 (AMap resp), s\<lparr>as_db := d\<rparr>))"

definition selfUpdateClient ::
  "('d, 'a) admin \<Rightarrow> web_request \<Rightarrow> ('d, 'a) astate \<Rightarrow> web_reply \<times> ('d, 'a) astate" where
  "selfUpdateClient h r = with_client h r ActionUpdate (\<lambda>c0 s.
     case Option.bind (wr_body r) dec_client_request of
       None \<Rightarrow> (fail_with 400 ''invalid_json'', s)
     | Some req \<Rightarrow>
         let c = apply_client_request req c0; resp = clientResponse c in
         if cq_rotate req then
           let (plain, n1) = randomHex (ad_rand h) 32 (as_rng s);
               (v, n2) = encrypt_or_empty h plain n1
           in store_client h r (c\<lparr>c_secret := v\<rparr>) (resp(''client_secret'' \<mapsto> AStr plain)) (s\<lparr>as_rng := n2\<rparr>)
         else store_client h r c resp s)"

definition selfRotateSecret ::
  "('d, 'a) admin \<Rightarrow> web_request \<Rightarrow> ('d, 'a) astate \<Rightarrow> web_reply \<times> ('d, 'a) astate" where
  "selfRotateSecret h r = with_client h r ActionRotateSecret (\<lambda>c0 s.
     let (plain, n1) = randomHex (ad_rand h) 32 (as_rng s);
         (v, n2) = encrypt_or_empty h plain n1;
         c = c0\<lparr>c_secret := v\<rparr>
     in store_client h r c ((clientResponse c)(''client_secret'' \<mapsto> AStr plain)) (s\<lparr>as_rng := n2\<rparr>))"

definition selfDeleteClient ::
  "('d, 'a) admin \<Rightarrow> web_request \<Rightarrow> ('d, 'a) astate \<Rightarrow> web_reply \<times> ('d, 'a) astate" where
  "selfDeleteClient h r = with_client h r ActionDelete (\<lambda>c s.
     case st_DeleteClient (ad_store h) (c_id c) (as_db s) of
       (Inl _, d) \<Rightarrow> (fail_with 500 ''client_delete_failed'', s\<lparr>as_db := d\<rparr>)
     | (Inr _, d) \<Rightarrow> (no_content, s\<lparr>as_db := d\<rparr>))"

fun SelfClientRoutes ::
  "('d, 'a) admin \<Rightarrow> client_op \<Rightarrow> web_request \<Rightarrow> ('d, 'a) astate \<Rightarrow> web_reply \<times> ('d, 'a) astate" where
  "SelfClientRoutes h ListOp = selfListClients h"
| "SelfClientRoutes h CreateOp = selfCreateClient h"
| "SelfClientRoutes h GetOp = selfGetClient h"
| "SelfClientRoutes h UpdateOp = selfUpdateClient h"
| "SelfClientRoutes h RotateOp = selfRotateSecret h"
| "SelfClientRoutes h DeleteOp = selfDeleteClient h"

end
