(* ===== verification/Tenant.thy ===== *)
theory Tenant
  imports Self_Api
begin

text \<open>
  What the client handlers of internal/handlers keep apart: tenants.  The locale \<open>client_table\<close> is
  what the handlers rely on from the store (an abstract table of clients by id), interpreted on the
  PostgreSQL store; the locale \<open>client_api\<close> joins it with the authorizer's contract and proves, once
  for all backends, that a self-service request changes only clients the policy permits.
\<close>

section \<open>The store as a table of clients\<close>

text \<open>What \<open>UpdateClient\<close> leaves of the stored client: its ids, owner and creation.\<close>

definition same_identity :: "client \<Rightarrow> client \<Rightarrow> bool" where
  "same_identity c c' \<longleftrightarrow> c_id c' = c_id c \<and> c_client_id c' = c_client_id c
     \<and> c_customer c' = c_customer c \<and> c_by_subject c' = c_by_subject c
     \<and> c_by_email c' = c_by_email c \<and> c_created c' = c_created c"

locale client_table =
  fixes St :: "'d client_store" and table :: "'d \<Rightarrow> string \<Rightarrow> client option" and good :: "'d \<Rightarrow> bool"
  assumes get_ok: "good d \<Longrightarrow> st_GetClientByID St i d = Inr c \<Longrightarrow> table d (c_id c) = Some c"
    and list_ok: "good d \<Longrightarrow> st_ListClients St cu d = Inr cs \<Longrightarrow>
      set cs = {c. \<exists>i. table d i = Some c \<and> (cu = None \<or> c_customer c = cu)}"
    and create_ok: "good d \<Longrightarrow> st_CreateClient St t c (d, n) = (x, d', n') \<Longrightarrow> c_id c \<noteq> [] \<Longrightarrow>
      good d' \<and> (d' = d \<or> (\<exists>i c'. table d i = None \<and> table d' = (table d)(i \<mapsto> c') \<and> c_customer c' = c_customer c))"
    and update_ok: "good d \<Longrightarrow> st_UpdateClient St t c d = (y, d') \<Longrightarrow> table d (c_id c) = Some c0 \<Longrightarrow>
      good d' \<and> (d' = d \<or> (\<exists>c'. table d' = (table d)(c_id c \<mapsto> c') \<and> same_identity c0 c'))"
    and delete_ok: "good d \<Longrightarrow> st_DeleteClient St i d = (y, d') \<Longrightarrow> table d i \<noteq> None \<Longrightarrow>
      good d' \<and> (d' = d \<or> table d' = (table d)(i := None))"

subsection \<open>The PostgreSQL store\<close>

text \<open>Canonical uuids are not empty and their own canonical form, and no two rows share an id or a client id.\<close>

definition uuid_ok :: "pg \<Rightarrow> bool" where
  "uuid_ok PG \<longleftrightarrow> (\<forall>s u. pg_uuid PG s = Some u \<longrightarrow> u \<noteq> [] \<and> pg_uuid PG u = Some u)"

definition clients_ok :: "pg \<Rightarrow> db \<Rightarrow> bool" where
  "clients_ok PG d \<longleftrightarrow> uuid_ok PG \<and> distinct (map cr_id (t_clients d))
     \<and> (\<forall>r \<in> set (t_clients d). pg_uuid PG (cr_id r) = Some (cr_id r))"

definition db_client :: "db \<Rightarrow> string \<Rightarrow> client option" where
  "db_client d i = map_option scanClient_row (find (\<lambda>r. cr_id r = i) (t_clients d))"

lemma scanClient_row_simps [simp]:
  "c_id (scanClient_row r) = cr_id r" "c_customer (scanClient_row r) = cr_customer r"
  "c_client_id (scanClient_row r) = cr_client_id r" "c_by_subject (scanClient_row r) = cr_by_subject r"
  "c_by_email (scanClient_row r) = cr_by_email r" "c_created (scanClient_row r) = cr_created r"
  by (simp_all add: scanClient_row_def)

lemma find_filter: "find P xs = (case filter P xs of [] \<Rightarrow> None | x # _ \<Rightarrow> Some x)"
  by (induction xs) auto

lemma find_distinct:
  "distinct (map f xs) \<Longrightarrow> find (\<lambda>r. f r = i) xs = Some x \<longleftrightarrow> x \<in> set xs \<and> f x = i"
  by (induction xs) auto

lemma find_map_upd:
  "(\<And>r. f (g r) = f r) \<Longrightarrow>
   find (\<lambda>r. f r = j) (map (\<lambda>r. if f r = u then g r else r) xs) =
     (if j = u then map_option g (find (\<lambda>r. f r = j) xs) else find (\<lambda>r. f r = j) xs)"
  by (induction xs) auto

lemma find_filter_neq:
  "find (\<lambda>r. f r = j) (filter (\<lambda>r. f r \<noteq> u) xs) = (if j = u then None else find (\<lambda>r. f r = j) xs)"
  by (induction xs) auto

lemma find_append: "find P (xs @ ys) = (case find P xs of None \<Rightarrow> find P ys | Some x \<Rightarrow> Some x)"
  by (induction xs) auto

lemma db_client_None: "db_client d i = None \<longleftrightarrow> (\<forall>r \<in> set (t_clients d). cr_id r \<noteq> i)"
  by (auto simp: db_client_def find_None_iff)

lemma db_client_Some: "clients_ok PG d \<Longrightarrow>
    db_client d i = Some c \<longleftrightarrow> (\<exists>r \<in> set (t_clients d). cr_id r = i \<and> c = scanClient_row r)"
  by (auto simp: db_client_def clients_ok_def find_distinct)

lemma clients_ok_ids:
  "clients_ok PG d \<longleftrightarrow> uuid_ok PG \<and> distinct (map cr_id (t_clients d))
     \<and> (\<forall>i \<in> set (map cr_id (t_clients d)). pg_uuid PG i = Some i)"
  by (simp add: clients_ok_def)

lemma db_client_canon:
  assumes "clients_ok PG d" "db_client d i \<noteq> None"
  shows "pg_uuid PG i = Some i"
proof -
  from assms obtain r where "r \<in> set (t_clients d)" "cr_id r = i"
    by (auto simp: db_client_None)
  with assms(1) show ?thesis by (auto simp: clients_ok_def)
qed

lemma pg_get_ok:
  assumes "clients_ok PG d" "GetClientByID PG i d = Inr c"
  shows "db_client d (c_id c) = Some c"
proof -
  obtain u r rs where "filter (\<lambda>r. cr_id r = u) (t_clients d) = r # rs" "c = scanClient_row r"
    using assms(2) by (auto simp: GetClientByID_def first_client_def scanClients_def
        split: option.splits list.splits)
  moreover from this have "cr_id r = u" by (metis (mono_tags) filter_eq_ConsD)
  ultimately show ?thesis by (simp add: db_client_def find_filter)
qed

lemma pg_list_ok:
  assumes "clients_ok PG d" "ListClients PG cu d = Inr cs"
  shows "set cs = {c. \<exists>i. db_client d i = Some c \<and> (cu = None \<or> c_customer c = cu)}"
  using assms(2) by (fastforce simp: ListClients_def scanClients_def db_client_Some [OF assms(1)]
      split: option.splits)

lemma pg_create_ok:
  assumes "clients_ok PG d" "CreateClient PG U t c (d, n) = (x, d', n')" "c_id c \<noteq> []"
  shows "clients_ok PG d' \<and> (d' = d \<or> (\<exists>i c'. db_client d i = None
    \<and> db_client d' = (db_client d)(i \<mapsto> c') \<and> c_customer c' = c_customer c))"
proof (cases "d' = d")
  case False
  then obtain u r where u: "pg_uuid PG (c_id c) = Some u" "\<forall>r \<in> set (t_clients d). cr_id r \<noteq> u"
      and d': "d' = d\<lparr>t_clients := t_clients d @ [r]\<rparr>" and r: "cr_id r = u" "cr_customer r = c_customer c"
    using assms(2,3) by (auto simp: CreateClient_def Let_def split: option.splits if_splits)
  have "db_client d u = None" using u(2) by (simp add: db_client_None)
  then have "db_client d' = (db_client d)(u \<mapsto> scanClient_row r)"
    using r by (auto simp: fun_eq_iff db_client_def d' find_append split: option.splits)
  moreover have "clients_ok PG d'"
    using assms(1) u r by (auto simp: clients_ok_def d' uuid_ok_def)
  ultimately show ?thesis using \<open>db_client d u = None\<close> r by (metis scanClient_row_simps(2))
qed (use assms(1) in simp)

lemma pg_update_ok:
  assumes "clients_ok PG d" "UpdateClient PG t c d = (y, d')" "db_client d (c_id c) = Some c0"
  shows "clients_ok PG d' \<and> (d' = d \<or> (\<exists>c'. db_client d' = (db_client d)(c_id c \<mapsto> c') \<and> same_identity c0 c'))"
proof (cases "d' = d")
  case False
  have canon: "pg_uuid PG (c_id c) = Some (c_id c)"
    by (rule db_client_canon [OF assms(1)]) (use assms(3) in simp)
  define g :: "client_row \<Rightarrow> client_row" where "g = (\<lambda>r. r\<lparr>cr_name := c_name c, cr_secret := c_secret c,
      cr_redirects := marshal_strings (c_redirects c), cr_grants := marshal_strings (c_grants c),
      cr_scopes := marshal_strings (c_scopes c), cr_logouts := Some (marshal_strings (c_logouts c)),
      cr_updated := t\<rparr>)"
  have g: "\<And>r. cr_id (g r) = cr_id r" "\<And>r. same_identity (scanClient_row r) (scanClient_row (g r))"
    by (simp_all add: g_def same_identity_def)
  have d': "d' = d\<lparr>t_clients := map (\<lambda>r. if cr_id r = c_id c then g r else r) (t_clients d)\<rparr>"
    using assms(2) False canon by (auto simp: UpdateClient_def g_def split: option.splits if_splits)
  obtain r where r: "find (\<lambda>r. cr_id r = c_id c) (t_clients d) = Some r" "c0 = scanClient_row r"
    using assms(3) by (auto simp: db_client_def)
  have "db_client d' = (db_client d)(c_id c \<mapsto> scanClient_row (g r))"
    using r(1) by (auto simp: fun_eq_iff db_client_def d' find_map_upd [where f = cr_id and g = g, OF g(1)])
  moreover have "map cr_id (t_clients d') = map cr_id (t_clients d)"
    by (simp add: d' g(1))
  then have "clients_ok PG d'"
    using assms(1) by (metis clients_ok_ids)
  ultimately show ?thesis using g(2) r(2) by metis
qed (use assms(1) in simp)

lemma pg_delete_ok:
  assumes "clients_ok PG d" "DeleteClient PG i d = (y, d')" "db_client d i \<noteq> None"
  shows "clients_ok PG d' \<and> (d' = d \<or> db_client d' = (db_client d)(i := None))"
proof (cases "d' = d")
  case False
  have canon: "pg_uuid PG i = Some i"
    by (rule db_client_canon [OF assms(1)]) (use assms(3) in simp)
  then have d': "d' = d\<lparr>t_clients := filter (\<lambda>r. cr_id r \<noteq> i) (t_clients d)\<rparr>"
    using assms(2) False by (auto simp: DeleteClient_def split: option.splits if_splits)
  have "db_client d' = (db_client d)(i := None)"
    by (auto simp: fun_eq_iff db_client_def d' find_filter_neq)
  moreover have "clients_ok PG d'"
    using assms(1) by (auto simp: clients_ok_def d' distinct_map_filter)
  ultimately show ?thesis by simp
qed (use assms(1) in simp)

interpretation pg: client_table "pg_store PG U" db_client "clients_ok PG" for PG U
proof (unfold_locales, goal_cases)
  case 1 then show ?case by (simp add: pg_store_def pg_get_ok)
next
  case 2 then show ?case by (simp add: pg_store_def pg_list_ok)
next
  case (3 d t c n x d' n')
  then show ?case using pg_create_ok [of PG d U t c n x d' n'] by (simp add: pg_store_def)
next
  case (4 d t c y d' c0)
  then show ?case using pg_update_ok [of PG d t c y d' c0] by (simp add: pg_store_def)
next
  case (5 d i y d')
  then show ?case using pg_delete_ok [of PG d i y d'] by (simp add: pg_store_def)
qed

lemma apply_client_request_id [simp]: "c_id (apply_client_request req c) = c_id c"
  by (simp add: apply_client_request_def Let_def)

section \<open>The tenant admin API against the store's contract\<close>

context client_table
begin

text \<open>The handlers for a customer get hold of stored clients of that customer only.\<close>

lemma load_client_owned:
  assumes "load_client h (Some f) r s = Some c" "f r = Some cid" "ad_store h = St" "good (as_db s)"
  shows "table (as_db s) (c_id c) = Some c \<and> c_customer c = Some cid"
  using assms get_ok [of "as_db s" "wr_id r" c]
  by (auto simp: load_client_def customerValue_def owned_def zero_client_def Let_def
      split: sum.splits if_splits)

definition owner_change :: "string \<Rightarrow> 'd \<Rightarrow> 'd \<Rightarrow> bool" where
  "owner_change cid d d' \<longleftrightarrow> d' = d
     \<or> (\<exists>i c c'. table d i = Some c \<and> c_customer c = Some cid
          \<and> (table d' = (table d)(i \<mapsto> c') \<and> same_identity c c' \<or> table d' = (table d)(i := None)))
     \<or> (\<exists>i c'. table d i = None \<and> c_customer c' = Some cid \<and> table d' = (table d)(i \<mapsto> c'))"

lemma owner_change_update:
  assumes "st_UpdateClient St t c d = (y, d')" "good d" "table d (c_id c0) = Some c0"
    and "c_customer c0 = Some cid" "c_id c = c_id c0"
  shows "owner_change cid d d'"
  using update_ok [OF assms(2,1)] assms(3-5) unfolding owner_change_def by metis

lemma updateClient_change:
  assumes "updateClient h (Some f) r s = (w, s')" "f r = Some cid" "ad_store h = St" "good (as_db s)"
  shows "owner_change cid (as_db s) (as_db s')"
proof (cases "load_client h (Some f) r s")
  case None
  with assms(1) show ?thesis by (simp add: updateClient_def owner_change_def)
next
  case (Some c0)
  note c0 = load_client_owned [OF Some assms(2-4)]
  show ?thesis
  proof (cases "Option.bind (wr_body r) dec_client_request")
    case None
    with Some assms(1) show ?thesis by (simp add: updateClient_def owner_change_def)
  next
    case (Some req)
    then obtain c y d where "st_UpdateClient St (wr_now r) c (as_db s) = (y, d)" "c_id c = c_id c0" "as_db s' = d"
      using assms(1,3) \<open>load_client h (Some f) r s = Some c0\<close>
      by (auto simp: updateClient_def Let_def split: prod.splits sum.splits if_splits)
    with c0 assms(4) show ?thesis by (auto intro: owner_change_update)
  qed
qed

lemma rotateSecret_change:
  assumes "rotateSecret h (Some f) r s = (w, s')" "f r = Some cid" "ad_store h = St" "good (as_db s)"
  shows "owner_change cid (as_db s) (as_db s')"
proof (cases "load_client h (Some f) r s")
  case None
  with assms(1) show ?thesis by (simp add: rotateSecret_def owner_change_def)
next
  case (Some c0)
  then obtain c y d where "st_UpdateClient St (wr_now r) c (as_db s) = (y, d)" "c_id c = c_id c0" "as_db s' = d"
    using assms(1,3) by (auto simp: rotateSecret_def Let_def split: prod.splits sum.splits)
  with load_client_owned [OF Some assms(2-4)] assms(4) show ?thesis by (auto intro: owner_change_update)
qed

lemma deleteClient_change:
  assumes "deleteClient h (Some f) r s = (w, s')" "f r = Some cid" "ad_store h = St" "good (as_db s)"
  shows "owner_change cid (as_db s) (as_db s')"
proof (cases "load_client h (Some f) r s")
  case None
  with assms(1) show ?thesis by (simp add: deleteClient_def owner_change_def)
next
  case (Some c)
  then obtain y d where d: "st_DeleteClient St (c_id c) (as_db s) = (y, d)" "as_db s' = d"
    using assms(1,3) by (auto simp: deleteClient_def split: prod.splits sum.splits)
  have "d = as_db s \<or> table d = (table (as_db s))(c_id c := None)"
    using delete_ok [OF assms(4) d(1)] load_client_owned [OF Some assms(2-4)] by simp
  with d load_client_owned [OF Some assms(2-4)] show ?thesis unfolding owner_change_def by metis
qed

lemma createClient_change:
  assumes "createClient h (Some f) r s = (w, s')" "f r = Some cid" "ad_store h = St" "good (as_db s)"
    and "\<And>n. ad_uuid h n \<noteq> []"
  shows "owner_change cid (as_db s) (as_db s')"
proof (cases "as_db s' = as_db s")
  case False
  obtain i j enc req n4 z d n where cr:
      "st_CreateClient St (wr_now r) (new_client i j enc req (Some cid)) (as_db s, n4) = (z, d, n)"
      "as_db s' = d" "i \<noteq> []"
    using assms False
    by (auto simp: createClient_def customerValue_def Let_def split: option.splits prod.splits sum.splits if_splits)
  from create_ok [OF assms(4) cr(1)] cr False show ?thesis
    by (auto simp: owner_change_def new_client_def)
qed (simp add: owner_change_def)

lemma tenant_admin_change:
  assumes "serve_client h (Some f) cop r s = (w, s')" "f r = Some cid" "ad_store h = St" "good (as_db s)"
    and "\<And>n. ad_uuid h n \<noteq> []"
  shows "owner_change cid (as_db s) (as_db s')"
proof (cases cop)
  case CreateOp
  with assms show ?thesis by (auto intro: createClient_change)
next
  case UpdateOp
  with assms show ?thesis by (auto intro: updateClient_change)
next
  case RotateOp
  with assms show ?thesis by (auto intro: rotateSecret_change)
next
  case DeleteOp
  with assms show ?thesis by (auto intro: deleteClient_change)
qed (use assms(1) in \<open>auto simp: listClients_def getClient_def owner_change_def split: sum.splits option.splits\<close>)

end

section \<open>The self-service API against its two contracts\<close>

text \<open>The action a route asks the authorizer about.\<close>

fun action_of :: "client_op \<Rightarrow> string" where
  "action_of ListOp = ActionRead"
| "action_of CreateOp = ActionCreate"
| "action_of GetOp = ActionRead"
| "action_of UpdateOp = ActionUpdate"
| "action_of RotateOp = ActionRotateSecret"
| "action_of DeleteOp = ActionDelete"

locale client_api = client_table St table good + decision_point A inv proper permits sees
  for St :: "'d client_store" and table and good
    and A :: "'a authorizer" and inv and proper and permits and sees +
  assumes ids_proper: "good d \<Longrightarrow> table d i = Some c \<Longrightarrow> proper sub [] \<Longrightarrow>
      proper sub [action_of cop, ResourceClient, c_id c, derefString (c_customer c)]"
begin

lemma load_ok:
  assumes "loadOwnedClient h r sub (action_of cop) s = (x, s')" "ad_store h = St" "ad_authz h = A"
    and "good (as_db s)" "inv (as_authz s)" "proper sub []"
  shows "as_db s' = as_db s \<and> (\<forall>c. x = Inr c \<longrightarrow>
           table (as_db s) (c_id c) = Some c \<and> permits (client_question sub (action_of cop) c))"
proof (cases "st_GetClientByID St (wr_id r) (as_db s)")
  case (Inl e)
  with assms(1,2) show ?thesis by (auto simp: loadOwnedClient_def split: goerr.splits)
next
  case (Inr c)
  have t: "table (as_db s) (c_id c) = Some c" by (rule get_ok [OF assms(4) Inr])
  obtain y a where q: "az_authorize A (wr_now r) (client_question sub (action_of cop) c) (as_authz s) = (y, a)"
    by force
  have "proper sub [action_of cop, ResourceClient, c_id c, derefString (c_customer c)]"
    by (rule ids_proper [OF assms(4) t assms(6)])
  then have "\<forall>d. y = Inr d \<longrightarrow> de_allow d = permits (client_question sub (action_of cop) c)"
    using authorize_ok [OF assms(5) _ q] by (simp add: client_question_def)
  with assms(1,2,3) Inr t q show ?thesis
    by (cases y) (auto simp: loadOwnedClient_def authorizeClient_def split: if_splits)
qed

text \<open>What a request may do to the table: nothing, or a change of a client the policy permits.\<close>

definition permitted_change :: "subject \<Rightarrow> client_op \<Rightarrow> 'd \<Rightarrow> 'd \<Rightarrow> bool" where
  "permitted_change sub cop d d' \<longleftrightarrow> d' = d
     \<or> (\<exists>i c c'. table d i = Some c \<and> permits (client_question sub (action_of cop) c)
          \<and> (table d' = (table d)(i \<mapsto> c') \<and> same_identity c c' \<or> table d' = (table d)(i := None)))"

lemma store_change:
  assumes "store_client h r c resp s1 = (w, s')" "ad_store h = St" "good (as_db s1)"
    and "table (as_db s1) (c_id c0) = Some c0" "c_id c = c_id c0"
    and "permits (client_question sub (action_of cop) c0)"
  shows "permitted_change sub cop (as_db s1) (as_db s')"
proof -
  obtain y d where u: "st_UpdateClient St (wr_now r) c (as_db s1) = (y, d)" by force
  have "d = as_db s1 \<or> (\<exists>c'. table d = (table (as_db s1))(c_id c0 \<mapsto> c') \<and> same_identity c0 c')"
    using update_ok [OF assms(3) u] assms(4,5) by metis
  moreover have "as_db s' = d"
    using assms(1,2) u by (cases y) (auto simp: store_client_def)
  ultimately show ?thesis
    using assms(4,6) unfolding permitted_change_def by metis
qed

lemma with_client_change:
  assumes "with_client h r (action_of cop) f s = (w, s')" "wr_subject r = Some sub"
    and "ad_store h = St" "ad_authz h = A" "good (as_db s)" "inv (as_authz s)" "proper sub []"
    and step: "\<And>c s1. table (as_db s) (c_id c) = Some c \<Longrightarrow> permits (client_question sub (action_of cop) c) \<Longrightarrow>
        as_db s1 = as_db s \<Longrightarrow> permitted_change sub cop (as_db s) (as_db (snd (f c s1)))"
  shows "permitted_change sub cop (as_db s) (as_db s')"
proof -
  obtain x s1 where l: "loadOwnedClient h r sub (action_of cop) s = (x, s1)" by force
  note ok = load_ok [OF l assms(3-7)]
  show ?thesis
  proof (cases x)
    case (Inl e)
    with l ok assms(1,2) show ?thesis by (auto simp: with_client_def permitted_change_def)
  next
    case (Inr c)
    with l ok assms(1,2) step [of c s1] show ?thesis by (simp add: with_client_def)
  qed
qed

lemma update_change:
  assumes "selfUpdateClient h r s = (w, s')" "wr_subject r = Some sub"
    and "ad_store h = St" "ad_authz h = A" "good (as_db s)" "inv (as_authz s)" "proper sub []"
  shows "permitted_change sub UpdateOp (as_db s) (as_db s')"
proof (rule with_client_change [OF assms(1) [unfolded selfUpdateClient_def action_of.simps(4) [symmetric]] assms(2-7)], goal_cases)
  case (1 c s1)
  have "permitted_change sub UpdateOp (as_db s1) (as_db (snd (store_client h r c' resp s2)))"
    if "c_id c' = c_id c" "as_db s2 = as_db s1" for c' resp s2
    using store_change [of h r c' resp s2 _ _ c sub UpdateOp] that 1 assms(3,5) by (metis prod.collapse)
  with 1(3) show ?case
    by (auto simp: Let_def permitted_change_def [of _ _ d d for d] split: option.splits prod.splits)
qed

lemma rotate_change:
  assumes "selfRotateSecret h r s = (w, s')" "wr_subject r = Some sub"
    and "ad_store h = St" "ad_authz h = A" "good (as_db s)" "inv (as_authz s)" "proper sub []"
  shows "permitted_change sub RotateOp (as_db s) (as_db s')"
proof (rule with_client_change [OF assms(1) [unfolded selfRotateSecret_def action_of.simps(5) [symmetric]] assms(2-7)], goal_cases)
  case (1 c s1)
  have "permitted_change sub RotateOp (as_db s1) (as_db (snd (store_client h r c' resp s2)))"
    if "c_id c' = c_id c" "as_db s2 = as_db s1" for c' resp s2
    using store_change [of h r c' resp s2 _ _ c sub RotateOp] that 1 assms(3,5) by (metis prod.collapse)
  with 1(3) show ?case by (auto simp: Let_def split: prod.splits)
qed

lemma delete_change:
  assumes "selfDeleteClient h r s = (w, s')" "wr_subject r = Some sub"
    and "ad_store h = St" "ad_authz h = A" "good (as_db s)" "inv (as_authz s)" "proper sub []"
  shows "permitted_change sub DeleteOp (as_db s) (as_db s')"
proof (rule with_client_change [OF assms(1) [unfolded selfDeleteClient_def action_of.simps(6) [symmetric]] assms(2-7)], goal_cases)
  case (1 c s1)
  obtain y d where d: "st_DeleteClient St (c_id c) (as_db s1) = (y, d)" by force
  have "d = as_db s \<or> table d = (table (as_db s))(c_id c := None)"
    using delete_ok [OF assms(5)] d 1 by (metis option.distinct(1))
  then have "permitted_change sub DeleteOp (as_db s) d"
    using 1 unfolding permitted_change_def by metis
  with d assms(3) show ?case by (cases y) auto
qed

lemma get_change:
  assumes "selfGetClient h r s = (w, s')" "wr_subject r = Some sub"
    and "ad_store h = St" "ad_authz h = A" "good (as_db s)" "inv (as_authz s)" "proper sub []"
  shows "permitted_change sub GetOp (as_db s) (as_db s')"
  by (rule with_client_change [OF assms(1) [unfolded selfGetClient_def action_of.simps(3) [symmetric]] assms(2-7)])
    (simp add: permitted_change_def)

lemma list_change:
  assumes "selfListClients h r s = (w, s')" shows "as_db s' = as_db s"
  using assms by (auto simp: selfListClients_def Let_def split: option.splits prod.splits sum.splits if_splits)

lemma optionalString_Some: "optionalString vs \<noteq> Some []"
  by (induction vs rule: optionalString.induct) (auto simp: Let_def)

text \<open>A new client belongs to an owner for whom the policy permits the creation.\<close>

lemma create_change:
  assumes "selfCreateClient h r s = (w, s')" "wr_subject r = Some sub"
    and "ad_store h = St" "ad_authz h = A" "good (as_db s)" "inv (as_authz s)"
    and "\<And>owner. proper sub [ActionCreate, ResourceClient, [], owner]"
    and "\<And>n. ad_uuid h n \<noteq> []"
  shows "as_db s' = as_db s
    \<or> (\<exists>i c'. table (as_db s) i = None \<and> table (as_db s') = (table (as_db s))(i \<mapsto> c')
         \<and> permits (create_question sub (c_customer c')) \<and> c_customer c' \<noteq> Some []
         \<and> (c_customer c' = None \<longrightarrow> su_customer sub = []))"
proof -
  obtain req where req: "as_db s' = as_db s \<or> Option.bind (wr_body r) dec_client_request = Some req"
    using assms(1,2) by (cases "Option.bind (wr_body r) dec_client_request") (auto simp: selfCreateClient_def)
  define owner where "owner = (let owner0 = optionalString [cq_customer_id req, cq_customerId req]
      in if owner0 = None then subjectCustomer sub else owner0)"
  have owner_some: "owner \<noteq> Some []" "owner = None \<Longrightarrow> su_customer sub = []"
    by (auto simp: owner_def Let_def subjectCustomer_def optionalString_Some split: if_splits)
  obtain y a where q: "az_authorize A (wr_now r) (create_question sub owner) (as_authz s) = (y, a)" by force
  show ?thesis
  proof (cases "as_db s' = as_db s")
    case False
    with assms(1,2,4) req q obtain dec where y: "y = Inr dec" "de_allow dec"
      by (cases y) (auto simp: selfCreateClient_def Let_def owner_def split: if_splits)
    then have p: "permits (create_question sub owner)"
      using authorize_ok [OF assms(6) _ q] assms(7) by (simp add: create_question_def)
    obtain i cid enc n4 z d n where cr: "st_CreateClient St (wr_now r) (new_client i cid enc req owner) (as_db s, n4) = (z, d, n)"
        "as_db s' = d" "i \<noteq> []"
      using assms(1,2,3,4,8) False req q y
      by (auto simp: selfCreateClient_def Let_def owner_def split: prod.splits sum.splits if_splits)
    obtain k c' where "table (as_db s) k = None" "table (as_db s') = (table (as_db s))(k \<mapsto> c')"
        "c_customer c' = owner"
      using create_ok [OF assms(5) cr(1)] cr False by (auto simp: new_client_def)
    with p owner_some show ?thesis by (intro disjI2 exI [of _ k] exI [of _ c']) auto
  qed simp
qed

end

section \<open>The API as installed: PostgreSQL and the claims backend\<close>

interpretation pg_claims: client_api "pg_store PG U" db_client "clients_ok PG"
  "NewClaimsAuthorizer UC roles" "\<lambda>_. True" "\<lambda>_ _. True" "claims_permits UC roles"
  "\<lambda>sub _ _. claims_sees UC roles sub"
  for PG U UC roles
  by unfold_locales

text \<open>What a subject without an admin role may do to the table of clients.\<close>

definition tenant_change :: "string \<Rightarrow> db \<Rightarrow> db \<Rightarrow> bool" where
  "tenant_change cust d d' \<longleftrightarrow> (\<forall>i. case db_client d i of
       Some c \<Rightarrow> db_client d' i = Some c
         \<or> cust \<noteq> [] \<and> c_customer c = Some cust
            \<and> (\<forall>c'. db_client d' i = Some c' \<longrightarrow> same_identity c c')
     | None \<Rightarrow> (\<forall>c'. db_client d' i = Some c' \<longrightarrow> cust \<noteq> [] \<and> c_customer c' = Some cust))"

lemma tenant_change_refl [simp]: "tenant_change cust d d"
  by (simp add: tenant_change_def split: option.splits)

lemma claims_owner:
  assumes "claims_permits UC roles (client_question sub action c)"
    and "\<not> hasAnyRole UC sub (admin_roles roles)" "c_id c \<noteq> []"
  shows "su_customer sub \<noteq> [] \<and> c_customer c = Some (su_customer sub)"
  using assms by (auto simp: claims_permits_def client_question_def derefString_def Let_def
      split: option.splits)

lemma tenant_change_one:
  assumes "db_client d i = Some c" "cust \<noteq> []" "c_customer c = Some cust"
    and "db_client d' = (db_client d)(i \<mapsto> c') \<and> same_identity c c' \<or> db_client d' = (db_client d)(i := None)"
  shows "tenant_change cust d d'"
  using assms by (auto simp: tenant_change_def split: option.splits if_splits)

lemma tenant_change_new:
  assumes "db_client d i = None" "cust \<noteq> []" "c_customer c' = Some cust" "db_client d' = (db_client d)(i \<mapsto> c')"
  shows "tenant_change cust d d'"
  using assms by (auto simp: tenant_change_def split: option.splits if_splits)

lemma tenant_change_permitted:
  assumes "pg_claims.permitted_change UC roles sub cop d d'"
    and "\<not> hasAnyRole UC sub (admin_roles roles)"
    and "clients_ok PG d"
  shows "tenant_change (su_customer sub) d d'"
proof (cases "d' = d")
  case False
  then obtain i c c' where c: "db_client d i = Some c"
      "claims_permits UC roles (client_question sub (action_of cop) c)"
      "db_client d' = (db_client d)(i \<mapsto> c') \<and> same_identity c c' \<or> db_client d' = (db_client d)(i := None)"
    using assms(1) unfolding pg_claims.permitted_change_def by blast
  have "c_id c \<noteq> []"
    using c(1) assms(3) by (auto simp: db_client_Some [OF assms(3)] clients_ok_def uuid_ok_def)
  with claims_owner [OF c(2) assms(2)] show ?thesis
    by (intro tenant_change_one [OF c(1) _ _ c(3)]) auto
qed simp

lemma self_change:
  assumes "SelfClientRoutes h cop r s = (w, s')" and "wr_subject r = Some sub"
    and "ad_store h = pg_store PG U" and "ad_authz h = NewClaimsAuthorizer UC roles"
    and "\<not> hasAnyRole UC sub (admin_roles roles)" and "clients_ok PG (as_db s)"
    and "\<And>n. ad_uuid h n \<noteq> []"
  shows "tenant_change (su_customer sub) (as_db s) (as_db s')"
proof (cases cop)
  case ListOp
  with assms(1) pg_claims.list_change show ?thesis by fastforce
next
  case CreateOp
  show ?thesis
  proof (cases "as_db s' = as_db s")
    case False
    with CreateOp pg_claims.create_change [of h r s w s' sub PG U UC roles] assms
    obtain i c' where c': "db_client (as_db s) i = None" "db_client (as_db s') = (db_client (as_db s))(i \<mapsto> c')"
        "claims_permits UC roles (create_question sub (c_customer c'))" "c_customer c' \<noteq> Some []"
        "c_customer c' = None \<longrightarrow> su_customer sub = []"
      by auto
    from c'(3-5) assms(5) have "su_customer sub \<noteq> [] \<and> c_customer c' = Some (su_customer sub)"
      by (auto simp: claims_permits_def create_question_def derefString_def Let_def split: option.splits)
    with c'(1,2) show ?thesis by (intro tenant_change_new) auto
  qed simp
next
  case GetOp
  with pg_claims.get_change [of h r s w s' sub PG U UC roles] assms show ?thesis
    by (intro tenant_change_permitted [of UC roles sub GetOp]) auto
next
  case UpdateOp
  with pg_claims.update_change [of h r s w s' sub PG U UC roles] assms show ?thesis
    by (intro tenant_change_permitted [of UC roles sub UpdateOp]) auto
next
  case RotateOp
  with pg_claims.rotate_change [of h r s w s' sub PG U UC roles] assms show ?thesis
    by (intro tenant_change_permitted [of UC roles sub RotateOp]) auto
next
  case DeleteOp
  with pg_claims.delete_change [of h r s w s' sub PG U UC roles] assms show ?thesis
    by (intro tenant_change_permitted [of UC roles sub DeleteOp]) auto
qed

text \<open>
  C3. Tenant isolation of the self-service API: a request by a subject without an admin role leaves
  every client of another tenant, and every client without an owner, exactly as it was; a client of
  the subject's tenant keeps its ids and owner or is deleted; and a client it creates belongs to
  the subject's tenant.
\<close>

theorem self_isolation:
  assumes "SelfClientRoutes h cop r s = (w, s')" and "wr_subject r = Some sub"
    and "ad_store h = pg_store PG U" and "ad_authz h = NewClaimsAuthorizer UC roles"
    and "\<not> hasAnyRole UC sub (admin_roles roles)" and "clients_ok PG (as_db s)"
    and "\<And>n. ad_uuid h n \<noteq> []"
  shows "tenant_change (su_customer sub) (as_db s) (as_db s')"
  by (rule self_change [OF assms])

lemma tenant_routes_change:
  assumes "TenantRoutes h cop r s = (w, s')" and "customerFromClaims r = Some cid"
    and "ad_store h = pg_store PG U" and "clients_ok PG (as_db s)" and "\<And>n. ad_uuid h n \<noteq> []"
  shows "tenant_change cid (as_db s) (as_db s')"
proof -
  have "cid \<noteq> []" using assms(2) by (auto simp: customerFromClaims_def Let_def split: if_splits)
  moreover have "pg.owner_change cid (as_db s) (as_db s')"
    by (rule pg.tenant_admin_change [OF assms(1) [unfolded TenantRoutes_def] assms(2-5)])
  ultimately show ?thesis
    unfolding pg.owner_change_def by (metis tenant_change_one tenant_change_new tenant_change_refl)
qed

text \<open>
  Tenant isolation of the tenant admin API: a request whose token carries a customer id changes
  and deletes clients of that customer only, keeps their ids and owner, and creates clients of that
  customer only.
\<close>

theorem tenant_admin_isolation:
  assumes "TenantRoutes h cop r s = (w, s')" and "customerFromClaims r = Some cid"
    and "ad_store h = pg_store PG U" and "clients_ok PG (as_db s)" and "\<And>n. ad_uuid h n \<noteq> []"
  shows "tenant_change cid (as_db s) (as_db s')"
  by (rule tenant_routes_change [OF assms])

text \<open>
  What the self-service list shows a subject without an admin role: when it answers 200, exactly
  the clients whose owner is the subject's tenant, and none when the subject has no tenant.
\<close>

theorem self_list_scope:
  assumes "selfListClients h r s = (w, s')" and "wr_subject r = Some sub" and "wp_status w = 200"
    and "ad_store h = pg_store PG U" and "ad_authz h = NewClaimsAuthorizer UC roles"
    and "\<not> hasAnyRole UC sub (admin_roles roles)" and "clients_ok PG (as_db s)"
  shows "\<exists>cs. wp_body w = Some (AArr (map client_json cs))
    \<and> set cs = {c. \<exists>i. db_client (as_db s) i = Some c \<and> su_customer sub \<noteq> []
                      \<and> c_customer c = Some (su_customer sub)}"
proof -
  have sc: "az_scope (ad_authz h) (wr_now r) sub ActionRead ResourceClient (as_authz s) =
      (Inr (if su_customer sub = [] then \<lparr>sc_all = False, sc_ids = None\<rparr>
            else \<lparr>sc_all = False, sc_ids = Some [su_customer sub]\<rparr>), as_authz s)"
    using assms(5,6) by (simp add: NewClaimsAuthorizer_def claims_Scope_def Let_def admin_roles_def)
  show ?thesis
  proof (cases "su_customer sub = []")
    case True
    with assms(1,2,3) sc show ?thesis
      by (auto simp: selfListClients_def writeJSON_def Let_def intro!: exI [of _ "[]"])
  next
    case False
    with assms(1,2,3) sc obtain cs where
      "st_ListClients (ad_store h) (Some (su_customer sub)) (as_db s) = Inr cs"
      "wp_body w = Some (AArr (map client_json cs))"
      by (auto simp: selfListClients_def writeJSON_def fail_with_def Let_def split: sum.splits)
    with False pg.list_ok [OF assms(7), of U "Some (su_customer sub)" cs] assms(4) show ?thesis
      by auto
  qed
qed

text \<open>
  A database error is invisible to the global client read: when the lookup fails with anything
  but \<open>ErrNotFound\<close>, the handler answers 200 with the JSON of a zero client.
\<close>

theorem global_get_hides_errors:
  assumes "st_GetClientByID (ad_store h) (wr_id r) (as_db s) = Inl e" and "e \<noteq> ErrNotFound"
  shows "GlobalRoutes h (ClientOp GetOp) r s = (writeJSON 200 (client_json zero_client), s)"
  using assms by (simp add: getClient_def load_client_def customerValue_def owned_def)

section \<open>Concrete requests\<close>

definition sample_client_row :: "string \<Rightarrow> string \<Rightarrow> client_row" where
  "sample_client_row i owner = \<lparr>cr_id = i, cr_client_id = i, cr_secret = [], cr_name = ''app'',
     cr_redirects = AArr [], cr_grants = AArr [], cr_scopes = AArr [], cr_logouts = None,
     cr_customer = Some owner, cr_by_subject = None, cr_by_email = None, cr_created = 0, cr_updated = 0\<rparr>"

definition sample_admin :: "(db, unit) admin" where
  "sample_admin = \<lparr>ad_idp = (\<lambda>v n. (Inr v, n)), ad_store = pg_store sample_pg (\<lambda>n. ''id''),
     ad_authz = NewClaimsAuthorizer sample_unicode [], ad_rand = sample_rand, ad_uuid = (\<lambda>n. ''id'')\<rparr>"

definition sample_astate :: "(db, unit) astate" where
  "sample_astate = \<lparr>as_db = empty_db\<lparr>t_clients := [sample_client_row ''c1'' ''acme'', sample_client_row ''c2'' ''other'']\<rparr>,
     as_authz = (), as_rng = 0\<rparr>"

definition sample_web :: "string \<Rightarrow> web_request" where
  "sample_web i = \<lparr>wr_now = 0, wr_id = i, wr_body = None, wr_claims = Some [''customer_id'' \<mapsto> AStr ''acme''],
     wr_subject = Some (rq_subject sample_request)\<rparr>"

lemma sample_clients_ok: "clients_ok sample_pg (as_db sample_astate)"
  by (simp add: sample_pg_def clients_ok_def uuid_ok_def sample_astate_def sample_client_row_def)

lemma sample_admin_simps [simp]:
  "ad_store sample_admin = pg_store sample_pg (\<lambda>n. ''id'')"
  "ad_authz sample_admin = NewClaimsAuthorizer sample_unicode []" "ad_uuid sample_admin n = ''id''"
  by (simp_all add: sample_admin_def)

lemma sample_no_role: "\<not> hasAnyRole sample_unicode (rq_subject sample_request) rs"
  by (simp add: hasAnyRole_def sample_request_def)

theorem self_isolation_witness:
  "\<exists>w s'. SelfClientRoutes sample_admin DeleteOp (sample_web ''c2'') sample_astate = (w, s')
     \<and> tenant_change ''acme'' (as_db sample_astate) (as_db s')
     \<and> db_client (as_db s') ''c2'' = db_client (as_db sample_astate) ''c2''"
proof -
  obtain w s' where run: "SelfClientRoutes sample_admin DeleteOp (sample_web ''c2'') sample_astate = (w, s')"
    by force
  have "tenant_change ''acme'' (as_db sample_astate) (as_db s')"
    using self_isolation [OF run _ sample_admin_simps(1,2) sample_no_role sample_clients_ok]
    by (simp add: sample_web_def) (simp add: sample_request_def)
  moreover obtain c where "db_client (as_db sample_astate) ''c2'' = Some c" "c_customer c = Some ''other''"
    by (auto simp: db_client_def sample_astate_def sample_client_row_def scanClient_row_def)
  ultimately have "db_client (as_db s') ''c2'' = db_client (as_db sample_astate) ''c2''"
    by (auto simp: tenant_change_def dest: spec [of _ "''c2''"])
  with run \<open>tenant_change _ _ _\<close> show ?thesis by blast
qed

theorem tenant_admin_isolation_witness:
  "\<exists>w s'. TenantRoutes sample_admin DeleteOp (sample_web ''c2'') sample_astate = (w, s')
     \<and> tenant_change ''acme'' (as_db sample_astate) (as_db s')"
proof -
  obtain w s' where run: "TenantRoutes sample_admin DeleteOp (sample_web ''c2'') sample_astate = (w, s')"
    by force
  have "customerFromClaims (sample_web ''c2'') = Some ''acme''"
    by (simp add: customerFromClaims_def sample_web_def)
  from tenant_admin_isolation [OF run this sample_admin_simps(1) sample_clients_ok] run
  show ?thesis by simp
qed

theorem self_list_scope_witness:
  "\<exists>w s' cs. selfListClients sample_admin (sample_web []) sample_astate = (w, s') \<and> wp_status w = 200
     \<and> wp_body w = Some (AArr (map client_json cs)) \<and> (\<forall>c \<in> set cs. c_customer c = Some ''acme'')"
proof -
  obtain w s' where run: "selfListClients sample_admin (sample_web []) sample_astate = (w, s')" "wp_status w = 200"
    using sample_no_role
    by (simp add: selfListClients_def sample_web_def NewClaimsAuthorizer_def claims_Scope_def Let_def
        sample_request_def pg_store_def ListClients_def writeJSON_def)
  from self_list_scope [OF run(1) _ run(2) sample_admin_simps(1,2) sample_no_role sample_clients_ok] run
  show ?thesis by (auto simp: sample_web_def sample_request_def)
qed

theorem global_get_hides_errors_witness:
  "GlobalRoutes (sample_admin\<lparr>ad_store := pg_store (sample_pg\<lparr>pg_fault := \<lambda>_ _. Some (ExtErr ''down'')\<rparr>) (\<lambda>n. ''id'')\<rparr>)
     (ClientOp GetOp) (sample_web ''c1'') sample_astate = (writeJSON 200 (client_json zero_client), sample_astate)"
  by (rule global_get_hides_errors [where e = "ExtErr ''down''"])
    (simp_all add: pg_store_def GetClientByID_def)

end
