(* ===== verification/Keys.thy ===== *)
theory Keys
  imports Provider
begin

text \<open>
  The signing key of internal/idp/provider.go: generated on the first start and stored encrypted, read
  again on every later one, from PEM or from a JSON Web Key.  crypto/rsa, crypto/x509 and encoding/pem
  are the record \<open>rsalib\<close>, over the handles of keys.
\<close>

section \<open>The library\<close>

record jwk_key =
  jk_n :: nat
  jk_e :: int
  jk_d :: nat
  jk_p :: nat
  jk_q :: nat
  jk_crt :: "(nat \<times> nat \<times> nat) option"

text \<open>
  \<open>rl_generate\<close> draws from the random source; \<open>rl_pkcs8\<close> gives \<open>None\<close> for a key that is not RSA;
  \<open>rl_validate\<close> is \<open>Validate\<close> and \<open>Precompute\<close> of a key made of its numbers.
\<close>

record rsalib =
  rl_generate :: "nat \<Rightarrow> string res"
  rl_private_pem :: "string \<Rightarrow> string"
  rl_public_pem :: "string \<Rightarrow> string res"
  rl_pem_block :: "string \<Rightarrow> string option"
  rl_pkcs1 :: "string \<Rightarrow> string res"
  rl_pkcs8 :: "string \<Rightarrow> string option res"
  rl_validate :: "jwk_key \<Rightarrow> string res"

section \<open>Reading a key\<close>

text \<open>\<open>strings.ReplaceAll\<close> of the non-empty string \<open>d # ds\<close>.\<close>

function replace_all :: "char \<Rightarrow> string \<Rightarrow> string \<Rightarrow> string \<Rightarrow> string" where
  "replace_all d ds new [] = []"
| "replace_all d ds new (c # s) =
     (if has_prefix (c # s) (d # ds) then new @ replace_all d ds new (drop (length ds) s)
      else c # replace_all d ds new s)"
  by pat_completeness auto

termination by (relation "measure (\<lambda>(_, _, _, s). length s)") auto

definition normalize_pem :: "string \<Rightarrow> string" where
  "normalize_pem v =
     replace_all (CHR ''-'') ''-----END '' ''-----END ''
     (replace_all (CHR ''-'') ''-----BEGIN '' ''-----BEGIN ''
     (replace_all (CHR 0x5C) ''r'' [CHR 0x0D]
     (replace_all (CHR 0x5C) ''n'' [CHR 0x0A] v)))"

text \<open>\<open>big.Int.SetBytes\<close> is big-endian; \<open>Int64\<close> keeps the low 64 bits.\<close>

definition be_nat :: "string \<Rightarrow> nat" where
  "be_nat bs = foldl (\<lambda>n c. n * 256 + byte_of c) 0 bs"

definition jwkBigInt :: "string \<Rightarrow> nat res" where
  "jwkBigInt value = (case unb64 value of None \<Rightarrow> Inl (ExtErr ''illegal base64 data'') | Some b \<Rightarrow> Inr (be_nat b))"

definition jwkInt :: "string \<Rightarrow> int res" where
  "jwkInt value = (case jwkBigInt value of Inl e \<Rightarrow> Inl e | Inr n \<Rightarrow> Inr (int64 (int n)))"

fun and_then :: "'a res \<Rightarrow> ('a \<Rightarrow> 'b res) \<Rightarrow> 'b res" where
  "and_then (Inl e) f = Inl e"
| "and_then (Inr x) f = f x"

text \<open>The struct of strings that the document is read into.\<close>

definition dec_jwk :: "any \<Rightarrow> (string \<Rightarrow> string) option" where
  "dec_jwk v = (case dec_struct v of None \<Rightarrow> None
     | Some m \<Rightarrow> if \<forall>k \<in> set [''kty'', ''n'', ''e'', ''d'', ''p'', ''q'', ''dp'', ''dq'', ''qi''].
            dec_str (mget m k) \<noteq> None
          then Some (\<lambda>k. the (dec_str (mget m k))) else None)"

definition jwk_numbers :: "(string \<Rightarrow> string) \<Rightarrow> jwk_key res" where
  "jwk_numbers f =
     and_then (jwkBigInt (f ''n'')) (\<lambda>n. and_then (jwkInt (f ''e'')) (\<lambda>e.
     and_then (jwkBigInt (f ''d'')) (\<lambda>d. and_then (jwkBigInt (f ''p'')) (\<lambda>p.
     and_then (jwkBigInt (f ''q'')) (\<lambda>q.
       let key = \<lparr>jk_n = n, jk_e = e, jk_d = d, jk_p = p, jk_q = q, jk_crt = None\<rparr> in
       if f ''dp'' \<noteq> [] \<and> f ''dq'' \<noteq> [] \<and> f ''qi'' \<noteq> []
       then and_then (jwkBigInt (f ''dp'')) (\<lambda>dp. and_then (jwkBigInt (f ''dq'')) (\<lambda>dq.
              and_then (jwkBigInt (f ''qi'')) (\<lambda>qi. Inr (key\<lparr>jk_crt := Some (dp, dq, qi)\<rparr>))))
       else Inr key)))))"

definition parseRSAJWKPrivateKey :: "rsalib \<Rightarrow> jose \<Rightarrow> string \<Rightarrow> string res" where
  "parseRSAJWKPrivateKey L J data =
     (case jo_parse J data of
        None \<Rightarrow> Inl (ExtErr ''invalid JSON'')
      | Some v \<Rightarrow>
          (case dec_jwk v of
             None \<Rightarrow> Inl (ExtErr ''json: cannot unmarshal'')
           | Some f \<Rightarrow>
               if f ''kty'' \<noteq> ''RSA'' then Inl (GoErr ''private key is not RSA'')
               else and_then (jwk_numbers f) (rl_validate L)))"

definition parseRSAPrivateKeyDER :: "rsalib \<Rightarrow> string \<Rightarrow> string res" where
  "parseRSAPrivateKeyDER L der =
     (case rl_pkcs1 L der of
        Inr key \<Rightarrow> Inr key
      | Inl _ \<Rightarrow>
          (case rl_pkcs8 L der of
             Inl e \<Rightarrow> Inl e
           | Inr None \<Rightarrow> Inl (GoErr ''private key is not RSA'')
           | Inr (Some key) \<Rightarrow> Inr key))"

definition parseRSAPrivateKey :: "rsalib \<Rightarrow> jose \<Rightarrow> string \<Rightarrow> string res" where
  "parseRSAPrivateKey L J value =
     (case rl_pem_block L (normalize_pem value) of
        None \<Rightarrow>
          (case parseRSAJWKPrivateKey L J value of
             Inl _ \<Rightarrow> Inl (GoErr ''invalid private key pem or jwk'')
           | Inr key \<Rightarrow> Inr key)
      | Some der \<Rightarrow> parseRSAPrivateKeyDER L der)"

section \<open>Loading\<close>

text \<open>The digest has 32 bytes, so its hexadecimal text has more than eight digits.\<close>

definition keyIDForPublicPEM :: "crypto \<Rightarrow> string \<Rightarrow> string" where
  "keyIDForPublicPEM C publicPEM = (let encoded = hex (sha256 C publicPEM) in drop (length encoded - 8) encoded)"

definition create_key ::
  "rsalib \<Rightarrow> ('r, 'w) provider \<Rightarrow> int \<Rightarrow> ('r, 'w) world \<Rightarrow> ('r, 'w) provider go \<times> ('r, 'w) world" where
  "create_key L p now w =
     (case rl_generate L (w_rng w) of
        Inl e \<Rightarrow> (Err e, w)
      | Inr key \<Rightarrow>
          (case rl_public_pem L key of
             Inl e \<Rightarrow> (Err e, w\<lparr>w_rng := Suc (w_rng w)\<rparr>)
           | Inr publicPEM \<Rightarrow>
               let C = pv_crypto p; keyID = keyIDForPublicPEM C publicPEM in
               (case secret_Encrypt C (pv_rand p) (secret_New C (cf_secret_key (pv_cfg p)))
                       (rl_private_pem L key) (Suc (w_rng w)) of
                  (Inl e, n) \<Rightarrow> (Err e, w\<lparr>w_rng := n\<rparr>)
                | (Inr encrypted, n) \<Rightarrow>
                    (case InsertKey C (pv_pg p) now publicPEM encrypted keyID (w_db w) of
                       (Inl e, d) \<Rightarrow> (Err e, w\<lparr>w_rng := n, w_db := d\<rparr>)
                     | (Inr _, d) \<Rightarrow> (Ok (p\<lparr>pv_key := key, pv_keyID := keyID\<rparr>), w\<lparr>w_rng := n, w_db := d\<rparr>)))))"

definition loadSigningKey ::
  "rsalib \<Rightarrow> ('r, 'w) provider \<Rightarrow> int \<Rightarrow> ('r, 'w) world \<Rightarrow> ('r, 'w) provider go \<times> ('r, 'w) world" where
  "loadSigningKey L p now w =
     (case ActiveKeys (pv_pg p) (w_db w) of
        Inl e \<Rightarrow> (Err e, w)
      | Inr [] \<Rightarrow> create_key L p now w
      | Inr (k # _) \<Rightarrow>
          (case secret_Decrypt (pv_crypto p) (secret_New (pv_crypto p) (cf_secret_key (pv_cfg p))) (k_private k) of
             Panic m \<Rightarrow> (Panic m, w)
           | Err e \<Rightarrow> (Err e, w)
           | Ok privatePEM \<Rightarrow>
               (case parseRSAPrivateKey L (pv_jose p) privatePEM of
                  Inl e \<Rightarrow> (Err e, w)
                | Inr key \<Rightarrow> (Ok (p\<lparr>pv_key := key, pv_keyID := k_keyid k\<rparr>), w))))"

section \<open>What is guaranteed\<close>

text \<open>What the packages promise of the PEM text of a generated key, and that the text has no escaped newlines.\<close>

definition pem_ok :: "rsalib \<Rightarrow> bool" where
  "pem_ok L \<longleftrightarrow> (\<forall>n key. rl_generate L n = Inr key \<longrightarrow> \<not> IsEncrypted (rl_private_pem L key)
     \<and> normalize_pem (rl_private_pem L key) = rl_private_pem L key
     \<and> (\<exists>der. rl_pem_block L (rl_private_pem L key) = Some der \<and> rl_pkcs1 L der = Inr key))"

lemma pem_read:
  assumes "pem_ok L" "rl_generate L n = Inr key"
  shows "parseRSAPrivateKey L J (rl_private_pem L key) = Inr key"
proof -
  obtain der where "normalize_pem (rl_private_pem L key) = rl_private_pem L key"
      "rl_pem_block L (rl_private_pem L key) = Some der" "rl_pkcs1 L der = Inr key"
    using assms unfolding pem_ok_def by blast
  then show ?thesis by (simp add: parseRSAPrivateKey_def parseRSAPrivateKeyDER_def)
qed

text \<open>The exponent of a JWK is exact up to the bound of \<open>int64\<close> and wraps around beyond it.\<close>

lemma jwkInt_bound:
  "jwkInt v = Inr n \<Longrightarrow> - (2 ^ 63) \<le> n \<and> n < 2 ^ 63 \<and> (\<exists>m. jwkBigInt v = Inr m \<and> (int m < 2 ^ 63 \<longrightarrow> n = int m))"
  by (auto simp: jwkInt_def int64_def split: sum.splits)

lemma be_nat_snoc [simp]: "be_nat [] = 0" "be_nat (bs @ [c]) = be_nat bs * 256 + byte_of c"
  by (simp_all add: be_nat_def)

lemma jwkBigInt_b64: "jwkBigInt (b64 bs) = Inr (be_nat bs)"
  by (simp add: jwkBigInt_def)


text \<open>A library with one key.\<close>

definition sample_rsalib :: rsalib where
  "sample_rsalib = \<lparr>rl_generate = (\<lambda>_. Inr ''key''), rl_private_pem = (\<lambda>k. ''PEM '' @ k),
     rl_public_pem = (\<lambda>k. Inr (''PUB '' @ k)), rl_pem_block = (\<lambda>s. Some (drop 4 s)), rl_pkcs1 = (\<lambda>der. Inr der),
     rl_pkcs8 = (\<lambda>_. Inr None), rl_validate = (\<lambda>_. Inl (ExtErr ''crypto/rsa: invalid''))\<rparr>"


end
