(* ===== verification/App.thy ===== *)
theory App
  imports Authorize Token_Endpoint Html_Pages Tenant Keys
begin

text \<open>
  internal/app/app.go, internal/handlers/context.go and the construction of the provider: the program
  put together.  The state is the provider's world and the authorizer's state; a request goes through
  the middleware, the route, the gate of the route and its handler.  chi and its middleware are the
  record \<open>chi\<close>; the public numbers of a key are the record \<open>site\<close>.
\<close>

section \<open>The program\<close>

record ('r, 'w, 'a) app =
  ap_cfg :: config
  ap_idp :: "('r, 'w) provider"
  ap_authz :: "'a authorizer"

record ('r, 'w, 'a) system =
  sy_world :: "('r, 'w) world"
  sy_authz :: 'a

text \<open>A request: the headers that \<open>http_form\<close> lacks, and the body of the API as JSON.\<close>

record http_request =
  hr_method :: string
  hr_path :: string
  hr_form :: http_form
  hr_admin_key :: string
  hr_json :: "any option"

datatype reply = Web web_page | Api web_reply | Html string

text \<open>
  \<open>ci_before\<close> is the middleware that runs before the routes; it may answer itself (CORS preflights) and
  change the request (\<open>RealIP\<close>).  \<open>ci_route\<close> finds the registered method and pattern of a request and the
  value of its parameter.  \<open>ci_recover\<close> is what \<open>Recoverer\<close> answers for a panic.
\<close>

record chi =
  ci_before :: "config \<Rightarrow> http_request \<Rightarrow> reply + http_request"
  ci_route :: "(string \<times> string) list \<Rightarrow> http_request \<Rightarrow> (nat \<times> string) option"
  ci_missing :: "http_request \<Rightarrow> reply"
  ci_recover :: "string \<Rightarrow> reply"

record site =
  si_public :: "string \<Rightarrow> string \<times> string"

section \<open>The context of a request\<close>

definition web_of :: "http_request \<Rightarrow> string \<Rightarrow> web_request" where
  "web_of r param = \<lparr>wr_now = hf_now (hr_form r), wr_id = param, wr_body = hr_json r,
     wr_claims = None, wr_subject = None\<rparr>"

definition WithAdminClaims :: "gomap \<Rightarrow> web_request \<Rightarrow> web_request" where
  "WithAdminClaims claims r = r\<lparr>wr_claims := Some claims\<rparr>"

definition WithSubject :: "subject \<Rightarrow> web_request \<Rightarrow> web_request" where
  "WithSubject sub r = r\<lparr>wr_subject := Some sub\<rparr>"

section \<open>Basic credentials\<close>

text \<open>
  \<open>base64.StdEncoding\<close>: the standard alphabet with padding to groups of four; carriage returns and
  newlines are skipped.
\<close>

definition std_unpad :: "string \<Rightarrow> string" where
  "std_unpad t = (case rev t of
       c # d # r \<Rightarrow> if c = CHR ''='' then (if d = CHR ''='' then rev r else rev (d # r)) else t
     | _ \<Rightarrow> t)"

definition std_unb64 :: "string \<Rightarrow> string option" where
  "std_unb64 s =
     (let t = filter (\<lambda>c. \<not> skipped c) s; body = std_unpad t in
      if length t mod 4 \<noteq> 0 \<or> CHR ''-'' \<in> set body \<or> CHR ''_'' \<in> set body then None
      else unb64 (map (\<lambda>c. if c = CHR ''+'' then CHR ''-'' else if c = CHR ''/'' then CHR ''_'' else c) body))"

definition basicAuthSecret :: "string \<Rightarrow> (string \<times> string) option" where
  "basicAuthSecret header =
     (if \<not> has_prefix header ''Basic '' then None
      else case std_unb64 (trim_prefix header ''Basic '') of
          None \<Rightarrow> None
        | Some raw \<Rightarrow> (case split_n2 (CHR '':'') raw of [u, v] \<Rightarrow> Some (u, v) | _ \<Rightarrow> None))"

text \<open>Comparing the digests takes the same time for every secret; it is the equality of the digests.\<close>

definition secureEqual :: "crypto \<Rightarrow> string \<Rightarrow> string \<Rightarrow> bool" where
  "secureEqual C left right \<longleftrightarrow> sha256 C left = sha256 C right"

section \<open>The gates\<close>

text \<open>A gate answers itself or lets the request through, with what it puts into the context.\<close>

definition requireAdminAPIKey :: "config \<Rightarrow> http_request \<Rightarrow> web_request \<Rightarrow> web_reply + web_request" where
  "requireAdminAPIKey cfg r q =
     (if cf_admin_key cfg = [] \<or> hr_admin_key r \<noteq> cf_admin_key cfg
      then Inl (fail_with 401 ''admin_api_key_required'') else Inr q)"

text \<open>A role compares equal when it is a string of these three; other elements are skipped.\<close>

definition admin_role :: "gomap \<Rightarrow> bool" where
  "admin_role claims =
     (case mget claims ''roles'' of
        AArr roles \<Rightarrow> list_ex (\<lambda>role. role = AStr ''idp_admin'' \<or> role = AStr ''admin'' \<or> role = AStr ''superadmin'') roles
      | _ \<Rightarrow> False)"

definition requireBearerAdmin ::
  "('r, 'w) provider \<Rightarrow> http_request \<Rightarrow> web_request \<Rightarrow> ('r, 'w) world \<Rightarrow>
     (web_reply + web_request) \<times> ('r, 'w) world" where
  "requireBearerAdmin p r q w =
     (if bearer (hr_form r) = [] then (Inl (fail_with 401 ''bearer_token_required''), w)
      else case VerifyAccessToken p (hf_now (hr_form r)) (bearer (hr_form r)) w of
          (Inl _, w1) \<Rightarrow> (Inl (fail_with 401 ''invalid_token''), w1)
        | (Inr claims, w1) \<Rightarrow>
            (if \<not> admin_role claims then Inl (fail_with 403 ''insufficient_role'')
             else Inr (WithAdminClaims claims q), w1))"

definition requireIdentity ::
  "('r, 'w) provider \<Rightarrow> http_request \<Rightarrow> web_request \<Rightarrow> ('r, 'w) world \<Rightarrow>
     (web_reply + web_request) \<times> ('r, 'w) world" where
  "requireIdentity p r q w =
     (if bearer (hr_form r) = [] then (Inl (fail_with 401 ''bearer_token_required''), w)
      else case VerifyAccessToken p (hf_now (hr_form r)) (bearer (hr_form r)) w of
          (Inl _, w1) \<Rightarrow> (Inl (fail_with 401 ''invalid_token''), w1)
        | (Inr claims, w1) \<Rightarrow> (Inr (WithSubject (SubjectFromClaims (Some claims)) q), w1))"

definition requireMasterPassword :: "config \<Rightarrow> crypto \<Rightarrow> http_request \<Rightarrow> web_request \<Rightarrow> web_reply + web_request" where
  "requireMasterPassword cfg C r q =
     (if cf_master_user cfg = [] \<or> cf_master_pass cfg = []
      then Inl (fail_with 500 ''master_credentials_not_configured'')
      else case basicAuthSecret (hf_auth (hr_form r)) of
          None \<Rightarrow> Inl (fail_with 401 ''unauthorized'')
        | Some (user, pw) \<Rightarrow>
            if \<not> secureEqual C user (cf_master_user cfg) \<or> \<not> secureEqual C pw (cf_master_pass cfg)
            then Inl (fail_with 401 ''unauthorized'') else Inr q)"

section \<open>The API description\<close>

definition adminCRUDPath :: "string \<Rightarrow> any" where
  "adminCRUDPath res = AMap [''get'' \<mapsto> AMap [''summary'' \<mapsto> AStr (''List '' @ res)],
     ''post'' \<mapsto> AMap [''summary'' \<mapsto> AStr (''Create '' @ res)]]"

definition OpenAPI :: "string \<Rightarrow> any" where
  "OpenAPI issuer = AMap [''openapi'' \<mapsto> AStr ''3.0.3'',
     ''info'' \<mapsto> AMap [''title'' \<mapsto> AStr ''MuninID'', ''version'' \<mapsto> AStr ''0.1.0''],
     ''servers'' \<mapsto> AArr [AMap [''url'' \<mapsto> AStr issuer]],
     ''paths'' \<mapsto> AMap [
       ''/oauth/authorize'' \<mapsto> AMap [''get'' \<mapsto> AMap [''summary'' \<mapsto> AStr ''OIDC authorization endpoint'']],
       ''/oauth/token'' \<mapsto> AMap [''post'' \<mapsto> AMap [''summary'' \<mapsto>
         AStr ''OAuth token endpoint including authorization_code, refresh_token, client_credentials, and token exchange'']],
       ''/userinfo'' \<mapsto> AMap [''get'' \<mapsto> AMap [''summary'' \<mapsto> AStr ''OIDC userinfo endpoint'']],
       ''/api/global/admin/clients'' \<mapsto> adminCRUDPath ''OIDC/OAuth clients'',
       ''/api/global/admin/policies'' \<mapsto> adminCRUDPath ''identity policy records'',
       ''/api/global/admin/sps'' \<mapsto> adminCRUDPath ''SAML service provider records'']]"

section \<open>The routes\<close>

datatype endpoint =
    HealthEp | DocsEp | DiscoveryEp | JwksEp | AuthorizeEp | TokenEp | IntrospectEp | RevokeEp
  | LogoutEp | UserInfoEp
  | ShowEp | LoginEp | PasswordEp | AbortEp | ConfirmEp
  | ForgotFormEp | ForgotSubmitEp | ResetFormEp | ResetSubmitEp
  | GlobalEp global_op | TenantEp client_op | SelfEp client_op | GuiApiEp global_op | GuiEp

type_synonym 'e routes = "((string \<times> string) \<times> 'e) list"

definition at_path :: "string \<Rightarrow> ('b \<Rightarrow> 'e) \<Rightarrow> 'b routes \<Rightarrow> 'e routes" where
  "at_path prefix f rs = map (\<lambda>((m, path), ep). ((m, prefix @ path), f ep)) rs"

text \<open>\<open>TenantRoutes\<close> registers the same six routes, the last two in the other order.\<close>

definition client_routes :: "client_op routes" where
  "client_routes =
     [((''GET'', ''/clients''), ListOp), ((''POST'', ''/clients''), CreateOp),
      ((''GET'', ''/clients/{id}''), GetOp), ((''PUT'', ''/clients/{id}''), UpdateOp),
      ((''DELETE'', ''/clients/{id}''), DeleteOp), ((''POST'', ''/clients/{id}/rotate-secret''), RotateOp)]"

definition global_routes :: "global_op routes" where
  "global_routes = at_path [] ClientOp client_routes @
     [((''POST'', ''/keys/rotate''), RotateKeyOp),
      ((''GET'', ''/sps''), ListSPOp), ((''POST'', ''/sps''), CreateSPOp),
      ((''GET'', ''/sps/{id}''), GetSPOp), ((''PUT'', ''/sps/{id}''), UpdateSPOp),
      ((''DELETE'', ''/sps/{id}''), DeleteSPOp),
      ((''GET'', ''/policies''), ListPolicyOp), ((''POST'', ''/policies''), CreatePolicyOp),
      ((''GET'', ''/policies/{id}''), GetPolicyOp), ((''PUT'', ''/policies/{id}''), UpdatePolicyOp),
      ((''DELETE'', ''/policies/{id}''), DeletePolicyOp)]"

definition Router :: "config \<Rightarrow> endpoint routes" where
  "Router cfg =
     [((''GET'', ''/healthz''), HealthEp), ((''GET'', ''/docs.json''), DocsEp),
      ((''GET'', ''/.well-known/openid-configuration''), DiscoveryEp),
      ((''GET'', ''/oauth/jwks.json''), JwksEp), ((''GET'', ''/oauth/authorize''), AuthorizeEp),
      ((''POST'', ''/oauth/token''), TokenEp), ((''POST'', ''/oauth/introspect''), IntrospectEp),
      ((''POST'', ''/oauth/revoke''), RevokeEp), ((''GET'', ''/oauth/logout''), LogoutEp),
      ((''POST'', ''/oauth/logout''), LogoutEp), ((''GET'', ''/userinfo''), UserInfoEp),
      ((''GET'', ''/interaction/{uid}''), ShowEp), ((''POST'', ''/interaction/{uid}/login''), LoginEp),
      ((''POST'', ''/interaction/{uid}/password''), PasswordEp),
      ((''GET'', ''/interaction/{uid}/abort''), AbortEp), ((''POST'', ''/interaction/{uid}/abort''), AbortEp),
      ((''POST'', ''/interaction/{uid}/confirm''), ConfirmEp),
      ((''GET'', ''/forgot''), ForgotFormEp), ((''POST'', ''/forgot''), ForgotSubmitEp),
      ((''GET'', ''/reset''), ResetFormEp), ((''POST'', ''/reset''), ResetSubmitEp)]
     @ at_path ''/api/global/admin'' GlobalEp global_routes
     @ at_path ''/api/admin'' TenantEp client_routes
     @ at_path ''/api/self'' SelfEp client_routes
     @ (if cf_enable_gui cfg
        then at_path ''/gui/api'' GuiApiEp global_routes @ [((''GET'', ''/gui''), GuiEp)] else [])"

section \<open>Serving a request\<close>

definition NewAdmin :: "('r, 'w) provider \<Rightarrow> 'a authorizer \<Rightarrow> (db, 'a) admin" where
  "NewAdmin p az =
     \<lparr>ad_idp = secret_Encrypt (pv_crypto p) (pv_rand p) (secret_New (pv_crypto p) (cf_secret_key (pv_cfg p))),
      ad_store = pg_store (pv_pg p) (pv_uuid p), ad_authz = az, ad_rand = pv_rand p, ad_uuid = pv_uuid p\<rparr>"

text \<open>A handler of the API works on the database, the authorizer and the random source of the state.\<close>

definition run_api ::
  "((db, 'a) astate \<Rightarrow> web_reply \<times> (db, 'a) astate) \<Rightarrow> ('r, 'w, 'a) system \<Rightarrow> reply \<times> ('r, 'w, 'a) system" where
  "run_api h s =
     (let w = sy_world s;
          (rep, t) = h \<lparr>as_db = w_db w, as_authz = sy_authz s, as_rng = w_rng w\<rparr>
      in (Api rep, \<lparr>sy_world = w\<lparr>w_db := as_db t, w_rng := as_rng t\<rparr>, sy_authz = as_authz t\<rparr>))"

text \<open>A gate before a handler of the API.\<close>

definition gated ::
  "(web_reply + web_request) \<times> ('r, 'w) world \<Rightarrow>
     (web_request \<Rightarrow> (db, 'a) astate \<Rightarrow> web_reply \<times> (db, 'a) astate) \<Rightarrow>
     ('r, 'w, 'a) system \<Rightarrow> reply \<times> ('r, 'w, 'a) system" where
  "gated g h s =
     (case g of
        (Inl rep, w) \<Rightarrow> (Api rep, s\<lparr>sy_world := w\<rparr>)
      | (Inr q, w) \<Rightarrow> run_api (h q) (s\<lparr>sy_world := w\<rparr>))"

text \<open>A handler of the provider or of the pages; none returns an error.\<close>

fun go_page :: "answer go \<Rightarrow> web_page" where
  "go_page (Ok a) = Answer a"
| "go_page (Panic m) = Panicked m"
| "go_page (Err _) = Panicked nil_panic"

definition run_page ::
  "(('r, 'w) world \<Rightarrow> web_page \<times> ('r, 'w) world) \<Rightarrow> ('r, 'w, 'a) system \<Rightarrow> reply \<times> ('r, 'w, 'a) system" where
  "run_page h s = (let (page, w) = h (sy_world s) in (Web page, s\<lparr>sy_world := w\<rparr>))"

definition run_go ::
  "(('r, 'w) world \<Rightarrow> answer go \<times> ('r, 'w) world) \<Rightarrow> ('r, 'w, 'a) system \<Rightarrow> reply \<times> ('r, 'w, 'a) system" where
  "run_go h = run_page (\<lambda>w. let (x, w1) = h w in (go_page x, w1))"

definition run_answer ::
  "(('r, 'w) world \<Rightarrow> answer \<times> ('r, 'w) world) \<Rightarrow> ('r, 'w, 'a) system \<Rightarrow> reply \<times> ('r, 'w, 'a) system" where
  "run_answer h = run_page (\<lambda>w. let (a, w1) = h w in (Answer a, w1))"

fun handle ::
  "site \<Rightarrow> ('r, 'w, 'a) app \<Rightarrow> endpoint \<Rightarrow> http_request \<Rightarrow> string \<Rightarrow> ('r, 'w, 'a) system \<Rightarrow>
     reply \<times> ('r, 'w, 'a) system" where
  "handle S a HealthEp r param s = (Api (writeJSON 200 (AMap [''ok'' \<mapsto> ABool True])), s)"
| "handle S a DocsEp r param s = (Api (writeJSON 200 (OpenAPI (cf_issuer (ap_cfg a)))), s)"
| "handle S a DiscoveryEp r param s = (Web (Answer (Discovery (ap_idp a))), s)"
| "handle S a JwksEp r param s = (Web (Answer (JWKS (ap_idp a) (si_public S))), s)"
| "handle S a AuthorizeEp r param s = run_go (Authorize (ap_idp a) (hr_form r)) s"
| "handle S a TokenEp r param s = run_go (Token (ap_idp a) (hr_form r)) s"
| "handle S a IntrospectEp r param s = run_go (Introspect (ap_idp a) (hr_form r)) s"
| "handle S a RevokeEp r param s = run_go (Revoke (ap_idp a) (hr_form r)) s"
| "handle S a LogoutEp r param s = run_answer (Logout (ap_idp a) (hr_form r)) s"
| "handle S a UserInfoEp r param s = run_answer (UserInfo (ap_idp a) (hr_form r)) s"
| "handle S a ShowEp r param s = run_page (ShowInteraction (ap_idp a) (hr_form r) param) s"
| "handle S a LoginEp r param s = run_page (handler_Login (ap_idp a) (hr_form r) param) s"
| "handle S a PasswordEp r param s = run_page (ChangePassword (ap_idp a) (hr_form r) param) s"
| "handle S a AbortEp r param s = run_go (abortInteraction (ap_idp a) (hr_form r) param) s"
| "handle S a ConfirmEp r param s = run_go (ConfirmConsent (ap_idp a) (hr_form r) param) s"
| "handle S a ForgotFormEp r param s = (Web ForgotForm, s)"
| "handle S a ForgotSubmitEp r param s = run_page (ForgotSubmit (ap_idp a) (hr_form r)) s"
| "handle S a ResetFormEp r param s = run_page (ResetForm (ap_idp a) (hr_form r)) s"
| "handle S a ResetSubmitEp r param s = run_page (ResetSubmit (ap_idp a) (hr_form r)) s"
| "handle S a (GlobalEp gop) r param s =
     gated (requireAdminAPIKey (ap_cfg a) r (web_of r param), sy_world s)
       (GlobalRoutes (NewAdmin (ap_idp a) (ap_authz a)) gop) s"
| "handle S a (TenantEp cop) r param s =
     gated (requireBearerAdmin (ap_idp a) r (web_of r param) (sy_world s))
       (TenantRoutes (NewAdmin (ap_idp a) (ap_authz a)) cop) s"
| "handle S a (SelfEp cop) r param s =
     gated (requireIdentity (ap_idp a) r (web_of r param) (sy_world s))
       (SelfClientRoutes (NewAdmin (ap_idp a) (ap_authz a)) cop) s"
| "handle S a (GuiApiEp gop) r param s =
     gated (requireMasterPassword (ap_cfg a) (pv_crypto (ap_idp a)) r (web_of r param), sy_world s)
       (GlobalRoutes (NewAdmin (ap_idp a) (ap_authz a)) gop) s"
| "handle S a GuiEp r param s =
     (case requireMasterPassword (ap_cfg a) (pv_crypto (ap_idp a)) r (web_of r param) of
        Inl rep \<Rightarrow> (Api rep, s)
      | Inr _ \<Rightarrow> (Html (AdminGUI (cf_master_user (ap_cfg a))), s))"

definition recovered :: "chi \<Rightarrow> reply \<Rightarrow> reply" where
  "recovered I rep = (case rep of Web (Panicked m) \<Rightarrow> ci_recover I m | _ \<Rightarrow> rep)"

definition serve ::
  "chi \<Rightarrow> site \<Rightarrow> ('r, 'w, 'a) app \<Rightarrow> http_request \<Rightarrow> ('r, 'w, 'a) system \<Rightarrow> reply \<times> ('r, 'w, 'a) system" where
  "serve I S a r0 s =
     (case ci_before I (ap_cfg a) r0 of
        Inl rep \<Rightarrow> (rep, s)
      | Inr r \<Rightarrow>
          let rs = Router (ap_cfg a) in
          (case ci_route I (map fst rs) r of
             None \<Rightarrow> (ci_missing I r, s)
           | Some (i, param) \<Rightarrow>
               if i < length rs
               then (let (rep, s1) = handle S a (snd (rs ! i)) r param s in (recovered I rep, s1))
               else (ci_missing I r, s)))"

section \<open>Starting the program\<close>

text \<open>The settings fosite is composed with; \<open>fo_factories\<close> are the handlers, by name.\<close>

record fosite_config =
  fo_access_ttl :: int
  fo_refresh_ttl :: int
  fo_code_ttl :: int
  fo_id_ttl :: int
  fo_issuer :: string
  fo_token_url :: string
  fo_secret :: string
  fo_refresh_scopes :: "string list"
  fo_pkce :: bool
  fo_pkce_plain :: bool
  fo_entropy :: nat
  fo_key :: string
  fo_factories :: "string list"

definition newFositeProvider :: "('r, 'w) provider \<Rightarrow> fosite_config" where
  "newFositeProvider p =
     \<lparr>fo_access_ttl = cf_access_ttl (pv_cfg p), fo_refresh_ttl = cf_refresh_ttl (pv_cfg p),
      fo_code_ttl = cf_code_ttl (pv_cfg p), fo_id_ttl = cf_id_ttl (pv_cfg p), fo_issuer = cf_issuer (pv_cfg p),
      fo_token_url = cf_issuer (pv_cfg p) @ ''/oauth/token'',
      fo_secret = sha256 (pv_crypto p) (cf_secret_key (pv_cfg p)), fo_refresh_scopes = [''offline_access''],
      fo_pkce = True, fo_pkce_plain = False, fo_entropy = 16, fo_key = pv_key p,
      fo_factories = [''OAuth2AuthorizeExplicit'', ''OAuth2ClientCredentialsGrant'', ''OAuth2RefreshTokenGrant'',
        ''OpenIDConnectExplicit'', ''OpenIDConnectRefresh'', ''OAuth2TokenIntrospection'',
        ''OAuth2TokenRevocation'', ''OAuth2PKCE'']\<rparr>"

text \<open>
  \<open>p\<close> is the struct before the key and fosite are in it; \<open>fosite\<close> is the storage for fosite, if there is one, as
  fosite's \<open>Compose\<close> over it.
\<close>

definition idp_New ::
  "rsalib \<Rightarrow> (fosite_config \<Rightarrow> ('r, 'w) oauth) option \<Rightarrow> ('r, 'w) provider \<Rightarrow> int \<Rightarrow> ('r, 'w) world \<Rightarrow>
     ('r, 'w) provider go \<times> ('r, 'w) world" where
  "idp_New L fosite p now w =
     (case loadSigningKey L p now w of
        (Ok p1, w1) \<Rightarrow>
          (Ok (case fosite of None \<Rightarrow> p1 | Some compose \<Rightarrow> p1\<lparr>pv_oauth := Some (compose (newFositeProvider p1))\<rparr>), w1)
      | (Err e, w1) \<Rightarrow> (Err e, w1)
      | (Panic m, w1) \<Rightarrow> (Panic m, w1))"

definition authz_settings :: "config \<Rightarrow> authz_config" where
  "authz_settings cfg =
     \<lparr>ac_backend = cf_authz_backend cfg, ac_admin_roles = cf_authz_roles cfg,
      ac_solutrix = \<lparr>so_base = cf_solutrix_url cfg, so_token_url = cf_solutrix_token_url cfg,
        so_client = cf_solutrix_client cfg, so_secret = cf_solutrix_secret cfg,
        so_scope = cf_solutrix_scope cfg, so_cache_ttl = cf_authz_cache_ttl cfg\<rparr>\<rparr>"

text \<open>What is dialled on the way: PostgreSQL and valkey, each opened and pinged.\<close>

record dialer =
  dl_postgres :: "string \<Rightarrow> unit res"
  dl_valkey :: "string \<Rightarrow> unit res"

definition New ::
  "dialer \<Rightarrow> rsalib \<Rightarrow> (fosite_config \<Rightarrow> ('r, 'w) oauth) \<Rightarrow> 'n http \<Rightarrow> ('r, 'w) provider \<Rightarrow> config \<Rightarrow> int \<Rightarrow>
     ('r, 'w) world \<Rightarrow> ('r, 'w, 'n solutrix) app go \<times> ('r, 'w) world" where
  "New D L compose H libs cfg now w =
     (case dl_postgres D (cf_database cfg) of
        Inl e \<Rightarrow> (Err e, w)
      | Inr _ \<Rightarrow>
          (case dl_valkey D (cf_valkey cfg) of
             Inl e \<Rightarrow> (Err e, w)
           | Inr _ \<Rightarrow>
               let p = libs\<lparr>pv_cfg := cfg, pv_backend := Some (NewBackend (pv_unicode libs) (pv_wd libs)),
                     pv_mailer := Some (NewMailer (pv_wd libs) \<lparr>mc_sender = cf_sender_id cfg,
                       mc_address = cf_sender_address cfg, mc_name = cf_sender_name cfg\<rparr>)\<rparr>
               in case idp_New L (Some compose) p now w of
                    (Ok p1, w1) \<Rightarrow>
                      (case authz_New (pv_unicode p) H (authz_settings cfg) of
                         Inl e \<Rightarrow> (Err e, w1)
                       | Inr az \<Rightarrow> (Ok \<lparr>ap_cfg = cfg, ap_idp = p1, ap_authz = az\<rparr>, w1))
                  | (Err e, w1) \<Rightarrow> (Err e, w1)
                  | (Panic m, w1) \<Rightarrow> (Panic m, w1)))"

end
