(* ===== verification/App_Frame.thy ===== *)
theory App_Frame
  imports App Authorize_Safety
begin

text \<open>
  Which requests leave the administered tables alone: every handler of the provider and of the pages
  keeps the clients, the service providers and the policies, whatever it answers.  The lemmas are in the
  collection \<open>frame\<close>; the handlers that reach PostgreSQL only read it, but for the audit events of the
  token exchange and the consent grants.
\<close>

section \<open>Handlers that do not write PostgreSQL\<close>

lemma artifact_frames [frame]:
  "w_db (snd (get_artifact p now n i w)) = w_db w"
  "w_db (snd (put_artifact p now n i m ttl w)) = w_db w"
  "w_db (snd (delete_artifact p now n i w)) = w_db w"
  "w_db (snd (randomID p k w)) = w_db w"
  "w_db (snd (on_wd f w)) = w_db w"
  "w_db (snd (login_locked p now key w)) = w_db w"
  "w_db (recordFailure p now a b w) = w_db w"
  "w_db (reset_failures p now a b w) = w_db w"
  by (simp_all add: get_artifact_def put_artifact_def delete_artifact_def randomID_def on_wd_def login_locked_def
      recordFailure_def reset_failures_def Let_def split_beta)

lemma provider_frames [frame]:
  "w_db (snd (FetchAccount p sub w)) = w_db w"
  "w_db (snd (VerifyAccessToken p now token w)) = w_db w"
  "w_db (snd (verifyLegacyAccessToken p now token w)) = w_db w"
  "w_db (snd (startSession p now sub email w)) = w_db w"
  "w_db (revokeLegacyJWTIfOwned p now token c w) = w_db w"
  by (auto simp: FetchAccount_def VerifyAccessToken_def verifyLegacyAccessToken_def startSession_def
      revokeLegacyJWTIfOwned_def Let_def split_beta frame split: sum.splits option.splits)

lemma check_locks_frame [frame]: "w_db (snd (check_locks p now ks w)) = w_db w"
  by (induction ks arbitrary: w) (auto simp: frame split_beta split: sum.splits)

lemma accepted_frame [frame]: "w_db (snd (accepted p now uid a b auth acc w)) = w_db w"
  by (auto simp: accepted_def Let_def split_beta frame
      split: sum.splits)

lemma sign_in_frame [frame]: "w_db (snd (sign_in p now uid u pw a b w)) = w_db w"
  by (auto simp: sign_in_def Let_def split_beta frame
      split: sum.splits)

lemma FinishLogin_frame [frame]: "w_db (snd (FinishLogin p now uid u pw ip w)) = w_db w"
  by (auto simp: FinishLogin_def Let_def split_beta frame
      split: sum.splits)

lemma CompletePasswordChange_frame [frame]: "w_db (snd (CompletePasswordChange p now uid pw w)) = w_db w"
  by (auto simp: CompletePasswordChange_def Let_def split_beta frame
      split: sum.splits)

lemma InteractionView_frame [frame]: "w_db (snd (InteractionView p r uid msg w)) = w_db w"
  by (auto simp: InteractionView_def Let_def split_beta frame
      split: sum.splits option.splits)

lemma PasswordChangeView_frame [frame]: "w_db (snd (PasswordChangeView p r uid msg w)) = w_db w"
  by (auto simp: PasswordChangeView_def Let_def split_beta frame
      split: sum.splits)

lemma RedirectAfterLogin_frame [frame]: "w_db (snd (RedirectAfterLogin p now uid sid w)) = w_db w"
  by (auto simp: RedirectAfterLogin_def Let_def split_beta frame
      split: sum.splits)

lemma ShowInteraction_frame [frame]: "w_db (snd (ShowInteraction p r uid w)) = w_db w"
  by (auto simp: ShowInteraction_def Let_def split_beta frame
      split: sum.splits)

lemma handler_Login_frame [frame]: "w_db (snd (handler_Login p r uid w)) = w_db w"
  by (auto simp: handler_Login_def Let_def split_beta frame
      split: sum.splits goerr.splits)

lemma render_change_frame [frame]: "w_db (snd (render_change p r uid msg w)) = w_db w"
  by (auto simp: render_change_def Let_def split_beta frame
      split: sum.splits)

lemma ChangePassword_frame [frame]: "w_db (snd (ChangePassword p r uid w)) = w_db w"
  by (auto simp: ChangePassword_def Let_def split_beta frame
      split: sum.splits)

lemma send_reset_frame [frame]: "w_db (send_reset p m now acc email w) = w_db w"
  by (auto simp: send_reset_def Let_def split_beta frame
      split: sum.splits)

lemma BeginPasswordReset_frame [frame]: "w_db (BeginPasswordReset p now login email w) = w_db w"
  by (auto simp: BeginPasswordReset_def Let_def split_beta frame
      split: sum.splits option.splits bool.splits)

lemma ResetTokenValid_frame [frame]: "w_db (snd (ResetTokenValid p now token w)) = w_db w"
  by (auto simp: ResetTokenValid_def Let_def split_beta frame)

lemma CompletePasswordReset_frame [frame]: "w_db (snd (CompletePasswordReset p now token pw w)) = w_db w"
  by (auto simp: CompletePasswordReset_def Let_def split_beta frame
      split: sum.splits option.splits)

lemma ForgotSubmit_frame [frame]: "w_db (snd (ForgotSubmit p r w)) = w_db w"
  by (auto simp: ForgotSubmit_def Let_def split_beta frame)

lemma ResetForm_frame [frame]: "w_db (snd (ResetForm p r w)) = w_db w"
  by (auto simp: ResetForm_def Let_def split_beta frame
      split: bool.splits)

lemma ResetSubmit_frame [frame]: "w_db (snd (ResetSubmit p r w)) = w_db w"
  by (auto simp: ResetSubmit_def Let_def split_beta frame
      split: go.splits)

section \<open>The endpoints of the provider\<close>

text \<open>Fosite reaches PostgreSQL through the storage of internal/fositestore, which only reads it.\<close>

definition fosite_reads :: "('r, 'w) provider \<Rightarrow> bool" where
  "fosite_reads p \<longleftrightarrow> (\<forall>oa. pv_oauth p = Some oa \<longrightarrow> oauth_reads_db oa
     \<and> (\<forall>r se w. w_db (snd (oa_access_request oa r se w)) = w_db w)
     \<and> (\<forall>r aq w. w_db (snd (oa_access_response oa r aq w)) = w_db w)
     \<and> (\<forall>r w. w_db (snd (oa_introspection oa r w)) = w_db w)
     \<and> (\<forall>r w. w_db (snd (oa_revocation oa r w)) = w_db w))"

lemma fosite_readsD:
  assumes "fosite_reads p" "pv_oauth p = Some oa"
  shows "w_db (snd (oa_authorize_request oa r u w)) = w_db w" "w_db (snd (oa_authorize_response oa r ar se w)) = w_db w"
    "w_db (snd (oa_access_request oa r se w)) = w_db w" "w_db (snd (oa_access_response oa r aq w)) = w_db w"
    "w_db (snd (oa_introspection oa r w)) = w_db w" "w_db (snd (oa_revocation oa r w)) = w_db w"
  using assms by (simp_all add: fosite_reads_def oauth_reads_db_def)

lemma account_claims_db [frame]: "w_db (snd (account_claims p sub w)) = w_db w"
  by (auto simp: account_claims_def Let_def split_beta frame
      split: sum.splits)

lemma add_refresh_frame [frame]: "w_db (snd (add_refresh p now c sub scope resp w)) = w_db w"
  by (auto simp: add_refresh_def Let_def split_beta frame)

lemma issueTokenResponse_frame [frame]: "w_db (snd (issueTokenResponse p now c sub scope nonce w)) = w_db w"
  by (auto simp: issueTokenResponse_def Let_def split_beta frame
      split: sum.splits)

lemma grant_frames [frame]:
  "w_db (snd (tokenAuthorizationCode p r c w)) = w_db w"
  "w_db (snd (tokenRefresh p r c w)) = w_db w"
  "w_db (snd (tokenClientCredentials p r c w)) = w_db w"
  "w_db (snd (legacyIntrospect p r w)) = w_db w"
  "w_db (snd (Logout p r w)) = w_db w"
  "w_db (snd (UserInfo p r w)) = w_db w"
  "w_db (snd (abortInteraction p r uid w)) = w_db w"
  by (auto simp: tokenAuthorizationCode_def tokenRefresh_def tokenClientCredentials_def legacyIntrospect_def
      Logout_def UserInfo_def abortInteraction_def Let_def split_beta frame
      split: sum.splits go.splits option.splits)

section \<open>The administered tables\<close>

type_synonym tables = "client_row list \<times> sp_row list \<times> policy_row list \<times> tx_policy_row list \<times> key_row list"

definition tables :: "db \<Rightarrow> tables" where
  "tables d = (t_clients d, t_sps d, t_policies d, t_tx_policies d, t_keys d)"

lemma consent_tables [frame]: "tables (snd (PutConsentGrant C PG now sub cid sc au d)) = tables d"
  by (simp add: PutConsentGrant_def tables_def split: option.split)

lemma log_event_tables [frame]: "tables (w_db (log_event p ev w)) = tables (w_db w)"
  by (auto simp: log_event_def LogTokenExchangeEvent_def tables_def Let_def split: option.splits)

lemma tokenExchange_tables [frame]: "tables (w_db (snd (tokenExchange p r c w))) = tables (w_db w)"
proof -
  obtain a ev w1 where b: "exchange_body p r c w = (a, ev, w1)" by (metis prod_cases3)
  with exchange_body_frame [OF b] show ?thesis by (simp add: tokenExchange_def frame)
qed

lemma tokenFosite_frame:
  assumes "fosite_reads p" "pv_oauth p = Some oa"
  shows "w_db (snd (tokenFosite p oa r w)) = w_db w"
  by (auto simp: tokenFosite_def Let_def split_beta fosite_readsD [OF assms]
      split: go.splits option.splits sum.splits)

lemma Token_tables:
  assumes "fosite_reads p"
  shows "tables (w_db (snd (Token p r w))) = tables (w_db w)"
  using tokenFosite_frame [OF assms]
  by (auto simp: Token_def Let_def split_beta frame split: go.splits option.splits)

lemma Introspect_frame:
  assumes "fosite_reads p"
  shows "w_db (snd (Introspect p r w)) = w_db w"
proof (cases "pv_oauth p")
  case None
  obtain x w1 where l: "legacyIntrospect p r w = (x, w1)" by force
  then have "w_db w1 = w_db w" using grant_frames(4) [of p r w] by simp
  with None l show ?thesis by (auto simp: Introspect_def split: go.split option.split)
next
  case (Some oa)
  obtain i w1 where i: "oa_introspection oa (ensureBasicAuthFromForm r) w = (i, w1)" by force
  obtain x w2 where l: "legacyIntrospect p (ensureBasicAuthFromForm r) w1 = (x, w2)" by force
  have "w_db w1 = w_db w" using fosite_readsD(5) [OF assms Some, of "ensureBasicAuthFromForm r" w] i by simp
  moreover have "w_db w2 = w_db w1" using grant_frames(4) [of p "ensureBasicAuthFromForm r" w1] l by simp
  ultimately show ?thesis using Some i l
    by (auto simp: Introspect_def Let_def split: go.split option.split sum.split)
qed

lemma Revoke_frame:
  assumes "fosite_reads p"
  shows "w_db (snd (Revoke p r w)) = w_db w"
proof (cases "pv_oauth p")
  case None
  show ?thesis
  proof (cases "authenticateClient p r w")
    case (Ok c)
    obtain x w1 where v: "VerifyAccessToken p (hf_now r) (vget (hf_form r) ''token'') w = (x, w1)" by force
    with VerifyAccessToken_frame [OF v] None Ok show ?thesis
      by (cases x) (simp_all add: Revoke_def Let_def split_beta frame split: sum.split)
  qed (use None in \<open>simp_all add: Revoke_def Let_def\<close>)
next
  case (Some oa)
  obtain x w1 where v: "oa_revocation oa r w = (x, w1)" by force
  then have "w_db w1 = w_db w" using fosite_readsD(6) [OF assms Some, of r w] by simp
  with Some v show ?thesis
    by (cases x; cases "authenticateClient p r w") (simp_all add: Revoke_def Let_def frame)
qed

lemma finish_frame:
  assumes "fosite_reads p"
  shows "w_db (snd (finishAuthorization p r c sub q w)) = w_db w"
proof -
  have "\<forall>oa. pv_oauth p = Some oa \<longrightarrow> oauth_reads_db oa" using assms by (auto simp: fosite_reads_def)
  from finishAuthorization_db [OF _ this] show ?thesis by (metis prod.collapse)
qed

lemma Authorize_frame:
  assumes "fosite_reads p"
  shows "w_db (snd (Authorize p r w)) = w_db w"
proof -
  have offer: "w_db (snd (offer_interaction p now uid m w)) = w_db w" for now uid m w
    by (auto simp: offer_interaction_def split_beta frame split: sum.splits)
  have "w_db (snd (authorize_session p r c q w)) = w_db w" for c q w
    by (auto simp: authorize_session_def redirectToConsent_def Let_def split_beta frame offer finish_frame [OF assms]
        split: option.splits sum.splits)
  then show ?thesis
    by (auto simp: Authorize_def Let_def split: sum.splits)
qed

lemma Consent_tables:
  assumes "fosite_reads p"
  shows "tables (w_db (snd (ConfirmConsent p r uid w))) = tables (w_db w)"
proof -
  have "tables (w_db (snd (confirm p r sub artifact w))) = tables (w_db w)" for sub artifact w
    by (auto simp: confirm_def Let_def split_beta finish_frame [OF assms] frame split: sum.splits)
  then show ?thesis
    by (auto simp: ConfirmConsent_def Let_def split_beta frame split: sum.splits option.splits)
qed

end
