(* ===== verification/Fosite_Tokens.thy ===== *)
theory Fosite_Tokens
  imports Fosite_Store Lockout
begin

text \<open>
  What the fosite storage guarantees: the JSON round trip of a stored request, its lifetime, that an
  authorization code once used stays used, how far revocation by request id reaches, and what two
  requests that both read a code before one of them invalidates it obtain.
\<close>

section \<open>The round trip of a stored request\<close>

definition norm_slice :: "slice \<Rightarrow> slice" where
  "norm_slice s = (if elems s = [] then None else Some (map valid_utf8_of (elems s)))"

definition norm_form :: "uvalues \<Rightarrow> uvalues" where
  "norm_form q = (\<lambda>k. map valid_utf8_of (q k))"

text \<open>The request as JSON keeps it, with the session that is read back for its session.\<close>

definition norm_persisted :: "persisted \<Rightarrow> fsession option \<Rightarrow> persisted" where
  "norm_persisted p se = \<lparr>ps_id = valid_utf8_of (ps_id p), ps_requested_at = ps_requested_at p,
     ps_client_id = valid_utf8_of (ps_client_id p), ps_scopes = norm_slice (ps_scopes p),
     ps_granted = norm_slice (ps_granted p), ps_audience = norm_slice (ps_audience p),
     ps_granted_audience = norm_slice (ps_granted_audience p), ps_form = norm_form (ps_form p),
     ps_session = se, ps_access = valid_utf8_of (ps_access p), ps_invalidated = ps_invalidated p,
     ps_expires = ps_expires p\<rparr>"

definition session_reads :: "session_json \<Rightarrow> fsession option \<Rightarrow> fsession option \<Rightarrow> bool" where
  "session_reads SJ s se = (case s of None \<Rightarrow> se = None
     | Some v \<Rightarrow> dec_session SJ (json_norm (sj_enc SJ v)) = Some se \<and> se \<noteq> None)"

lemma dec_strs_marshal [simp]: "dec_strs (json_norm (AStrs s)) = Some (utf8_slice s)"
  using unmarshal_marshal_strings [of s] by (simp add: dec_strs_def marshal_strings_def)

lemma valid_utf8_nil [simp]: "valid_utf8_of [] = []"
  by (simp add: valid_utf8_of_ascii ascii_def)

lemma dec_form_json: "dec_form (AMap (json_map (form_json q))) = Some (norm_form q)"
proof -
  have u: "unmarshal_strings (json_norm (AStrs (Some xs))) = (Some (map valid_utf8_of xs), True)" for xs
    using unmarshal_marshal_strings [of "Some xs"] by (simp add: marshal_strings_def utf8_slice_def)
  have "\<forall>x \<in> ran (json_map (form_json q)). snd (unmarshal_strings x)"
    using u by (auto simp: ran_def json_map_def form_json_def split: if_splits)
  moreover have "(case json_map (form_json q) k of None \<Rightarrow> [] | Some x \<Rightarrow> elems (fst (unmarshal_strings x)))
      = norm_form q k" for k
    using u [of "q k"] by (simp add: form_json_def norm_form_def)
  ultimately show ?thesis by (simp add: dec_form_def)
qed

lemma utf8_slice_norm: "elems s \<noteq> [] \<Longrightarrow> utf8_slice s = norm_slice s"
  by (cases s) (simp_all add: utf8_slice_def norm_slice_def)

lemma persisted_members:
  fixes SJ :: session_json and p :: persisted
  defines "m \<equiv> json_map (persisted_json SJ p)"
  shows "dec_str (mget m ''id'') = Some (valid_utf8_of (ps_id p))"
    "dec_time (mget m ''requested_at'') = Some (Some (ps_requested_at p))"
    "dec_str (mget m ''client_id'') = Some (valid_utf8_of (ps_client_id p))"
    "dec_strs (mget m ''requested_scope'') = Some (norm_slice (ps_scopes p))"
    "dec_strs (mget m ''granted_scope'') = Some (norm_slice (ps_granted p))"
    "dec_strs (mget m ''requested_audience'') = Some (norm_slice (ps_audience p))"
    "dec_strs (mget m ''granted_audience'') = Some (norm_slice (ps_granted_audience p))"
    "dec_form (mget m ''form'') = Some (norm_form (ps_form p))"
    "dec_str (mget m ''access_signature'') = Some (valid_utf8_of (ps_access p))"
    "dec_bool (mget m ''invalidated'') = Some (ps_invalidated p)"
    "dec_time (mget m ''expires_at'') = Some (ps_expires p)"
    "session_reads SJ (ps_session p) se \<Longrightarrow> dec_session SJ (mget m ''session'') = Some se"
proof -
  have n: "dec_strs ANil = Some None" by (simp add: dec_strs_def unmarshal_strings_def)
  show "dec_strs (mget m ''requested_scope'') = Some (norm_slice (ps_scopes p))"
      "dec_strs (mget m ''granted_scope'') = Some (norm_slice (ps_granted p))"
      "dec_strs (mget m ''requested_audience'') = Some (norm_slice (ps_audience p))"
      "dec_strs (mget m ''granted_audience'') = Some (norm_slice (ps_granted_audience p))"
    by (simp_all add: m_def persisted_json_def omit_strs_def n utf8_slice_norm del: json_norm.simps(7))
      (simp_all add: norm_slice_def)
  show "dec_form (mget m ''form'') = Some (norm_form (ps_form p))"
    using dec_form_json [of "ps_form p"] by (simp add: m_def persisted_json_def omit_strs_def)
qed (auto simp: m_def persisted_json_def omit_strs_def session_reads_def dec_session_def
    split: option.splits)

lemma unmarshal_persisted_json:
  assumes "session_reads SJ (ps_session p) se"
  shows "unmarshal_persisted SJ (Doc (json_norm (AMap (persisted_json SJ p)))) = Inr (norm_persisted p se)"
  by (simp add: unmarshal_persisted_def dec_persisted_def persisted_members(1-11)
      persisted_members(12) [OF assms] norm_persisted_def
      del: json_map_get)

text \<open>
  A request stored for fosite is read back: the document written for a persisted request decodes
  to it as JSON keeps it, every member included, with the session that the session's own document
  decodes to.
\<close>

theorem persisted_roundtrip:
  assumes "session_reads SJ (ps_session p) se"
  shows "unmarshal_persisted SJ (Doc (json_norm (AMap (persisted_json SJ p)))) = Inr (norm_persisted p se)"
  by (rule unmarshal_persisted_json [OF assms])

text \<open>Whatever the session's document decodes to, the flag survives.\<close>

lemma dec_persisted_flag:
  "unmarshal_persisted SJ (Doc (json_norm (AMap (persisted_json SJ p)))) = Inr q \<Longrightarrow>
     ps_invalidated q = ps_invalidated p \<and> ps_expires q = ps_expires p"
  by (cases "dec_session SJ (mget (json_map (persisted_json SJ p)) ''session'')")
    (auto simp: unmarshal_persisted_def dec_persisted_def persisted_members simp del: json_map_get)

section \<open>The stored sessions of a keyspace\<close>

definition session_at :: "'r fstore \<Rightarrow> int \<Rightarrow> keyspace \<Rightarrow> string \<Rightarrow> string \<Rightarrow> persisted option" where
  "session_at F t ks name key =
     (case purge t ks (storeID (ft_crypto F) name key) of
        Some (RStr b, _) \<Rightarrow> (case unmarshal_persisted (ft_json F) b of Inr p \<Rightarrow> Some p | Inl _ \<Rightarrow> None)
      | _ \<Rightarrow> None)"

lemma session_at_same:
  "same_keyspace t ks ks' \<Longrightarrow> t \<le> t' \<Longrightarrow> session_at F t' ks' n k = session_at F t' ks n k"
  by (simp add: same_keyspace_def session_at_def)

lemma session_at_later: "session_at F t ks n k = None \<or> session_at F t ks n k = Some p \<Longrightarrow> t \<le> t' \<Longrightarrow>
    session_at F t' ks n k = None \<or> session_at F t' ks n k = session_at F t ks n k"
  by (auto simp: session_at_def purge_def live_later split: option.splits rval.splits sum.splits if_splits)

lemma ttlFor_pos: "0 < ft_ttl F \<Longrightarrow> 0 < ttlFor F now e"
  by (simp add: ttlFor_def split: option.splits)

lemma kv_Get_errors: "kv_Get R t k s = (Inl e, s') \<Longrightarrow> e = KvErrNil \<or> (\<exists>m. e = ExtErr m)"
  by (auto simp: kv_Get_def split: prod.splits sum.splits rerr.splits)

context redis_server
begin

lemma getPersisted_Inr:
  assumes "getPersisted F t n k s = (Inr p, s')" "ft_redis F = R"
  shows "session_at F t (view s) n k = Some p \<and> same_keyspace t (view s) (view s')
    \<and> (case ps_expires p of None \<Rightarrow> True | Some e \<Rightarrow> t \<le> e)"
proof -
  obtain x s1 where g: "kv_Get R t (storeID (ft_crypto F) n k) s = (x, s1)" by force
  with assms obtain b where "x = Inr b" "unmarshal_persisted (ft_json F) b = Inr p" "s' = s1"
      "case ps_expires p of None \<Rightarrow> True | Some e \<Rightarrow> t \<le> e"
    by (auto simp: getPersisted_def split: sum.splits goerr.splits if_splits option.splits)
  with kv_Get_Inr [of t "storeID (ft_crypto F) n k" s b s1] g show ?thesis
    by (auto simp: session_at_def intro: same_keyspaceI)
qed

lemma putPersisted_purge:
  assumes "putPersisted F t n k p s = (Inr (), s')" "ft_redis F = R" "0 < ft_ttl F" "t \<le> t'"
  defines "key \<equiv> storeID (ft_crypto F) n k" and "d \<equiv> px_deadline t (ttlFor F t (ps_expires p))"
  shows "purge t' (view s') j = (if j = key
     then (if t' < the d then Some (RStr (Doc (json_norm (AMap (persisted_json (ft_json F) p)))), d) else None)
     else purge t' (view s) j)"
  using kv_Set_lookup [of t key _ "ttlFor F t (ps_expires p)" s s' t' j] assms ttlFor_pos [OF assms(3)]
  by (simp add: putPersisted_def)

lemma fs_delete_purge:
  assumes "fs_delete F t n k s = (Inr (), s')" "ft_redis F = R" "t \<le> t'"
  shows "purge t' (view s') j = (if j = storeID (ft_crypto F) n k then None else purge t' (view s) j)"
  using kv_Del_lookup [of t _ s s' t'] assms by (auto simp: fs_delete_def ks_del_def)

lemma kv_SAdd_other:
  assumes "kv_SAdd R t idx ttl members s = (Inr (), s')" "j \<noteq> idx" "t \<le> t'"
  shows "purge t' (view s') j = purge t' (view s) j"
proof -
  let ?c = "SADD idx members # (if 0 < ttl then [EXPIRE idx ttl] else [])"
  have "rd_exec R t ?c s = (Inr (), s')" using assms(1) by (simp add: kv_SAdd_def)
  from exec_ok [OF this] have "purge t (view s') = purge t (fold (ks_cmd t) ?c (purge t (view s)))" .
  then have "purge t (view s') j = purge t (fold (ks_cmd t) ?c (purge t (view s))) j" by simp
  also have "\<dots> = purge t (view s) j"
    using assms(2) by (simp add: ks_sadd_def ks_expire_def purge_def split: option.splits)
  finally show ?thesis
    using assms(3) by (auto simp: purge_def live_later split: option.splits if_splits)
qed

lemma kv_SMembers_Inr:
  "kv_SMembers R t k s = (Inr xs, s') \<Longrightarrow>
     same_keyspace t (view s) (view s') \<and> set xs = set (ks_members (purge t (view s)) k)"
  by (auto simp: kv_SMembers_def dest: smembers_ok intro: same_keyspaceI)

end

section \<open>A used code stays used\<close>

text \<open>The calls of fosite that were answered without an error.\<close>

datatype fs_op =
    OpCreate string string "frequest option" string
  | OpInvalidate string
  | OpDelete string string
  | OpRevoke string string
  | OpRead string string

fun fs_do :: "'r fstore \<Rightarrow> int \<Rightarrow> fs_op \<Rightarrow> 'r \<Rightarrow> unit res \<times> 'r" where
  "fs_do F t (OpCreate n k r x) s = fs_put F t n k r x False s"
| "fs_do F t (OpInvalidate c) s = InvalidateAuthorizeCodeSession F t c s"
| "fs_do F t (OpDelete n k) s = fs_delete F t n k s"
| "fs_do F t (OpRevoke n i) s = revokeByRequestID F t n i s"
| "fs_do F t (OpRead n k) s = (let (x, s1) = getPersisted F t n k s in (map_sum id (\<lambda>_. ()) x, s1))"

text \<open>Runs of such calls at increasing times.\<close>

inductive fs_run :: "'r fstore \<Rightarrow> int \<Rightarrow> 'r \<Rightarrow> fs_op list \<Rightarrow> int \<Rightarrow> 'r \<Rightarrow> bool" for F where
  run_none: "fs_run F t s [] t s"
| run_step: "t \<le> t1 \<Longrightarrow> fs_do F t1 op s = (Inr (), s1) \<Longrightarrow> fs_run F t1 s1 ops t2 s2 \<Longrightarrow>
    fs_run F t s (op # ops) t2 s2"

inductive_cases fs_run_NilE [elim!]: "fs_run F t s [] t2 s2"
inductive_cases fs_run_ConsE [elim!]: "fs_run F t s (op # ops) t2 s2"

lemma fs_run_mono: "fs_run F t s ops t2 s2 \<Longrightarrow> t \<le> t2"
  by (induction rule: fs_run.induct) auto

fun creates :: "'r fstore \<Rightarrow> string \<Rightarrow> fs_op \<Rightarrow> bool" where
  "creates F code (OpCreate n k _ _) =
     (storeID (ft_crypto F) n k = storeID (ft_crypto F) nameAuthorizeCode code)"
| "creates F code _ = False"

text \<open>A dead code: whatever document is under its key is an invalidated one.\<close>

definition code_dead :: "'r fstore \<Rightarrow> int \<Rightarrow> keyspace \<Rightarrow> string \<Rightarrow> bool" where
  "code_dead F t ks code \<longleftrightarrow>
     (\<forall>p. session_at F t ks nameAuthorizeCode code = Some p \<longrightarrow> ps_invalidated p)"

lemma code_dead_later: "code_dead F t ks code \<Longrightarrow> t \<le> t' \<Longrightarrow> code_dead F t' ks code"
  by (auto simp: code_dead_def session_at_def purge_def live_later
      split: option.splits rval.splits sum.splits if_splits)

lemma code_dead_same:
  "same_keyspace t ks ks' \<Longrightarrow> code_dead F t ks code \<Longrightarrow> code_dead F t ks' code"
  by (simp add: code_dead_def session_at_same)

text \<open>A keyspace in which every document at the code's key is as before or gone.\<close>

lemma code_dead_less:
  assumes "code_dead F t ks code" "purge t ks' (storeID (ft_crypto F) nameAuthorizeCode code)
      \<in> {None, purge t ks (storeID (ft_crypto F) nameAuthorizeCode code)}"
  shows "code_dead F t ks' code"
  using assms by (auto simp: code_dead_def session_at_def)

context redis_server
begin

lemma invalidate_dead:
  assumes "InvalidateAuthorizeCodeSession F t c s = (Inr (), s')" "ft_redis F = R" "0 < ft_ttl F"
    and "c = code \<or> code_dead F t (view s) code"
  shows "code_dead F t (view s') code"
proof -
  obtain p s1 where g: "getPersisted F t nameAuthorizeCode c s = (Inr p, s1)"
      and p: "putPersisted F t nameAuthorizeCode c (p\<lparr>ps_invalidated := True\<rparr>) s1 = (Inr (), s')"
    using assms(1) by (auto simp: InvalidateAuthorizeCodeSession_def split: prod.splits sum.splits)
  note pp = putPersisted_purge [OF p assms(2,3) order_refl]
  show ?thesis
  proof (cases "storeID (ft_crypto F) nameAuthorizeCode code = storeID (ft_crypto F) nameAuthorizeCode c")
    case True
    let ?v = "json_norm (AMap (persisted_json (ft_json F) (p\<lparr>ps_invalidated := True\<rparr>)))"
    have "purge t (view s') (storeID (ft_crypto F) nameAuthorizeCode code)
        \<in> {None, Some (RStr (Doc ?v), px_deadline t (ttlFor F t (ps_expires p)))}"
      by (simp only: pp True if_True) simp
    moreover have "ps_invalidated q" if "unmarshal_persisted (ft_json F) (Doc ?v) = Inr q" for q
      using dec_persisted_flag [OF that] by simp
    ultimately show ?thesis
      unfolding code_dead_def session_at_def
      by (elim insertE) (simp_all split: sum.splits del: json_norm_map)
  next
    case False
    with assms(4) have "code_dead F t (view s) code" by auto
    moreover have "purge t (view s1) = purge t (view s)"
      using getPersisted_Inr [OF g assms(2)] by (simp add: same_keyspace_def)
    ultimately show ?thesis using False by - (rule code_dead_less [of F t "view s"], simp_all add: pp)
  qed
qed

lemma fs_put_other:
  assumes "fs_put F t n k r x b s = (Inr (), s')" "ft_redis F = R" "0 < ft_ttl F" "t \<le> t'"
    and "j \<noteq> storeID (ft_crypto F) n k" "\<And>m i. j \<noteq> indexKey (ft_crypto F) m i"
  shows "purge t' (view s') j = purge t' (view s) j"
proof -
  obtain p s1 where p: "putPersisted F t n k p s = (Inr (), s1)"
      and rest: "s' = s1 \<or> kv_SAdd R t (indexKey (ft_crypto F) n (ps_id p)) (ttlFor F t (ps_expires p))
        [storeID (ft_crypto F) n k] s1 = (Inr (), s')"
    using assms(1,2) by (auto simp: fs_put_def Let_def split: sum.splits prod.splits if_splits)
  from rest have "purge t' (view s') j = purge t' (view s1) j"
    using kv_SAdd_other assms(4,6) by blast
  with putPersisted_purge [OF p assms(2-4)] assms(5) show ?thesis by simp
qed

lemma fs_step_dead:
  assumes "fs_do F t op s = (Inr (), s')" "ft_redis F = R" "0 < ft_ttl F" "code_dead F t (view s) code"
    and "\<not> creates F code op"
  shows "code_dead F t (view s') code"
proof (cases op)
  case (OpCreate n k r x)
  have "purge t (view s') (storeID (ft_crypto F) nameAuthorizeCode code) =
      purge t (view s) (storeID (ft_crypto F) nameAuthorizeCode code)"
    using fs_put_other [of F t n k r x False s s' t "storeID (ft_crypto F) nameAuthorizeCode code"]
      assms(1-3,5) OpCreate by auto
  then show ?thesis by - (rule code_dead_less [OF assms(4)], simp)
next
  case (OpInvalidate c)
  with assms show ?thesis by (auto intro: invalidate_dead)
next
  case (OpDelete n k)
  with assms(1) have "fs_delete F t n k s = (Inr (), s')" by simp
  from fs_delete_purge [OF this assms(2) order_refl] show ?thesis
    by - (rule code_dead_less [OF assms(4)], simp)
next
  case (OpRevoke n i)
  then obtain ms s1 where m: "kv_SMembers R t (indexKey (ft_crypto F) n i) s = (Inr ms, s1)"
      and d: "kv_Del R t (ms @ [indexKey (ft_crypto F) n i]) s1 = (Inr (), s')"
    using assms(1,2) by (auto simp: revokeByRequestID_def Let_def split: prod.splits sum.splits)
  have "purge t (view s') = ks_del (ms @ [indexKey (ft_crypto F) n i]) (purge t (view s))"
    using kv_Del_lookup [OF d order_refl] kv_SMembers_Inr [OF m] by (simp add: same_keyspace_def)
  then show ?thesis by - (rule code_dead_less [OF assms(4)], simp add: ks_del_def)
next
  case (OpRead n k)
  then obtain p where "getPersisted F t n k s = (Inr p, s')"
    using assms(1) by (cases "getPersisted F t n k s"; cases "fst (getPersisted F t n k s)") auto
  from getPersisted_Inr [OF this assms(2)] assms(4) show ?thesis
    by (auto intro: code_dead_same)
qed

lemma fs_run_dead:
  assumes "fs_run F t s ops t2 s2" "ft_redis F = R" "0 < ft_ttl F" "code_dead F t (view s) code"
    and "\<forall>op \<in> set ops. \<not> creates F code op"
  shows "code_dead F t2 (view s2) code"
  using assms
proof (induction rule: fs_run.induct)
  case (run_step t t1 op s s1 ops t2 s2)
  have "code_dead F t1 (view s1) code"
    by (rule fs_step_dead [OF run_step.hyps(2)])
      (use run_step.prems code_dead_later [OF _ run_step.hyps(1)] in auto)
  with run_step show ?case by auto
qed

end

text \<open>
  C27. An authorization code is redeemed once: when fosite has invalidated it, no later answer of the
  storage gives it back without an error, after any calls of the storage that were answered and that
  do not create a session under the same key.
\<close>

theorem code_stays_used:
  assumes "redis_server (ft_redis F) view" and "0 < ft_ttl F"
    and "InvalidateAuthorizeCodeSession F t code s = (Inr (), s1)" and "fs_run F t s1 ops t2 s2"
    and "\<forall>op \<in> set ops. \<not> creates F code op"
    and "t2 \<le> now" and "GetAuthorizeCodeSession F d now code session s2 = ((r, e), s3)"
  shows "e \<noteq> None"
proof -
  note dead = redis_server.fs_run_dead [OF assms(1,4) refl assms(2)
      redis_server.invalidate_dead [OF assms(1,3) refl assms(2) disjI1 [OF refl]] assms(5)]
  show ?thesis
  proof (cases e)
    case None
    with assms(7) obtain q p where "fs_get F d now nameAuthorizeCode code session s2 = (Inr (q, p), s3)"
        "\<not> ps_invalidated p"
      by (auto simp: GetAuthorizeCodeSession_def split: prod.splits sum.splits if_splits)
    then have "getPersisted F now nameAuthorizeCode code s2 = (Inr p, s3)"
      by (auto simp: fs_get_def split: prod.splits sum.splits)
    from redis_server.getPersisted_Inr [OF assms(1) this refl]
      code_dead_later [OF dead assms(6)] \<open>\<not> ps_invalidated p\<close>
    show ?thesis unfolding code_dead_def by blast
  qed simp
qed

section \<open>Lifetime and revocation of token sessions\<close>

text \<open>What is stored for a request.\<close>

definition stored :: "string \<Rightarrow> frequest \<Rightarrow> string \<Rightarrow> persisted" where
  "stored n r acc = (case requestToPersisted (Some r) of Inl _ \<Rightarrow> undefined
     | Inr p \<Rightarrow> p\<lparr>ps_access := acc, ps_invalidated := False, ps_expires := expiryFor (fr_session r) n\<rparr>)"

lemma stored_simps [simp]:
  "ps_id (stored n r acc) = fr_id r" "ps_expires (stored n r acc) = expiryFor (fr_session r) n"
  "ps_client_id (stored n r acc) = fc_id (fr_client r)"
  "ps_session (stored n r acc) = (case fr_session r of Munin s \<Rightarrow> Some s | _ \<Rightarrow> None)"
  by (simp_all add: stored_def requestToPersisted_def Clone_def split: any_session.splits)

definition put_deadline :: "'r fstore \<Rightarrow> int \<Rightarrow> string \<Rightarrow> frequest \<Rightarrow> int" where
  "put_deadline F t n r = the (px_deadline t (ttlFor F t (expiryFor (fr_session r) n)))"

text \<open>The index of the request id loses its own deadline in whole seconds.\<close>

definition index_deadline :: "'r fstore \<Rightarrow> int \<Rightarrow> string \<Rightarrow> frequest \<Rightarrow> int" where
  "index_deadline F t n r =
     t + max 1 (ttlFor F t (expiryFor (fr_session r) n) div second) * second"

definition revocable :: "string \<Rightarrow> frequest \<Rightarrow> bool" where
  "revocable n r \<longleftrightarrow> (n = nameAccessToken \<or> n = nameRefreshToken) \<and> fr_id r \<noteq> []"

lemma fs_put_Some:
  "fs_put F t n k (Some r) acc False s = (case putPersisted F t n k (stored n r acc) s of
      (Inl e, s1) \<Rightarrow> (Inl e, s1)
    | (Inr _, s1) \<Rightarrow>
        if revocable n r
        then kv_SAdd (ft_redis F) t (indexKey (ft_crypto F) n (fr_id r))
               (ttlFor F t (expiryFor (fr_session r) n)) [storeID (ft_crypto F) n k] s1
        else (Inr (), s1))"
  by (cases "requestToPersisted (Some r)")
    (auto simp: fs_put_def stored_def revocable_def requestToPersisted_def Let_def
      split: sum.splits prod.splits)

context redis_server
begin

lemma fs_put_at:
  assumes "fs_put F t n k (Some r) acc False s = (Inr (), s1)" "ft_redis F = R" "0 < ft_ttl F" "t \<le> t'"
  shows "purge t' (view s1) (storeID (ft_crypto F) n k) =
    (if t' < put_deadline F t n r
     then Some (RStr (Doc (json_norm (AMap (persisted_json (ft_json F) (stored n r acc))))),
            Some (put_deadline F t n r))
     else None)"
proof -
  obtain s0 where p: "putPersisted F t n k (stored n r acc) s = (Inr (), s0)"
      and rest: "s1 = s0 \<or> kv_SAdd R t (indexKey (ft_crypto F) n (fr_id r))
        (ttlFor F t (expiryFor (fr_session r) n)) [storeID (ft_crypto F) n k] s0 = (Inr (), s1)"
    using assms(1,2) by (auto simp: fs_put_Some split: prod.splits sum.splits if_splits)
  have "purge t' (view s1) (storeID (ft_crypto F) n k) = purge t' (view s0) (storeID (ft_crypto F) n k)"
    using rest kv_SAdd_other assms(4) fosite_keys by blast
  moreover have "px_deadline t (ttlFor F t (expiryFor (fr_session r) n)) = Some (put_deadline F t n r)"
    using ttlFor_pos [OF assms(3)] by (simp add: put_deadline_def px_deadline_pos)
  ultimately show ?thesis
    using putPersisted_purge [OF p assms(2,3,4)] by (simp del: json_norm_map)
qed

lemma kv_SAdd_members:
  assumes "kv_SAdd R t idx ttl members s = (Inr (), s')" "0 < ttl" "t \<le> t'"
    and "t' < t + max 1 (ttl div second) * second"
  shows "set members \<subseteq> set (ks_members (purge t' (view s')) idx)"
proof -
  let ?c = "SADD idx members # [EXPIRE idx ttl]"
  have "rd_exec R t ?c s = (Inr (), s')" using assms(1,2) by (simp add: kv_SAdd_def)
  from exec_ok [OF this] have e: "purge t (view s') = purge t (fold (ks_cmd t) ?c (purge t (view s)))" .
  let ?e = "(RSet (dedup [] (ks_members (purge t (view s)) idx @ members)),
      Some (t + max 1 (ttl div second) * second))"
  have "purge t (view s') idx = Some ?e"
    using assms(3,4) by (simp add: e) (simp add: ks_sadd_def ks_expire_def purge_def live_def)
  from purge_Some_later [OF this assms(3)] assms(4) show ?thesis
    by (simp add: live_def ks_members_def set_dedup)
qed

lemma revoke_gone:
  assumes "fs_put F t n k (Some r) acc False s = (Inr (), s1)" "ft_redis F = R" "0 < ft_ttl F"
    and "revocable n r" "t \<le> t2" "t2 < index_deadline F t n r"
    and "revokeByRequestID F t2 n (fr_id r) s1 = (Inr (), s2)" "t2 \<le> t'"
  shows "purge t' (view s2) (storeID (ft_crypto F) n k) = None"
proof -
  let ?i = "indexKey (ft_crypto F) n (fr_id r)"
  obtain s0 where sadd: "kv_SAdd R t ?i (ttlFor F t (expiryFor (fr_session r) n)) [storeID (ft_crypto F) n k] s0
      = (Inr (), s1)"
    using assms(1,2,4) by (auto simp: fs_put_Some split: prod.splits sum.splits)
  obtain ms s3 where m: "kv_SMembers R t2 ?i s1 = (Inr ms, s3)" and d: "kv_Del R t2 (ms @ [?i]) s3 = (Inr (), s2)"
    using assms(2,7) by (auto simp: revokeByRequestID_def Let_def split: prod.splits sum.splits)
  have "storeID (ft_crypto F) n k \<in> set ms"
    using kv_SAdd_members [OF sadd ttlFor_pos [OF assms(3)] assms(5)] assms(6) kv_SMembers_Inr [OF m]
    by (simp add: index_deadline_def)
  with kv_Del_lookup [OF d assms(8)] show ?thesis by (simp add: ks_del_def)
qed

lemma getPersisted_absent:
  assumes "purge t (view s) (storeID (ft_crypto F) n k) = None" "ft_redis F = R"
  shows "\<not> is_ok (fst (getPersisted F t n k s))"
proof
  assume "is_ok (fst (getPersisted F t n k s))"
  then obtain p s' where "getPersisted F t n k s = (Inr p, s')" by (metis is_ok_iff prod.collapse)
  from getPersisted_Inr [OF this assms(2)] assms(1) show False by (simp add: session_at_def)
qed

end

lemma fs_get_not_ok:
  "\<not> is_ok (fst (getPersisted F t n k s)) \<Longrightarrow> \<not> is_ok (fst (fs_get F d t n k ses s))"
  by (auto simp: fs_get_def is_ok_iff split: prod.splits sum.splits)

text \<open>
  A stored token session lives as long as its token: a request put for a token is returned, as
  JSON keeps it and with the client as registered now, by every read before the deadline of that
  token's own expiry that the services answer, and by none after it.
\<close>

theorem token_session_lifetime:
  assumes "redis_server (ft_redis F) view" and "0 < ft_ttl F"
    and "fs_put F t n k (Some r) acc False s = (Inr (), s1)" and "t \<le> now"
    and "session_reads (ft_json F) (case fr_session r of Munin v \<Rightarrow> Some v | _ \<Rightarrow> None) se"
    and "fs_get F d now n k ses s1 = (x, s2)"
  shows "if now < put_deadline F t n r \<and> (case expiryFor (fr_session r) n of None \<Rightarrow> True | Some e \<Rightarrow> now \<le> e)
     then (case persistedToRequest F d (norm_persisted (stored n r acc) se) ses of
             Inl e \<Rightarrow> x = Inl e
           | Inr q \<Rightarrow> x = Inr (q, norm_persisted (stored n r acc) se)) \<or> (\<exists>m. x = Inl (ExtErr m))
     else \<not> is_ok x"
proof -
  let ?p = "norm_persisted (stored n r acc) se" and ?K = "storeID (ft_crypto F) n k"
  let ?fresh = "case expiryFor (fr_session r) n of None \<Rightarrow> True | Some e \<Rightarrow> now \<le> e"
  note at = redis_server.fs_put_at [OF assms(1,3) refl assms(2,4)]
  have rt: "unmarshal_persisted (ft_json F) (Doc (json_norm (AMap (persisted_json (ft_json F) (stored n r acc))))) = Inr ?p"
    using unmarshal_persisted_json [of "ft_json F" "stored n r acc" se] assms(5) by simp
  show ?thesis
  proof (cases "now < put_deadline F t n r")
    case False
    then have "purge now (view s1) ?K = None" by (simp add: at)
    from fs_get_not_ok [OF redis_server.getPersisted_absent [OF assms(1) this refl]] assms(6) False show ?thesis
      by (metis fst_conv)
  next
    case True
    obtain y s' where g: "kv_Get (ft_redis F) now ?K s1 = (y, s')" by force
    from redis_server.kv_Get_stored [OF assms(1) _ g] at True
    have y: "y = Inr (Doc (json_norm (AMap (persisted_json (ft_json F) (stored n r acc))))) \<or> (\<exists>e. y = Inl (ExtErr e))"
      by (simp del: json_norm_map)
    then show ?thesis
    proof
      assume "\<exists>e. y = Inl (ExtErr e)"
      with g assms(6) have "\<exists>e. x = Inl (ExtErr e)" by (auto simp: fs_get_def getPersisted_def)
      then show ?thesis by auto
    next
      assume y: "y = Inr (Doc (json_norm (AMap (persisted_json (ft_json F) (stored n r acc)))))"
      have ex: "ps_expires ?p = expiryFor (fr_session r) n" by (simp add: norm_persisted_def)
      show ?thesis
      proof (cases ?fresh)
        case True
        then have "getPersisted F now n k s1 = (Inr ?p, s')"
          using g y rt ex by (simp add: getPersisted_def del: json_norm_map split: option.splits)
        with assms(6) \<open>now < _\<close> True show ?thesis
          by (cases "persistedToRequest F d ?p ses") (auto simp: fs_get_def)
      next
        case False
        then have "fst (getPersisted F now n k s1) = Inl FositeNotFound"
          using g y rt ex by (auto simp: getPersisted_def simp del: json_norm_map split: option.splits)
        then have "\<not> is_ok (fst (fs_get F d now n k ses s1))" by (intro fs_get_not_ok) simp
        with False assms(6) show ?thesis by simp
      qed
    qed
  qed
qed

text \<open>
  Revocation by request id removes the sessions of the request: when it was answered while the
  index of the id was alive, no later read returns the session.
\<close>

theorem revoked_session_gone:
  assumes "redis_server (ft_redis F) view" and "0 < ft_ttl F" and "revocable n r"
    and "fs_put F t n k (Some r) acc False s = (Inr (), s1)" and "t \<le> t2" and "t2 < index_deadline F t n r"
    and "revokeByRequestID F t2 n (fr_id r) s1 = (Inr (), s2)" and "t2 \<le> now"
  shows "\<not> is_ok (fst (fs_get F d now n k ses s2))"
  by (rule fs_get_not_ok, rule redis_server.getPersisted_absent [OF assms(1) _ refl],
      rule redis_server.revoke_gone [OF assms(1,4) refl assms(2,3,5-8)])

text \<open>
  A client assertion is accepted once: after its id was recorded, every check of the id before
  its expiry that valkey answers says it is known.
\<close>

theorem assertion_not_replayed:
  assumes "redis_server (ft_redis F) view" and "0 < ft_ttl F"
    and "SetClientAssertionJWT F t jti e s = (Inr (), s1)" and "t \<le> now"
    and "now < the (px_deadline t (ttlUntil t e (ft_ttl F)))"
    and "ClientAssertionJWTValid F now jti s1 = (x, s2)"
  shows "x = Inl FositeJTIKnown \<or> (\<exists>m. x = Inl (ExtErr m))"
proof -
  have pos: "0 < ttlUntil t e (ft_ttl F)" using assms(2) by (simp add: ttlUntil_def)
  have ne: "purge now (view s1) (jtiKey (ft_crypto F) jti) \<noteq> None"
    using redis_server.kv_Set_lookup [OF assms(1) assms(3) [unfolded SetClientAssertionJWT_def] assms(4) pos]
      assms(5) by simp
  obtain y s' where k: "kv_Exists (ft_redis F) now (jtiKey (ft_crypto F) jti) s1 = (y, s')" by force
  show ?thesis
  proof (cases y)
    case (Inl e)
    then have "\<exists>m. e = ExtErr m"
      using k by (auto simp: kv_Exists_def redis_error_ext split: prod.splits sum.splits)
    with Inl k assms(6) show ?thesis by (auto simp: ClientAssertionJWTValid_def)
  next
    case (Inr b)
    with redis_server.kv_Exists_iff [OF assms(1)] k ne have b by auto
    with Inr k assms(6) show ?thesis by (auto simp: ClientAssertionJWTValid_def)
  qed
qed

section \<open>A storage for concrete runs\<close>

text \<open>A session document of two members, on the reference server and the sample services.\<close>

definition sample_session_json :: session_json where
  "sample_session_json = \<lparr>
     sj_enc = (\<lambda>v. AMap [''Subject'' \<mapsto> AStr (fs_subject v), ''Username'' \<mapsto> AStr (fs_username v)]),
     sj_dec = (\<lambda>x. case dec_struct x of None \<Rightarrow> Inl (ExtErr ''invalid session'')
        | Some m \<Rightarrow> (case (dec_str (mget m ''Subject''), dec_str (mget m ''Username'')) of
             (Some sub, Some u) \<Rightarrow> Inr (zero_session\<lparr>fs_subject := sub, fs_username := u\<rparr>)
           | _ \<Rightarrow> Inl (ExtErr ''invalid session'')))\<rparr>"

definition sample_fstore :: "mem fstore" where
  "sample_fstore = \<lparr>ft_redis = mem_redis, ft_pg = sample_pg, ft_crypto = sample_crypto,
     ft_json = sample_session_json, ft_ttl = hour\<rparr>"

lemma sample_fstore_simps [simp]:
  "ft_redis sample_fstore = mem_redis" "ft_pg sample_fstore = sample_pg"
  "ft_crypto sample_fstore = sample_crypto" "ft_json sample_fstore = sample_session_json"
  "ft_ttl sample_fstore = hour"
  by (simp_all add: sample_fstore_def)

definition sample_fsession :: fsession where
  "sample_fsession = zero_session\<lparr>fs_subject := ''u1'', fs_username := ''ann'',
     fs_expires := [AccessToken \<mapsto> 600 * second, AuthorizeCode \<mapsto> 60 * second]\<rparr>"

definition sample_fclient :: fclient where
  "sample_fclient = \<lparr>fc_id = ''app'', fc_secret = ''s'', fc_redirects = None, fc_grants = None,
     fc_responses = None, fc_scopes = None, fc_audience = None, fc_public = False\<rparr>"

definition sample_frequest :: frequest where
  "sample_frequest = \<lparr>fr_id = ''r1'', fr_requested_at = 0, fr_client = sample_fclient,
     fr_scopes = Some [''openid''], fr_granted = Some [''openid''], fr_form = (\<lambda>_. []),
     fr_session = Munin sample_fsession, fr_audience = None, fr_granted_audience = None\<rparr>"

lemma sample_frequest_simps [simp]:
  "fr_id sample_frequest = ''r1''" "fr_session sample_frequest = Munin sample_fsession"
  "fr_client sample_frequest = sample_fclient"
  by (simp_all add: sample_frequest_def)

lemma sample_session_reads:
  "ascii (fs_subject v) \<Longrightarrow> ascii (fs_username v) \<Longrightarrow> session_reads sample_session_json (Some v)
     (Some (zero_session\<lparr>fs_subject := fs_subject v, fs_username := fs_username v\<rparr>))"
  by (simp add: session_reads_def dec_session_def sample_session_json_def valid_utf8_of_ascii)

lemma sample_expiry:
  "expiryFor (Munin sample_fsession) nameAccessToken = Some (600 * second)"
  "expiryFor (Munin sample_fsession) nameAuthorizeCode = Some (60 * second)"
  by (simp_all add: expiryFor_def GetExpiresAt_def sample_fsession_def zero_time_def second_def
      nameAccessToken_def nameAuthorizeCode_def nameRefreshToken_def)

lemma sample_sets:
  "putPersisted sample_fstore t n k p (mem_of ks) = (Inr (), mem_of (ks_set t (storeID sample_crypto n k)
     (Doc (json_norm (AMap (persisted_json sample_session_json p)))) (ttlFor sample_fstore t (ps_expires p)) (purge t ks)))"
  by (simp add: putPersisted_def kv_Set_def mem_eval del: json_norm_map)

lemma mem_smembers:
  "rd_smembers mem_redis t k (mem_of ks) = (Inr (ks_members (purge t ks) k), mem_of (purge t ks))"
  by (simp add: mem_redis_def mem_of_def mem_do_ok Let_def)

lemma sample_put:
  "\<exists>ks'. fs_put sample_fstore t n k (Some sample_frequest) acc False (mem_of ks) = (Inr (), mem_of ks')"
  by (auto simp: fs_put_Some sample_sets kv_SAdd_def mem_eval simp del: json_norm_map)

definition sample_stored :: "string \<Rightarrow> persisted" where
  "sample_stored n = norm_persisted (stored n sample_frequest [])
     (Some (zero_session\<lparr>fs_subject := ''u1'', fs_username := ''ann''\<rparr>))"

lemma sample_reads: "session_reads sample_session_json (ps_session (stored n sample_frequest acc))
    (Some (zero_session\<lparr>fs_subject := ''u1'', fs_username := ''ann''\<rparr>))"
  using sample_session_reads [of sample_fsession] by (simp add: sample_fsession_def ascii_def)

text \<open>A session that was just put is found under its key, and every call on it is answered.\<close>

lemma sample_found:
  assumes "fs_put sample_fstore t n k (Some sample_frequest) [] False (mem_of ks) = (Inr (), mem_of ks')"
    and "t \<le> t'" "t' < put_deadline sample_fstore t n sample_frequest"
    and "expiryFor (Munin sample_fsession) n = Some e" "t' \<le> e"
  shows "getPersisted sample_fstore t' n k (mem_of ks') = (Inr (sample_stored n), mem_of (purge t' ks'))"
proof -
  have h: "0 < ft_ttl sample_fstore" by (simp add: time_units)
  have e: "ps_expires (sample_stored n) = Some e"
    using assms(4) by (simp add: sample_stored_def norm_persisted_def)
  show ?thesis
    using mem.fs_put_at [OF assms(1) _ h assms(2)] assms(3,5) e
      unmarshal_persisted_json [OF sample_reads, of n "[]"]
    by (simp add: getPersisted_def kv_Get_def mem_eval sample_stored_def del: json_norm_map)
qed

section \<open>Concrete runs\<close>

theorem persisted_roundtrip_witness:
  "\<exists>q. unmarshal_persisted sample_session_json (Doc (json_norm (AMap (persisted_json sample_session_json
       (stored nameAccessToken sample_frequest ''x''))))) = Inr q
     \<and> ps_id q = ''r1'' \<and> ps_granted q = Some [''openid''] \<and> map_option fs_subject (ps_session q) = Some ''u1''"
  using persisted_roundtrip [OF sample_reads [of nameAccessToken "''x''"]]
  by (simp add: norm_persisted_def valid_utf8_of_ascii ascii_def norm_slice_def stored_def requestToPersisted_def
      sample_frequest_def copy_slice_def del: json_norm_map)

theorem token_session_lifetime_witness:
  "\<exists>s1 x s2. fs_put sample_fstore 0 nameAccessToken ''sig'' (Some sample_frequest) [] False mem_start = (Inr (), s1)
     \<and> fs_get sample_fstore empty_db (700 * second) nameAccessToken ''sig'' NilSession s1 = (x, s2) \<and> \<not> is_ok x"
proof -
  obtain ks where put: "fs_put sample_fstore 0 nameAccessToken ''sig'' (Some sample_frequest) [] False mem_start
      = (Inr (), mem_of ks)"
    using sample_put [of 0 nameAccessToken "''sig''" "[]" Map.empty] by (auto simp: mem_start_of)
  obtain x s2 where get: "fs_get sample_fstore empty_db (700 * second) nameAccessToken ''sig'' NilSession (mem_of ks)
      = (x, s2)" by force
  have "\<not> is_ok x"
    using token_session_lifetime [OF mem.redis_server_axioms [folded sample_fstore_simps(1)] _ put _ _ get]
      sample_reads [of nameAccessToken "[]"]
    by (simp add: sample_expiry time_units)
  with put get show ?thesis by blast
qed

theorem revoked_session_gone_witness:
  "\<exists>s1 s2. fs_put sample_fstore 0 nameAccessToken ''sig'' (Some sample_frequest) [] False mem_start = (Inr (), s1)
     \<and> RevokeAccessToken sample_fstore second ''r1'' s1 = (Inr (), s2)
     \<and> \<not> is_ok (fst (fs_get sample_fstore empty_db (2 * second) nameAccessToken ''sig'' NilSession s2))"
proof -
  obtain ks where put: "fs_put sample_fstore 0 nameAccessToken ''sig'' (Some sample_frequest) [] False mem_start
      = (Inr (), mem_of ks)"
    using sample_put [of 0 nameAccessToken "''sig''" "[]" Map.empty] by (auto simp: mem_start_of)
  obtain s2 where rev: "revokeByRequestID sample_fstore second nameAccessToken (fr_id sample_frequest) (mem_of ks)
      = (Inr (), s2)"
    by (simp add: revokeByRequestID_def kv_SMembers_def kv_Del_def mem_smembers mem_eval Let_def)
  have "\<not> is_ok (fst (fs_get sample_fstore empty_db (2 * second) nameAccessToken ''sig'' NilSession s2))"
    by (rule revoked_session_gone [OF mem.redis_server_axioms [folded sample_fstore_simps(1)] _ _ put _ _ rev])
      (simp_all add: time_units revocable_def index_deadline_def sample_expiry ttlFor_def)
  with put rev show ?thesis by (auto simp: RevokeAccessToken_def)
qed

theorem code_stays_used_witness:
  "\<exists>s1 s2 s3 r e s4. fs_put sample_fstore 0 nameAuthorizeCode ''c'' (Some sample_frequest) [] False mem_start = (Inr (), s1)
     \<and> InvalidateAuthorizeCodeSession sample_fstore 1 ''c'' s1 = (Inr (), s2)
     \<and> fs_run sample_fstore 1 s2 [OpDelete namePKCE ''c''] 2 s3
     \<and> GetAuthorizeCodeSession sample_fstore empty_db 3 ''c'' NilSession s3 = ((r, e), s4) \<and> e \<noteq> None"
proof -
  obtain ks where put: "fs_put sample_fstore 0 nameAuthorizeCode ''c'' (Some sample_frequest) [] False mem_start
      = (Inr (), mem_of ks)"
    using sample_put [of 0 nameAuthorizeCode "''c''" "[]" Map.empty] by (auto simp: mem_start_of)
  have "getPersisted sample_fstore 1 nameAuthorizeCode ''c'' (mem_of ks)
      = (Inr (sample_stored nameAuthorizeCode), mem_of (purge 1 ks))"
    by (rule sample_found [OF put [unfolded mem_start_of], where e = "60 * second"])
      (simp_all add: sample_expiry put_deadline_def ttlFor_def px_deadline_def time_units)
  then obtain ks2 where inv: "InvalidateAuthorizeCodeSession sample_fstore 1 ''c'' (mem_of ks) = (Inr (), mem_of ks2)"
    by (simp add: InvalidateAuthorizeCodeSession_def sample_sets del: json_norm_map)
  obtain s3 where del: "fs_do sample_fstore 2 (OpDelete namePKCE ''c'') (mem_of ks2) = (Inr (), s3)"
    by (simp add: fs_delete_def kv_Del_def mem_eval)
  have run: "fs_run sample_fstore 1 (mem_of ks2) [OpDelete namePKCE ''c''] 2 s3"
    by (rule run_step [OF _ del run_none]) simp
  obtain r e s4 where get: "GetAuthorizeCodeSession sample_fstore empty_db 3 ''c'' NilSession s3 = ((r, e), s4)"
    by (metis surj_pair)
  have "e \<noteq> None"
    by (rule code_stays_used [OF mem.redis_server_axioms [folded sample_fstore_simps(1)] _ inv run _ _ get])
      (simp_all add: time_units)
  with put inv run get show ?thesis by (intro exI conjI)
qed

theorem assertion_not_replayed_witness:
  "\<exists>s1 x s2. SetClientAssertionJWT sample_fstore 0 ''j'' minute mem_start = (Inr (), s1)
     \<and> ClientAssertionJWTValid sample_fstore second ''j'' s1 = (x, s2)
     \<and> (x = Inl FositeJTIKnown \<or> (\<exists>m. x = Inl (ExtErr m)))"
proof -
  obtain s1 where set: "SetClientAssertionJWT sample_fstore 0 ''j'' minute mem_start = (Inr (), s1)"
    by (simp add: SetClientAssertionJWT_def kv_Set_def mem_start_of mem_eval)
  obtain x s2 where chk: "ClientAssertionJWTValid sample_fstore second ''j'' s1 = (x, s2)" by force
  have "x = Inl FositeJTIKnown \<or> (\<exists>m. x = Inl (ExtErr m))"
    by (rule assertion_not_replayed [OF mem.redis_server_axioms [folded sample_fstore_simps(1)] _ set _ _ chk])
      (simp_all add: time_units ttlUntil_def px_deadline_def zero_time_def)
  with set chk show ?thesis by blast
qed

text \<open>
  The index of a request id expires in whole seconds, the session in milliseconds: a revocation in the
  last fraction of a second before the session expires is acknowledged and removes nothing.
\<close>

theorem revocation_misses_last_second:
  "\<exists>r s1 s2. expiryFor (fr_session r) nameAccessToken = Some (10500 * millisecond)
     \<and> fs_put sample_fstore 0 nameAccessToken ''sig'' (Some r) [] False mem_start = (Inr (), s1)
     \<and> RevokeAccessToken sample_fstore (10200 * millisecond) (fr_id r) s1 = (Inr (), s2)
     \<and> is_ok (fst (getPersisted sample_fstore (10300 * millisecond) nameAccessToken ''sig'' s2))"
proof -
  let ?r = "sample_frequest\<lparr>fr_session := Munin (sample_fsession\<lparr>fs_expires := [AccessToken \<mapsto> 10500 * millisecond]\<rparr>)\<rparr>"
  let ?p = "stored nameAccessToken ?r []"
  let ?doc = "Doc (json_norm (AMap (persisted_json sample_session_json ?p)))"
  let ?K = "storeID sample_crypto nameAccessToken ''sig''" and ?I = "indexKey sample_crypto nameAccessToken ''r1''"
  have e: "expiryFor (fr_session ?r) nameAccessToken = Some (10500 * millisecond)"
    by (simp add: expiryFor_def GetExpiresAt_def zero_time_def time_units)
  have rd: "session_reads sample_session_json (ps_session ?p)
      (Some (zero_session\<lparr>fs_subject := ''u1'', fs_username := ''ann''\<rparr>))"
    using sample_session_reads [of "sample_fsession\<lparr>fs_expires := [AccessToken \<mapsto> 10500 * millisecond]\<rparr>"]
    by (simp add: sample_fsession_def ascii_def)
  obtain ks where put: "fs_put sample_fstore 0 nameAccessToken ''sig'' (Some ?r) [] False mem_start = (Inr (), mem_of ks)"
      and K: "ks ?K = Some (RStr ?doc, Some (10500 * millisecond))"
      and I: "purge (10200 * millisecond) ks ?I = None"
    using e by (simp add: fs_put_Some sample_sets kv_SAdd_def mem_eval mem_start_of revocable_def
        ks_set_def ks_sadd_def ks_expire_def purge_def live_def ttlFor_def px_deadline_def time_units del: json_norm_map)
  obtain ks2 where rev: "RevokeAccessToken sample_fstore (10200 * millisecond) (fr_id ?r) (mem_of ks) = (Inr (), mem_of ks2)"
      and ks2: "ks2 = ks_del [?I] (purge (10200 * millisecond) ks)"
    using I by (simp add: RevokeAccessToken_def revokeByRequestID_def kv_SMembers_def kv_Del_def mem_smembers mem_eval
        ks_members_def Let_def)
  have "purge (10300 * millisecond) ks2 ?K = Some (RStr ?doc, Some (10500 * millisecond))"
    using K by (simp add: ks2 purge_def ks_del_def live_def millisecond_def del: json_norm_map)
  then have "is_ok (fst (getPersisted sample_fstore (10300 * millisecond) nameAccessToken ''sig'' (mem_of ks2)))"
    using unmarshal_persisted_json [OF rd] e
    by (simp add: getPersisted_def kv_Get_def mem_eval norm_persisted_def millisecond_def del: json_norm_map)
  with e put rev show ?thesis by blast
qed

text \<open>
  Invalidation reads the document and writes it back: it does not look at the flag and is not conditional
  on it. Two token requests that both read the code before either invalidated it are both given the
  code without an error, and both of their invalidations are acknowledged.
\<close>

lemma sample_get_doc:
  assumes "purge t ks (storeID sample_crypto n k) =
      Some (RStr (Doc (json_norm (AMap (persisted_json sample_session_json p)))), d)"
    and "session_reads sample_session_json (ps_session p) se" "ps_expires p = Some e" "t \<le> e"
  shows "getPersisted sample_fstore t n k (mem_of ks) = (Inr (norm_persisted p se), mem_of (purge t ks))"
  using assms(1,3,4) unmarshal_persisted_json [OF assms(2)]
  by (simp add: getPersisted_def kv_Get_def mem_eval norm_persisted_def del: json_norm_map)

definition sample_app :: db where
  "sample_app = empty_db\<lparr>t_clients := [\<lparr>cr_id = ''1'', cr_client_id = ''app'', cr_secret = ''s'', cr_name = ''App'',
     cr_redirects = AArr [], cr_grants = AArr [], cr_scopes = AArr [], cr_logouts = None, cr_customer = None,
     cr_by_subject = None, cr_by_email = None, cr_created = 0, cr_updated = 0\<rparr>]\<rparr>"

lemma sample_app_client: "\<exists>c. GetClient sample_pg ''app'' sample_app = Inr c"
  by (simp add: GetClient_def sample_app_def dec_strs_def unmarshal_strings_def split: option.splits)

theorem both_requests_redeem:
  "\<exists>s1 r s2 r' s3 s4 s5.
       fs_put sample_fstore 0 nameAuthorizeCode ''c'' (Some sample_frequest) [] False mem_start = (Inr (), s1)
     \<and> GetAuthorizeCodeSession sample_fstore sample_app second ''c'' NilSession s1 = ((Some r, None), s2)
     \<and> GetAuthorizeCodeSession sample_fstore sample_app (2 * second) ''c'' NilSession s2 = ((Some r', None), s3)
     \<and> InvalidateAuthorizeCodeSession sample_fstore (3 * second) ''c'' s3 = (Inr (), s4)
     \<and> InvalidateAuthorizeCodeSession sample_fstore (4 * second) ''c'' s4 = (Inr (), s5)"
proof -
  let ?p = "stored nameAuthorizeCode sample_frequest []" and ?n = nameAuthorizeCode
  let ?K = "storeID sample_crypto ?n ''c''" and ?se = "Some (zero_session\<lparr>fs_subject := ''u1'', fs_username := ''ann''\<rparr>)"
  let ?doc = "\<lambda>p. RStr (Doc (json_norm (AMap (persisted_json sample_session_json p))))"
  obtain ks where put: "fs_put sample_fstore 0 ?n ''c'' (Some sample_frequest) [] False mem_start = (Inr (), mem_of ks)"
      and K: "ks ?K = Some (?doc ?p, Some (60 * second))"
    by (simp add: fs_put_Some sample_sets mem_start_of revocable_def nameAuthorizeCode_def nameAccessToken_def
        nameRefreshToken_def ks_set_def sample_expiry [unfolded nameAuthorizeCode_def] ttlFor_def px_deadline_def
        time_units del: json_norm_map)
  define holds where "holds ks p \<longleftrightarrow> ks ?K = Some (?doc p, Some (60 * second))
      \<and> session_reads sample_session_json (ps_session p) ?se \<and> ps_expires p = Some (60 * second)
      \<and> ps_client_id p = ''app''" for ks p
  note no_norm = json_norm_map
  have start: "holds ks ?p" "\<not> ps_invalidated ?p"
    using K sample_reads [of ?n "[]"]
    by (simp_all add: holds_def sample_expiry stored_def requestToPersisted_def sample_fclient_def del: no_norm)
  have rd: "getPersisted sample_fstore t ?n ''c'' (mem_of ks') = (Inr (norm_persisted p ?se), mem_of (purge t ks'))"
    if "holds ks' p" "t < 60 * second" for t ks' p
    by (rule sample_get_doc [where e = "60 * second"])
      (use that in \<open>simp_all add: holds_def purge_def live_def del: no_norm\<close>)
  obtain c where c: "GetClient sample_pg ''app'' sample_app = Inr c" using sample_app_client by blast
  have get: "\<exists>r. GetAuthorizeCodeSession sample_fstore sample_app t ''c'' NilSession (mem_of ks')
      = ((Some r, None), mem_of (purge t ks'))"
    if "holds ks' p" "t < 60 * second" "\<not> ps_invalidated p" for t ks' p
    using c that(1,3) rd [OF that(1,2)]
    by (simp add: GetAuthorizeCodeSession_def fs_get_def persistedToRequest_def norm_persisted_def holds_def
        valid_utf8_of_ascii ascii_def)
  have keep: "holds (purge t ks') p" if "holds ks' p" "t < 60 * second" for t ks' p
    using that by (simp add: holds_def purge_def live_def del: no_norm)
  have inv: "\<exists>ks'' q. InvalidateAuthorizeCodeSession sample_fstore t ''c'' (mem_of ks') = (Inr (), mem_of ks'')
      \<and> holds ks'' q"
    if "holds ks' p" "t = 3 * second \<or> t = 4 * second" for t ks' p
  proof -
    have t: "t < 60 * second" "px_deadline t (60 * second - t) = Some (60 * second)"
      using that(2) by (auto simp: px_deadline_def time_units)
    let ?q = "norm_persisted p ?se\<lparr>ps_invalidated := True\<rparr>"
    have "holds (ks_set t ?K (Doc (json_norm (AMap (persisted_json sample_session_json ?q))))
        (ttlFor sample_fstore t (ps_expires ?q)) (purge t (purge t ks'))) ?q"
      using that(1) t sample_session_reads [of "the ?se"]
      by (simp add: holds_def norm_persisted_def ks_set_def ttlFor_def valid_utf8_of_ascii ascii_def
          del: no_norm)
    then show ?thesis
      by (simp add: InvalidateAuthorizeCodeSession_def rd [OF that(1) t(1)] sample_sets del: no_norm) blast
  qed
  obtain r where g1: "GetAuthorizeCodeSession sample_fstore sample_app second ''c'' NilSession (mem_of ks)
      = ((Some r, None), mem_of (purge second ks))" "holds (purge second ks) ?p"
    using get [OF start(1) _ start(2), of second] keep [OF start(1), of second] by (auto simp: time_units)
  obtain r' where g2: "GetAuthorizeCodeSession sample_fstore sample_app (2 * second) ''c'' NilSession
      (mem_of (purge second ks)) = ((Some r', None), mem_of (purge (2 * second) (purge second ks)))"
      "holds (purge (2 * second) (purge second ks)) ?p"
    using get [OF g1(2) _ start(2), of "2 * second"] keep [OF g1(2), of "2 * second"] by (auto simp: time_units)
  obtain ks3 q where i3: "InvalidateAuthorizeCodeSession sample_fstore (3 * second) ''c''
      (mem_of (purge (2 * second) (purge second ks))) = (Inr (), mem_of ks3)" "holds ks3 q"
    using inv [OF g2(2)] by blast
  obtain ks4 where "InvalidateAuthorizeCodeSession sample_fstore (4 * second) ''c'' (mem_of ks3) = (Inr (), mem_of ks4)"
    using inv [OF i3(2)] by blast
  with put g1(1) g2(1) i3(1) show ?thesis by blast
qed

end
