(* ===== verification/Artifact_Life.thy ===== *)
theory Artifact_Life
  imports Redeem_Steps App_Frame Fosite_Tokens
begin

text \<open>
  How the documents in valkey change while the program runs: the operations of internal/store and the
  storage of internal/fositestore.  The relation \<open>evolves\<close> says what an operation at one time may do: the
  keys keep their types, an artifact with an id that was not just drawn is kept or removed, and a
  revocation is kept or renewed.  It is reflexive and transitive, so that handlers are composed from
  their calls.
\<close>

section \<open>A server that also answers for sets\<close>

definition ks_settish :: "keyspace \<Rightarrow> string \<Rightarrow> bool" where
  "ks_settish ks k = (case ks k of Some (RStr _, _) \<Rightarrow> False | _ \<Rightarrow> True)"

locale redis_sets = redis_up R view up
  for R :: "'r redis" and view :: "'r \<Rightarrow> keyspace" and up :: "'r \<Rightarrow> bool" +
  assumes exists_up: "up s \<Longrightarrow> rd_exists R t k s = (n, s') \<Longrightarrow> up s' \<and> purge t (view s') = purge t (view s)"
    and smembers_up: "up s \<Longrightarrow> rd_smembers R t k s = (x, s') \<Longrightarrow> up s' \<and> purge t (view s') = purge t (view s)"
    and exec_up: "up s \<Longrightarrow> rd_exec R t cmds s = (u, s') \<Longrightarrow>
      up s' \<and> ((\<forall>k xs. SADD k xs \<in> set cmds \<longrightarrow> ks_settish (purge t (view s)) k) \<longrightarrow> u = Inr ())"

interpretation mem: redis_sets mem_redis m_ks mem_up
  by unfold_locales (auto simp: mem_up_of mem_eval mem_smembers)

text \<open>What a command does to the live keys when the server is up.\<close>

context redis_up
begin

lemma kv_Set_only:
  assumes "up s" "kv_Set R t k b ttl s = (x, s')"
  shows "up s'" "j \<noteq> k \<Longrightarrow> purge t (view s') j = purge t (view s) j"
proof -
  have "up s' \<and> x = Inr ()" by (rule kv_Set_up [OF assms])
  then show "up s'" by simp
  with \<open>up s' \<and> x = Inr ()\<close> have "rd_set R t k b ttl s = (Inr (), s')" using assms(2) by (simp add: kv_Set_def)
  from set_ok [OF this] show "purge t (view s') j = purge t (view s) j" if "j \<noteq> k"
    using that by (simp add: ks_set_def purge_upd)
qed

lemma kv_Del_only:
  assumes "up s" "kv_Del R t keys s = (x, s')"
  shows "up s'" "purge t (view s') = ks_del keys (purge t (view s))"
proof -
  have "up s' \<and> x = Inr ()"
    using del_up [OF assms(1), of t keys] assms
    by (cases "rd_del R t keys s") (auto simp: kv_Del_def pass_def split: if_splits)
  then show "up s'" by simp
  show "purge t (view s') = ks_del keys (purge t (view s))"
    by (rule kv_Del_lookup [OF _ order_refl]) (use assms(2) \<open>up s' \<and> x = Inr ()\<close> in simp)
qed

lemma PutArtifact_only:
  assumes "up s" "PutArtifact R t n i m ttl s = (x, s')"
  shows "up s'" "j \<noteq> artifactKey n i \<Longrightarrow> purge t (view s') j = purge t (view s) j"
  using kv_Set_only [OF assms(1)] assms(2) by (auto simp: PutArtifact_def)

lemma GetArtifact_only:
  assumes "up s" "GetArtifact R t n i s = (x, s')"
  shows "up s'" "purge t (view s') = purge t (view s)"
  using GetArtifact_up [OF assms] GetArtifact_up_same [OF assms] by (auto simp: same_keyspace_def)

lemma LoginLocked_only:
  assumes "up s" "LoginLocked R t k s = (x, s')"
  shows "up s'" "purge t (view s') = purge t (view s)"
  using LoginLocked_up [OF assms] LoginLocked_Inr [of t k s] assms(2) by (auto simp: same_keyspace_def)

lemma RecordLoginFailure_only:
  assumes "up s" "ks_counter (purge t (view s)) (loginFailKey k)" "0 < lf" "RecordLoginFailure R t k la lf s = (x, s')"
  shows "up s'" "j \<noteq> loginFailKey k \<Longrightarrow> j \<noteq> loginLockKey k \<Longrightarrow> purge t (view s') j = purge t (view s) j"
    "ks_counter (purge t (view s')) (loginFailKey k)"
proof -
  have x: "up s' \<and> x = Inr ()" by (rule RecordLoginFailure_up [OF assms(1,2,4)])
  then show "up s'" by simp
  note at = RecordLoginFailure_Inr [of t k la lf s s', OF _ assms(3,2)]
  show "j \<noteq> loginFailKey k \<Longrightarrow> j \<noteq> loginLockKey k \<Longrightarrow> purge t (view s') j = purge t (view s) j"
    using at assms(4) x by simp
  show "ks_counter (purge t (view s')) (loginFailKey k)"
    using at assms(4) x by (simp add: ks_counter_def window_entry_def)
qed

end

section \<open>The keyspace keeps its types\<close>

text \<open>
  The counters of the lockout hold numbers, and the index of a request id, when there is one, is a set
  of keys of token sessions: the members that a revocation deletes.
\<close>

definition index_ok :: "crypto \<Rightarrow> (rval \<times> int option) option \<Rightarrow> bool" where
  "index_ok C e = (case e of None \<Rightarrow> True | Some (RStr _, _) \<Rightarrow> False
     | Some (RSet xs, _) \<Rightarrow> (\<forall>x \<in> set xs. \<exists>n k. x = storeID C n k))"

definition typed :: "crypto \<Rightarrow> keyspace \<Rightarrow> bool" where
  "typed C ks \<longleftrightarrow> (\<forall>k. ks_counter ks (loginFailKey k)) \<and> (\<forall>n i. index_ok C (ks (indexKey C n i)))"

definition steady :: "crypto \<Rightarrow> ('r \<Rightarrow> keyspace) \<Rightarrow> ('r \<Rightarrow> bool) \<Rightarrow> int \<Rightarrow> 'r \<Rightarrow> bool" where
  "steady C view up t s \<longleftrightarrow> up s \<and> typed C (purge t (view s))"

lemma typed_later:
  assumes "typed C (purge t ks)" "t \<le> t'"
  shows "typed C (purge t' ks)"
proof -
  have e: "purge t' ks j = None \<or> purge t' ks j = purge t ks j" for j
    using assms(2) by (auto simp: purge_def live_later split: option.splits)
  have "ks_counter (purge t' ks) (loginFailKey k)" for k
    using assms(1) e [of "loginFailKey k"] by (auto simp: typed_def ks_counter_def)
  moreover have "index_ok C (purge t' ks (indexKey C n i))" for n i
    using assms(1) e [of "indexKey C n i"] by (auto simp: typed_def index_ok_def)
  ultimately show ?thesis by (simp add: typed_def)
qed

lemma steady_later: "steady C view up t s \<Longrightarrow> t \<le> t' \<Longrightarrow> steady C view up t' s"
  by (auto simp: steady_def intro: typed_later)

lemma key_kinds [simp]:
  "storeID C n k \<noteq> loginFailKey j" "loginFailKey j \<noteq> storeID C n k"
  "storeID C n k \<noteq> loginLockKey j" "loginLockKey j \<noteq> storeID C n k"
  "indexKey C n k \<noteq> loginFailKey j" "loginFailKey j \<noteq> indexKey C n k"
  "indexKey C n k \<noteq> loginLockKey j" "loginLockKey j \<noteq> indexKey C n k"
  "jtiKey C k \<noteq> loginFailKey j" "loginFailKey j \<noteq> jtiKey C k"
  "jtiKey C k \<noteq> loginLockKey j" "loginLockKey j \<noteq> jtiKey C k"
  "storeID C n k \<noteq> artifactKey m i" "artifactKey m i \<noteq> storeID C n k"
  "indexKey C n k \<noteq> artifactKey m i" "artifactKey m i \<noteq> indexKey C n k"
  "jtiKey C k \<noteq> artifactKey m i" "artifactKey m i \<noteq> jtiKey C k"
  "indexKey C n k \<noteq> jtiKey C j" "jtiKey C j \<noteq> indexKey C n k"
  by (simp_all add: storeID_def indexKey_def jtiKey_def loginFailKey_def loginLockKey_def artifactKey_def)

section \<open>What may happen to an artifact\<close>

definition shelf :: "string set" where
  "shelf = {sessionName, codeName, refreshName, pwResetName}"

text \<open>The deadline a revocation at time \<open>t\<close> gets, and a revocation that lasts at least until \<open>d\<close>.\<close>

definition revocation_end :: "('r, 'w) provider \<Rightarrow> int \<Rightarrow> int" where
  "revocation_end p t = the (px_deadline t (cf_refresh_ttl (pv_cfg p)))"

definition revoked_till :: "keyspace \<Rightarrow> string \<Rightarrow> int \<Rightarrow> bool" where
  "revoked_till ks jti d \<longleftrightarrow>
     (\<exists>b e m. ks (artifactKey revokedName jti) = Some (RStr b, Some e) \<and> d \<le> e \<and> unmarshal_payload b = Inr m)"

definition shelf_kept ::
  "('r, 'w) provider \<Rightarrow> nat \<Rightarrow> keyspace \<Rightarrow> keyspace \<Rightarrow> bool" where
  "shelf_kept p n0 ks ks' \<longleftrightarrow> (\<forall>n \<in> shelf. \<forall>i. (\<forall>m \<ge> n0. i \<noteq> b64 (pv_rand p m 32)) \<longrightarrow>
     ks' (artifactKey n i) = None \<or> ks' (artifactKey n i) = ks (artifactKey n i))"

definition revocations_kept ::
  "('r, 'w) provider \<Rightarrow> int \<Rightarrow> keyspace \<Rightarrow> keyspace \<Rightarrow> bool" where
  "revocations_kept p t ks ks' \<longleftrightarrow>
     (\<forall>i d. d \<le> revocation_end p t \<longrightarrow> revoked_till ks i d \<longrightarrow> revoked_till ks' i d)"

definition evolves ::
  "('r, 'w) provider \<Rightarrow> ('r \<Rightarrow> keyspace) \<Rightarrow> ('r \<Rightarrow> bool) \<Rightarrow> int \<Rightarrow> ('r, 'w) world \<Rightarrow> ('r, 'w) world \<Rightarrow> bool" where
  "evolves p view up t w w' \<longleftrightarrow> w_rng w \<le> w_rng w'
     \<and> (steady (pv_crypto p) view up t (w_kv w) \<longrightarrow>
          steady (pv_crypto p) view up t (w_kv w')
          \<and> shelf_kept p (w_rng w) (purge t (view (w_kv w))) (purge t (view (w_kv w')))
          \<and> revocations_kept p t (purge t (view (w_kv w))) (purge t (view (w_kv w'))))"

lemma shelf_kept_refl [simp]: "shelf_kept p n ks ks"
  by (simp add: shelf_kept_def)

lemma shelf_kept_trans:
  assumes "shelf_kept p n ks ks1" "n \<le> n1" "shelf_kept p n1 ks1 ks2"
  shows "shelf_kept p n ks ks2"
  unfolding shelf_kept_def
proof (intro ballI allI impI)
  fix m i
  assume "m \<in> shelf" "\<forall>k \<ge> n. i \<noteq> b64 (pv_rand p k 32)"
  moreover from this(2) assms(2) have "\<forall>k \<ge> n1. i \<noteq> b64 (pv_rand p k 32)" by simp
  ultimately have "ks1 (artifactKey m i) = None \<or> ks1 (artifactKey m i) = ks (artifactKey m i)"
      "ks2 (artifactKey m i) = None \<or> ks2 (artifactKey m i) = ks1 (artifactKey m i)"
    using assms(1,3) by (simp_all add: shelf_kept_def)
  then show "ks2 (artifactKey m i) = None \<or> ks2 (artifactKey m i) = ks (artifactKey m i)" by auto
qed

lemma revocations_kept_trans:
  "revocations_kept p t ks ks1 \<Longrightarrow> revocations_kept p t ks1 ks2 \<Longrightarrow> revocations_kept p t ks ks2"
  by (simp add: revocations_kept_def)

lemma evolves_refl [simp]: "evolves p view up t w w"
  by (simp add: evolves_def revocations_kept_def)

lemma evolves_trans:
  assumes "evolves p view up t w w1" "evolves p view up t w1 w2"
  shows "evolves p view up t w w2"
  using assms unfolding evolves_def by (meson order_trans shelf_kept_trans revocations_kept_trans)

lemma evolves_same:
  "w_kv w' = w_kv w \<Longrightarrow> w_rng w \<le> w_rng w' \<Longrightarrow> evolves p view up t w w'"
  by (simp add: evolves_def revocations_kept_def)

text \<open>An operation that leaves the keys that count alone.\<close>

definition guarded :: "('r, 'w) provider \<Rightarrow> nat \<Rightarrow> string \<Rightarrow> bool" where
  "guarded p m j \<longleftrightarrow> (\<exists>k. j = loginFailKey k) \<or> (\<exists>n i. j = indexKey (pv_crypto p) n i)
     \<or> (\<exists>n i. j = artifactKey n i \<and> n \<in> shelf \<and> (\<forall>k \<ge> m. i \<noteq> b64 (pv_rand p k 32)))
     \<or> (\<exists>i. j = artifactKey revokedName i)"

lemma guarded_intros:
  "guarded p m (loginFailKey k)" "guarded p m (indexKey (pv_crypto p) n i)"
  "n \<in> shelf \<Longrightarrow> (\<forall>k \<ge> m. i \<noteq> b64 (pv_rand p k 32)) \<Longrightarrow> guarded p m (artifactKey n i)"
  "guarded p m (artifactKey revokedName i)"
  by (auto simp: guarded_def)

lemma typed_cong:
  assumes "typed C ks" "\<And>k. ks' (loginFailKey k) = ks (loginFailKey k)"
    and "\<And>n i. ks' (indexKey C n i) = ks (indexKey C n i)"
  shows "typed C ks'"
  using assms by (simp add: typed_def ks_counter_def)

lemma evolves_frame:
  assumes "w_rng w \<le> w_rng w'"
    and "steady (pv_crypto p) view up t (w_kv w) \<Longrightarrow> up (w_kv w')"
    and "\<And>j. steady (pv_crypto p) view up t (w_kv w) \<Longrightarrow> guarded p (w_rng w) j \<Longrightarrow>
      purge t (view (w_kv w')) j = purge t (view (w_kv w)) j"
  shows "evolves p view up t w w'"
  unfolding evolves_def
proof (intro conjI impI assms(1))
  assume st: "steady (pv_crypto p) view up t (w_kv w)"
  note kept = assms(3) [OF st]
  show "steady (pv_crypto p) view up t (w_kv w')"
    using st assms(2) [OF st] typed_cong [of "pv_crypto p" "purge t (view (w_kv w))"] kept guarded_intros(1,2)
    by (metis steady_def)
  show "shelf_kept p (w_rng w) (purge t (view (w_kv w))) (purge t (view (w_kv w')))"
    by (simp add: shelf_kept_def kept guarded_intros(3))
  show "revocations_kept p t (purge t (view (w_kv w))) (purge t (view (w_kv w')))"
    by (simp add: revocations_kept_def revoked_till_def kept [OF guarded_intros(4)])
qed

section \<open>The operations on valkey\<close>

locale provider_sets = provider_up p view up + redis_sets "pv_redis p" view up
  for p :: "('r, 'w) provider" and view :: "'r \<Rightarrow> keyspace" and up :: "'r \<Rightarrow> bool"
begin

abbreviation ev :: "int \<Rightarrow> ('r, 'w) world \<Rightarrow> ('r, 'w) world \<Rightarrow> bool" where
  "ev \<equiv> evolves p view up"

lemma ev_get: "ev t w (snd (get_artifact p t n i w))"
  by (rule evolves_frame)
    (simp_all add: get_artifact_def steady_def split_beta GetArtifact_only [OF _ surjective_pairing])

lemma ev_locked: "ev t w (snd (login_locked p t k w))"
  by (rule evolves_frame)
    (simp_all add: login_locked_def steady_def split_beta LoginLocked_only [OF _ surjective_pairing])

lemma ev_random: "ev t w (snd (randomID p n w))"
  by (rule evolves_same) (simp_all add: randomID_def)

lemma ev_wd: "ev t w (snd (on_wd f w))"
  by (rule evolves_same) (simp_all add: on_wd_def split_beta)

lemma ev_db: "ev t w (w\<lparr>w_db := d\<rparr>)"
  by (rule evolves_same) simp_all

lemma name_free [simp]:
  "n \<in> shelf \<Longrightarrow> CHR '':'' \<notin> set n" "CHR '':'' \<notin> set revokedName" "CHR '':'' \<notin> set pwChangeName"
  "CHR '':'' \<notin> set interactionName" "revokedName \<notin> shelf" "pwChangeName \<notin> shelf" "interactionName \<notin> shelf"
  "pwChangeName \<noteq> revokedName" "interactionName \<noteq> revokedName"
  by (auto simp: shelf_def sessionName_def codeName_def refreshName_def pwResetName_def revokedName_def
      pwChangeName_def interactionName_def)

lemma shelf_revoked [simp]: "n \<in> shelf \<Longrightarrow> artifactKey n i \<noteq> artifactKey revokedName j"
    "n \<in> shelf \<Longrightarrow> artifactKey revokedName j \<noteq> artifactKey n i"
  using artifactKey_inj [of n i revokedName j] name_free by metis+

lemma ev_put:
  assumes "\<And>j. guarded p (w_rng w) j \<Longrightarrow> j \<noteq> artifactKey n i"
  shows "ev t w (snd (put_artifact p t n i m ttl w))"
  using assms
  by - (rule evolves_frame, auto simp: put_artifact_def steady_def split_beta
    dest: PutArtifact_only [OF _ surjective_pairing])

lemma guarded_other:
  "guarded p m j \<Longrightarrow> CHR '':'' \<notin> set n \<Longrightarrow> n \<noteq> revokedName \<Longrightarrow> n \<notin> shelf \<Longrightarrow> j \<noteq> artifactKey n i"
  unfolding guarded_def by (auto dest: artifactKey_inj)

lemma guarded_fresh:
  assumes "guarded p m j" "n \<in> shelf" "k \<ge> m"
  shows "j \<noteq> artifactKey n (b64 (pv_rand p k 32))"
  using assms shelf_revoked [OF assms(2)] artifactKey_inj [of _ _ n]
  unfolding guarded_def by fastforce

lemma ev_put_pending: "ev t w (snd (put_artifact p t pwChangeName i m ttl w))"
    "ev t w (snd (put_artifact p t interactionName i m ttl w))"
  by (rule ev_put, erule guarded_other; simp)+

text \<open>An artifact whose id was drawn just before.\<close>

lemma ev_issue:
  assumes "n \<in> shelf"
  shows "ev t w (snd (put_artifact p t n (fst (randomID p 32 w)) m ttl (snd (randomID p 32 w))))"
proof -
  have "ev t w ((snd (put_artifact p t n (b64 (pv_rand p (w_rng w) 32)) m ttl (snd (randomID p 32 w)))))"
  proof (rule evolves_frame)
    show "purge t (view (w_kv (snd (put_artifact p t n (b64 (pv_rand p (w_rng w) 32)) m ttl (snd (randomID p 32 w)))))) j
        = purge t (view (w_kv w)) j"
      if "steady (pv_crypto p) view up t (w_kv w)" "guarded p (w_rng w) j" for j
      using that guarded_fresh [OF that(2) assms, of "w_rng w"]
      by (auto simp: put_artifact_def randomID_def steady_def split_beta dest: PutArtifact_only [OF _ surjective_pairing])
  qed (auto simp: put_artifact_def randomID_def steady_def split_beta dest: PutArtifact_only [OF _ surjective_pairing])
  then show ?thesis by (simp add: randomID_def)
qed

lemma ev_delete:
  assumes "n \<in> insert pwChangeName shelf"
  shows "ev t w (snd (delete_artifact p t n i w))"
  unfolding evolves_def
proof (intro conjI impI)
  let ?w = "snd (delete_artifact p t n i w)" and ?ks = "purge t (view (w_kv w))"
  show "w_rng w \<le> w_rng ?w" by (simp add: delete_artifact_def split_beta)
  assume st: "steady (pv_crypto p) view up t (w_kv w)"
  have ks: "up (w_kv ?w)" "purge t (view (w_kv ?w)) = ks_del [artifactKey n i] ?ks"
    using st kv_Del_only [of "w_kv w" t "[artifactKey n i]", OF _ surjective_pairing]
    by (simp_all add: delete_artifact_def DeleteArtifact_def steady_def split_beta)
  have key: "artifactKey n i \<noteq> loginFailKey k" "artifactKey n i \<noteq> indexKey C m j" "artifactKey n i \<noteq> artifactKey revokedName j"
    for k C m j using assms artifactKey_inj [of n i revokedName j] name_free by auto
  show "steady (pv_crypto p) view up t (w_kv ?w)"
    using st ks typed_cong [of "pv_crypto p" ?ks "purge t (view (w_kv ?w))"] key by (auto simp: steady_def ks_del_def)
  show "shelf_kept p (w_rng w) ?ks (purge t (view (w_kv ?w)))"
    by (simp add: ks shelf_kept_def ks_del_def)
  show "revocations_kept p t ?ks (purge t (view (w_kv ?w)))"
    by (simp add: ks revocations_kept_def revoked_till_def ks_del_def key(3) [symmetric])
qed

text \<open>A revocation, new or renewed, lasts until the deadline of this time.\<close>

lemma put_revocation:
  fixes w :: "('r, 'w) world" and t :: int and i :: string and m :: gomap
  assumes "up (w_kv w)"
  defines "w' \<equiv> snd (put_artifact p t revokedName i m (cf_refresh_ttl (pv_cfg p)) w)"
  shows "up (w_kv w')" "revoked_till (purge t (view (w_kv w'))) i (revocation_end p t)"
    "j \<noteq> artifactKey revokedName i \<Longrightarrow> purge t (view (w_kv w')) j = purge t (view (w_kv w)) j"
proof -
  let ?b = "Doc (json_norm (AMap m))" and ?k = "artifactKey revokedName i"
  have s: "kv_Set (pv_redis p) t ?k ?b (cf_refresh_ttl (pv_cfg p)) (w_kv w) = (Inr (), w_kv w')"
    using kv_Set_up [OF assms(1), of t ?k ?b "cf_refresh_ttl (pv_cfg p)" _ "w_kv w'"]
    by (simp add: w'_def put_artifact_def PutArtifact_def split_beta) (metis prod.collapse)
  show "up (w_kv w')" by (rule kv_Set_only(1) [OF assms(1) s])
  note at = kv_Set_lookup [OF s order_refl refresh_ttl]
  show "j \<noteq> ?k \<Longrightarrow> purge t (view (w_kv w')) j = purge t (view (w_kv w)) j" by (simp add: at)
  show "revoked_till (purge t (view (w_kv w'))) i (revocation_end p t)"
    using px_deadline_after [OF refresh_ttl, of t] px_deadline_pos [OF refresh_ttl, of t]
    by (simp add: at revoked_till_def revocation_end_def)
qed

lemma ev_revoke: "ev t w (snd (put_artifact p t revokedName i m (cf_refresh_ttl (pv_cfg p)) w))"
  unfolding evolves_def
proof (intro conjI impI)
  let ?w = "snd (put_artifact p t revokedName i m (cf_refresh_ttl (pv_cfg p)) w)" and ?ks = "purge t (view (w_kv w))"
  show "w_rng w \<le> w_rng ?w" by (simp add: put_artifact_def split_beta)
  assume st: "steady (pv_crypto p) view up t (w_kv w)"
  then have "up (w_kv w)" by (simp add: steady_def)
  note put = put_revocation [OF this, where t = t and i = i and m = m]
  show "steady (pv_crypto p) view up t (w_kv ?w)"
    using st put(1) typed_cong [of "pv_crypto p" ?ks "purge t (view (w_kv ?w))"] put(3)
    by (simp add: steady_def)
  show "shelf_kept p (w_rng w) ?ks (purge t (view (w_kv ?w)))"
    by (simp add: shelf_kept_def put(3))
  have "revoked_till (purge t (view (w_kv ?w))) j d" if "d \<le> revocation_end p t" "revoked_till ?ks j d" for j d
    using that put(2) put(3) [of "artifactKey revokedName j"]
    by (cases "j = i") (auto simp: revoked_till_def)
  then show "revocations_kept p t ?ks (purge t (view (w_kv ?w)))" by (simp add: revocations_kept_def)
qed

lemma ev_counter:
  assumes "0 < lf"
  shows "ev t w (w\<lparr>w_kv := snd (RecordLoginFailure (pv_redis p) t k la lf (w_kv w))\<rparr>)"
  unfolding evolves_def
proof (intro conjI impI)
  let ?s = "snd (RecordLoginFailure (pv_redis p) t k la lf (w_kv w))" and ?ks = "purge t (view (w_kv w))"
  let ?w = "w\<lparr>w_kv := ?s\<rparr>"
  show "w_rng w \<le> w_rng ?w" by simp
  assume st: "steady (pv_crypto p) view up t (w_kv w)"
  then have up: "up (w_kv w)" "ks_counter ?ks (loginFailKey k)" by (simp_all add: steady_def typed_def)
  note only = RecordLoginFailure_only [OF up assms surjective_pairing, where la = la]
  have "ks_counter (purge t (view ?s)) (loginFailKey j)" for j
    using only(3) st only(2) [of "loginFailKey j"] by (cases "j = k") (auto simp: steady_def typed_def ks_counter_def)
  then show "steady (pv_crypto p) view up t (w_kv ?w)"
    using st only(1,2) by (simp add: steady_def typed_def)
  show "shelf_kept p (w_rng w) ?ks (purge t (view (w_kv ?w)))"
    by (simp add: shelf_kept_def only(2))
  show "revocations_kept p t ?ks (purge t (view (w_kv ?w)))"
    by (simp add: revocations_kept_def revoked_till_def only(2))
qed

lemma ev_record: "ev t w (recordFailure p t a b w)"
proof -
  have "0 < lockFor" by (simp add: lockFor_def time_units)
  from evolves_trans [OF ev_counter [OF this] ev_counter [OF this]] show ?thesis
    by (simp add: recordFailure_def Let_def)
qed

lemma ev_unlock: "ev t w (w\<lparr>w_kv := snd (ResetLoginFailures (pv_redis p) t k (w_kv w))\<rparr>)"
  unfolding evolves_def
proof (intro conjI impI)
  let ?s = "snd (ResetLoginFailures (pv_redis p) t k (w_kv w))" and ?ks = "purge t (view (w_kv w))"
  let ?w = "w\<lparr>w_kv := ?s\<rparr>"
  show "w_rng w \<le> w_rng ?w" by simp
  assume st: "steady (pv_crypto p) view up t (w_kv w)"
  then have "up (w_kv w)" by (simp add: steady_def)
  note only = kv_Del_only [OF this surjective_pairing, of t "[loginFailKey k, loginLockKey k]", folded ResetLoginFailures_def]
  show "steady (pv_crypto p) view up t (w_kv ?w)"
    using st only by (auto simp: steady_def typed_def ks_del_def ks_counter_def)
  show "shelf_kept p (w_rng w) ?ks (purge t (view (w_kv ?w)))"
    by (simp add: shelf_kept_def only ks_del_def)
  show "revocations_kept p t ?ks (purge t (view (w_kv ?w)))"
    by (simp add: revocations_kept_def revoked_till_def only ks_del_def)
qed

lemma ev_reset: "ev t w (reset_failures p t a b w)"
  using evolves_trans [OF ev_unlock ev_unlock] by (simp add: reset_failures_def Let_def)

end

section \<open>The storage of fosite\<close>

text \<open>A call of a method of the storage; the others are these with a name of their own.\<close>

inductive storage_step :: "'r fstore \<Rightarrow> int \<Rightarrow> 'r \<Rightarrow> 'r \<Rightarrow> bool" for F t where
  st_put: "storage_step F t s (snd (fs_put F t n k r x b s))"
| st_read: "storage_step F t s (snd (getPersisted F t n k s))"
| st_invalidate: "storage_step F t s (snd (InvalidateAuthorizeCodeSession F t c s))"
| st_delete: "storage_step F t s (snd (fs_delete F t n k s))"
| st_revoke: "storage_step F t s (snd (revokeByRequestID F t n i s))"
| st_known: "storage_step F t s (snd (ClientAssertionJWTValid F t jti s))"
| st_remember: "storage_step F t s (snd (SetClientAssertionJWT F t jti e s))"

text \<open>The methods of the interface are such calls.\<close>

lemma fs_get_step: "storage_step F t s (snd (fs_get F d t n k se s))"
proof -
  have "snd (fs_get F d t n k se s) = snd (getPersisted F t n k s)"
    by (simp add: fs_get_def split_beta split: sum.split)
  then show ?thesis by (simp add: st_read)
qed

lemma GetAuthorizeCodeSession_step: "storage_step F t s (snd (GetAuthorizeCodeSession F d t c se s))"
proof -
  have "snd (GetAuthorizeCodeSession F d t c se s) = snd (fs_get F d t nameAuthorizeCode c se s)"
    by (simp add: GetAuthorizeCodeSession_def split_beta split: sum.split)
  then show ?thesis by (simp add: fs_get_step)
qed

lemma get_session_step: "storage_step F t s (snd (get_session F d t n k se s))"
  using fs_get_step [of F t s d n k se] by (simp add: get_session_def split_beta)

definition storage_key :: "crypto \<Rightarrow> string \<Rightarrow> bool" where
  "storage_key C j \<longleftrightarrow> (\<exists>n k. j = storeID C n k) \<or> (\<exists>n i. j = indexKey C n i) \<or> (\<exists>k. j = jtiKey C k)"

lemma storage_keys [simp]:
  "storage_key C (storeID C n k)" "storage_key C (indexKey C n k)" "storage_key C (jtiKey C k)"
  by (auto simp: storage_key_def)

lemma not_storage [simp]:
  "\<not> storage_key C (artifactKey n i)" "\<not> storage_key C (loginFailKey k)" "\<not> storage_key C (loginLockKey k)"
  by (simp_all add: storage_key_def)

definition storage_only ::
  "crypto \<Rightarrow> ('r \<Rightarrow> keyspace) \<Rightarrow> ('r \<Rightarrow> bool) \<Rightarrow> int \<Rightarrow> 'r \<Rightarrow> 'r \<Rightarrow> bool" where
  "storage_only C view up t s s' \<longleftrightarrow> (steady C view up t s \<longrightarrow> steady C view up t s'
     \<and> (\<forall>j. \<not> storage_key C j \<longrightarrow> purge t (view s') j = purge t (view s) j))"

lemma storage_only_refl [simp]: "storage_only C view up t s s"
  by (simp add: storage_only_def)

lemma storage_only_trans:
  "storage_only C view up t s s1 \<Longrightarrow> storage_only C view up t s1 s2 \<Longrightarrow> storage_only C view up t s s2"
  by (simp add: storage_only_def)

lemma storage_onlyI:
  assumes "steady C view up t s \<Longrightarrow> up s'"
    and "\<And>j. steady C view up t s \<Longrightarrow> \<not> (\<exists>n k. j = storeID C n k) \<Longrightarrow> \<not> (\<exists>k. j = jtiKey C k) \<Longrightarrow>
      \<not> (\<exists>n i. j = indexKey C n i) \<Longrightarrow> purge t (view s') j = purge t (view s) j"
    and "\<And>n i. steady C view up t s \<Longrightarrow> index_ok C (purge t (view s') (indexKey C n i))"
  shows "storage_only C view up t s s'"
  using assms by (auto simp: storage_only_def steady_def typed_def ks_counter_def storage_key_def)

context redis_sets
begin

lemma put_storage:
  assumes "kv_Set R t key b ttl s = (x, s')" "(\<exists>n k. key = storeID C n k) \<or> (\<exists>k. key = jtiKey C k)"
  shows "storage_only C view up t s s'"
proof (rule storage_onlyI)
  assume st: "steady C view up t s"
  then have up: "up s" by (simp add: steady_def)
  note only = kv_Set_only [OF up assms(1)]
  show "up s'" by (rule only)
  show "purge t (view s') j = purge t (view s) j"
    if "\<not> (\<exists>n k. j = storeID C n k)" "\<not> (\<exists>k. j = jtiKey C k)" for j
    using only(2) [of j] assms(2) that by auto
  show "index_ok C (purge t (view s') (indexKey C n i))" for n i
    using only(2) [of "indexKey C n i"] assms(2) st by (auto simp: steady_def typed_def)
qed

lemma read_storage:
  assumes "steady C view up t s \<Longrightarrow> up s' \<and> purge t (view s') = purge t (view s)"
  shows "storage_only C view up t s s'"
  using assms by (auto simp: storage_only_def steady_def)

lemma kv_Get_only: "up s \<Longrightarrow> kv_Get R t k s = (x, s') \<Longrightarrow> up s' \<and> purge t (view s') = purge t (view s)"
  using get_up [of s t k] by (auto simp: kv_Get_def split: prod.splits sum.splits rerr.splits)

lemma delete_storage:
  assumes "kv_Del R t keys s = (x, s')" "\<And>j. j \<in> set keys \<Longrightarrow> steady C view up t s \<Longrightarrow> storage_key C j"
  shows "storage_only C view up t s s'"
proof (rule storage_onlyI)
  assume st: "steady C view up t s"
  then have up: "up s" by (simp add: steady_def)
  note only = kv_Del_only [OF up assms(1)]
  show "up s'" by (rule only)
  show "purge t (view s') j = purge t (view s) j"
    if "\<not> (\<exists>n k. j = storeID C n k)" "\<not> (\<exists>k. j = jtiKey C k)" "\<not> (\<exists>n i. j = indexKey C n i)" for j
  proof -
    have "j \<notin> set keys" using that assms(2) [OF _ st, of j] by (auto simp: storage_key_def)
    with only(2) show ?thesis by (simp add: ks_del_def)
  qed
  show "index_ok C (purge t (view s') (indexKey C n i))" for n i
    using st only(2) by (auto simp: ks_del_def index_ok_def steady_def typed_def)
qed

lemma add_storage:
  assumes "kv_SAdd R t (indexKey C n i) ttl [storeID C m k] s = (x, s')"
  shows "storage_only C view up t s s'"
proof (rule storage_onlyI)
  let ?I = "indexKey C n i" and ?ks = "purge t (view s)"
  let ?c = "SADD ?I [storeID C m k] # (if 0 < ttl then [EXPIRE ?I ttl] else [])"
  assume st: "steady C view up t s"
  then have ix: "index_ok C (?ks (indexKey C n' i'))" for n' i' by (simp add: steady_def typed_def)
  obtain u where e: "rd_exec R t ?c s = (u, s')"
    using assms by (cases "rd_exec R t ?c s") (auto simp: kv_SAdd_def pass_def split: sum.splits)
  have "ks_settish ?ks ?I" using ix [of n i] by (auto simp: ks_settish_def index_ok_def split: option.splits rval.splits)
  with exec_up [OF _ e] st have "up s'" "u = Inr ()" by (auto simp: steady_def)
  then show "up s'" by simp
  let ?xs = "dedup [] (ks_members ?ks ?I @ [storeID C m k])"
  have e': "rd_exec R t ?c s = (Inr (), s')" using e \<open>u = Inr ()\<close> by simp
  have K: "purge t (view s') = purge t (fold (ks_cmd t) ?c ?ks)" by (rule exec_ok [OF e'])
  have at: "purge t (view s') j = ?ks j" if "j \<noteq> ?I" for j
  proof -
    have "fold (ks_cmd t) ?c ?ks j = ?ks j" using that by (simp add: ks_sadd_def ks_expire_def)
    then have "purge t (fold (ks_cmd t) ?c ?ks) j = purge t ?ks j" by (simp only: purge_def)
    with K show ?thesis by simp
  qed
  have "\<exists>d. fold (ks_cmd t) ?c ?ks ?I = Some (RSet ?xs, d)" by (simp add: ks_sadd_def ks_expire_def)
  then have at_I: "purge t (view s') ?I = None \<or> (\<exists>d. purge t (view s') ?I = Some (RSet ?xs, d))"
    using K by (auto simp: purge_def)
  show "purge t (view s') j = ?ks j" if "\<not> (\<exists>n i. j = indexKey C n i)" for j
    using at [of j] that by auto
  have "\<forall>x \<in> set ?xs. \<exists>n k. x = storeID C n k"
    using ix [of n i] by (auto simp: set_dedup ks_members_def index_ok_def split: option.splits rval.splits prod.splits)
  then show "index_ok C (purge t (view s') (indexKey C n' i'))" for n' i'
    using at [of "indexKey C n' i'"] at_I ix [of n' i']
    by (cases "indexKey C n' i' = ?I") (auto simp: index_ok_def)
qed

lemma members_storage:
  assumes "kv_SMembers R t (indexKey C n i) s = (Inr xs, s')" "steady C view up t s" "x \<in> set xs"
  shows "storage_key C x"
proof -
  have "index_ok C (purge t (view s) (indexKey C n i))" using assms(2) by (simp add: steady_def typed_def)
  with kv_SMembers_Inr [OF assms(1)] assms(3) show ?thesis
    by (auto simp: index_ok_def ks_members_def storage_key_def split: option.splits rval.splits prod.splits)
qed

lemma storage_step_only:
  assumes "storage_step F t s s'" "ft_redis F = R"
  shows "storage_only (ft_crypto F) view up t s s'"
proof -
  have put: "storage_only (ft_crypto F) view up t s (snd (putPersisted F t n k p s))" for n k p s
    by (rule put_storage [of _ _ _ _ _ "fst (putPersisted F t n k p s)"]) (auto simp: putPersisted_def assms(2))
  have del: "storage_only (ft_crypto F) view up t s (snd (fs_delete F t n k s))" for n k s
    by (rule delete_storage [of _ "[storeID (ft_crypto F) n k]" _ "fst (fs_delete F t n k s)"])
      (auto simp: fs_delete_def assms(2))
  have get: "storage_only (ft_crypto F) view up t s (snd (getPersisted F t n k s))" for n k s
  proof -
    obtain x s1 where g: "kv_Get R t (storeID (ft_crypto F) n k) s = (x, s1)" by force
    then have "storage_only (ft_crypto F) view up t s s1"
      using kv_Get_only [OF _ g] by (intro read_storage) (simp add: steady_def)
    with del [of s1 n k] g show ?thesis
      by (auto simp: getPersisted_def assms(2) intro: storage_only_trans
        split: sum.split goerr.split option.split)
  qed
  from assms(1) show ?thesis
  proof cases
    case (st_put n k r x b)
    have "storage_only (ft_crypto F) view up t s (snd (fs_put F t n k r x b s))"
    proof (cases "requestToPersisted r")
      case (Inr q)
      define p where "p = q\<lparr>ps_access := x, ps_invalidated := b,
        ps_expires := expiryFor (case r of None \<Rightarrow> NilSession | Some r \<Rightarrow> fr_session r) n\<rparr>"
      obtain y s1 where y: "putPersisted F t n k p s = (y, s1)" by force
      obtain z s2 where z: "kv_SAdd R t (indexKey (ft_crypto F) n (ps_id p)) (ttlFor F t (ps_expires p))
          [storeID (ft_crypto F) n k] s1 = (z, s2)" by force
      show ?thesis
        using put [of s n k p] storage_only_trans [OF _ add_storage [OF z]] y z Inr
        by (simp add: fs_put_def p_def [symmetric] Let_def assms(2) split: sum.split)
    qed (simp add: fs_put_def)
    with st_put show ?thesis by simp
  next
    case (st_invalidate c)
    obtain x s1 where g: "getPersisted F t nameAuthorizeCode c s = (x, s1)" by force
    with get [of s nameAuthorizeCode c] have one: "storage_only (ft_crypto F) view up t s s1" by simp
    show ?thesis
      using one storage_only_trans [OF one put] g st_invalidate
      by (cases x) (simp_all add: InvalidateAuthorizeCodeSession_def)
  next
    case (st_revoke n i)
    obtain x s1 where m: "kv_SMembers R t (indexKey (ft_crypto F) n i) s = (x, s1)" by force
    have one: "storage_only (ft_crypto F) view up t s s1"
      using m smembers_up [of s t "indexKey (ft_crypto F) n i"]
      by (intro read_storage) (auto simp: kv_SMembers_def pass_def steady_def split: prod.splits sum.splits)
    show ?thesis
    proof (cases x)
      case (Inr xs)
      obtain y s2 where d: "kv_Del R t (xs @ [indexKey (ft_crypto F) n i]) s1 = (y, s2)" by force
      have "storage_key (ft_crypto F) j" if "steady (ft_crypto F) view up t s"
        "j \<in> set (xs @ [indexKey (ft_crypto F) n i])" for j
        using that members_storage [of t "ft_crypto F" n i s xs s1 j] m Inr by auto
      then have "storage_only (ft_crypto F) view up t s1 s2" if "steady (ft_crypto F) view up t s"
        using that by - (rule delete_storage [OF d], simp)
      with one have "storage_only (ft_crypto F) view up t s s2" by (auto simp: storage_only_def)
      with st_revoke m d Inr show ?thesis by (simp add: revokeByRequestID_def assms(2) Let_def)
    qed (use one m st_revoke in \<open>simp add: revokeByRequestID_def assms(2) Let_def\<close>)
  next
    case (st_known jti)
    obtain x s1 where e: "rd_exists R t (jtiKey (ft_crypto F) jti) s = (x, s1)" by force
    then have "storage_only (ft_crypto F) view up t s s1"
      using exists_up [of s t] by (intro read_storage) (auto simp: steady_def)
    with e st_known show ?thesis
      by (cases x) (auto simp: ClientAssertionJWTValid_def kv_Exists_def assms(2))
  next
    case (st_remember jti e)
    have "storage_only (ft_crypto F) view up t s (snd (kv_Set R t (jtiKey (ft_crypto F) jti) b ttl s))" for b ttl
      by (rule put_storage [OF surjective_pairing]) blast
    then show ?thesis by (simp only: st_remember SetClientAssertionJWT_def assms(2))
  qed (use get del in simp_all)
qed

end

end
