(* ===== verification/Artifact_Handlers.thy ===== *)
theory Artifact_Handlers
  imports Artifact_Life
begin

text \<open>
  Every handler of internal/idp and internal/handlers evolves the documents in valkey: each is a
  sequence of the calls of \<open>Artifact_Life\<close>, and its lemma is composed from theirs by the collection \<open>life\<close>.
  Fosite is an interface whose calls reach valkey through the storage.
\<close>

named_theorems life

section \<open>The handlers\<close>

text \<open>
  Fosite reaches valkey through the storage it was given, at the time of the request, and draws from the
  random source.
\<close>

definition uses_storage ::
  "'r fstore \<Rightarrow> int \<Rightarrow> ('r, 'w) world \<Rightarrow> ('r, 'w) world \<Rightarrow> bool" where
  "uses_storage F t w w' \<longleftrightarrow> (storage_step F t)\<^sup>*\<^sup>* (w_kv w) (w_kv w') \<and> w_rng w \<le> w_rng w'"

definition fosite_on_storage :: "('r, 'w) provider \<Rightarrow> 'r fstore \<Rightarrow> bool" where
  "fosite_on_storage p F \<longleftrightarrow> ft_redis F = pv_redis p \<and> ft_crypto F = pv_crypto p
     \<and> (\<forall>oa. pv_oauth p = Some oa \<longrightarrow>
          (\<forall>t tok d s. (storage_step F t)\<^sup>*\<^sup>* s (snd (oa_introspect oa t tok d s)))
        \<and> (\<forall>r u w. uses_storage F (hf_now r) w (snd (oa_authorize_request oa r u w)))
        \<and> (\<forall>r ar se w. uses_storage F (hf_now r) w (snd (oa_authorize_response oa r ar se w)))
        \<and> (\<forall>r se w. uses_storage F (hf_now r) w (snd (oa_access_request oa r se w)))
        \<and> (\<forall>r aq w. uses_storage F (hf_now r) w (snd (oa_access_response oa r aq w)))
        \<and> (\<forall>r w. uses_storage F (hf_now r) w (snd (oa_introspection oa r w)))
        \<and> (\<forall>r w. uses_storage F (hf_now r) w (snd (oa_revocation oa r w))))"

locale provider_storing = provider_sets p view up
  for p :: "('r, 'w) provider" and view :: "'r \<Rightarrow> keyspace" and up :: "'r \<Rightarrow> bool" +
  fixes F :: "'r fstore"
  assumes fosite: "fosite_on_storage p F"
begin

lemma ev_storage_only:
  assumes "storage_only (pv_crypto p) view up t (w_kv w) (w_kv w')" "w_rng w \<le> w_rng w'"
  shows "ev t w w'"
  using assms
  by (auto simp: evolves_def storage_only_def shelf_kept_def revocations_kept_def revoked_till_def)

lemma storage_run_only:
  "(storage_step F t)\<^sup>*\<^sup>* s s' \<Longrightarrow> storage_only (pv_crypto p) view up t s s'"
proof (induction rule: rtranclp_induct)
  case (step s1 s2)
  have "ft_redis F = pv_redis p" "ft_crypto F = pv_crypto p" using fosite by (simp_all add: fosite_on_storage_def)
  with storage_step_only [OF step.hyps(2)] step.IH show ?case by (auto intro: storage_only_trans)
qed simp

lemma ev_uses: "uses_storage F t w w' \<Longrightarrow> ev t w w'"
  by (auto simp: uses_storage_def intro: ev_storage_only storage_run_only)

lemma ev_fosite:
  assumes "pv_oauth p = Some oa"
  shows "ev t w (w\<lparr>w_kv := snd (oa_introspect oa t tok (w_db w) (w_kv w))\<rparr>)"
    "ev (hf_now r) w (snd (oa_authorize_request oa r u w))"
    "ev (hf_now r) w (snd (oa_authorize_response oa r ar se w))"
    "ev (hf_now r) w (snd (oa_access_request oa r ns w))"
    "ev (hf_now r) w (snd (oa_access_response oa r aq w))"
    "ev (hf_now r) w (snd (oa_introspection oa r w))"
    "ev (hf_now r) w (snd (oa_revocation oa r w))"
  using fosite assms
  by (simp_all add: fosite_on_storage_def ev_uses ev_storage_only storage_run_only)

lemma life_fosite [life]:
  assumes "pv_oauth p = Some oa"
  shows "ev t w0 w \<Longrightarrow> ev t w0 (w\<lparr>w_kv := snd (oa_introspect oa t tok (w_db w) (w_kv w))\<rparr>)"
    "ev (hf_now r) w0 w \<Longrightarrow> ev (hf_now r) w0 (snd (oa_authorize_request oa r u w))"
    "ev (hf_now r) w0 w \<Longrightarrow> ev (hf_now r) w0 (snd (oa_authorize_response oa r ar se w))"
    "ev (hf_now r) w0 w \<Longrightarrow> ev (hf_now r) w0 (snd (oa_access_request oa r ns w))"
    "ev (hf_now r) w0 w \<Longrightarrow> ev (hf_now r) w0 (snd (oa_access_response oa r aq w))"
    "ev (hf_now r) w0 w \<Longrightarrow> ev (hf_now r) w0 (snd (oa_introspection oa r w))"
    "ev (hf_now r) w0 w \<Longrightarrow> ev (hf_now r) w0 (snd (oa_revocation oa r w))"
  by (blast intro: evolves_trans ev_fosite [OF assms])+

lemmas life_basic [life] = evolves_refl
  evolves_trans [OF _ ev_get] evolves_trans [OF _ ev_locked] evolves_trans [OF _ ev_random]
  evolves_trans [OF _ ev_wd] evolves_trans [OF _ ev_db] evolves_trans [OF _ ev_put_pending(1)]
  evolves_trans [OF _ ev_put_pending(2)] evolves_trans [OF _ ev_issue] evolves_trans [OF _ ev_delete]
  evolves_trans [OF _ ev_revoke] evolves_trans [OF _ ev_record] evolves_trans [OF _ ev_reset]

lemma shelf_names [simp]:
  "sessionName \<in> shelf" "codeName \<in> shelf" "refreshName \<in> shelf" "pwResetName \<in> shelf"
  by (simp_all add: shelf_def)

lemma ev_session: "ev t w (snd (startSession p t sub email w))"
  by (simp add: startSession_def split_beta life)

lemma ev_account: "ev t w (snd (FetchAccount p sub w))"
  by (auto simp: FetchAccount_def Let_def split_beta life split: sum.split)

lemmas life_account [life] = evolves_trans [OF _ ev_session] evolves_trans [OF _ ev_account]

lemma ev_check_locks [life]: "ev t w0 w \<Longrightarrow> ev t w0 (snd (check_locks p t ks w))"
  by (induction ks arbitrary: w) (auto simp: life split_beta split: sum.split)

lemma ev_accepted [life]: "ev t w0 w \<Longrightarrow> ev t w0 (snd (accepted p t uid a b auth acc w))"
  by (auto simp: accepted_def Let_def split_beta life split: sum.split)

lemma ev_sign_in [life]: "ev t w0 w \<Longrightarrow> ev t w0 (snd (sign_in p t uid u pw a b w))"
  by (auto simp: sign_in_def Let_def split_beta life split: sum.split)

lemma ev_login [life]: "ev t w0 w \<Longrightarrow> ev t w0 (snd (FinishLogin p t uid u pw ip w))"
  by (auto simp: FinishLogin_def Let_def split_beta life split: sum.split)

lemma ev_change [life]: "ev t w0 w \<Longrightarrow> ev t w0 (snd (CompletePasswordChange p t uid pw w))"
  by (auto simp: CompletePasswordChange_def Let_def split_beta life split: sum.split)

lemma ev_verify [life]:
  assumes "ev t w0 w"
  shows "ev t w0 (snd (verifyLegacyAccessToken p t token w))" "ev t w0 (snd (VerifyAccessToken p t token w))"
proof -
  show legacy: "ev t w0 (snd (verifyLegacyAccessToken p t token w))"
    using assms by (auto simp: verifyLegacyAccessToken_def Let_def split_beta life split: sum.split)
  show "ev t w0 (snd (VerifyAccessToken p t token w))"
    using legacy
    by (auto simp: VerifyAccessToken_def split_beta life split: sum.split option.split)
qed

lemma ev_revoke_owned [life]: "ev t w0 w \<Longrightarrow> ev t w0 (revokeLegacyJWTIfOwned p t token c w)"
  by (auto simp: revokeLegacyJWTIfOwned_def Let_def life split: sum.split)

lemma ev_views [life]:
  assumes "ev (hf_now r) w0 w"
  shows "ev (hf_now r) w0 (snd (InteractionView p r uid msg w))" "ev (hf_now r) w0 (snd (PasswordChangeView p r uid msg w))"
proof -
  show "ev (hf_now r) w0 (snd (InteractionView p r uid msg w))"
    using assms by (auto simp: InteractionView_def Let_def split_beta life split: sum.split option.split)
  then show "ev (hf_now r) w0 (snd (PasswordChangeView p r uid msg w))"
    by (auto simp: PasswordChangeView_def split_beta split: sum.split)
qed

lemma ev_redirect [life]: "ev t w0 w \<Longrightarrow> ev t w0 (snd (RedirectAfterLogin p t uid sid w))"
  by (auto simp: RedirectAfterLogin_def split_beta life split: sum.split)

lemma ev_render [life]: "ev (hf_now r) w0 w \<Longrightarrow> ev (hf_now r) w0 (snd (render_change p r uid msg w))"
  by (auto simp: render_change_def split_beta life split: sum.split)

lemma ev_pages [life]:
  assumes "ev (hf_now r) w0 w"
  shows "ev (hf_now r) w0 (snd (ShowInteraction p r uid w))" "ev (hf_now r) w0 (snd (handler_Login p r uid w))"
    "ev (hf_now r) w0 (snd (ChangePassword p r uid w))"
  using assms
  by (auto simp: ShowInteraction_def handler_Login_def ChangePassword_def Let_def split_beta life
      split: sum.split goerr.split)

subsection \<open>The password reset\<close>

lemma ev_send_reset: "ev t w (send_reset p m t acc email w)"
  by (auto simp: send_reset_def split_beta life split: sum.split)

lemmas life_reset [life] = evolves_trans [OF _ ev_send_reset]

lemma ev_reset_pages [life]:
  assumes "ev t w0 w"
  shows "ev t w0 (BeginPasswordReset p t login email w)" "ev t w0 (snd (ResetTokenValid p t token w))"
    "ev t w0 (snd (CompletePasswordReset p t token pw w))"
  using assms
  by (auto simp: BeginPasswordReset_def ResetTokenValid_def CompletePasswordReset_def Let_def split_beta life
      split: sum.split option.split bool.split)

lemma ev_reset_forms [life]:
  assumes "ev (hf_now r) w0 w"
  shows "ev (hf_now r) w0 (snd (ForgotSubmit p r w))" "ev (hf_now r) w0 (snd (ResetForm p r w))"
    "ev (hf_now r) w0 (snd (ResetSubmit p r w))"
  using assms
  by (auto simp: ForgotSubmit_def ResetForm_def ResetSubmit_def Let_def split_beta life split: bool.split go.split)

subsection \<open>The token endpoint\<close>

lemma ev_account_claims [life]: "ev t w0 w \<Longrightarrow> ev t w0 (snd (account_claims p sub w))"
  by (auto simp: account_claims_def split_beta life split: sum.split)

lemma ev_add_refresh: "ev t w (snd (add_refresh p t c sub scope resp w))"
  by (auto simp: add_refresh_def Let_def split_beta life)

lemmas life_refresh [life] = evolves_trans [OF _ ev_add_refresh]

lemma ev_issue_token [life]: "ev t w0 w \<Longrightarrow> ev t w0 (snd (issueTokenResponse p t c sub scope nonce w))"
  by (auto simp: issueTokenResponse_def Let_def split_beta life split: sum.split)

lemma ev_grants [life]:
  assumes "ev (hf_now r) w0 w"
  shows "ev (hf_now r) w0 (snd (tokenAuthorizationCode p r c w))" "ev (hf_now r) w0 (snd (tokenRefresh p r c w))"
    "ev (hf_now r) w0 (snd (tokenClientCredentials p r c w))" "ev (hf_now r) w0 (snd (legacyIntrospect p r w))"
  using assms
  by (auto simp: tokenAuthorizationCode_def tokenRefresh_def tokenClientCredentials_def legacyIntrospect_def
      Let_def split_beta life split: sum.split go.split)

lemma ev_more [life]:
  assumes "ev (hf_now r) w0 w"
  shows "ev (hf_now r) w0 (snd (Logout p r w))" "ev (hf_now r) w0 (snd (UserInfo p r w))"
    "ev (hf_now r) w0 (snd (abortInteraction p r uid w))"
  using assms
  by (auto simp: Logout_def UserInfo_def abortInteraction_def Let_def split_beta life
      split: sum.split option.split)

lemma failed_world: "snd (snd (failed e code desc w)) = w"
  by (simp add: failed_def)

lemma ev_exchange_actor [life]:
  "ev (hf_now r) w0 w \<Longrightarrow> ev (hf_now r) w0 (snd (snd (exchange_actor p r c e w)))"
  by (auto simp: exchange_actor_def Let_def split_beta life split: sum.split)

lemma ev_exchange_grant [life]:
  "ev (hf_now r) w0 w \<Longrightarrow> ev (hf_now r) w0 (snd (snd (exchange_grant p r c sc aud act pol e w)))"
  by (auto simp: exchange_grant_def Let_def split_beta life failed_world split: sum.split)

lemma ev_exchange_checked [life]:
  "ev (hf_now r) w0 w \<Longrightarrow> ev (hf_now r) w0 (snd (snd (exchange_checked p r c sc e w)))"
  by (auto simp: exchange_checked_def Let_def split_beta life failed_world split: sum.split goerr.split)

lemma ev_exchange [life]: "ev (hf_now r) w0 w \<Longrightarrow> ev (hf_now r) w0 (snd (tokenExchange p r c w))"
proof -
  assume "ev (hf_now r) w0 w"
  then have "ev (hf_now r) w0 (snd (snd (exchange_body p r c w)))"
    by (auto simp: exchange_body_def Let_def split_beta life failed_world split: sum.split)
  moreover have "ev (hf_now r) w1 (log_event p e w1)" for w1 e
    by (rule evolves_same) (auto simp: log_event_def LogTokenExchangeEvent_def Let_def split_beta split: option.split)
  ultimately show ?thesis by (auto simp: tokenExchange_def split_beta intro: evolves_trans)
qed

lemma ev_token_fosite [life]:
  assumes "pv_oauth p = Some oa" "ev (hf_now r) w0 w"
  shows "ev (hf_now r) w0 (snd (tokenFosite p oa r w))"
proof (cases "normalizeClientCredentialsScope p r w")
  case (Ok q)
  then have "hf_now r = hf_now q"
    by (auto simp: normalizeClientCredentialsScope_def Let_def split: if_splits go.splits option.splits)
  with Ok assms show ?thesis
    by (auto simp: tokenFosite_def Let_def split_beta life split: option.split sum.split)
qed (use assms in \<open>simp_all add: tokenFosite_def\<close>)

lemma ev_token [life]: "ev (hf_now r) w0 w \<Longrightarrow> ev (hf_now r) w0 (snd (Token p r w))"
  by (auto simp: Token_def Let_def split_beta life split: go.split option.split)

lemma ev_introspect [life]:
  assumes "ev (hf_now r) w0 w"
  shows "ev (hf_now r) w0 (snd (Introspect p r w))"
proof (cases "pv_oauth p")
  case None
  with assms show ?thesis by (auto simp: Introspect_def split_beta life split: go.split option.split)
next
  case (Some oa)
  let ?r = "ensureBasicAuthFromForm r"
  have "hf_now r = hf_now ?r" by (simp add: ensureBasicAuthFromForm_def Let_def)
  with Some assms show ?thesis
    by (auto simp: Introspect_def Let_def split_beta life split: sum.split go.split option.split)
qed

lemma ev_revocation [life]: "ev (hf_now r) w0 w \<Longrightarrow> ev (hf_now r) w0 (snd (Revoke p r w))"
  by (auto simp: Revoke_def Let_def split_beta life split: sum.split go.split option.split)

subsection \<open>The authorization endpoint\<close>

lemma ev_finish [life]:
  assumes "ev (hf_now r) w0 w"
  shows "ev (hf_now r) w0 (snd (finishAuthorization p r c sub q w))"
proof (cases "pv_oauth p")
  case None
  with assms show ?thesis
    by (auto simp: finishAuthorization_def Let_def split_beta life split: sum.split option.split)
next
  case (Some oa)
  have session: "ev (hf_now r) w1 w2 \<Longrightarrow> ev (hf_now r) w1 (snd (newFositeSession p (hf_now r) sub cid nonce w2))"
    for w1 w2 cid nonce by (auto simp: newFositeSession_def Let_def split_beta life split: sum.split)
  show ?thesis
    using assms Some
    by (auto simp: finishAuthorization_def finishAuthorizationFosite_def Let_def split_beta session life
        split: option.split sum.split)
qed

lemma ev_offer [life]: "ev t w0 w \<Longrightarrow> ev t w0 (snd (offer_interaction p t uid m w))"
  by (auto simp: offer_interaction_def split_beta life split: sum.split)

lemma ev_authorize [life]: "ev (hf_now r) w0 w \<Longrightarrow> ev (hf_now r) w0 (snd (Authorize p r w))"
  by (auto simp: Authorize_def authorize_session_def redirectToConsent_def Let_def split_beta life
      split: sum.split option.split)

lemma ev_consent [life]: "ev (hf_now r) w0 w \<Longrightarrow> ev (hf_now r) w0 (snd (ConfirmConsent p r uid w))"
  by (auto simp: ConfirmConsent_def confirm_def Let_def split_beta life split: sum.split option.split)

end

end
