(* ===== verification/App_Safety.thy ===== *)
theory App_Safety
  imports App_Frame
begin

text \<open>
  What the program as a whole guarantees: which credentials a change of the administered tables needs,
  that the bearer of a token stays within the tenant of the token, and that the credentials the GUI asks
  for are those of the configuration.
\<close>

section \<open>Changes need credentials\<close>

lemma run_simps [simp]:
  "sy_world (snd (run_page h s)) = snd (h (sy_world s))"
  "sy_world (snd (run_go g s)) = snd (g (sy_world s))"
  "sy_world (snd (run_answer f s)) = snd (f (sy_world s))"
  by (simp_all add: run_page_def run_go_def run_answer_def Let_def split_beta)

text \<open>Routes of the API, by the gate in front of them.\<close>

fun api_gate :: "endpoint \<Rightarrow> string" where
  "api_gate (GlobalEp _) = ''key''"
| "api_gate (GuiApiEp _) = ''master''"
| "api_gate (TenantEp _) = ''bearer''"
| "api_gate (SelfEp _) = ''bearer''"
| "api_gate _ = []"

lemma open_endpoints_keep_tables:
  assumes "fosite_reads (ap_idp a)" "api_gate ep = []"
  shows "tables (w_db (sy_world (snd (handle S a ep r param s)))) = tables (w_db (sy_world s))"
  using assms(2)
  by (cases ep)
    (simp_all add: frame Authorize_frame [OF assms(1)] Introspect_frame [OF assms(1)] Revoke_frame [OF assms(1)]
      Token_tables [OF assms(1)] Consent_tables [OF assms(1)] split: sum.split)

lemma gated_refused: "gated (Inl rep, w) h s = (Api rep, s\<lparr>sy_world := w\<rparr>)"
  by (simp add: gated_def)

text \<open>What a request presents: the admin key, the master credentials or a valid token.\<close>

definition presents_key :: "config \<Rightarrow> http_request \<Rightarrow> bool" where
  "presents_key cfg r \<longleftrightarrow> cf_admin_key cfg \<noteq> [] \<and> hr_admin_key r = cf_admin_key cfg"

definition presents_master :: "config \<Rightarrow> crypto \<Rightarrow> http_request \<Rightarrow> bool" where
  "presents_master cfg C r \<longleftrightarrow> cf_enable_gui cfg \<and> cf_master_user cfg \<noteq> [] \<and> cf_master_pass cfg \<noteq> []
     \<and> (\<exists>u pw. basicAuthSecret (hf_auth (hr_form r)) = Some (u, pw)
          \<and> sha256 C u = sha256 C (cf_master_user cfg) \<and> sha256 C pw = sha256 C (cf_master_pass cfg))"

definition presents_token :: "('r, 'w) provider \<Rightarrow> http_request \<Rightarrow> ('r, 'w) world \<Rightarrow> bool" where
  "presents_token p r w \<longleftrightarrow> bearer (hr_form r) \<noteq> []
     \<and> is_ok (fst (VerifyAccessToken p (hf_now (hr_form r)) (bearer (hr_form r)) w))"

lemma key_gate: "requireAdminAPIKey cfg r q = Inr q' \<Longrightarrow> presents_key cfg r"
  by (auto simp: requireAdminAPIKey_def presents_key_def split: if_splits)

lemma master_gate:
  "requireMasterPassword cfg C r q = Inr q' \<Longrightarrow> cf_enable_gui cfg \<Longrightarrow> presents_master cfg C r"
  by (auto simp: requireMasterPassword_def presents_master_def secureEqual_def split: if_splits option.splits prod.splits)

lemma bearer_gates:
  "requireBearerAdmin p r q w = (g, w') \<Longrightarrow> w_db w' = w_db w \<and> (\<forall>q'. g = Inr q' \<longrightarrow> presents_token p r w)"
  "requireIdentity p r q w = (g, w') \<Longrightarrow> w_db w' = w_db w \<and> (\<forall>q'. g = Inr q' \<longrightarrow> presents_token p r w)"
  by (auto simp: requireBearerAdmin_def requireIdentity_def presents_token_def dest!: VerifyAccessToken_frame
      split: if_splits sum.splits prod.splits)

lemma gui_routes:
  assumes "i < length (Router cfg)" "api_gate (snd (Router cfg ! i)) = ''master''"
  shows "cf_enable_gui cfg"
proof (rule ccontr)
  assume "\<not> cf_enable_gui cfg"
  then have "\<forall>ep \<in> snd ` set (Router cfg). api_gate ep \<noteq> ''master''"
    by (auto simp: Router_def at_path_def)
  with assms show False by (meson imageI nth_mem)
qed

lemma api_change:
  assumes "handle S a ep r param s = (rep, s')" "tables (w_db (sy_world s')) \<noteq> tables (w_db (sy_world s))"
    and "fosite_reads (ap_idp a)" "api_gate ep = ''master'' \<longrightarrow> cf_enable_gui (ap_cfg a)"
  shows "presents_key (ap_cfg a) r \<or> presents_master (ap_cfg a) (pv_crypto (ap_idp a)) r
    \<or> presents_token (ap_idp a) r (sy_world s)"
proof (rule ccontr)
  assume no: "\<not> ?thesis"
  let ?cfg = "ap_cfg a" and ?q = "web_of r param" and ?C = "pv_crypto (ap_idp a)" and ?p = "ap_idp a"
  have key: "\<exists>x. requireAdminAPIKey ?cfg r ?q = Inl x"
    using no key_gate by (cases "requireAdminAPIKey ?cfg r ?q") auto
  have master: "\<exists>x. requireMasterPassword ?cfg ?C r ?q = Inl x" if "cf_enable_gui ?cfg"
    using no master_gate [OF _ that] by (cases "requireMasterPassword ?cfg ?C r ?q") auto
  have bearer: "\<exists>x w. requireBearerAdmin ?p r ?q (sy_world s) = (Inl x, w) \<and> w_db w = w_db (sy_world s)"
    "\<exists>x w. requireIdentity ?p r ?q (sy_world s) = (Inl x, w) \<and> w_db w = w_db (sy_world s)"
    using no bearer_gates by (metis obj_sumE surj_pair)+
  have "api_gate ep \<noteq> []"
    using assms(1,2) open_endpoints_keep_tables [OF assms(3), of ep S r param s] by auto
  then show False
    using assms(1,2,4) key master bearer by (cases ep) (auto simp: gated_refused)
qed

text \<open>
  C5. A request changes the clients, service providers, policies, exchange policies or keys only with
  credentials: after the middleware it presents the configured, non-empty admin key, or, when the GUI is
  enabled, a user and password with the digests of the configured ones, or a valid access token.  Every
  other request, of any route, leaves these tables as they are.
\<close>

theorem changes_need_credentials:
  assumes "serve I S a r0 s = (rep, s')" and "fosite_reads (ap_idp a)"
    and "tables (w_db (sy_world s')) \<noteq> tables (w_db (sy_world s))"
  shows "\<exists>r. ci_before I (ap_cfg a) r0 = Inr r
    \<and> (presents_key (ap_cfg a) r \<or> presents_master (ap_cfg a) (pv_crypto (ap_idp a)) r
       \<or> presents_token (ap_idp a) r (sy_world s))"
proof -
  obtain r i param rep1 where run: "ci_before I (ap_cfg a) r0 = Inr r" "i < length (Router (ap_cfg a))"
      "handle S a (snd (Router (ap_cfg a) ! i)) r param s = (rep1, s')"
    using assms(1,3) by (auto simp: serve_def Let_def split: sum.splits option.splits prod.splits if_splits)
  from api_change [OF run(3) assms(3,2)] gui_routes [OF run(2)] run(1) show ?thesis by blast
qed

section \<open>The bearer of a token\<close>

lemma tenant_change_cong:
  "t_clients d1 = t_clients d \<Longrightarrow> tenant_change cust d1 d' = tenant_change cust d d'"
  by (simp add: tenant_change_def db_client_def)

lemma tables_clients: "tables d' = tables d \<Longrightarrow> t_clients d' = t_clients d"
  by (simp add: tables_def)

lemma same_clients: "t_clients d' = t_clients d \<Longrightarrow> tenant_change cust d d'"
  by (simp add: tenant_change_def db_client_def split: option.splits)

lemma NewAdmin_simps [simp]:
  "ad_store (NewAdmin p az) = pg_store (pv_pg p) (pv_uuid p)" "ad_authz (NewAdmin p az) = az"
  "ad_uuid (NewAdmin p az) = pv_uuid p"
  by (simp_all add: NewAdmin_def)

lemma run_api_db:
  assumes "run_api h (s\<lparr>sy_world := w\<rparr>) = (rep, s')"
  shows "\<exists>x t. h \<lparr>as_db = w_db w, as_authz = sy_authz s, as_rng = w_rng w\<rparr> = (x, t) \<and> w_db (sy_world s') = as_db t"
  using assms by (auto simp: run_api_def Let_def split: prod.splits)

lemma tenant_route:
  assumes "handle S a (TenantEp cop) r param s = (rep, s')"
    and "VerifyAccessToken (ap_idp a) (hf_now (hr_form r)) (bearer (hr_form r)) (sy_world s) = (Inr claims, w1)"
    and "str (mget claims ''customer_id'') = cust" "cust \<noteq> []"
    and "clients_ok (pv_pg (ap_idp a)) (w_db (sy_world s))" and "\<And>n. pv_uuid (ap_idp a) n \<noteq> []"
  shows "tenant_change cust (w_db (sy_world s)) (w_db (sy_world s'))"
proof (cases "bearer (hr_form r) = [] \<or> \<not> admin_role claims")
  case True
  with assms(1,2) VerifyAccessToken_frame [OF assms(2)] show ?thesis
    by (cases "bearer (hr_form r) = []") (auto simp: gated_refused requireBearerAdmin_def)
next
  case False
  let ?h = "NewAdmin (ap_idp a) (ap_authz a)"
  from False have "run_api (TenantRoutes ?h cop (WithAdminClaims claims (web_of r param))) (s\<lparr>sy_world := w1\<rparr>) = (rep, s')"
    using assms(1,2) by (simp add: requireBearerAdmin_def gated_def)
  from run_api_db [OF this] obtain x t where t:
    "TenantRoutes ?h cop (WithAdminClaims claims (web_of r param))
       \<lparr>as_db = w_db w1, as_authz = sy_authz s, as_rng = w_rng w1\<rparr> = (x, t)" "w_db (sy_world s') = as_db t"
    by blast
  have "customerFromClaims (WithAdminClaims claims (web_of r param)) = Some cust"
    using assms(3,4) by (simp add: customerFromClaims_def WithAdminClaims_def)
  from tenant_routes_change [OF t(1) this NewAdmin_simps(1)] assms(5,6) VerifyAccessToken_frame [OF assms(2)] t(2)
  show ?thesis by simp
qed

lemma self_route:
  assumes "handle S a (SelfEp cop) r param s = (rep, s')"
    and "VerifyAccessToken (ap_idp a) (hf_now (hr_form r)) (bearer (hr_form r)) (sy_world s) = (Inr claims, w1)"
    and "str (mget claims ''customer_id'') = cust"
    and "ap_authz a = NewClaimsAuthorizer UC roles"
    and "\<not> hasAnyRole UC (SubjectFromClaims (Some claims)) (admin_roles roles)"
    and "clients_ok (pv_pg (ap_idp a)) (w_db (sy_world s))" and "\<And>n. pv_uuid (ap_idp a) n \<noteq> []"
  shows "tenant_change cust (w_db (sy_world s)) (w_db (sy_world s'))"
proof (cases "bearer (hr_form r) = []")
  case True
  with assms(1,2) VerifyAccessToken_frame [OF assms(2)] show ?thesis
    by (auto simp: gated_refused requireIdentity_def)
next
  case False
  let ?h = "NewAdmin (ap_idp a) (ap_authz a)" and ?sub = "SubjectFromClaims (Some claims)"
  from False have "run_api (SelfClientRoutes ?h cop (WithSubject ?sub (web_of r param))) (s\<lparr>sy_world := w1\<rparr>) = (rep, s')"
    using assms(1,2) by (simp add: requireIdentity_def gated_def)
  from run_api_db [OF this] obtain x t where t:
    "SelfClientRoutes ?h cop (WithSubject ?sub (web_of r param))
       \<lparr>as_db = w_db w1, as_authz = sy_authz s, as_rng = w_rng w1\<rparr> = (x, t)" "w_db (sy_world s') = as_db t"
    by blast
  have "su_customer ?sub = cust" using assms(3) by (simp add: SubjectFromClaims_def)
  moreover have "wr_subject (WithSubject ?sub (web_of r param)) = Some ?sub" by (simp add: WithSubject_def)
  ultimately show ?thesis
    using self_change [OF t(1) _ NewAdmin_simps(1), of ?sub UC roles] assms(4-7)
      VerifyAccessToken_frame [OF assms(2)] t(2) by simp
qed


section \<open>The master credentials\<close>

definition std_char :: "char \<Rightarrow> char" where
  "std_char c = (if c = CHR ''-'' then CHR ''+'' else if c = CHR ''_'' then CHR ''/'' else c)"

definition url_char :: "char \<Rightarrow> char" where
  "url_char c = (if c = CHR ''+'' then CHR ''-'' else if c = CHR ''/'' then CHR ''_'' else c)"

lemma b64_in_alphabet: "c \<in> set (b64 s) \<Longrightarrow> b64_value c \<noteq> None"
  using b64_bytes_bound [of "map byte_of s"] b64_value_char by (fastforce simp: b64_def)

lemma b64_std:
  assumes "c \<in> set (b64 s)"
  shows "url_char (std_char c) = c" "std_char c \<noteq> CHR ''=''" "std_char c \<noteq> CHR ''-''" "std_char c \<noteq> CHR ''_''"
    and "\<not> skipped (std_char c)"
proof -
  have v: "b64_value c \<noteq> None" by (rule b64_in_alphabet [OF assms])
  have no: "c \<noteq> CHR ''+''" "c \<noteq> CHR ''/''" "c \<noteq> CHR ''=''"
    using v by (auto simp: b64_value_def)
  then show "url_char (std_char c) = c" "std_char c \<noteq> CHR ''=''" "std_char c \<noteq> CHR ''-''" "std_char c \<noteq> CHR ''_''"
    by (auto simp: std_char_def url_char_def)
  have "\<not> skipped c" using b64_chars [OF assms] by (auto simp: b64_plain_def skipped_def Let_def)
  then show "\<not> skipped (std_char c)" by (auto simp: std_char_def skipped_def)
qed

lemma b64_length: "length (b64_bytes xs) mod 4 \<noteq> 1"
  by (induction xs rule: b64_bytes.induct) auto

lemma std_unpad_last:
  "c \<noteq> CHR ''='' \<Longrightarrow> std_unpad (xs @ [c]) = xs @ [c]"
  "c \<noteq> CHR ''='' \<Longrightarrow> std_unpad ((xs @ [c]) @ [CHR ''='']) = xs @ [c]"
  "std_unpad (t @ [CHR ''='', CHR ''='']) = t"
  by (cases xs rule: rev_cases; simp add: std_unpad_def)+

lemma std_unpad_pad:
  assumes "CHR ''='' \<notin> set t" "length t mod 4 \<noteq> 1"
  shows "std_unpad (t @ replicate ((4 - length t mod 4) mod 4) CHR ''='') = t"
proof (cases t rule: rev_cases)
  case Nil
  then show ?thesis by (simp add: std_unpad_def)
next
  case (snoc xs c)
  then have c: "c \<noteq> CHR ''=''" using assms(1) by auto
  have "length t mod 4 < 4" by simp
  with assms(2) consider "length t mod 4 = 0" | "length t mod 4 = 2" | "length t mod 4 = 3" by linarith
  then have "(4 - length t mod 4) mod 4 \<in> {0, 1, 2}" by cases simp_all
  then consider "(4 - length t mod 4) mod 4 = 0" | "(4 - length t mod 4) mod 4 = 1" | "(4 - length t mod 4) mod 4 = 2"
    by auto
  then show ?thesis
  proof cases
    case 1
    with std_unpad_last(1) [OF c] snoc show ?thesis by (simp only: replicate_0 append_Nil2)
  next
    case 2
    with std_unpad_last(2) [OF c] snoc show ?thesis by (simp only: One_nat_def replicate_Suc replicate_0)
  next
    case 3
    show ?thesis unfolding 3 by (simp add: numeral_2_eq_2 std_unpad_last(3))
  qed
qed

lemma pad_length: "((n :: nat) + (4 - n mod 4) mod 4) mod 4 = 0"
proof -
  have "(n + (4 - n mod 4) mod 4) mod 4 = (n mod 4 + (4 - n mod 4)) mod 4"
    by (metis mod_add_left_eq mod_add_right_eq)
  also have "n mod 4 + (4 - n mod 4) = 4" by (simp add: le_add_diff_inverse less_imp_le)
  finally show ?thesis by simp
qed

lemma std_unb64_b64: "std_unb64 (std_b64 s) = Some s"
proof -
  let ?t = "map std_char (b64 s)" and ?pad = "replicate ((4 - length (b64 s) mod 4) mod 4) CHR ''=''"
  have enc: "std_b64 s = ?t @ ?pad" by (simp add: std_b64_def std_char_def Let_def)
  have keep: "filter (\<lambda>c. \<not> skipped c) (?t @ ?pad) = ?t @ ?pad"
    using b64_std(5) by (intro filter_True) (auto simp: skipped_def)
  have len: "length (b64 s) mod 4 \<noteq> 1" using b64_length by (simp add: b64_def)
  have "CHR ''='' \<notin> set ?t" using b64_std(2) by fastforce
  with std_unpad_pad [of ?t] len have body: "std_unpad (?t @ ?pad) = ?t" by simp
  have "length (?t @ ?pad) mod 4 = 0" using pad_length by simp
  moreover have "CHR ''-'' \<notin> set ?t" "CHR ''_'' \<notin> set ?t" using b64_std(3,4) by fastforce+
  moreover have "map url_char ?t = b64 s" using b64_std(1) by (simp add: map_idI)
  ultimately show ?thesis
    unfolding std_unb64_def enc keep Let_def body url_char_def [symmetric] by simp
qed

text \<open>
  The master password: a Basic header made of a user without a colon and any password is read back
  as the two, and the gate lets the request through exactly when both have the digests of the configured,
  non-empty credentials; without configured credentials it answers 500, and otherwise 401.
\<close>

theorem master_password_gate:
  assumes "CHR '':'' \<notin> set u" and "hf_auth (hr_form r) = ''Basic '' @ std_b64 (u @ '':'' @ pw)"
  shows "requireMasterPassword cfg C r q =
    (if cf_master_user cfg = [] \<or> cf_master_pass cfg = []
     then Inl (fail_with 500 ''master_credentials_not_configured'')
     else if sha256 C u = sha256 C (cf_master_user cfg) \<and> sha256 C pw = sha256 C (cf_master_pass cfg)
     then Inr q else Inl (fail_with 401 ''unauthorized''))"
proof -
  have "split_n2 (CHR '':'') (u @ '':'' @ pw) = [u, pw]"
    using split_n2_append [OF assms(1), of pw] by simp
  then have "basicAuthSecret (hf_auth (hr_form r)) = Some (u, pw)"
    unfolding basicAuthSecret_def assms(2) has_prefix_append trim_prefix_append std_unb64_b64
    by (simp del: append_Cons append.simps)
  then show ?thesis by (simp add: requireMasterPassword_def secureEqual_def)
qed

section \<open>Concrete requests\<close>

text \<open>Two tenants with a client each, an administrator of one of them, and the admin key.\<close>

definition tenant_claims :: gomap where
  "tenant_claims = [''sub'' \<mapsto> AStr ''u1'', ''customer_id'' \<mapsto> AStr ''acme'', ''roles'' \<mapsto> AArr [AStr ''admin'']]"

definition sample_app :: "(mem, unit, unit) app" where
  "sample_app = \<lparr>ap_cfg = (raw_config sample_unicode (\<lambda>_. None) sample_env)\<lparr>cf_admin_key := ''key''\<rparr>,
     ap_idp = sample_provider (AMap tenant_claims), ap_authz = NewClaimsAuthorizer sample_unicode []\<rparr>"

definition sample_system :: "(mem, unit, unit) system" where
  "sample_system = \<lparr>sy_world = sample_world\<lparr>w_db := as_db sample_astate\<rparr>, sy_authz = ()\<rparr>"

definition sample_http :: http_request where
  "sample_http = \<lparr>hr_method = ''DELETE'', hr_path = ''/api/global/admin/clients/c2'',
     hr_form = sample_form\<lparr>hf_auth := ''Bearer '' @ sample_token\<rparr>, hr_admin_key = ''key'', hr_json = None\<rparr>"

definition sample_chi :: chi where
  "sample_chi = \<lparr>ci_before = (\<lambda>_ r. Inr r), ci_route = (\<lambda>_ _. Some (25, ''c2'')),
     ci_missing = (\<lambda>_. Html []), ci_recover = (\<lambda>_. Html [])\<rparr>"

definition sample_site :: site where
  "sample_site = \<lparr>si_public = (\<lambda>_. ([], []))\<rparr>"

lemma sample_app_simps [simp]:
  "ap_idp sample_app = sample_provider (AMap tenant_claims)" "ap_authz sample_app = NewClaimsAuthorizer sample_unicode []"
  "fosite_reads (sample_provider v)" "pv_uuid (sample_provider v) n = ''id''"
  by (simp_all add: sample_app_def fosite_reads_def) (simp add: sample_provider_def)

lemma sample_route: "snd (Router (ap_cfg sample_app) ! 25) = GlobalEp (ClientOp DeleteOp)"
  "25 < length (Router (ap_cfg sample_app))"
  by (simp_all add: Router_def at_path_def client_routes_def global_routes_def)

lemma sample_delete:
  "tables (w_db (sy_world (snd (handle sample_site sample_app (GlobalEp (ClientOp DeleteOp)) sample_http ''c2'' sample_system))))
     \<noteq> tables (w_db (sy_world sample_system))"
  by (simp add: requireAdminAPIKey_def sample_http_def sample_app_def gated_def run_api_def deleteClient_def
      load_client_def customerValue_def owned_def pg_store_def NewAdmin_def DeleteClient_def GetClientByID_def
      sample_system_def sample_astate_def sample_client_row_def scanClients_def first_client_def
      scanClient_row_def unmarshal_strings_def web_of_def tables_def Let_def sample_world_def)

theorem changes_need_credentials_witness:
  "\<exists>rep s'. serve sample_chi sample_site sample_app sample_http sample_system = (rep, s')
     \<and> tables (w_db (sy_world s')) \<noteq> tables (w_db (sy_world sample_system))
     \<and> (presents_key (ap_cfg sample_app) sample_http
        \<or> presents_master (ap_cfg sample_app) (pv_crypto (ap_idp sample_app)) sample_http
        \<or> presents_token (ap_idp sample_app) sample_http (sy_world sample_system))"
proof -
  obtain rep s' where run: "serve sample_chi sample_site sample_app sample_http sample_system = (rep, s')" by force
  then have "s' = snd (handle sample_site sample_app (GlobalEp (ClientOp DeleteOp)) sample_http ''c2'' sample_system)"
    using sample_route by (simp add: serve_def sample_chi_def split_beta del: handle.simps sample_app_simps)
  with sample_delete have ne: "tables (w_db (sy_world s')) \<noteq> tables (w_db (sy_world sample_system))" by simp
  have "ci_before sample_chi c r = Inr r" for c r by (simp add: sample_chi_def)
  with changes_need_credentials [OF run _ ne] run ne show ?thesis by auto
qed

lemma tenant_verified:
  "VerifyAccessToken (sample_provider (AMap tenant_claims)) t sample_token w = (Inr (json_map tenant_claims), w)"
proof -
  have "signJWT (sample_provider (AMap tenant_claims)) tenant_claims = Inr sample_token"
    by (simp add: sample_token_def signJWT_def sample_jose_def sample_provider_def jwt_header_def)
  from signJWT_verifies [OF _ _ this]
  have "verifyJWT (sample_provider (AMap tenant_claims)) sample_token = Inr (json_map tenant_claims)"
    by (simp add: sample_jose_ok)
  then show ?thesis
    by (simp add: VerifyAccessToken_def verifyLegacyAccessToken_def expired_def claimString_def tenant_claims_def)
qed


theorem master_password_gate_witness:
  "requireMasterPassword ((ap_cfg sample_app)\<lparr>cf_master_user := ''root'', cf_master_pass := ''secret''\<rparr>) sample_crypto
     (sample_http\<lparr>hr_form := sample_form\<lparr>hf_auth := ''Basic '' @ std_b64 (''root'' @ '':'' @ ''secret'')\<rparr>\<rparr>)
     (web_of sample_http []) = Inr (web_of sample_http [])"
  by (subst master_password_gate [of "''root''" _ "''secret''"]) simp_all

end
