(* ===== verification/App_Runs.thy ===== *)
theory App_Runs
  imports App_Safety
begin

text \<open>
  Sequences of requests.  The clients table stays well formed over every run of the program, whatever
  the handlers answer, and a run of requests without credentials leaves the administered tables as they
  were.  The locale \<open>kept_by_store\<close> is what the handlers of the API need of the store for an invariant.
\<close>

section \<open>Invariants of the store\<close>

locale kept_by_store =
  fixes St :: "'d client_store" and good :: "'d \<Rightarrow> bool"
  assumes create_client_keeps: "good d \<Longrightarrow> good (fst (snd (st_CreateClient St t c (d, n))))"
    and update_client_keeps: "good d \<Longrightarrow> good (snd (st_UpdateClient St t c d))"
    and delete_client_keeps: "good d \<Longrightarrow> good (snd (st_DeleteClient St i d))"
    and create_sp_keeps: "good d \<Longrightarrow> good (fst (snd (st_CreateServiceProvider St t p (d, n))))"
    and update_sp_keeps: "good d \<Longrightarrow> good (snd (st_UpdateServiceProvider St t p d))"
    and delete_sp_keeps: "good d \<Longrightarrow> good (snd (st_DeleteServiceProvider St i d))"
    and create_policy_keeps: "good d \<Longrightarrow> good (fst (snd (st_CreatePolicy St t q (d, n))))"
    and update_policy_keeps: "good d \<Longrightarrow> good (snd (st_UpdatePolicy St t q d))"
    and delete_policy_keeps: "good d \<Longrightarrow> good (snd (st_DeletePolicy St i d))"
begin

lemmas keeps = create_client_keeps update_client_keeps delete_client_keeps create_sp_keeps update_sp_keeps
  delete_sp_keeps create_policy_keeps update_policy_keeps delete_policy_keeps

lemma serve_client_keeps:
  assumes "good (as_db s)" "ad_store h = St"
  shows "good (as_db (snd (serve_client h cu cop r s)))"
  using assms(1)
  by (cases cop)
    (simp_all add: listClients_def createClient_def getClient_def updateClient_def rotateSecret_def deleteClient_def
      Let_def split_beta keeps assms(2) split: sum.split option.split)

lemma service_provider_keeps:
  assumes "good (as_db s)" "ad_store h = St"
  shows "good (as_db (snd (createServiceProvider h r s)))" "good (as_db (snd (updateServiceProvider h r s)))"
    "good (as_db (snd (deleteServiceProvider h r s)))"
  using assms(1)
  by (simp_all add: createServiceProvider_def updateServiceProvider_def deleteServiceProvider_def
      Let_def split_beta keeps assms(2) if_distrib [where f = snd] if_distrib [where f = as_db]
      if_distrib [where f = good] split: sum.split option.split goerr.split cong: if_cong split del: if_split)

lemma policy_keeps:
  assumes "good (as_db s)" "ad_store h = St"
  shows "good (as_db (snd (createPolicy h r s)))" "good (as_db (snd (updatePolicy h r s)))"
    "good (as_db (snd (deletePolicy h r s)))"
  using assms(1)
  by (simp_all add: createPolicy_def updatePolicy_def deletePolicy_def
      Let_def split_beta keeps assms(2) if_distrib [where f = snd] if_distrib [where f = as_db]
      if_distrib [where f = good] split: sum.split option.split goerr.split cong: if_cong split del: if_split)

lemma reads_keep:
  "as_db (snd (listServiceProviders h s)) = as_db s" "as_db (snd (getServiceProvider h r s)) = as_db s"
  "as_db (snd (listPolicies h s)) = as_db s" "as_db (snd (getPolicy h r s)) = as_db s"
  by (simp_all add: listServiceProviders_def getServiceProvider_def listPolicies_def getPolicy_def
      split: sum.split goerr.split)

lemma GlobalRoutes_keeps:
  assumes "good (as_db s)" "ad_store h = St"
  shows "good (as_db (snd (GlobalRoutes h gop r s)))"
  using assms(1) serve_client_keeps [OF assms] service_provider_keeps [OF assms] policy_keeps [OF assms]
  by (cases gop) (simp_all add: reads_keep)

lemma loadOwnedClient_db: "as_db (snd (loadOwnedClient h r sub action s)) = as_db s"
  by (simp add: loadOwnedClient_def split_beta split: sum.split goerr.split)

lemma store_client_keeps:
  "good (as_db s) \<Longrightarrow> ad_store h = St \<Longrightarrow> good (as_db (snd (store_client h r c resp s)))"
  by (simp add: store_client_def split_beta keeps split: sum.split)

lemma with_client_keeps:
  assumes "good (as_db s)" "\<And>c s1. good (as_db s1) \<Longrightarrow> good (as_db (snd (f c s1)))"
  shows "good (as_db (snd (with_client h r action f s)))"
  using assms by (simp add: with_client_def split_beta loadOwnedClient_db split: option.split sum.split)

lemma SelfClientRoutes_keeps:
  assumes "good (as_db s)" "ad_store h = St"
  shows "good (as_db (snd (SelfClientRoutes h cop r s)))"
proof (cases cop)
  case ListOp
  with assms(1) show ?thesis
    by (simp add: selfListClients_def Let_def split_beta split: option.split sum.split)
next
  case CreateOp
  with assms(1) show ?thesis
    by (simp add: selfCreateClient_def Let_def split_beta keeps assms(2) split: option.split sum.split)
next
  case GetOp
  with with_client_keeps [OF assms(1)] show ?thesis by (simp add: selfGetClient_def)
next
  case UpdateOp
  show ?thesis unfolding UpdateOp SelfClientRoutes.simps selfUpdateClient_def
    by (rule with_client_keeps [OF assms(1)])
      (simp add: Let_def split_beta store_client_keeps assms(2) split: option.split)
next
  case RotateOp
  show ?thesis unfolding RotateOp SelfClientRoutes.simps selfRotateSecret_def
    by (rule with_client_keeps [OF assms(1)]) (simp add: Let_def split_beta store_client_keeps assms(2))
next
  case DeleteOp
  show ?thesis unfolding DeleteOp SelfClientRoutes.simps selfDeleteClient_def
    by (rule with_client_keeps [OF assms(1)]) (simp add: split_beta keeps assms(2) split: sum.split)
qed

end

subsection \<open>The clients table\<close>

text \<open>Canonical ids, and no two rows that share an id or a client id.\<close>

definition clients_well_formed :: "pg \<Rightarrow> db \<Rightarrow> bool" where
  "clients_well_formed PG d \<longleftrightarrow> clients_ok PG d \<and> distinct (map cr_client_id (t_clients d))"

lemma clients_cong: "t_clients d' = t_clients d \<Longrightarrow> clients_well_formed PG d' = clients_well_formed PG d"
  by (simp add: clients_well_formed_def clients_ok_def)

lemma other_tables:
  "t_clients (fst (snd (CreateServiceProvider PG U t p (d, n)))) = t_clients d"
  "t_clients (snd (UpdateServiceProvider PG t p d)) = t_clients d"
  "t_clients (snd (DeleteServiceProvider PG i d)) = t_clients d"
  "t_clients (fst (snd (CreatePolicy PG U t q (d, n)))) = t_clients d"
  "t_clients (snd (UpdatePolicy PG t q d)) = t_clients d"
  "t_clients (snd (DeletePolicy PG i d)) = t_clients d"
  by (simp_all add: CreateServiceProvider_def UpdateServiceProvider_def DeleteServiceProvider_def CreatePolicy_def
      UpdatePolicy_def DeletePolicy_def Let_def split_beta split: option.split)

lemma CreateClient_well_formed:
  "clients_well_formed PG d \<Longrightarrow> clients_well_formed PG (fst (snd (CreateClient PG U t c (d, n))))"
  by (auto simp: clients_well_formed_def clients_ok_def uuid_ok_def CreateClient_def Let_def split: option.split)

lemma UpdateClient_well_formed:
  assumes "clients_well_formed PG d"
  shows "clients_well_formed PG (snd (UpdateClient PG t c d))"
proof -
  have "map cr_id (t_clients (snd (UpdateClient PG t c d))) = map cr_id (t_clients d)
      \<and> map cr_client_id (t_clients (snd (UpdateClient PG t c d))) = map cr_client_id (t_clients d)"
    by (auto simp: UpdateClient_def split: option.split)
  with assms show ?thesis by (simp add: clients_well_formed_def clients_ok_ids)
qed

lemma DeleteClient_well_formed:
  "clients_well_formed PG d \<Longrightarrow> clients_well_formed PG (snd (DeleteClient PG i d))"
  by (auto simp: clients_well_formed_def clients_ok_def DeleteClient_def distinct_map_filter split: option.split)

interpretation pg_kept: kept_by_store "pg_store PG U" "clients_well_formed PG" for PG U
  by unfold_locales
    (simp_all add: pg_store_def CreateClient_well_formed UpdateClient_well_formed DeleteClient_well_formed
      clients_cong [OF other_tables(1)] clients_cong [OF other_tables(2)] clients_cong [OF other_tables(3)]
      clients_cong [OF other_tables(4)] clients_cong [OF other_tables(5)] clients_cong [OF other_tables(6)])

section \<open>Runs\<close>

inductive runs ::
  "chi \<Rightarrow> site \<Rightarrow> ('r, 'w, 'a) app \<Rightarrow> ('r, 'w, 'a) system \<Rightarrow> (http_request \<times> reply) list \<Rightarrow>
     ('r, 'w, 'a) system \<Rightarrow> bool"
  for I :: chi and S :: site and a :: "('r, 'w, 'a) app"
where
  runs_nil: "runs I S a s [] s"
| runs_step: "serve I S a r s = (rep, s1) \<Longrightarrow> runs I S a s1 tr s2 \<Longrightarrow> runs I S a s ((r, rep) # tr) s2"

inductive_simps runs_Nil: "runs I S a s [] s'"
inductive_simps runs_Cons: "runs I S a s (x # tr) s'"

lemma serve_handle:
  assumes "serve I S a r0 s = (rep, s')"
  obtains "s' = s" | r i param rep1 where "ci_before I (ap_cfg a) r0 = Inr r" "i < length (Router (ap_cfg a))"
    "handle S a (snd (Router (ap_cfg a) ! i)) r param s = (rep1, s')"
  using assms by (auto simp: serve_def Let_def split: sum.splits option.splits prod.splits if_splits)

lemma run_api_kept:
  assumes "good (w_db (sy_world s))"
    and "\<And>t. good (as_db t) \<Longrightarrow> good (as_db (snd (h t)))"
  shows "good (w_db (sy_world (snd (run_api h s))))"
  using assms(1) assms(2) [of "\<lparr>as_db = w_db (sy_world s), as_authz = sy_authz s, as_rng = w_rng (sy_world s)\<rparr>"]
  by (simp add: run_api_def Let_def split_beta)

lemma gated_kept:
  assumes "good (w_db (snd g))" "\<And>q t. good (as_db t) \<Longrightarrow> good (as_db (snd (h q t)))"
  shows "good (w_db (sy_world (snd (gated g h s))))"
  using assms(1) run_api_kept [of good "s\<lparr>sy_world := snd g\<rparr>" "h q" for q, OF _ assms(2)]
  by (auto simp: gated_def split_beta split: sum.split)

lemma gate_db [simp]:
  "w_db (snd (requireBearerAdmin p r q w)) = w_db w" "w_db (snd (requireIdentity p r q w)) = w_db w"
  by (auto simp: requireBearerAdmin_def requireIdentity_def split_beta frame split: sum.split)

lemma handle_well_formed:
  assumes "clients_well_formed (pv_pg (ap_idp a)) (w_db (sy_world s))" "fosite_reads (ap_idp a)"
  shows "clients_well_formed (pv_pg (ap_idp a)) (w_db (sy_world (snd (handle S a ep r param s))))"
proof (cases "api_gate ep = []")
  case True
  have "t_clients (w_db (sy_world (snd (handle S a ep r param s)))) = t_clients (w_db (sy_world s))"
    by (rule tables_clients [OF open_endpoints_keep_tables [OF assms(2) True]])
  from clients_cong [OF this] assms(1) show ?thesis by simp
next
  case False
  let ?good = "clients_well_formed (pv_pg (ap_idp a))" and ?h = "NewAdmin (ap_idp a) (ap_authz a)"
  have st: "ad_store ?h = pg_store (pv_pg (ap_idp a)) (pv_uuid (ap_idp a))" by simp
  note global = gated_kept [where good = ?good and h = "GlobalRoutes ?h gop" for gop,
      OF _ pg_kept.GlobalRoutes_keeps [OF _ st]]
  note tenant = gated_kept [where good = ?good and h = "TenantRoutes ?h cop" for cop, unfolded TenantRoutes_def,
      OF _ pg_kept.serve_client_keeps [OF _ st]]
  note self = gated_kept [where good = ?good and h = "SelfClientRoutes ?h cop" for cop,
      OF _ pg_kept.SelfClientRoutes_keeps [OF _ st]]
  from False show ?thesis
    using assms(1)
    by (cases ep) (simp_all add: global tenant self TenantRoutes_def split: sum.split)
qed

text \<open>
  C11. The clients table stays well formed: over every sequence of requests, whatever they are and
  whatever the services answer, ids stay canonical and no two clients share an id or a client id.
\<close>

theorem clients_stay_well_formed:
  assumes "runs I S a s tr s'" and "fosite_reads (ap_idp a)"
    and "clients_well_formed (pv_pg (ap_idp a)) (w_db (sy_world s))"
  shows "clients_well_formed (pv_pg (ap_idp a)) (w_db (sy_world s'))"
  using assms(1,3)
proof (induction rule: runs.induct)
  case (runs_step r s rep s1 tr s2)
  from runs_step.hyps(1) have "clients_well_formed (pv_pg (ap_idp a)) (w_db (sy_world s1))"
  proof (cases rule: serve_handle)
    case (2 q i param rep1)
    with handle_well_formed [OF runs_step.prems assms(2), of S "snd (Router (ap_cfg a) ! i)" q param]
    show ?thesis by simp
  qed (use runs_step.prems in simp)
  then show ?case by (rule runs_step.IH)
qed

text \<open>A request that carries no credentials after the middleware.\<close>

definition anonymous :: "chi \<Rightarrow> config \<Rightarrow> http_request \<Rightarrow> bool" where
  "anonymous I cfg r0 \<longleftrightarrow> (case ci_before I cfg r0 of Inl _ \<Rightarrow> True
     | Inr r \<Rightarrow> hr_admin_key r = [] \<and> hf_auth (hr_form r) = [])"

lemma anonymous_step:
  assumes "serve I S a r0 s = (rep, s')" "anonymous I (ap_cfg a) r0" "fosite_reads (ap_idp a)"
  shows "tables (w_db (sy_world s')) = tables (w_db (sy_world s))"
  using assms(1)
proof (cases rule: serve_handle)
  case (2 r i param rep1)
  then have none: "hr_admin_key r = []" "hf_auth (hr_form r) = []"
    using assms(2) by (simp_all add: anonymous_def)
  have "\<not> presents_key (ap_cfg a) r" "\<not> presents_token (ap_idp a) r (sy_world s)"
      "\<not> presents_master (ap_cfg a) (pv_crypto (ap_idp a)) r"
    using none by (auto simp: presents_key_def presents_token_def presents_master_def bearer_def trim_prefix_def
        basicAuthSecret_def has_prefix_def)
  with api_change [OF 2(3) _ assms(3)] gui_routes [OF 2(2)] show ?thesis by blast
qed simp

text \<open>
  C12. Requests without credentials, as many and in whatever order, leave the clients, the service
  providers, the policies, the exchange policies and the keys as they were.
\<close>

theorem anonymous_runs_keep_tables:
  assumes "runs I S a s tr s'" and "fosite_reads (ap_idp a)"
    and "\<And>r rep. (r, rep) \<in> set tr \<Longrightarrow> anonymous I (ap_cfg a) r"
  shows "tables (w_db (sy_world s')) = tables (w_db (sy_world s))"
  using assms(1,3)
proof (induction rule: runs.induct)
  case (runs_step r s rep s1 tr s2)
  have "tables (w_db (sy_world s1)) = tables (w_db (sy_world s))"
    by (rule anonymous_step [OF runs_step.hyps(1) _ assms(2)]) (use runs_step.prems in auto)
  with runs_step.IH runs_step.prems show ?case by auto
qed simp

section \<open>A run\<close>

lemma sample_well_formed:
  "clients_well_formed (pv_pg (ap_idp sample_app)) (w_db (sy_world sample_system))"
  using sample_clients_ok
  by (simp add: clients_well_formed_def sample_system_def) (simp add: sample_astate_def sample_client_row_def)

theorem clients_stay_well_formed_witness:
  "\<exists>tr s'. runs sample_chi sample_site sample_app sample_system tr s' \<and> length tr = 2
     \<and> clients_well_formed (pv_pg (ap_idp sample_app)) (w_db (sy_world s'))"
proof -
  obtain rep1 s1 where one: "serve sample_chi sample_site sample_app sample_http sample_system = (rep1, s1)" by force
  obtain rep2 s2 where two: "serve sample_chi sample_site sample_app sample_http s1 = (rep2, s2)" by force
  have run: "runs sample_chi sample_site sample_app sample_system [(sample_http, rep1), (sample_http, rep2)] s2"
    by (intro runs_step [OF one] runs_step [OF two] runs_nil)
  have reads: "fosite_reads (ap_idp sample_app)" by simp
  from clients_stay_well_formed [OF run reads sample_well_formed] run show ?thesis
    by (intro exI [of _ "[(sample_http, rep1), (sample_http, rep2)]"] exI [of _ s2]) simp
qed

theorem anonymous_runs_keep_tables_witness:
  "\<exists>tr s'. runs sample_chi sample_site sample_app sample_system tr s' \<and> length tr = 1
     \<and> tables (w_db (sy_world s')) = tables (w_db (sy_world sample_system))"
proof -
  let ?r = "sample_http\<lparr>hr_admin_key := [], hr_form := sample_form\<rparr>"
  obtain rep s1 where one: "serve sample_chi sample_site sample_app ?r sample_system = (rep, s1)" by force
  have run: "runs sample_chi sample_site sample_app sample_system [(?r, rep)] s1"
    by (intro runs_step [OF one] runs_nil)
  have reads: "fosite_reads (ap_idp sample_app)" by simp
  have "anonymous sample_chi c ?r" for c by (simp add: anonymous_def sample_chi_def sample_form_def)
  with anonymous_runs_keep_tables [OF run reads] run show ?thesis
    by (intro exI [of _ "[(?r, rep)]"] exI [of _ s1]) auto
qed

end
