(* ===== verification/Reset_Steps.thy ===== *)
theory Reset_Steps
  imports Redeem_Steps Password_Reset
begin

text \<open>
  The two ways to a new password in internal/idp/provider.go as steps that interleave:
  \<open>CompletePasswordReset\<close> with the token of a reset link and \<open>CompletePasswordChange\<close> with the
  interaction of a login that WildDuck asked a new password of, cut at their calls to valkey and
  WildDuck.
\<close>

section \<open>The steps\<close>

datatype change = ResetLink | ForcedChange

record changer =
  ch_kind :: change
  ch_id :: string
  ch_password :: string

text \<open>
  Where a handler is: before \<open>GetArtifact\<close>, before WildDuck sets the password, before
  \<open>DeleteArtifact\<close>, before \<open>startSession\<close>, and after its result.
\<close>

datatype change_stage =
    Opened
  | Pending string string
  | Changed string string
  | Used string string
  | Done "string go"

definition ch_key :: "changer \<Rightarrow> string \<times> string" where
  "ch_key q = (case ch_kind q of ResetLink \<Rightarrow> pwResetName | ForcedChange \<Rightarrow> pwChangeName, ch_id q)"

definition open_artifact ::
  "('r, 'w) provider \<Rightarrow> changer \<Rightarrow> int \<Rightarrow> ('r, 'w) world \<Rightarrow> change_stage \<times> ('r, 'w) world" where
  "open_artifact p q t w =
     (case get_artifact p t (fst (ch_key q)) (ch_id q) w of
        (Inl e, w1) \<Rightarrow> (Done (Err (case ch_kind q of
           ResetLink \<Rightarrow> GoErr ''invalid or expired reset link'' | ForcedChange \<Rightarrow> e)), w1)
      | (Inr pending, w1) \<Rightarrow>
          if str (mget pending ''sub'') = []
          then (Done (Err (GoErr (case ch_kind q of
             ResetLink \<Rightarrow> ''invalid reset request'' | ForcedChange \<Rightarrow> ''invalid password change request''))), w1)
          else (Pending (str (mget pending ''sub'')) (str (mget pending ''email'')), w1))"

definition set_password ::
  "('r, 'w) provider \<Rightarrow> changer \<Rightarrow> string \<Rightarrow> string \<Rightarrow> ('r, 'w) world \<Rightarrow> change_stage \<times> ('r, 'w) world" where
  "set_password p q sub email w =
     (let failed = Done (Err (GoErr ''password change failed'')) in
      case ch_kind q of
        ResetLink \<Rightarrow>
          (case pv_backend p of
             None \<Rightarrow> (Done (Panic nil_panic), w)
           | Some b \<Rightarrow>
               (case on_wd (bk_SetPassword b sub (ch_password q)) w of
                  (Inl _, w1) \<Rightarrow> (failed, w1)
                | (Inr _, w1) \<Rightarrow> (Changed sub email, w1)))
      | ForcedChange \<Rightarrow>
          (case on_wd (wd_update (pv_wd p) sub [''password'' \<mapsto> AStr (ch_password q)]) w of
             (Inl _, w1) \<Rightarrow> (failed, w1)
           | (Inr r, w1) \<Rightarrow> (if success r then Changed sub email else failed, w1)))"

fun change_step ::
  "('r, 'w) provider \<Rightarrow> changer \<Rightarrow> int \<Rightarrow> change_stage \<Rightarrow> ('r, 'w) world \<Rightarrow> change_stage \<times> ('r, 'w) world" where
  "change_step p q t Opened w = open_artifact p q t w"
| "change_step p q t (Pending sub email) w = set_password p q sub email w"
| "change_step p q t (Changed sub email) w =
     (Used sub email, snd (delete_artifact p t (fst (ch_key q)) (ch_id q) w))"
| "change_step p q t (Used sub email) w =
     (let (sid, w1) = startSession p t sub email w in (Done (Ok sid), w1))"
| "change_step p q t (Done x) w = (Done x, w)"

fun closed :: "change_stage \<Rightarrow> bool" where
  "closed (Done x) = True"
| "closed _ = False"

fun change_work :: "change_stage \<Rightarrow> nat" where
  "change_work Opened = 4"
| "change_work (Pending _ _) = 3"
| "change_work (Changed _ _) = 2"
| "change_work (Used _ _) = 1"
| "change_work (Done _) = 0"

interpretation changers: progressing "change_step p" closed change_work for p
proof unfold_locales
  show "change_work (fst (change_step p q t st w)) < change_work st" if "\<not> closed st" for st q t w
    using that by (cases st)
      (auto simp: open_artifact_def set_password_def Let_def
        split: change.split sum.split prod.split option.split)
qed (case_tac st; simp)

definition change_request ::
  "('r, 'w) provider \<Rightarrow> changer \<Rightarrow> int \<Rightarrow> ('r, 'w) world \<Rightarrow> string go \<times> ('r, 'w) world" where
  "change_request p q t w =
     (case ch_kind q of
        ResetLink \<Rightarrow> CompletePasswordReset p t (ch_id q) (ch_password q) w
      | ForcedChange \<Rightarrow> apfst (case_sum Err Ok) (CompletePasswordChange p t (ch_id q) (ch_password q) w))"

fun change_steps ::
  "nat \<Rightarrow> ('r, 'w) provider \<Rightarrow> changer \<Rightarrow> int \<Rightarrow> change_stage \<times> ('r, 'w) world \<Rightarrow> change_stage \<times> ('r, 'w) world" where
  "change_steps 0 p q t s = s"
| "change_steps (Suc n) p q t s = change_steps n p q t (change_step p q t (fst s) (snd s))"

lemma change_done [simp]: "change_steps n p q t (Done x, w) = (Done x, w)"
  by (induction n) simp_all

text \<open>The steps taken one after the other are the two handlers.\<close>

theorem change_steps_are_the_handlers:
  "change_steps 4 p q t (Opened, w) = apfst Done (change_request p q t w)"
  by (cases "ch_kind q")
    (auto simp: numeral_eq_Suc change_request_def open_artifact_def set_password_def ch_key_def
      CompletePasswordReset_def CompletePasswordChange_def split_beta Let_def
      split: sum.split prod.split option.split)

section \<open>One change for an artifact\<close>

fun used :: "change_stage \<Rightarrow> bool" where
  "used (Used _ _) = True"
| "used (Done x) = (\<exists>sid. x = Ok sid)"
| "used _ = False"

fun declined :: "change_stage \<Rightarrow> bool" where
  "declined (Done x) = (\<exists>e. x = Err e)"
| "declined _ = False"

lemma settled_ch: "settled p up (ch_key q) w \<longleftrightarrow> up (w_kv w) \<and> unissued p (ch_id q) w"
  by (cases "ch_kind q") (simp_all add: settled_def ch_key_def pwResetName_def pwChangeName_def)

lemma set_password_frame:
  "set_password p q sub email w = (st, w') \<Longrightarrow> w_kv w' = w_kv w \<and> w_rng w' = w_rng w \<and> \<not> used st"
  by (auto simp: set_password_def on_wd_def Let_def
      split: change.splits option.splits prod.splits sum.splits if_splits)

context redis_up
begin

lemma startSession_keeps:
  assumes "startSession p t sub email w = (sid, w')" "pv_redis p = R" "settled p up k w"
  shows "settled p up k w' \<and> (spent view k t w \<longrightarrow> spent view k t w')"
proof -
  let ?sid = "b64 (pv_rand p (w_rng w) 32)" and ?w = "w\<lparr>w_rng := Suc (w_rng w)\<rparr>"
  obtain x where put: "put_artifact p t sessionName ?sid [''sub'' \<mapsto> AStr sub, ''email'' \<mapsto> AStr email] (24 * hour) ?w
      = (x, w')"
    using assms(1) by (auto simp: startSession_def randomID_rng split: prod.splits) (metis prod.collapse)
  have "snd k \<noteq> ?sid" using assms(3) by (simp add: settled_def unissued_def)
  then have "(sessionName, ?sid) \<noteq> k" "CHR '':'' \<notin> set sessionName" "0 < 24 * hour"
    by (auto simp: sessionName_def time_units)
  from put_keeps [OF put assms(2) _ this(3,1,2)] assms(3) show ?thesis
    by (auto simp: settled_def unissued_def spent_def)
qed

lemma get_settled:
  assumes "get_artifact p t n i w = (x, w')" "pv_redis p = R" "settled p up k w"
  shows "settled p up k w' \<and> (spent view k t w \<longrightarrow> spent view k t w')"
  using get_keeps [OF assms(1,2)] assms(3) by (simp add: settled_def unissued_def)

end

context provider_up
begin

lemma change_step_keeps:
  assumes "change_step p q t st w = (st', w')" "settled p up k w"
  shows "settled p up k w' \<and> (spent view k t w \<longrightarrow> spent view k t w')
    \<and> (used st' \<longrightarrow> \<not> used st \<longrightarrow> spent view (ch_key q) t w')"
proof (cases st)
  case Opened
  then obtain x where "get_artifact p t (fst (ch_key q)) (ch_id q) w = (x, w')" "\<not> used st'"
    using assms(1) by (auto simp: open_artifact_def split: prod.splits sum.splits if_splits)
  with get_settled [OF _ refl assms(2)] show ?thesis by blast
next
  case (Pending sub email)
  with assms(1) set_password_frame [of p q sub email w st' w'] assms(2) show ?thesis
    by (simp add: settled_def unissued_def spent_def)
next
  case (Changed sub email)
  then obtain x where d: "delete_artifact p t (fst (ch_key q)) (ch_id q) w = (x, w')"
    using assms(1) by (metis change_step.simps(3) prod.collapse prod.inject)
  have "(fst (ch_key q), ch_id q) = ch_key q" by (simp add: ch_key_def)
  with delete_keeps [OF d refl] assms(2) show ?thesis by (auto simp: settled_def unissued_def)
next
  case (Used sub email)
  then obtain sid where "startSession p t sub email w = (sid, w')"
    using assms(1) by (auto split: prod.splits)
  from startSession_keeps [OF this refl assms(2)] Used show ?thesis by simp
qed (use assms in simp)

lemma open_spent:
  assumes "open_artifact p q t w = (st, w')" "spent view (ch_key q) t w"
  shows "declined st"
proof -
  have "artifact_at t (view (w_kv w)) (fst (ch_key q)) (ch_id q) = None"
    using assms(2) by (simp add: spent_def ch_key_def)
  from absent_get [OF this refl] assms(1) show ?thesis
    by (auto simp: open_artifact_def is_ok_iff split: prod.splits sum.splits if_splits)
qed

end

sublocale provider_up \<subseteq> password: one_use "change_step p" closed ch_key "\<lambda>st. st = Opened" used declined
    "settled p up" "spent view"
proof unfold_locales
  show "spent view (ch_key q) t w'"
    if "settled p up (ch_key q) w" "change_step p q t st w = (st', w')" "used st'" "\<not> used st" for q t st w st' w'
    using change_step_keeps [OF that(2,1)] that by blast
  show "declined st'" if "spent view (ch_key q) t w" "st = Opened" "change_step p q t st w = (st', w')" for q t st w st' w'
    using open_spent [of q t w st' w'] that by simp
  show "closed st" if "declined st" for st using that by (cases st) auto
  show "settled p up k w'" "spent view k t w \<Longrightarrow> spent view k t w'"
    if "settled p up k w" "change_step p q t st w = (st', w')" for k q t st w st' w'
    using change_step_keeps [OF that(2,1)] by blast+
  show "spent view k t' w" if "spent view k t w" "t \<le> t'" for k t t' w
    using that by (rule spent_later)
qed simp

context provider_up
begin

lemmas used_declined = password.refused_after_redeemed

end

text \<open>New reset links may be asked for at the same time.\<close>

definition reset_asked :: "('r, 'w) provider \<Rightarrow> int \<Rightarrow> ('r, 'w) world \<Rightarrow> ('r, 'w) world \<Rightarrow> bool" where
  "reset_asked p t w w' \<longleftrightarrow> (\<exists>login email. w' = BeginPasswordReset p t login email w)"

context provider_up
begin

lemma send_reset_keeps:
  assumes "0 < cf_reset_ttl (pv_cfg p)" "settled p up k w"
  shows "settled p up k (send_reset p m t acc email w) \<and> (spent view k t w \<longrightarrow> spent view k t (send_reset p m t acc email w))"
proof -
  let ?tok = "b64 (pv_rand p (w_rng w) 32)" and ?w = "w\<lparr>w_rng := Suc (w_rng w)\<rparr>"
    and ?m = "[''sub'' \<mapsto> AStr (au_id acc), ''email'' \<mapsto> AStr email]"
  obtain x w1 where put: "put_artifact p t pwResetName ?tok ?m (cf_reset_ttl (pv_cfg p)) ?w = (x, w1)" by force
  have "snd k \<noteq> ?tok" using assms(2) by (simp add: settled_def unissued_def)
  then have "(pwResetName, ?tok) \<noteq> k" "CHR '':'' \<notin> set pwResetName" by (auto simp: pwResetName_def)
  from put_keeps [OF put refl _ assms(1) this] assms(2)
  have "settled p up k w1 \<and> (spent view k t w \<longrightarrow> spent view k t w1)"
    by (auto simp: settled_def unissued_def spent_def)
  then show ?thesis
    using put by (auto simp: send_reset_def randomID_rng on_wd_def settled_def unissued_def spent_def
        split: sum.split prod.split)
qed

lemma reset_asked_quiet:
  assumes "0 < cf_reset_ttl (pv_cfg p)"
  shows "quiet (settled p up) (spent view) k (reset_asked p)"
proof -
  have "settled p up k (BeginPasswordReset p t l e w)
      \<and> (spent view k t w \<longrightarrow> spent view k t (BeginPasswordReset p t l e w))" if "settled p up k w" for t l e w
  proof -
    have wd: "settled p up k (w\<lparr>w_wd := v\<rparr>) = settled p up k w" "spent view k t (w\<lparr>w_wd := v\<rparr>) = spent view k t w" for v
      by (simp_all add: settled_def unissued_def spent_def)
    from that send_reset_keeps [OF assms, of k "w\<lparr>w_wd := v\<rparr>" for v] show ?thesis
      by (auto simp: BeginPasswordReset_def on_wd_def wd Let_def
          split: option.split sum.split prod.split bool.split)
  qed
  then show ?thesis by (auto simp: quiet_def reset_asked_def)
qed

end

text \<open>
  C15. Once a reset link or a forced change has set a password, a request with it that has not read it
  yet is refused, however the handlers interleave from then on and whatever else runs beside them that
  does not store the token again.
\<close>

theorem password_set_for_all:
  assumes "net_run (change_step p) closed rel (t, w, map (\<lambda>q. (q, Opened)) qs) ls (t1, w1, ps)"
    and "(q, st) \<in> set ps" and "used st"
    and "i < length ps" and "ps ! i = (q2, Opened)" and "ch_key q2 = ch_key q"
    and "net_run (change_step p) closed rel (t1, w1, ps) ls2 (t2, w2, ps2)" and "ps2 ! i = (q3, Done x)"
    and "redis_up (pv_redis p) view up" and "up (w_kv w)" and "0 < cf_refresh_ttl (pv_cfg p)"
    and "unissued p (ch_id q) w" and "quiet (settled p up) (spent view) (ch_key q) rel"
  shows "\<exists>e. x = Err e"
proof -
  have p: "provider_up p view up"
    using assms(9,11) by (simp add: provider_up_def provider_up_axioms_def)
  have "settled p up (ch_key q) w" using assms(10,12) by (simp add: settled_ch)
  from provider_up.used_declined [OF p assms(1) _ assms(2-5) refl assms(6-8) _ this assms(13)]
  show ?thesis by simp
qed

section \<open>Requests that all open the link\<close>

text \<open>
  A reset link is read before WildDuck sets the password and deleted after it: requests that all read it
  first are all answered with a session, and the last one's password stays.
\<close>

theorem all_reset_together:
  assumes "redis_up (pv_redis p) view up" and "up (w_kv w)" and "pv_backend p = Some b"
    and "artifact_at t (view (w_kv w)) pwResetName token = Some pending" and "str (mget pending ''sub'') \<noteq> []"
    and "\<And>pw v. is_ok (fst (bk_SetPassword b (str (mget pending ''sub'')) pw v))"
    and "\<And>q. q \<in> set qs \<Longrightarrow> ch_kind q = ResetLink \<and> ch_id q = token"
  shows "\<exists>ls w' ps. net_run (change_step p) closed rel (t, w, map (\<lambda>q. (q, Opened)) qs) ls (t, w', ps)
    \<and> map fst ps = qs \<and> (\<forall>(q, st) \<in> set ps. \<exists>sid. st = Done (Ok sid))"
proof -
  let ?sub = "str (mget pending ''sub'')" and ?email = "str (mget pending ''email'')"
  let ?run = "\<lambda>w ps ls w' ps'. net_run (change_step p) closed rel (t, w, ps) ls (t, w', ps') \<and> map fst ps' = map fst ps"
  let ?P = "\<lambda>v. up (w_kv v) \<and> artifact_at t (view (w_kv v)) pwResetName token = Some pending"
  have read: "\<exists>w'. open_artifact p q t v = (Pending ?sub ?email, w') \<and> ?P w'" if "q \<in> set qs" "?P v" for q v
  proof -
    have v: "up (w_kv v)" "artifact_at t (view (w_kv v)) pwResetName token = Some pending"
      using that by simp_all
    from redis_up.GetArtifact_up_stored [OF assms(1) v] obtain s where
      "GetArtifact (pv_redis p) t pwResetName token (w_kv v) = (Inr pending, s)" by blast
    then have g: "get_artifact p t pwResetName token v = (Inr pending, v\<lparr>w_kv := s\<rparr>)"
      by (simp add: get_artifact_def)
    from redis_up.get_artifact_same [OF assms(1) g refl v(1)] have "?P (v\<lparr>w_kv := s\<rparr>)"
      using v(2) same_artifact [of t "view (w_kv v)" "view s" t pwResetName token] by simp
    with g assms(5) assms(7) [OF that(1)] show ?thesis by (simp add: open_artifact_def ch_key_def)
  qed
  obtain l1 w1 ps1 where 1: "?run w (map (\<lambda>q. (q, Opened)) qs) l1 w1 ps1"
      "\<forall>(q, st) \<in> set ps1. q \<in> set qs \<and> st = Pending ?sub ?email"
    using net_round [of "map (\<lambda>q. (q, Opened)) qs" "\<lambda>q st. q \<in> set qs \<and> st = Opened" ?P closed "change_step p" t
        "\<lambda>q st. q \<in> set qs \<and> st = Pending ?sub ?email" w rel "[]"] read assms(2,4) by force
  have set: "\<exists>w'. set_password p q ?sub ?email v = (Changed ?sub ?email, w')" if "q \<in> set qs" for q v
    using assms(3) assms(7) [OF that] assms(6) [of "ch_password q" "w_wd v"]
    by (auto simp: set_password_def on_wd_def is_ok_iff split: prod.split)
  obtain l2 w2 ps2 where 2: "?run w1 ps1 l2 w2 ps2" "\<forall>(q, st) \<in> set ps2. st = Changed ?sub ?email"
    using net_round [of ps1 "\<lambda>q st. q \<in> set qs \<and> st = Pending ?sub ?email" "\<lambda>_. True" closed "change_step p" t
        "\<lambda>_ st. st = Changed ?sub ?email" w1 rel "[]"] set 1(2) by force
  obtain l3 w3 ps3 where 3: "?run w2 ps2 l3 w3 ps3" "\<forall>(q, st) \<in> set ps3. st = Used ?sub ?email"
    using net_round [of ps2 "\<lambda>_ st. st = Changed ?sub ?email" "\<lambda>_. True" closed "change_step p" t
        "\<lambda>_ st. st = Used ?sub ?email" w2 rel "[]"] 2(2) by force
  obtain l4 w4 ps4 where 4: "?run w3 ps3 l4 w4 ps4" "\<forall>(q, st) \<in> set ps4. \<exists>sid. st = Done (Ok sid)"
    using net_round [of ps3 "\<lambda>_ st. st = Used ?sub ?email" "\<lambda>_. True" closed "change_step p" t
        "\<lambda>_ st. \<exists>sid. st = Done (Ok sid)" w3 rel "[]"] 3(2) by (force split: prod.split)
  have "?run w (map (\<lambda>q. (q, Opened)) qs) (l1 @ l2 @ l3 @ l4) w4 ps4"
    using 1(1) 2(1) 3(1) 4(1) by (auto intro: net_run_append)
  moreover have "map fst ps4 = qs" using 1(1) 2(1) 3(1) 4(1) by (simp add: comp_def)
  ultimately show ?thesis using 4(2) by blast
qed

section \<open>Concrete runs\<close>

interpretation mail_up: provider_up mail_provider m_ks mem_up
  by (rule provider_up.intro)
    (simp_all add: mem.redis_up_axioms provider_up_axioms_def mail_provider_def raw_config_def time_units Let_def)

definition reset_payload :: gomap where
  "reset_payload = [''sub'' \<mapsto> AStr ''u1'', ''email'' \<mapsto> AStr ''e'']"

definition reset_world :: "(mem, gomap list) world" where
  "reset_world = mail_world\<lparr>w_kv := mem_of [artifactKey pwResetName ''t.k'' \<mapsto> (RStr (Doc (AMap reset_payload)), None)]\<rparr>"

definition reset_request :: changer where
  "reset_request = \<lparr>ch_kind = ResetLink, ch_id = ''t.k'', ch_password = ''new''\<rparr>"

lemma reset_request_simps [simp]:
  "ch_kind reset_request = ResetLink" "ch_id reset_request = ''t.k''" "ch_key reset_request = (pwResetName, ''t.k'')"
  by (simp_all add: reset_request_def ch_key_def)

lemma reset_payload_at [simp]:
  "str (mget reset_payload ''sub'') = ''u1''" "str (mget reset_payload ''email'') = ''e''"
  by (simp_all add: reset_payload_def)

lemma reset_world_get:
  "get_artifact mail_provider 0 pwResetName ''t.k'' reset_world = (Inr reset_payload, reset_world)"
  "artifact_at 0 (m_ks (w_kv reset_world)) pwResetName ''t.k'' = Some reset_payload"
  "mem_up (w_kv reset_world)"
proof -
  have p: "purge 0 [artifactKey pwResetName ''t.k'' \<mapsto> (RStr (Doc (AMap reset_payload)), None)] =
      [artifactKey pwResetName ''t.k'' \<mapsto> (RStr (Doc (AMap reset_payload)), None)]"
    by (auto simp: purge_def live_def)
  show "get_artifact mail_provider 0 pwResetName ''t.k'' reset_world = (Inr reset_payload, reset_world)"
    "artifact_at 0 (m_ks (w_kv reset_world)) pwResetName ''t.k'' = Some reset_payload"
    by (simp_all add: get_artifact_def GetArtifact_def kv_Get_def reset_world_def mail_world_def mem_eval p
        artifact_at_def)
  show "mem_up (w_kv reset_world)" by (simp add: reset_world_def mem_up_def mem_of_def)
qed

lemma mail_sets: "is_ok (fst (bk_SetPassword (NewBackend sample_unicode mail_wildduck) sub pw v))"
  by (simp add: NewBackend_def wd_SetPassword_def mail_wildduck_def success_def)

abbreviation "mail_run_of \<equiv> net_run (change_step mail_provider) closed (reset_asked mail_provider)"

theorem all_reset_together_witness:
  "\<exists>ls w' ps. mail_run_of (0, reset_world, map (\<lambda>q. (q, Opened)) [reset_request, reset_request\<lparr>ch_password := ''x''\<rparr>]) ls
      (0, w', ps) \<and> map fst ps = [reset_request, reset_request\<lparr>ch_password := ''x''\<rparr>]
     \<and> (\<forall>(q, st) \<in> set ps. \<exists>sid. st = Done (Ok sid))"
  by (rule all_reset_together [OF mail_up.redis_up_axioms reset_world_get(3) mail_provider_simps(3) reset_world_get(2)])
    (auto simp: mail_sets reset_request_def)

theorem password_set_for_all_witness:
  "\<exists>w1 w2 x. mail_run_of (0, reset_world, map (\<lambda>q. (q, Opened)) [reset_request, reset_request]) [Some 0, Some 0, Some 0]
        (0, w1, [(reset_request, Used ''u1'' ''e''), (reset_request, Opened)])
     \<and> mail_run_of (0, w1, [(reset_request, Used ''u1'' ''e''), (reset_request, Opened)]) [Some 1]
        (0, w2, [(reset_request, Used ''u1'' ''e''), (reset_request, Done x)])
     \<and> (\<exists>e. x = Err e)"
proof -
  let ?p = mail_provider
  note move = net_move_at [of "change_step ?p" reset_request 0 _ _ _ _ closed "reset_asked ?p" "[]", simplified]
  have o: "open_artifact ?p reset_request 0 reset_world = (Pending ''u1'' ''e'', reset_world)"
    by (simp add: open_artifact_def reset_world_get)
  obtain v where s: "set_password ?p reset_request ''u1'' ''e'' reset_world = (Changed ''u1'' ''e'', v)"
    using mail_sets [of "''u1''" "ch_password reset_request" "w_wd reset_world"]
    by (simp add: set_password_def on_wd_def is_ok_iff split_beta)
  obtain y w1 where d: "delete_artifact ?p 0 pwResetName ''t.k'' v = (y, w1)" by force
  have one: "mail_run_of (0, reset_world, map (\<lambda>q. (q, Opened)) [reset_request, reset_request]) [Some 0, Some 0, Some 0]
      (0, w1, [(reset_request, Used ''u1'' ''e''), (reset_request, Opened)])"
    by (simp, rule move, simp add: o, simp, rule move, simp add: s, simp, rule move, simp add: d, simp, simp)
  obtain st w2 where a: "open_artifact ?p reset_request 0 w1 = (st, w2)" by force
  have "mem_up (w_kv v)" using set_password_frame [OF s] reset_world_get(3) by simp
  from mail_up.delete_keeps [OF d refl this] have "spent m_ks (ch_key reset_request) 0 w1" by simp
  from mail_up.open_spent [OF a this] obtain x where st: "st = Done x" by (cases st) auto
  have two: "mail_run_of (0, w1, [(reset_request, Used ''u1'' ''e''), (reset_request, Opened)]) [Some 1]
      (0, w2, [(reset_request, Used ''u1'' ''e''), (reset_request, Done x)])"
    using net_move_at [of "change_step ?p" reset_request 0 Opened w1 st w2 closed "reset_asked ?p"
        "[(reset_request, Used ''u1'' ''e'')]" "[]"] a st by simp
  have "''t.k'' \<noteq> b64 x" for x using b64_no_sep(1) [of x] by (metis list.set_intros(1,2))
  then have "unissued ?p (ch_id reset_request) reset_world" by (simp add: unissued_def)
  moreover have "0 < cf_reset_ttl (pv_cfg ?p)" by (simp add: time_units)
  note mail_up.reset_asked_quiet [OF this]
  ultimately have "\<exists>e. x = Err e"
    using password_set_for_all [OF one _ _ _ _ refl two, of reset_request "Used ''u1'' ''e''" 1 reset_request x
      m_ks mem_up] reset_world_get(3) mail_up.refresh_ttl by (simp add: mem.redis_up_axioms)
  with one two show ?thesis by blast
qed

end
