(* ===== verification/App_Artifacts.thy ===== *)
theory App_Artifacts
  imports Artifact_Handlers App_Runs Reset_Steps
begin

text \<open>
  What happens to the documents in valkey over every sequence of requests, of any route: the keyspace
  keeps its types, what was used or signed out stays gone, and what was revoked stays revoked.
\<close>

section \<open>The administration API only draws from the random source\<close>

locale drawing_store =
  fixes St :: "'d client_store"
  assumes create_client_draws: "n \<le> snd (snd (st_CreateClient St t c (d, n)))"
    and create_sp_draws: "n \<le> snd (snd (st_CreateServiceProvider St t p (d, n)))"
    and create_policy_draws: "n \<le> snd (snd (st_CreatePolicy St t q (d, n)))"
begin

lemma draws:
  "m \<le> n \<Longrightarrow> m \<le> snd (snd (st_CreateClient St t c (d, n)))"
  "m \<le> n \<Longrightarrow> m \<le> snd (snd (st_CreateServiceProvider St t p (d, n)))"
  "m \<le> n \<Longrightarrow> m \<le> snd (snd (st_CreatePolicy St t q (d, n)))"
  by (rule order_trans, assumption, rule create_client_draws create_sp_draws create_policy_draws)+

end

text \<open>A handler set over such a store, with an encryption that only draws.\<close>

locale drawing_admin = drawing_store "ad_store h" for h :: "('d, 'a) admin" +
  assumes encrypt_draws: "n \<le> snd (ad_idp h v n)"
begin

lemma encrypts: "m \<le> n \<Longrightarrow> m \<le> snd (ad_idp h v n)" "m \<le> n \<Longrightarrow> m \<le> snd (encrypt_or_empty h v n)"
  using order_trans [OF _ encrypt_draws] by (auto simp: encrypt_or_empty_def split_beta split: sum.split)

lemma client_draws: "as_rng s \<le> as_rng (snd (serve_client h cu cop r s))"
  by (cases cop)
    (auto simp: listClients_def createClient_def getClient_def updateClient_def rotateSecret_def deleteClient_def
      randomHex_def Let_def split_beta le_SucI encrypts draws split: sum.split option.split)

lemma creates_draw:
  "as_rng s \<le> as_rng (snd (createServiceProvider h r s))" "as_rng s \<le> as_rng (snd (createPolicy h r s))"
  by (auto simp: createServiceProvider_def createPolicy_def Let_def split_beta le_SucI draws
      split: sum.split option.split)

lemma updates_draw:
  "as_rng (snd (updateServiceProvider h r s)) = as_rng s" "as_rng (snd (updatePolicy h r s)) = as_rng s"
  "as_rng (snd (deleteServiceProvider h r s)) = as_rng s" "as_rng (snd (deletePolicy h r s)) = as_rng s"
  by (simp_all add: updateServiceProvider_def updatePolicy_def deleteServiceProvider_def deletePolicy_def
      Let_def split_beta if_distrib [where f = snd] if_distrib [where f = as_rng]
      split: sum.split option.split goerr.split cong: if_cong split del: if_split)

lemma reads_draw:
  "as_rng (snd (listServiceProviders h s)) = as_rng s" "as_rng (snd (getServiceProvider h r s)) = as_rng s"
  "as_rng (snd (listPolicies h s)) = as_rng s" "as_rng (snd (getPolicy h r s)) = as_rng s"
  by (simp_all add: listServiceProviders_def getServiceProvider_def listPolicies_def getPolicy_def
      split: sum.split goerr.split)

lemma GlobalRoutes_draws: "as_rng s \<le> as_rng (snd (GlobalRoutes h gop r s))"
  by (cases gop) (simp_all add: client_draws creates_draw updates_draw reads_draw)

lemma loadOwnedClient_draws: "as_rng (snd (loadOwnedClient h r sub action s)) = as_rng s"
  by (simp add: loadOwnedClient_def split_beta split: sum.split goerr.split)

lemma store_client_draws: "m \<le> as_rng s \<Longrightarrow> m \<le> as_rng (snd (store_client h r c resp s))"
  by (simp add: store_client_def split_beta split: sum.split)

lemma with_client_draws:
  assumes "\<And>c s1. as_rng s1 \<le> as_rng (snd (f c s1))"
  shows "as_rng s \<le> as_rng (snd (with_client h r action f s))"
proof (cases "wr_subject r")
  case (Some sub)
  show ?thesis
    using Some assms [of "snd (loadOwnedClient h r sub action s)"] loadOwnedClient_draws [of r sub action s]
    by (simp add: with_client_def split_beta split: sum.split)
qed (simp add: with_client_def)

lemma SelfClientRoutes_draws: "as_rng s \<le> as_rng (snd (SelfClientRoutes h cop r s))"
proof (cases cop)
  case ListOp
  then show ?thesis
    by (simp add: selfListClients_def Let_def split_beta split: option.split sum.split)
next
  case CreateOp
  then show ?thesis
    by (auto simp: selfCreateClient_def randomHex_def Let_def split_beta le_SucI encrypts draws
        split: option.split sum.split)
qed (auto simp: selfGetClient_def selfUpdateClient_def selfRotateSecret_def selfDeleteClient_def randomHex_def
    Let_def split_beta le_SucI encrypts intro!: with_client_draws store_client_draws split: option.split sum.split)

end

interpretation pg_draws: drawing_store "pg_store PG U" for PG U
  by unfold_locales
    (auto simp: pg_store_def CreateClient_def CreateServiceProvider_def CreatePolicy_def Let_def split_beta
      split: option.split)

lemma secret_draws: "n \<le> snd (secret_Encrypt C RN st v n)"
  by (auto simp: secret_Encrypt_def Let_def split: option.split)

interpretation admin_draws: drawing_admin "NewAdmin p az" for p az
proof (rule drawing_admin.intro)
  show "drawing_store (ad_store (NewAdmin p az))"
    using pg_draws.drawing_store_axioms by (simp add: NewAdmin_def)
  show "drawing_admin_axioms (NewAdmin p az)"
    by unfold_locales (simp add: NewAdmin_def secret_draws)
qed

section \<open>A request\<close>

context provider_storing
begin

lemma ev_gates:
  assumes "ev (hf_now (hr_form r)) w0 w"
  shows "ev (hf_now (hr_form r)) w0 (snd (requireBearerAdmin p r q w))"
    "ev (hf_now (hr_form r)) w0 (snd (requireIdentity p r q w))"
  using ev_verify(2) [OF assms]
  by (auto simp: requireBearerAdmin_def requireIdentity_def assms split_beta split: sum.split)

lemma ev_run_api:
  assumes "ev t w0 (sy_world s)" "\<And>u. as_rng u \<le> as_rng (snd (h u))"
  shows "ev t w0 (sy_world (snd (run_api h s)))"
proof -
  let ?u = "\<lparr>as_db = w_db (sy_world s), as_authz = sy_authz s, as_rng = w_rng (sy_world s)\<rparr>"
  have "w_rng (sy_world s) \<le> as_rng (snd (h ?u))" using assms(2) [of ?u] by simp
  then have "ev t (sy_world s) (sy_world (snd (run_api h s)))"
    by (intro evolves_same) (simp_all add: run_api_def Let_def split_beta)
  with assms(1) show ?thesis by (rule evolves_trans)
qed

lemma ev_gated:
  assumes "ev t w0 (snd g)" "\<And>q u. as_rng u \<le> as_rng (snd (h q u))"
  shows "ev t w0 (sy_world (snd (gated g h s)))"
  using assms(1) ev_run_api [of t w0 "s\<lparr>sy_world := snd g\<rparr>" "h q" for q, OF _ assms(2)]
  by (auto simp: gated_def split_beta split: sum.split)

lemma TenantRoutes_draws: "as_rng u \<le> as_rng (snd (TenantRoutes (NewAdmin p az) cop q u))"
  by (simp add: TenantRoutes_def admin_draws.client_draws)

text \<open>Whatever the route, a request evolves the state at its time.\<close>

lemma handle_evolves:
  assumes "ap_idp a = p"
  shows "ev (hf_now (hr_form r)) (sy_world s) (sy_world (snd (handle S a ep r param s)))"
proof (cases "api_gate ep = []")
  case True
  then show ?thesis
    by (cases ep) (simp_all add: run_go_def run_answer_def run_page_def assms Let_def split_beta life split: sum.split)
next
  case False
  note api = ev_gated [OF _ admin_draws.GlobalRoutes_draws] ev_gated [OF _ TenantRoutes_draws]
    ev_gated [OF _ admin_draws.SelfClientRoutes_draws]
  from False show ?thesis
    by (cases ep) (simp_all add: assms api ev_gates split: sum.split)
qed

lemma serve_evolves:
  assumes "serve I S a r0 s = (rep, s')" "ap_idp a = p" "ci_before I (ap_cfg a) r0 = Inr r"
  shows "ev (hf_now (hr_form r)) (sy_world s) (sy_world s')"
  using assms(1)
proof (cases rule: serve_handle)
  case (2 r' i param rep1)
  with assms(3) handle_evolves [OF assms(2), of r s S "snd (Router (ap_cfg a) ! i)" param] show ?thesis by simp
qed simp

end

section \<open>Runs\<close>

text \<open>The requests of a run are served at increasing times, from \<open>t\<close> on and not after \<open>t2\<close>.\<close>

fun clocked :: "chi \<Rightarrow> config \<Rightarrow> int \<Rightarrow> (http_request \<times> reply) list \<Rightarrow> int \<Rightarrow> bool" where
  "clocked I cfg t [] t2 \<longleftrightarrow> t \<le> t2"
| "clocked I cfg t ((r0, _) # tr) t2 \<longleftrightarrow>
     (case ci_before I cfg r0 of
        Inl _ \<Rightarrow> clocked I cfg t tr t2
      | Inr r \<Rightarrow> t \<le> hf_now (hr_form r) \<and> clocked I cfg (hf_now (hr_form r)) tr t2)"

lemma clocked_le: "clocked I cfg t tr t2 \<Longrightarrow> t \<le> t2"
  by (induction I cfg t tr t2 rule: clocked.induct) (auto split: sum.splits)

text \<open>What a run keeps of the documents between two times.\<close>

definition lasting ::
  "('r, 'w) provider \<Rightarrow> ('r \<Rightarrow> keyspace) \<Rightarrow> ('r \<Rightarrow> bool) \<Rightarrow> int \<Rightarrow> ('r, 'w) world \<Rightarrow> int \<Rightarrow> ('r, 'w) world \<Rightarrow> bool" where
  "lasting p view up t w t' w' \<longleftrightarrow> w_rng w \<le> w_rng w'
     \<and> (steady (pv_crypto p) view up t (w_kv w) \<longrightarrow> steady (pv_crypto p) view up t' (w_kv w')
          \<and> (\<forall>n \<in> shelf. \<forall>i. unissued p i w \<longrightarrow> artifact_at t (view (w_kv w)) n i = None \<longrightarrow>
               artifact_at t' (view (w_kv w')) n i = None)
          \<and> (\<forall>i d. t' < d \<longrightarrow> d \<le> revocation_end p t \<longrightarrow> revoked_till (purge t (view (w_kv w))) i d \<longrightarrow>
               revoked_till (purge t' (view (w_kv w'))) i d))"

lemma artifact_later: "artifact_at t ks n i = None \<Longrightarrow> t \<le> t' \<Longrightarrow> artifact_at t' ks n i = None"
  by (auto simp: artifact_at_def purge_def live_later split: option.splits if_splits rval.splits prod.splits sum.splits)

lemma revoked_later: "revoked_till (purge t ks) i d \<Longrightarrow> t' < d \<Longrightarrow> t \<le> t' \<Longrightarrow> revoked_till (purge t' ks) i d"
  by (auto simp: revoked_till_def purge_Some live_def)

lemma revocation_end_mono: "t \<le> t' \<Longrightarrow> 0 < cf_refresh_ttl (pv_cfg p) \<Longrightarrow> revocation_end p t \<le> revocation_end p t'"
  by (simp add: revocation_end_def px_deadline_pos)

lemma lasting_wait: "t \<le> t' \<Longrightarrow> lasting p view up t w t' w"
  using artifact_later revoked_later by (fastforce simp: lasting_def intro: steady_later)

lemma shelf_kept_absent:
  assumes "shelf_kept p m (purge t ks) (purge t ks')" "n \<in> shelf" "\<forall>k \<ge> m. i \<noteq> b64 (pv_rand p k 32)"
    and "artifact_at t ks n i = None"
  shows "artifact_at t ks' n i = None"
proof -
  have "purge t ks' (artifactKey n i) = None \<or> purge t ks' (artifactKey n i) = purge t ks (artifactKey n i)"
    using assms(1-3) by (simp add: shelf_kept_def)
  with assms(4) show ?thesis by (elim disjE) (simp_all add: artifact_at_def)
qed

lemma lasting_evolves: "evolves p view up t w w' \<Longrightarrow> lasting p view up t w t w'"
  by (auto simp: lasting_def evolves_def unissued_def revocations_kept_def intro: shelf_kept_absent)

lemma lasting_trans:
  assumes "lasting p view up t w t1 w1" "lasting p view up t1 w1 t2 w2" "t \<le> t1" "t1 \<le> t2"
    and "0 < cf_refresh_ttl (pv_cfg p)"
  shows "lasting p view up t w t2 w2"
  unfolding lasting_def
proof (intro conjI impI ballI allI)
  show "w_rng w \<le> w_rng w2" using assms(1,2) by (simp add: lasting_def)
  assume st: "steady (pv_crypto p) view up t (w_kv w)"
  then have st1: "steady (pv_crypto p) view up t1 (w_kv w1)" using assms(1) by (simp add: lasting_def)
  then show "steady (pv_crypto p) view up t2 (w_kv w2)" using assms(2) by (simp add: lasting_def)
  show "artifact_at t2 (view (w_kv w2)) n i = None"
    if "n \<in> shelf" "unissued p i w" "artifact_at t (view (w_kv w)) n i = None" for n i
    using that assms(1,2) st st1 unissued_later [of p i w w1] by (simp add: lasting_def)
  show "revoked_till (purge t2 (view (w_kv w2))) i d"
    if "t2 < d" "d \<le> revocation_end p t" "revoked_till (purge t (view (w_kv w))) i d" for i d
    using that assms(1,2) st st1 assms(4) revocation_end_mono [OF assms(3,5)] by (force simp: lasting_def)
qed

context provider_storing
begin

lemma runs_lasting:
  assumes "runs I S a s tr s'" "ap_idp a = p" "clocked I (ap_cfg a) t tr t2"
  shows "lasting p view up t (sy_world s) t2 (sy_world s')"
  using assms(1,3)
proof (induction arbitrary: t rule: runs.induct)
  case (runs_step r0 s rep s1 tr s2)
  show ?case
  proof (cases "ci_before I (ap_cfg a) r0")
    case (Inl x)
    with runs_step.hyps(1) have "s1 = s" by (simp add: serve_def)
    with runs_step.IH runs_step.prems Inl show ?thesis by simp
  next
    case (Inr r)
    let ?t = "hf_now (hr_form r)"
    have c: "t \<le> ?t" "clocked I (ap_cfg a) ?t tr t2" using runs_step.prems Inr by simp_all
    have "lasting p view up t (sy_world s) ?t (sy_world s1)"
      using lasting_trans [OF lasting_wait lasting_evolves [OF serve_evolves [OF runs_step.hyps(1) assms(2) Inr]]]
        c(1) refresh_ttl by simp
    from lasting_trans [OF this runs_step.IH [OF c(2)] c(1) clocked_le [OF c(2)] refresh_ttl] show ?thesis .
  qed
qed (simp add: lasting_wait)

lemma get_absent:
  assumes "artifact_at t (view (w_kv w)) n i = None"
  shows "\<not> is_ok (fst (get_artifact p t n i w))"
  using GetArtifact_absent [OF assms surjective_pairing] by (simp add: get_artifact_def split_beta)

lemma gone_for_good:
  assumes "runs I S a s tr s'" "ap_idp a = p" "clocked I (ap_cfg a) t tr t2"
    and "steady (pv_crypto p) view up t (w_kv (sy_world s))" "n \<in> shelf" "unissued p i (sy_world s)"
    and "artifact_at t (view (w_kv (sy_world s))) n i = None"
  shows "artifact_at t2 (view (w_kv (sy_world s'))) n i = None"
  using runs_lasting [OF assms(1-3)] assms(4-7) by (simp add: lasting_def)

lemma still_revoked:
  assumes "runs I S a s tr s'" "ap_idp a = p" "clocked I (ap_cfg a) t tr t2"
    and "steady (pv_crypto p) view up t (w_kv (sy_world s))"
    and "revoked_till (purge t (view (w_kv (sy_world s)))) jti d" "d \<le> revocation_end p t" "t2 < d"
  shows "\<exists>m. artifact_at t2 (view (w_kv (sy_world s'))) revokedName jti = Some m"
  using runs_lasting [OF assms(1-3)] assms(4-7)
  by (fastforce simp: lasting_def revoked_till_def artifact_at_def)

end

text \<open>How the theorems use these lemmas.\<close>

lemma provider_storing_redis: "provider_storing p view up F \<Longrightarrow> redis_up (pv_redis p) view up"
  by (simp add: provider_storing_def provider_sets_def provider_up_def)

lemma evolves_steady:
  "evolves p view up t w w' \<Longrightarrow> steady (pv_crypto p) view up t (w_kv w) \<Longrightarrow> steady (pv_crypto p) view up t (w_kv w')"
  by (simp add: evolves_def)

lemma evolves_unissued: "evolves p view up t w w' \<Longrightarrow> unissued p i w \<Longrightarrow> unissued p i w'"
  by (auto simp: evolves_def intro: unissued_later)

lemma revoked_refused:
  assumes "redis_up (pv_redis p) view up" "verifyJWT p token = Inr claims" "claimString claims ''jti'' \<noteq> []"
    and "artifact_at t (view (w_kv w)) revokedName (claimString claims ''jti'') = Some m" "up (w_kv w)"
  shows "\<not> is_ok (fst (VerifyAccessToken p t token w))"
proof -
  obtain s where "GetArtifact (pv_redis p) t revokedName (claimString claims ''jti'') (w_kv w) = (Inr m, s)"
    using redis_up.GetArtifact_up_stored [OF assms(1,5,4)] by blast
  with assms(2,3) show ?thesis
    by (simp add: VerifyAccessToken_def verifyLegacyAccessToken_def get_artifact_def Let_def)
qed

section \<open>Over every run\<close>

text \<open>
  C13. The keyspace keeps its types over every sequence of requests of any route, with fosite and without:
  the counters of the lockout hold numbers, and the index of a request id holds only keys of token
  sessions.
\<close>

theorem keyspace_stays_typed:
  assumes "runs I S a s tr s'" and "provider_storing (ap_idp a) view up F" and "clocked I (ap_cfg a) t tr t2"
    and "steady (pv_crypto (ap_idp a)) view up t (w_kv (sy_world s))"
  shows "steady (pv_crypto (ap_idp a)) view up t2 (w_kv (sy_world s'))"
  using provider_storing.runs_lasting [OF assms(2,1) refl assms(3)] assms(4) by (simp add: lasting_def)

text \<open>
  C22. A reset link is used once: after a reset with it has succeeded, no sequence of requests of any route
  makes it valid again, as long as the random source does not draw its token a second time.
\<close>

theorem used_link_stays_used:
  assumes "CompletePasswordReset (ap_idp a) t token pw (sy_world s) = (Ok sid, w1)"
    and "runs I S a (s\<lparr>sy_world := w1\<rparr>) tr s'" and "provider_storing (ap_idp a) view up F"
    and "clocked I (ap_cfg a) t tr t2" and "steady (pv_crypto (ap_idp a)) view up t (w_kv (sy_world s))"
    and "unissued (ap_idp a) token (sy_world s)"
  shows "\<not> fst (ResetTokenValid (ap_idp a) t2 token (sy_world s'))
    \<and> fst (CompletePasswordReset (ap_idp a) t2 token pw' (sy_world s')) = Err (GoErr ''invalid or expired reset link'')"
proof -
  note up = provider_storing_redis [OF assms(3)]
  have "up (w_kv (sy_world s))" using assms(5) by (simp add: steady_def)
  note spent = redis_up.CompletePasswordReset_consumes [OF up assms(1) refl this order_refl]
  note ev = provider_storing.ev_reset_pages(3) [OF assms(3) evolves_refl, of t "sy_world s" token pw, unfolded assms(1) snd_conv]
  have "artifact_at t2 (view (w_kv (sy_world s'))) pwResetName token = None"
    by (rule provider_storing.gone_for_good [OF assms(3,2) refl assms(4)])
      (use evolves_steady [OF ev assms(5)] evolves_unissued [OF ev assms(6)] spent in \<open>simp_all add: shelf_def\<close>)
  from redis_up.get_absent_artifact [OF up this refl] show ?thesis
    by (auto simp: ResetTokenValid_def CompletePasswordReset_def split: prod.splits)
qed

text \<open>
  C9. A user who signed out stays signed out: after a logout no sequence of requests brings the session of
  the cookie back, so that the cookie authorizes no request and leads to no user.
\<close>

theorem signed_out_for_good:
  assumes "Logout (ap_idp a) r (sy_world s) = (ans, w1)" and "readSession (ap_idp a) r = Some sid"
    and "runs I S a (s\<lparr>sy_world := w1\<rparr>) tr s'" and "provider_storing (ap_idp a) view up F"
    and "clocked I (ap_cfg a) (hf_now r) tr (hf_now r2)"
    and "steady (pv_crypto (ap_idp a)) view up (hf_now r) (w_kv (sy_world s))"
    and "unissued (ap_idp a) sid (sy_world s)" and "hf_cookie r2 = hf_cookie r"
  shows "\<not> is_ok (fst (get_artifact (ap_idp a) (hf_now r2) sessionName sid (sy_world s')))
    \<and> \<not> authorized (ap_idp a) r2 (sy_world s') c sub"
proof -
  note up = provider_storing_redis [OF assms(4)]
  have u: "up (w_kv (sy_world s))" using assms(6) by (simp add: steady_def)
  have w1: "w1 = snd (delete_artifact (ap_idp a) (hf_now r) sessionName sid (sy_world s))"
    using assms(1,2) by (simp add: Logout_def Let_def)
  have gone: "artifact_at (hf_now r) (view (w_kv w1)) sessionName sid = None"
    using redis_up.delete_artifact_up [OF up surjective_pairing refl u order_refl, of "hf_now r" sessionName sid]
    by (simp add: w1)
  note ev = provider_storing.ev_more(1) [OF assms(4) evolves_refl, of r "sy_world s", unfolded assms(1) snd_conv]
  have "artifact_at (hf_now r2) (view (w_kv (sy_world s'))) sessionName sid = None"
    by (rule provider_storing.gone_for_good [OF assms(4,3) refl assms(5)])
      (use evolves_steady [OF ev assms(6)] evolves_unissued [OF ev assms(7)] gone in \<open>simp_all add: shelf_def\<close>)
  then have "\<forall>m. fst (GetArtifact (pv_redis (ap_idp a)) (hf_now r2) sessionName sid (w_kv (sy_world s'))) \<noteq> Inr m"
    using redis_server.GetArtifact_absent [OF redis_up.axioms(1) [OF up] _ surjective_pairing] by (simp add: is_ok_iff)
  moreover have "readSession (ap_idp a) r2 = Some sid" using assms(2,8) by (simp add: readSession_def)
  ultimately show ?thesis
    by (auto simp: authorized_def get_artifact_def split_beta is_ok_iff)
qed

text \<open>
  C8. A revocation outlasts every sequence of requests: after a client's revocation of its own token was
  accepted, the token is refused by every verification until the revocation expires, whatever requests
  of whatever routes come in between, further revocations included.
\<close>

theorem revoked_for_good:
  assumes "Revoke (ap_idp a) r (sy_world s) = (Ok ans, w1)" and "revocation_accepted (ap_idp a) r (sy_world s)"
    and "authenticateClient (ap_idp a) r (sy_world s) = Ok c" and "c_client_id c \<noteq> []"
    and "verifyJWT (ap_idp a) (vget (hf_form r) ''token'') = Inr claims"
    and "claimString claims ''client_id'' = c_client_id c" and "claimString claims ''jti'' \<noteq> []"
    and "runs I S a (s\<lparr>sy_world := w1\<rparr>) tr s'" and "provider_storing (ap_idp a) view up F"
    and "clocked I (ap_cfg a) (hf_now r) tr t2" and "t2 < revocation_end (ap_idp a) (hf_now r)"
    and "steady (pv_crypto (ap_idp a)) view up (hf_now r) (w_kv (sy_world s))"
  shows "\<not> is_ok (fst (VerifyAccessToken (ap_idp a) t2 (vget (hf_form r) ''token'') (sy_world s')))"
proof -
  note up = provider_storing_redis [OF assms(9)]
  let ?p = "ap_idp a" and ?jti = "claimString claims ''jti''"
  have u: "up (w_kv (sy_world s))" using assms(12) by (simp add: steady_def)
  have fo: "pv_oauth ?p = Some oa \<Longrightarrow> up (w_kv (snd (oa_revocation oa r (sy_world s))))" for oa
    using evolves_steady [OF provider_storing.ev_fosite(7) [OF assms(9)] assms(12)] by (simp add: steady_def)
  obtain w0 x where w0: "up (w_kv w0)" "put_artifact ?p (hf_now r) revokedName ?jti [''revoked'' \<mapsto> ABool True]
      (cf_refresh_ttl (pv_cfg ?p)) w0 = (x, w1)"
    using Revoke_stores [OF up u fo assms(2-5) disjI2 [OF assms(6)] assms(7,1)] by blast
  note till = provider_sets.put_revocation(2) [OF provider_storing.axioms(1) [OF assms(9)] w0(1),
      where t = "hf_now r" and i = ?jti and m = "[''revoked'' \<mapsto> ABool True]", unfolded w0(2) snd_conv]
  note ev = provider_storing.ev_revocation [OF assms(9) evolves_refl, of r "sy_world s", unfolded assms(1) snd_conv]
  obtain m where "artifact_at t2 (view (w_kv (sy_world s'))) revokedName ?jti = Some m"
    using provider_storing.still_revoked [OF assms(9,8) refl assms(10) _ _ order_refl assms(11)]
      evolves_steady [OF ev assms(12)] till by auto
  moreover have "up (w_kv (sy_world s'))"
    using provider_storing.runs_lasting [OF assms(9,8) refl assms(10)] evolves_steady [OF ev assms(12)]
    by (simp add: lasting_def steady_def)
  ultimately show ?thesis by (rule revoked_refused [OF up assms(5,7)])
qed

section \<open>Concrete runs\<close>

text \<open>A provider with a fosite that revokes through the storage, and the application over it.\<close>

definition storing_oauth :: "(mem, unit) oauth" where
  "storing_oauth = \<lparr>oa_introspect = (\<lambda>t tok d s. (Inl (GoErr ''inactive''), s)),
     oa_authorize_request = (\<lambda>r u w. ((sample_frequest, Some (GoErr ''refused'')), w)),
     oa_authorize_response = (\<lambda>r ar se w. (Inl (GoErr ''refused''), w)),
     oa_grant_scope = (\<lambda>_ ar. ar), oa_grant_audience = (\<lambda>_ ar. ar),
     oa_write_authorize = (\<lambda>_ _. redirect_to 303 []), oa_write_authorize_error = (\<lambda>_ _. oauthError 400 ''refused'' []),
     oa_access_request = (\<lambda>r se w. ((\<lparr>aq_request = sample_frequest, aq_grants = None, aq_own = False\<rparr>, Some (GoErr ''refused'')), w)),
     oa_access_response = (\<lambda>r aq w. (Inl (GoErr ''refused''), w)),
     oa_write_access_error = (\<lambda>_ _. oauthError 400 ''refused'' []),
     oa_introspection = (\<lambda>r w. (Inl (GoErr ''inactive''), w)),
     oa_write_introspection_error = (\<lambda>_. oauthError 401 ''refused'' []),
     oa_revocation = (\<lambda>r w. case RevokeAccessToken sample_fstore (hf_now r) (vget (hf_form r) ''token'') (w_kv w) of
        (x, s) \<Rightarrow> (x, w\<lparr>w_kv := s\<rparr>)),
     oa_write_revocation = (\<lambda>_. oauthError 200 [] [])\<rparr>"

abbreviation
  "storing_provider v \<equiv> sample_provider v\<lparr>pv_oauth := Some storing_oauth\<rparr>"

lemma sample_storing_crypto [simp]: "pv_crypto (sample_provider v) = sample_crypto"
  by (simp add: sample_provider_def)

lemma storing_provider: "provider_storing (storing_provider v) m_ks mem_up sample_fstore"
proof -
  have "storage_step sample_fstore t s (snd (RevokeAccessToken sample_fstore t i s))" for t i s
    by (simp add: RevokeAccessToken_def st_revoke)
  then have "fosite_on_storage (storing_provider v) sample_fstore"
    by (auto simp: fosite_on_storage_def uses_storage_def storing_oauth_def split_beta)
  then show ?thesis
    using sample_up.provider_up_axioms [of v] mem.redis_sets_axioms
    by (simp add: provider_storing_def provider_storing_axioms_def provider_sets_def provider_up_def provider_up_axioms_def)
qed

lemma mail_storing: "provider_storing mail_provider m_ks mem_up sample_fstore"
  using mail_up.provider_up_axioms mem.redis_sets_axioms
  by (simp add: provider_storing_def provider_storing_axioms_def provider_sets_def fosite_on_storage_def)
    (simp add: mail_provider_def)

lemma storing_same [simp]:
  "verifyJWT (p\<lparr>pv_oauth := oa\<rparr>) token = verifyJWT p token"
  "authenticateClient (p\<lparr>pv_oauth := oa\<rparr>) r w = authenticateClient p r w"
  "readSession (p\<lparr>pv_oauth := oa\<rparr>) r = readSession p r"
  "unissued (p\<lparr>pv_oauth := oa\<rparr>) i w \<longleftrightarrow> unissued p i w"
  "revocation_end (p\<lparr>pv_oauth := oa\<rparr>) t = revocation_end p t"
  by (simp_all add: verifyJWT_def authenticateClient_def readSession_def sign_def unissued_def revocation_end_def Let_def
      split: list.split option.split sum.split prod.split go.split)

abbreviation "storing_app v \<equiv> sample_app\<lparr>ap_idp := storing_provider v\<rparr>"

lemma one_run:
  obtains rep s' where "runs sample_chi sample_site a s [(sample_http, rep)] s'"
  using runs_step [OF _ runs_nil] by (metis prod.collapse)

lemma sample_clocked: "0 \<le> t2 \<Longrightarrow> clocked sample_chi cfg 0 [(sample_http, rep)] t2"
  by (simp add: sample_chi_def sample_http_def sample_form_def)

lemma steady_empty: "steady C m_ks mem_up 0 mem_start"
  by (simp add: steady_def mem_start_def mem_up_def typed_def purge_def ks_counter_def index_ok_def)

theorem keyspace_stays_typed_witness:
  "\<exists>rep s'. runs sample_chi sample_site (storing_app ANil) sample_system [(sample_http, rep)] s'
     \<and> steady sample_crypto m_ks mem_up second (w_kv (sy_world s'))"
proof -
  obtain rep s' where run: "runs sample_chi sample_site (storing_app ANil) sample_system [(sample_http, rep)] s'"
    by (rule one_run)
  have idp: "ap_idp (storing_app ANil) = storing_provider ANil" by simp
  have "steady sample_crypto m_ks mem_up 0 (w_kv (sy_world sample_system))"
    by (simp add: sample_system_def sample_world_def steady_empty)
  with keyspace_stays_typed [OF run, unfolded idp, OF storing_provider sample_clocked, of second] run
  show ?thesis by (auto simp: time_units)
qed

lemma typed_single:
  assumes "ks = [artifactKey n i \<mapsto> e]"
  shows "steady C m_ks mem_up t (mem_of ks)"
  using assms by (auto simp: steady_def mem_of_def mem_up_def typed_def purge_def ks_counter_def index_ok_def)

definition mail_app :: "(mem, gomap list, unit) app" where
  "mail_app = \<lparr>ap_cfg = pv_cfg mail_provider, ap_idp = mail_provider, ap_authz = NewClaimsAuthorizer sample_unicode []\<rparr>"

theorem used_link_stays_used_witness:
  "\<exists>sid w1 rep s'. CompletePasswordReset mail_provider 0 ''t.k'' ''new'' reset_world = (Ok sid, w1)
     \<and> runs sample_chi sample_site mail_app \<lparr>sy_world = w1, sy_authz = ()\<rparr> [(sample_http, rep)] s'
     \<and> \<not> fst (ResetTokenValid mail_provider second ''t.k'' (sy_world s'))"
proof -
  let ?s = "\<lparr>sy_world = reset_world, sy_authz = ()\<rparr>"
  obtain sid w1 where reset: "CompletePasswordReset mail_provider 0 ''t.k'' ''new'' reset_world = (Ok sid, w1)"
  proof -
    obtain v where "bk_SetPassword (NewBackend sample_unicode mail_wildduck) ''u1'' ''new'' (w_wd reset_world) = (Inr (), v)"
      using mail_sets [of "''u1''" "''new''" "w_wd reset_world"] by (metis is_ok_iff old.unit.exhaust prod.collapse)
    then have "\<exists>sid w1. CompletePasswordReset mail_provider 0 ''t.k'' ''new'' reset_world = (Ok sid, w1)"
      by (simp add: CompletePasswordReset_def reset_world_get(1) on_wd_def split_beta Let_def)
    then show ?thesis using that by blast
  qed
  obtain rep s' where run: "runs sample_chi sample_site mail_app \<lparr>sy_world = w1, sy_authz = ()\<rparr> [(sample_http, rep)] s'"
    by (rule one_run)
  have idp: "ap_idp mail_app = mail_provider" by (simp add: mail_app_def)
  have "''t.k'' \<noteq> b64 x" for x using b64_no_sep(1) [of x] by (metis list.set_intros(1,2))
  then have fresh: "unissued mail_provider ''t.k'' reset_world" by (simp add: unissued_def)
  have st: "steady (pv_crypto mail_provider) m_ks mem_up 0 (w_kv reset_world)"
    by (simp add: reset_world_def typed_single)
  from used_link_stays_used [where a = mail_app and s = ?s, unfolded idp system.simps, OF reset run mail_storing
      sample_clocked [of second] st fresh] reset run
  show ?thesis by (auto simp: time_units)
qed

lemma sid_unissued: "unissued (sample_provider v) ''sid'' w"
proof -
  have "length (b64_bytes (map byte_of (sample_rand m 32))) \<noteq> 3" for m
    by (cases "map byte_of (sample_rand m 32) :: nat list" rule: b64_bytes.cases)
      (auto dest!: arg_cong [of _ _ length] simp: sample_rand_def)
  then have "length ''sid'' \<noteq> length (b64 (sample_rand m 32))" for m
    by (metis b64_def length_map length_Cons list.size(3) numeral_3_eq_3)
  then have "''sid'' \<noteq> b64 (sample_rand m 32)" for m by metis
  then show ?thesis by (simp add: unissued_def sample_provider_def)
qed

theorem signed_out_for_good_witness:
  "\<exists>ans w1 rep s'. Logout (storing_provider ANil) app_form (app_world app_db) = (ans, w1)
     \<and> runs sample_chi sample_site (storing_app ANil) \<lparr>sy_world = w1, sy_authz = ()\<rparr> [(sample_http, rep)] s'
     \<and> \<not> authorized (storing_provider ANil) (app_form\<lparr>hf_now := second\<rparr>) (sy_world s') app_client ''u1''"
proof -
  let ?s = "\<lparr>sy_world = app_world app_db, sy_authz = ()\<rparr>" and ?r = "app_form\<lparr>hf_now := second\<rparr>"
  obtain ans w1 where out: "Logout (storing_provider ANil) app_form (app_world app_db) = (ans, w1)" by force
  obtain rep s' where run: "runs sample_chi sample_site (storing_app ANil) \<lparr>sy_world = w1, sy_authz = ()\<rparr> [(sample_http, rep)] s'"
    by (rule one_run)
  have idp: "ap_idp (storing_app ANil) = storing_provider ANil" by simp
  have sid: "readSession (storing_provider ANil) app_form = Some ''sid''" by (simp add: app_form_session)
  have st: "steady (pv_crypto (storing_provider ANil)) m_ks mem_up 0 (w_kv (app_world app_db))"
    by (simp add: app_world_def session_keys_def typed_single)
  have clock: "clocked sample_chi cfg 0 [(sample_http, rep)] (hf_now ?r)" for cfg
    by (rule sample_clocked) (simp add: time_units)
  from signed_out_for_good [where a = "storing_app ANil" and s = ?s and r = app_form and ?r2.0 = ?r,
      unfolded idp system.simps app_form_query(2), OF out sid run storing_provider clock st]
  have "\<not> authorized (storing_provider ANil) ?r (sy_world s') app_client ''u1''"
    by (simp add: sid_unissued)
  with out run show ?thesis by auto
qed

theorem revoked_for_good_witness:
  "\<exists>ans w1 rep s'. Revoke (storing_provider (AMap sample_claims))
        (grant_form []\<lparr>hf_form := (\<lambda>_. [])(''token'' := [sample_token])\<rparr>) (sample_world\<lparr>w_db := app_db\<rparr>) = (Ok ans, w1)
     \<and> runs sample_chi sample_site (storing_app (AMap sample_claims)) \<lparr>sy_world = w1, sy_authz = ()\<rparr> [(sample_http, rep)] s'
     \<and> \<not> is_ok (fst (VerifyAccessToken (storing_provider (AMap sample_claims)) second sample_token (sy_world s')))"
proof -
  let ?p = "storing_provider (AMap sample_claims)" and ?a = "storing_app (AMap sample_claims)"
    and ?r = "grant_form []\<lparr>hf_form := (\<lambda>_. [])(''token'' := [sample_token])\<rparr>"
    and ?w = "sample_world\<lparr>w_db := app_db\<rparr>"
  let ?s = "\<lparr>sy_world = ?w, sy_authz = ()\<rparr>"
  have tok: "vget (hf_form ?r) ''token'' = sample_token" "hf_now ?r = 0" by (simp_all add: vget_def)
  have "authenticateClient (sample_provider (AMap sample_claims)) ?r ?w = Ok app_client"
    using app_authenticates [of ?w "AMap sample_claims" "[]"] by (simp add: authenticateClient_def)
  then have auth: "authenticateClient ?p ?r ?w = Ok app_client" by simp
  have cid: "claimString (json_map sample_claims) ''client_id'' = c_client_id app_client" "c_client_id app_client \<noteq> []"
    by (simp_all add: claimString_def sample_claims_def valid_utf8_of_ascii ascii_def app_client_simps)
  obtain u w0 where rev: "RevokeAccessToken sample_fstore 0 sample_token (w_kv ?w) = (Inr u, w0)"
    by (simp add: RevokeAccessToken_def revokeByRequestID_def kv_SMembers_def kv_Del_def sample_world_def mem_start_of
        mem_eval mem_smembers pass_def purge_def Let_def)
  then have "\<exists>x. fst (oa_revocation storing_oauth ?r ?w) = Inr x" using tok by (simp add: storing_oauth_def)
  then have acc: "revocation_accepted ?p ?r ?w" and "\<exists>ans w1. Revoke ?p ?r ?w = (Ok ans, w1)"
    using auth by (auto simp: revocation_accepted_def Revoke_def Let_def is_ok_iff split_beta)
  then obtain ans w1 where run1: "Revoke ?p ?r ?w = (Ok ans, w1)" by blast
  obtain rep s' where run: "runs sample_chi sample_site ?a \<lparr>sy_world = w1, sy_authz = ()\<rparr> [(sample_http, rep)] s'"
    by (rule one_run)
  have idp: "ap_idp ?a = ?p" by simp
  have ver: "verifyJWT ?p sample_token = Inr (json_map sample_claims)" by (simp add: sample_verified)
  have st: "steady (pv_crypto ?p) m_ks mem_up 0 (w_kv ?w)" by (simp add: sample_world_def steady_empty)
  have jti: "claimString (json_map sample_claims) ''jti'' \<noteq> []" by (simp add: sample_jti)
  have t2: "second < revocation_end ?p 0" "0 \<le> second" by (simp_all add: revocation_end_def px_deadline_def time_units)
  from revoked_for_good [where a = ?a and s = ?s and r = ?r, unfolded idp system.simps tok, OF run1 acc auth cid(2) ver cid(1)
      jti run storing_provider sample_clocked t2(1) st] t2(2)
  have "\<not> is_ok (fst (VerifyAccessToken ?p second sample_token (sy_world s')))" by simp
  with run1 run show ?thesis by auto
qed

end
