(* ===== verification/Token_Store.thy ===== *)
theory Token_Store
  imports Fosite_Tokens
begin

text \<open>
  The storage of internal/fositestore as an abstract store of token sessions: a map from names and keys to
  what was stored, each with its deadline, and for every request id the set of its sessions.  The calls
  fosite makes are operations on it, as long as the hash does not confuse the names in use (\<open>no_clash\<close>).
\<close>

section \<open>The abstract store\<close>

type_synonym slot = "string \<times> string"

record token_store =
  tk_sessions :: "slot \<Rightarrow> (persisted \<times> int option) option"
  tk_index :: "slot \<Rightarrow> (slot set \<times> int option) option"

text \<open>What is kept of a request: what its document decodes to.\<close>

definition kept :: "'r fstore \<Rightarrow> persisted \<Rightarrow> persisted option" where
  "kept F p = (case unmarshal_persisted (ft_json F) (Doc (json_norm (AMap (persisted_json (ft_json F) p)))) of
       Inr q \<Rightarrow> Some q | Inl _ \<Rightarrow> None)"

definition tk_members :: "token_store \<Rightarrow> slot \<Rightarrow> slot set" where
  "tk_members T y = (case tk_index T y of Some (S, _) \<Rightarrow> S | None \<Rightarrow> {})"

fun unexpired :: "int \<Rightarrow> ('a \<times> int option) option \<Rightarrow> ('a \<times> int option) option" where
  "unexpired t (Some (x, Some d)) = (if t < d then Some (x, Some d) else None)"
| "unexpired t e = e"

definition spec_wait :: "int \<Rightarrow> token_store \<Rightarrow> token_store" where
  "spec_wait t T = \<lparr>tk_sessions = unexpired t \<circ> tk_sessions T, tk_index = unexpired t \<circ> tk_index T\<rparr>"

definition spec_put :: "'r fstore \<Rightarrow> int \<Rightarrow> slot \<Rightarrow> frequest \<Rightarrow> string \<Rightarrow> token_store \<Rightarrow> token_store" where
  "spec_put F t x r acc T = (case x of (n, k) \<Rightarrow>
     \<lparr>tk_sessions = (tk_sessions T)(x := map_option (\<lambda>p. (p, Some (put_deadline F t n r))) (kept F (stored n r acc))),
      tk_index = (if revocable n r
        then (tk_index T)((n, fr_id r) \<mapsto> (insert x (tk_members T (n, fr_id r)), Some (index_deadline F t n r)))
        else tk_index T)\<rparr>)"

definition spec_delete :: "slot \<Rightarrow> token_store \<Rightarrow> token_store" where
  "spec_delete x T = T\<lparr>tk_sessions := (tk_sessions T)(x := None)\<rparr>"

definition spec_invalidate :: "'r fstore \<Rightarrow> int \<Rightarrow> string \<Rightarrow> token_store \<Rightarrow> token_store" where
  "spec_invalidate F t c T = (case tk_sessions T (nameAuthorizeCode, c) of
       None \<Rightarrow> T
     | Some (p, _) \<Rightarrow> T\<lparr>tk_sessions := (tk_sessions T)((nameAuthorizeCode, c) :=
           map_option (\<lambda>q. (q, px_deadline t (ttlFor F t (ps_expires p)))) (kept F (p\<lparr>ps_invalidated := True\<rparr>)))\<rparr>)"

definition spec_revoke :: "slot \<Rightarrow> token_store \<Rightarrow> token_store" where
  "spec_revoke y T = \<lparr>tk_sessions = (\<lambda>x. if x \<in> tk_members T y then None else tk_sessions T x),
     tk_index = (tk_index T)(y := None)\<rparr>"

fun spec_do :: "'r fstore \<Rightarrow> int \<Rightarrow> fs_op \<Rightarrow> token_store \<Rightarrow> token_store" where
  "spec_do F t (OpCreate n k r acc) T = (case r of None \<Rightarrow> T | Some q \<Rightarrow> spec_put F t (n, k) q acc T)"
| "spec_do F t (OpInvalidate c) T = spec_invalidate F t c T"
| "spec_do F t (OpDelete n k) T = spec_delete (n, k) T"
| "spec_do F t (OpRevoke n i) T = spec_revoke (n, i) T"
| "spec_do F t (OpRead n k) T = T"

inductive spec_run :: "'r fstore \<Rightarrow> int \<Rightarrow> token_store \<Rightarrow> fs_op list \<Rightarrow> int \<Rightarrow> token_store \<Rightarrow> bool" for F where
  spec_none: "spec_run F t T [] t T"
| spec_step: "t \<le> t1 \<Longrightarrow> spec_run F t1 (spec_do F t1 op (spec_wait t1 T)) ops t2 T2 \<Longrightarrow>
    spec_run F t T (op # ops) t2 T2"

section \<open>The abstraction\<close>

abbreviation slot_key :: "crypto \<Rightarrow> slot \<Rightarrow> string" where
  "slot_key C x \<equiv> storeID C (fst x) (snd x)"

abbreviation slot_index :: "crypto \<Rightarrow> slot \<Rightarrow> string" where
  "slot_index C y \<equiv> indexKey C (fst y) (snd y)"

definition no_clash :: "crypto \<Rightarrow> slot set \<Rightarrow> slot set \<Rightarrow> bool" where
  "no_clash C K I \<longleftrightarrow> inj_on (slot_key C) K \<and> inj_on (slot_index C) I"

definition session_entry :: "'r fstore \<Rightarrow> (rval \<times> int option) option \<Rightarrow> (persisted \<times> int option) option" where
  "session_entry F e = (case e of
       Some (RStr b, d) \<Rightarrow> (case unmarshal_persisted (ft_json F) b of Inr p \<Rightarrow> Some (p, d) | Inl _ \<Rightarrow> None)
     | _ \<Rightarrow> None)"

definition index_entry :: "crypto \<Rightarrow> slot set \<Rightarrow> (rval \<times> int option) option \<Rightarrow> (slot set \<times> int option) option" where
  "index_entry C K e = (case e of
       Some (RSet xs, d) \<Rightarrow> Some ({x \<in> K. slot_key C x \<in> set xs}, d)
     | _ \<Rightarrow> None)"

definition token_view :: "'r fstore \<Rightarrow> slot set \<Rightarrow> slot set \<Rightarrow> keyspace \<Rightarrow> token_store" where
  "token_view F K I ks =
     \<lparr>tk_sessions = (\<lambda>x. if x \<in> K then session_entry F (ks (slot_key (ft_crypto F) x)) else None),
      tk_index = (\<lambda>y. if y \<in> I then index_entry (ft_crypto F) K (ks (slot_index (ft_crypto F) y)) else None)\<rparr>"

text \<open>The members of an index are keys of sessions.\<close>

definition well_indexed :: "crypto \<Rightarrow> keyspace \<Rightarrow> bool" where
  "well_indexed C ks \<longleftrightarrow> (\<forall>n i. \<forall>j \<in> set (ks_members ks (indexKey C n i)). \<exists>m k. j = storeID C m k)"

text \<open>The names a call uses.\<close>

fun uses_slots :: "slot set \<Rightarrow> slot set \<Rightarrow> fs_op \<Rightarrow> bool" where
  "uses_slots K I (OpCreate n k r acc) \<longleftrightarrow> (n, k) \<in> K
     \<and> (case r of None \<Rightarrow> True | Some q \<Rightarrow> revocable n q \<longrightarrow> (n, fr_id q) \<in> I)"
| "uses_slots K I (OpInvalidate c) \<longleftrightarrow> (nameAuthorizeCode, c) \<in> K"
| "uses_slots K I (OpDelete n k) \<longleftrightarrow> (n, k) \<in> K"
| "uses_slots K I (OpRevoke n i) \<longleftrightarrow> (n, i) \<in> I"
| "uses_slots K I (OpRead n k) \<longleftrightarrow> (n, k) \<in> K"

lemma no_clashD:
  "no_clash C K I \<Longrightarrow> x \<in> K \<Longrightarrow> y \<in> K \<Longrightarrow> slot_key C x = slot_key C y \<longleftrightarrow> x = y"
  "no_clash C K I \<Longrightarrow> v \<in> I \<Longrightarrow> w \<in> I \<Longrightarrow> slot_index C v = slot_index C w \<longleftrightarrow> v = w"
  by (auto simp: no_clash_def dest: inj_onD)

lemma token_view_simps [simp]:
  "tk_sessions (token_view F K I ks) x = (if x \<in> K then session_entry F (ks (slot_key (ft_crypto F) x)) else None)"
  "tk_index (token_view F K I ks) y = (if y \<in> I then index_entry (ft_crypto F) K (ks (slot_index (ft_crypto F) y)) else None)"
  by (simp_all add: token_view_def)

lemma token_storeI:
  fixes T :: token_store
  assumes "\<And>x. tk_sessions T x = tk_sessions T' x" "\<And>y. tk_index T y = tk_index T' y"
  shows "T = T'"
  by (rule token_store.equality) (auto simp: assms)

lemma members_view:
  "tk_members (token_view F K I ks) y = (if y \<in> I
     then {x \<in> K. slot_key (ft_crypto F) x \<in> set (ks_members ks (slot_index (ft_crypto F) y))} else {})"
  by (auto simp: tk_members_def index_entry_def ks_members_def split: option.splits rval.splits prod.splits)

lemma session_entry_kept:
  "session_entry F (Some (RStr (Doc (json_norm (AMap (persisted_json (ft_json F) p)))), d)) =
     map_option (\<lambda>q. (q, d)) (kept F p)"
  by (simp add: session_entry_def kept_def del: json_norm_map split: sum.split)

section \<open>Every call is its operation\<close>

context redis_server
begin

lemma putPersisted_view:
  assumes "putPersisted F t n k p s = (Inr (), s')" "ft_redis F = R" "0 < ft_ttl F"
  shows "purge t (view s') = (purge t (view s))(storeID (ft_crypto F) n k \<mapsto>
    (RStr (Doc (json_norm (AMap (persisted_json (ft_json F) p)))), px_deadline t (ttlFor F t (ps_expires p))))"
proof -
  have "t < the (px_deadline t (ttlFor F t (ps_expires p)))"
    using ttlFor_pos [OF assms(3)] by (simp add: px_deadline_pos)
  with putPersisted_purge [OF assms order_refl] show ?thesis by (auto simp del: json_norm_map)
qed

lemma kv_SAdd_view:
  assumes "kv_SAdd R t idx ttl members s = (Inr (), s')" "0 < ttl"
  shows "purge t (view s') = (purge t (view s))(idx \<mapsto>
    (RSet (dedup [] (ks_members (purge t (view s)) idx @ members)), Some (t + max 1 (ttl div second) * second)))"
proof -
  let ?c = "SADD idx members # [EXPIRE idx ttl]"
  have "rd_exec R t ?c s = (Inr (), s')" using assms by (simp add: kv_SAdd_def)
  from exec_ok [OF this] have e: "purge t (view s') = purge t (fold (ks_cmd t) ?c (purge t (view s)))" .
  have "t < t + max 1 (ttl div second) * second" by (simp add: second_def)
  then show ?thesis by (simp add: e ks_sadd_def ks_expire_def purge_upd live_def)
qed

lemma fs_put_view:
  assumes "fs_put F t n k (Some r) acc False s = (Inr (), s')" "ft_redis F = R" "0 < ft_ttl F"
  defines "ks \<equiv> (purge t (view s))(storeID (ft_crypto F) n k \<mapsto>
      (RStr (Doc (json_norm (AMap (persisted_json (ft_json F) (stored n r acc))))), Some (put_deadline F t n r)))"
    and "idx \<equiv> indexKey (ft_crypto F) n (fr_id r)"
  shows "purge t (view s') = (if revocable n r
    then ks(idx \<mapsto> (RSet (dedup [] (ks_members (purge t (view s)) idx @ [storeID (ft_crypto F) n k])),
        Some (index_deadline F t n r)))
    else ks)"
proof -
  obtain s0 where p: "putPersisted F t n k (stored n r acc) s = (Inr (), s0)"
      and rest: "if revocable n r then kv_SAdd R t idx (ttlFor F t (expiryFor (fr_session r) n))
        [storeID (ft_crypto F) n k] s0 = (Inr (), s') else s' = s0"
    using assms(1,2) by (auto simp: fs_put_Some idx_def split: prod.splits sum.splits if_splits)
  have ks: "purge t (view s0) = ks"
    using putPersisted_view [OF p assms(2,3)] ttlFor_pos [OF assms(3)]
    by (simp add: ks_def put_deadline_def px_deadline_pos del: json_norm_map)
  have "ks_members ks idx = ks_members (purge t (view s)) idx"
    by (simp add: ks_members_def ks_def idx_def del: json_norm_map)
  with rest kv_SAdd_view [of t idx _ _ s0 s', OF _ ttlFor_pos [OF assms(3)]] show ?thesis
    by (auto simp: ks index_deadline_def split: if_splits simp del: json_norm_map)
qed

lemma revoke_view:
  assumes "revokeByRequestID F t n i s = (Inr (), s')" "ft_redis F = R"
  shows "\<exists>ms. set ms = insert (indexKey (ft_crypto F) n i) (set (ks_members (purge t (view s)) (indexKey (ft_crypto F) n i)))
    \<and> purge t (view s') = ks_del ms (purge t (view s))"
proof -
  obtain ms s1 where m: "kv_SMembers R t (indexKey (ft_crypto F) n i) s = (Inr ms, s1)"
      and d: "kv_Del R t (ms @ [indexKey (ft_crypto F) n i]) s1 = (Inr (), s')"
    using assms by (auto simp: revokeByRequestID_def Let_def split: prod.splits sum.splits)
  show ?thesis
    using kv_SMembers_Inr [OF m] kv_Del_lookup [OF d order_refl]
    by (intro exI [of _ "ms @ [indexKey (ft_crypto F) n i]"]) (auto simp: same_keyspace_def)
qed

end

lemma put_refines:
  fixes F :: "'r fstore" and n k acc :: string and r :: frequest and t :: int and ks :: keyspace
  assumes "no_clash (ft_crypto F) K I" "(n, k) \<in> K" "revocable n r \<longrightarrow> (n, fr_id r) \<in> I"
  defines "ks1 \<equiv> ks(storeID (ft_crypto F) n k \<mapsto>
      (RStr (Doc (json_norm (AMap (persisted_json (ft_json F) (stored n r acc))))), Some (put_deadline F t n r)))"
    and "idx \<equiv> indexKey (ft_crypto F) n (fr_id r)"
  shows "token_view F K I (if revocable n r
      then ks1(idx \<mapsto> (RSet (dedup [] (ks_members ks idx @ [storeID (ft_crypto F) n k])), Some (index_deadline F t n r)))
      else ks1) = spec_put F t (n, k) r acc (token_view F K I ks)" (is "?L = ?R")
proof (rule token_storeI)
  note clash = no_clashD [OF assms(1)]
  show "tk_sessions ?L x = tk_sessions ?R x" for x
    using assms(2) clash(1) [of x "(n, k)"]
    by (auto simp: spec_put_def ks1_def idx_def session_entry_kept simp del: json_norm_map)
  show "tk_index ?L y = tk_index ?R y" for y
    using assms(2,3) clash(2) [of y "(n, fr_id r)"] clash(1) [of _ "(n, k)"]
    by (auto simp: spec_put_def ks1_def idx_def index_entry_def members_view set_dedup simp del: json_norm_map)
qed

lemma delete_refines:
  assumes "no_clash (ft_crypto F) K I" "x \<in> K"
  shows "token_view F K I (ks_del [slot_key (ft_crypto F) x] ks) = spec_delete x (token_view F K I ks)"
  by (rule token_storeI) (use no_clashD(1) [OF assms(1) _ assms(2)] in
    \<open>auto simp: spec_delete_def ks_del_def session_entry_def\<close>)

lemma revoke_refines:
  assumes "no_clash (ft_crypto F) K I" "y \<in> I" "well_indexed (ft_crypto F) ks"
    and "set ms = insert (slot_index (ft_crypto F) y) (set (ks_members ks (slot_index (ft_crypto F) y)))"
  shows "token_view F K I (ks_del ms ks) = spec_revoke y (token_view F K I ks)"
proof (rule token_storeI)
  show "tk_sessions (token_view F K I (ks_del ms ks)) x = tk_sessions (spec_revoke y (token_view F K I ks)) x" for x
    using assms(2,4) by (auto simp: spec_revoke_def ks_del_def members_view session_entry_def)
  have "slot_index (ft_crypto F) z \<in> set ms \<longleftrightarrow> slot_index (ft_crypto F) z = slot_index (ft_crypto F) y" for z
    using assms(3,4) by (fastforce simp: well_indexed_def)
  then show "tk_index (token_view F K I (ks_del ms ks)) z = tk_index (spec_revoke y (token_view F K I ks)) z" for z
    using assms(2) no_clashD(2) [OF assms(1), of z y] by (auto simp: spec_revoke_def ks_del_def index_entry_def)
qed

lemma unexpired_purge: "unexpired t (session_entry F (ks j)) = session_entry F (purge t ks j)"
  "unexpired t (index_entry C K (ks j)) = index_entry C K (purge t ks j)"
  by (auto simp: session_entry_def index_entry_def purge_def live_def
      split: option.splits rval.splits prod.splits sum.splits)

lemma wait_refines: "token_view F K I (purge t ks) = spec_wait t (token_view F K I ks)"
  by (rule token_storeI) (simp_all add: spec_wait_def unexpired_purge)

text \<open>The members stay keys of sessions.\<close>

lemma well_indexedI:
  assumes "well_indexed C ks" "\<And>n i. \<forall>j \<in> set (ks_members ks' (indexKey C n i)).
      j \<in> set (ks_members ks (indexKey C n i)) \<or> (\<exists>m k. j = storeID C m k)"
  shows "well_indexed C ks'"
  using assms unfolding well_indexed_def by metis

lemma well_indexed_less:
  assumes "well_indexed C ks" "\<And>n i. ks' (indexKey C n i) \<in> {None, ks (indexKey C n i)}"
  shows "well_indexed C ks'"
proof (rule well_indexedI [OF assms(1)])
  show "\<forall>j \<in> set (ks_members ks' (indexKey C n i)). j \<in> set (ks_members ks (indexKey C n i))
      \<or> (\<exists>m k. j = storeID C m k)" for n i
    using assms(2) [of n i] by (elim insertE) (simp_all add: ks_members_def)
qed

lemma well_indexed_later: "well_indexed C (purge t ks) \<Longrightarrow> t \<le> t' \<Longrightarrow> well_indexed C (purge t' ks)"
  by (rule well_indexed_less [of C "purge t ks"])
    (auto simp: purge_def live_later split: option.split)

lemma well_indexed_put:
  assumes "well_indexed C ks"
  shows "well_indexed C (ks(storeID C n k \<mapsto> (RStr b, d)))"
    "well_indexed C ((ks(storeID C n k \<mapsto> (RStr b, d)))(idx \<mapsto> (RSet (dedup [] (ks_members ks idx @ [storeID C n k])), d')))"
proof -
  show one: "well_indexed C (ks(storeID C n k \<mapsto> (RStr b, d)))" by (rule well_indexed_less [OF assms]) simp
  show "well_indexed C ((ks(storeID C n k \<mapsto> (RStr b, d)))(idx \<mapsto> (RSet (dedup [] (ks_members ks idx @ [storeID C n k])), d')))"
    by (rule well_indexedI [OF assms]) (auto simp: ks_members_def set_dedup)
qed

section \<open>The storage refines the store\<close>

context redis_server
begin

lemma fs_do_refines:
  assumes "fs_do F t op s = (Inr (), s')" "ft_redis F = R" "0 < ft_ttl F"
    and "no_clash (ft_crypto F) K I" "uses_slots K I op" "well_indexed (ft_crypto F) (purge t (view s))"
  shows "token_view F K I (purge t (view s')) = spec_do F t op (token_view F K I (purge t (view s)))
    \<and> well_indexed (ft_crypto F) (purge t (view s'))"
proof (cases op)
  case (OpCreate n k r x)
  with assms(1) obtain q where r: "r = Some q" by (cases r) (simp_all add: fs_put_def requestToPersisted_def)
  with OpCreate assms(1) have "fs_put F t n k (Some q) x False s = (Inr (), s')" by simp
  from fs_put_view [OF this assms(2,3)] put_refines [OF assms(4)] well_indexed_put [OF assms(6)] assms(5) OpCreate r
  show ?thesis by (simp del: json_norm_map)
next
  case (OpInvalidate c)
  with assms(1) obtain p s1 where g: "getPersisted F t nameAuthorizeCode c s = (Inr p, s1)"
      and put: "putPersisted F t nameAuthorizeCode c (p\<lparr>ps_invalidated := True\<rparr>) s1 = (Inr (), s')"
    by (auto simp: InvalidateAuthorizeCodeSession_def split: prod.splits sum.splits)
  have at: "session_at F t (view s) nameAuthorizeCode c = Some p" "purge t (view s1) = purge t (view s)"
    using getPersisted_Inr [OF g assms(2)] by (simp_all add: same_keyspace_def)
  then obtain b d where b: "purge t (view s) (storeID (ft_crypto F) nameAuthorizeCode c) = Some (RStr b, d)"
      "unmarshal_persisted (ft_json F) b = Inr p"
    by (auto simp: session_at_def split: option.splits rval.splits sum.splits)
  have e: "session_entry F (Some (RStr b, d)) = Some (p, d)" using b(2) by (simp add: session_entry_def)
  have x: "(nameAuthorizeCode, c) \<in> K" using assms(5) OpInvalidate by simp
  let ?ks = "(purge t (view s))(storeID (ft_crypto F) nameAuthorizeCode c \<mapsto>
      (RStr (Doc (json_norm (AMap (persisted_json (ft_json F) (p\<lparr>ps_invalidated := True\<rparr>))))),
        px_deadline t (ttlFor F t (ps_expires p))))"
  have ks: "purge t (view s') = ?ks"
    using putPersisted_view [OF put assms(2,3)] at(2) by (simp del: json_norm_map)
  have "token_view F K I ?ks = spec_invalidate F t c (token_view F K I (purge t (view s)))"
  proof (rule token_storeI)
    show "tk_sessions (token_view F K I ?ks) y = tk_sessions (spec_invalidate F t c (token_view F K I (purge t (view s)))) y" for y
      using x b no_clashD(1) [OF assms(4) _ x, of y]
      by (auto simp: spec_invalidate_def session_entry_kept e simp del: json_norm_map)
    show "tk_index (token_view F K I ?ks) y = tk_index (spec_invalidate F t c (token_view F K I (purge t (view s)))) y" for y
      using x b by (simp add: spec_invalidate_def e del: json_norm_map)
  qed
  with OpInvalidate ks well_indexed_put(1) [OF assms(6)] show ?thesis by (simp del: json_norm_map)
next
  case (OpDelete n k)
  with assms(1) have "purge t (view s') = ks_del [storeID (ft_crypto F) n k] (purge t (view s))"
    using fs_delete_purge [OF _ assms(2) order_refl] by (auto simp: ks_del_def)
  moreover have "well_indexed (ft_crypto F) (ks_del [storeID (ft_crypto F) n k] (purge t (view s)))"
    by (rule well_indexed_less [OF assms(6)]) (simp add: ks_del_def)
  ultimately show ?thesis
    using delete_refines [OF assms(4), of "(n, k)" "purge t (view s)"] assms(5) OpDelete by simp
next
  case (OpRevoke n i)
  then obtain ms where ms: "set ms = insert (indexKey (ft_crypto F) n i)
        (set (ks_members (purge t (view s)) (indexKey (ft_crypto F) n i)))"
      "purge t (view s') = ks_del ms (purge t (view s))"
    using revoke_view [of F t n i s s'] assms(1,2) by auto
  have "well_indexed (ft_crypto F) (ks_del ms (purge t (view s)))"
    by (rule well_indexed_less [OF assms(6)]) (simp add: ks_del_def)
  with revoke_refines [OF assms(4) _ assms(6), of "(n, i)" ms] ms assms(5) OpRevoke show ?thesis by simp
next
  case (OpRead n k)
  with assms(1) obtain p where "getPersisted F t n k s = (Inr p, s')"
    by (cases "getPersisted F t n k s"; cases "fst (getPersisted F t n k s)") auto
  from getPersisted_Inr [OF this assms(2)] assms(6) OpRead show ?thesis by (simp add: same_keyspace_def)
qed

lemma fs_run_refines:
  assumes "fs_run F t s ops t2 s2" "ft_redis F = R" "0 < ft_ttl F" "no_clash (ft_crypto F) K I"
    and "\<forall>op \<in> set ops. uses_slots K I op" "well_indexed (ft_crypto F) (purge t (view s))"
  shows "spec_run F t (token_view F K I (purge t (view s))) ops t2 (token_view F K I (purge t2 (view s2)))"
  using assms
proof (induction rule: fs_run.induct)
  case (run_none t s)
  show ?case by (rule spec_none)
next
  case (run_step t t1 op s s1 ops t2 s2)
  note later = well_indexed_later [OF run_step.prems(5) run_step.hyps(1)]
  have "token_view F K I (purge t1 (view s1)) = spec_do F t1 op (token_view F K I (purge t1 (view s)))"
    and wi: "well_indexed (ft_crypto F) (purge t1 (view s1))"
    using fs_do_refines [OF run_step.hyps(2) run_step.prems(1-3) _ later] run_step.prems(4) by simp_all
  moreover have "token_view F K I (purge t1 (view s)) = spec_wait t1 (token_view F K I (purge t (view s)))"
    using wait_refines [of F K I t1 "purge t (view s)"] run_step.hyps(1) by (simp add: purge_purge)
  ultimately show ?case
    using run_step.IH [OF run_step.prems(1-3) _ wi] run_step.prems(4)
    by (intro spec_step [OF run_step.hyps(1)]) simp
qed

lemma read_refines:
  assumes "getPersisted F now (fst x) (snd x) s = (Inr p, s')" "ft_redis F = R" "x \<in> K" "t \<le> now"
  shows "\<exists>d. tk_sessions (spec_wait now (token_view F K I (purge t (view s)))) x = Some (p, d)"
proof -
  obtain b d where "purge now (view s) (slot_key (ft_crypto F) x) = Some (RStr b, d)"
      "unmarshal_persisted (ft_json F) b = Inr p"
    using getPersisted_Inr [OF assms(1,2)]
    by (auto simp: session_at_def split: option.splits rval.splits sum.splits)
  moreover have "spec_wait now (token_view F K I (purge t (view s))) = token_view F K I (purge now (view s))"
    using wait_refines [of F K I now "purge t (view s)"] assms(4) by (simp add: purge_purge)
  ultimately show ?thesis using assms(3) by (simp add: session_entry_def)
qed

end

text \<open>
  C28. The storage refines the abstract store of token sessions: every run of answered calls of fosite is, by
  the abstraction of the keyspace, a run of the store's operations at the same places (put with its
  deadline and its entry in the index of the request, invalidation, deletion, revocation of all that the
  index holds, and the passing of time), and what is read later is what the store then holds.
\<close>

theorem token_storage_refines:
  assumes "redis_server (ft_redis F) view" and "0 < ft_ttl F" and "no_clash (ft_crypto F) K I"
    and "fs_run F t s ops t2 s2" and "\<forall>op \<in> set ops. uses_slots K I op"
    and "well_indexed (ft_crypto F) (purge t (view s))"
  shows "spec_run F t (token_view F K I (purge t (view s))) ops t2 (token_view F K I (purge t2 (view s2)))
    \<and> (\<forall>x \<in> K. \<forall>now \<ge> t2. \<forall>p s3. getPersisted F now (fst x) (snd x) s2 = (Inr p, s3) \<longrightarrow>
         (\<exists>d. tk_sessions (spec_wait now (token_view F K I (purge t2 (view s2)))) x = Some (p, d)))"
  using redis_server.fs_run_refines [OF assms(1,4) refl assms(2,3,5,6)]
    redis_server.read_refines [OF assms(1) _ refl] by blast

theorem token_storage_refines_witness:
  "\<exists>s2. fs_run sample_fstore 0 mem_start
        [OpCreate nameAccessToken ''sig'' (Some sample_frequest) [], OpRevoke nameAccessToken ''r1''] second s2
     \<and> spec_run sample_fstore 0 (token_view sample_fstore {(nameAccessToken, ''sig'')} {(nameAccessToken, ''r1'')} Map.empty)
        [OpCreate nameAccessToken ''sig'' (Some sample_frequest) [], OpRevoke nameAccessToken ''r1''] second
        (token_view sample_fstore {(nameAccessToken, ''sig'')} {(nameAccessToken, ''r1'')} (purge second (m_ks s2)))"
proof -
  let ?K = "{(nameAccessToken, ''sig'')}" and ?I = "{(nameAccessToken, ''r1'')}"
    and ?ops = "[OpCreate nameAccessToken ''sig'' (Some sample_frequest) [], OpRevoke nameAccessToken ''r1'']"
  obtain ks where put: "fs_put sample_fstore 0 nameAccessToken ''sig'' (Some sample_frequest) [] False mem_start
      = (Inr (), mem_of ks)"
    using sample_put [of 0 nameAccessToken "''sig''" "[]" Map.empty] by (auto simp: mem_start_of)
  obtain s2 where rev: "revokeByRequestID sample_fstore second nameAccessToken ''r1'' (mem_of ks) = (Inr (), s2)"
    by (simp add: revokeByRequestID_def kv_SMembers_def kv_Del_def mem_smembers mem_eval Let_def)
  have run: "fs_run sample_fstore 0 mem_start ?ops second s2"
    by (rule run_step [of 0 0 _ _ _ "mem_of ks"], simp, simp add: put,
        rule run_step [of 0 second], simp add: time_units, simp add: rev, rule run_none)
  have "no_clash (ft_crypto sample_fstore) ?K ?I" by (simp add: no_clash_def)
  moreover have "well_indexed (ft_crypto sample_fstore) (purge 0 (m_ks mem_start))"
    by (simp add: well_indexed_def ks_members_def purge_def mem_start_def)
  moreover have "0 < ft_ttl sample_fstore" "\<forall>op \<in> set ?ops. uses_slots ?K ?I op" by (simp_all add: time_units)
  ultimately have sim: "spec_run sample_fstore 0 (token_view sample_fstore ?K ?I (purge 0 (m_ks mem_start))) ?ops second
      (token_view sample_fstore ?K ?I (purge second (m_ks s2)))"
    using token_storage_refines [OF mem.redis_server_axioms [folded sample_fstore_simps(1)] _ _ run, of ?K ?I] by blast
  have "purge 0 (m_ks mem_start) = Map.empty" by (rule ext) (simp add: purge_def mem_start_def)
  from run sim [unfolded this] show ?thesis by (intro exI conjI)
qed

end
