(* ===== verification/Login_Steps.thy ===== *)
theory Login_Steps
  imports Interleave Lockout
begin

text \<open>
  \<open>FinishLogin\<close> of internal/idp/provider.go as steps that interleave, cut at its calls to the store and
  to WildDuck.  The lockout is read before WildDuck is asked and written after it, so it bounds the
  guesses made one after the other (\<open>guessing_stopped\<close>) and not those made at the same time.
\<close>

section \<open>The steps\<close>

record login_request =
  lq_uid :: string
  lq_user :: string
  lq_password :: string
  lq_ip :: string

definition lq_keys :: "('r, 'w) provider \<Rightarrow> login_request \<Rightarrow> string list" where
  "lq_keys p q = (let uname = to_lower (pv_unicode p) (lq_user q) in [ip_key uname (lq_ip q), user_key uname])"

text \<open>
  Where a handler is: before \<open>GetArtifact\<close>, before the remaining \<open>LoginLocked\<close>, before \<open>Authenticate\<close>,
  with its verdict, before \<open>FetchAccount\<close>, before the remaining \<open>RecordLoginFailure\<close> or
  \<open>ResetLoginFailures\<close>, before the session or the password change is stored, and after its result.
\<close>

datatype login_stage =
    Started
  | Locking "string list"
  | Asking
  | Verdict "gomap res"
  | Known gomap
  | Failing "(string \<times> int) list"
  | Accepting gomap idp_account "string list"
  | Entering gomap idp_account
  | Finished "string res"

definition refuse :: "('r, 'w) provider \<Rightarrow> login_request \<Rightarrow> login_stage" where
  "refuse p q = Failing (zip (lq_keys p q) [ipLockAfter, userLockAfter])"

definition judge :: "('r, 'w) provider \<Rightarrow> login_request \<Rightarrow> gomap res \<Rightarrow> login_stage" where
  "judge p q x =
     (case x of
        Inl _ \<Rightarrow> refuse p q
      | Inr auth \<Rightarrow> if \<not> success auth \<or> str (mget auth ''id'') = [] then refuse p q else Known auth)"

definition find_account ::
  "('r, 'w) provider \<Rightarrow> login_request \<Rightarrow> gomap \<Rightarrow> ('r, 'w) world \<Rightarrow> login_stage \<times> ('r, 'w) world" where
  "find_account p q auth w =
     (case FetchAccount p (str (mget auth ''id'')) w of
        (Inl e, w1) \<Rightarrow> (Finished (Inl e), w1)
      | (Inr account, w1) \<Rightarrow>
          (if \<not> ac_activated account \<or> ac_suspended account \<or> ac_disabled account then refuse p q
           else Accepting auth account (lq_keys p q), w1))"

definition enter ::
  "('r, 'w) provider \<Rightarrow> login_request \<Rightarrow> int \<Rightarrow> gomap \<Rightarrow> idp_account \<Rightarrow> ('r, 'w) world \<Rightarrow>
     string res \<times> ('r, 'w) world" where
  "enter p q t auth account w =
     (if boolv (mget auth ''requirePasswordChange'')
      then (case put_artifact p t pwChangeName (lq_uid q)
                   [''sub'' \<mapsto> AStr (ac_id account), ''email'' \<mapsto> AStr (ac_email account)] (10 * minute) w of
              (Inl e, w1) \<Rightarrow> (Inl e, w1)
            | (Inr _, w1) \<Rightarrow> (Inl PasswordChangeRequired, w1))
      else (let (sid, w1) = startSession p t (ac_id account) (ac_email account) w in (Inr sid, w1)))"

fun login_step ::
  "('r, 'w) provider \<Rightarrow> login_request \<Rightarrow> int \<Rightarrow> login_stage \<Rightarrow> ('r, 'w) world \<Rightarrow> login_stage \<times> ('r, 'w) world" where
  "login_step p q t Started w =
     (case get_artifact p t interactionName (lq_uid q) w of
        (Inl e, w1) \<Rightarrow> (Finished (Inl e), w1)
      | (Inr _, w1) \<Rightarrow> (Locking (lq_keys p q), w1))"
| "login_step p q t (Locking []) w = (Asking, w)"
| "login_step p q t (Locking (k # ks)) w =
     (case login_locked p t k w of
        (Inl e, w1) \<Rightarrow> (Finished (Inl e), w1)
      | (Inr (locked, _), w1) \<Rightarrow> (if locked then Finished (Inl (GoErr ''locked'')) else Locking ks, w1))"
| "login_step p q t Asking w =
     (let (x, w1) = on_wd (wd_authenticate (pv_wd p) (lq_user q) (lq_password q) [''scope'' \<mapsto> AStr ''master'']) w
      in (Verdict x, w1))"
| "login_step p q t (Verdict x) w = (judge p q x, w)"
| "login_step p q t (Known auth) w = find_account p q auth w"
| "login_step p q t (Failing []) w = (Finished (Inl (GoErr ''invalid credentials'')), w)"
| "login_step p q t (Failing ((k, after) # ks)) w =
     (Failing ks, w\<lparr>w_kv := snd (RecordLoginFailure (pv_redis p) t k after lockFor (w_kv w))\<rparr>)"
| "login_step p q t (Accepting auth account []) w = (Entering auth account, w)"
| "login_step p q t (Accepting auth account (k # ks)) w =
     (Accepting auth account ks, w\<lparr>w_kv := snd (ResetLoginFailures (pv_redis p) t k (w_kv w))\<rparr>)"
| "login_step p q t (Entering auth account) w =
     (let (x, w1) = enter p q t auth account w in (Finished x, w1))"
| "login_step p q t (Finished x) w = (Finished x, w)"

fun finished :: "login_stage \<Rightarrow> bool" where
  "finished (Finished x) = True"
| "finished _ = False"

fun login_work :: "login_stage \<Rightarrow> nat" where
  "login_work Started = 11"
| "login_work (Locking ks) = 8 + length ks"
| "login_work Asking = 7"
| "login_work (Verdict _) = 6"
| "login_work (Known _) = 5"
| "login_work (Failing ks) = 1 + length ks"
| "login_work (Accepting _ _ ks) = 2 + length ks"
| "login_work (Entering _ _) = 1"
| "login_work (Finished _) = 0"

lemma refuse_work [simp]: "login_work (refuse p q) = 3"
  by (simp add: refuse_def lq_keys_def Let_def)

interpretation logins: progressing "login_step p" finished login_work for p
proof unfold_locales
  show "login_work (fst (login_step p q t st w)) < login_work st" if "\<not> finished st" for st q t w
  proof (cases st)
    case (Locking ks)
    then show ?thesis by (cases ks) (simp_all split: sum.split prod.split)
  next
    case (Failing ks)
    then show ?thesis by (cases ks) (auto split: prod.split)
  next
    case (Accepting auth acc ks)
    then show ?thesis by (cases ks) simp_all
  qed (use that in \<open>auto simp: judge_def find_account_def lq_keys_def Let_def split: sum.split prod.split\<close>)
qed (case_tac st; simp)

fun login_steps ::
  "nat \<Rightarrow> ('r, 'w) provider \<Rightarrow> login_request \<Rightarrow> int \<Rightarrow> login_stage \<times> ('r, 'w) world \<Rightarrow> login_stage \<times> ('r, 'w) world" where
  "login_steps 0 p q t s = s"
| "login_steps (Suc n) p q t s = login_steps n p q t (login_step p q t (fst s) (snd s))"

lemma finished_steps [simp]: "login_steps n p q t (Finished x, w) = (Finished x, w)"
  by (induction n) simp_all

lemma login_steps_add: "login_steps (m + n) p q t s = login_steps n p q t (login_steps m p q t s)"
  by (induction m arbitrary: s) simp_all

lemma refuse_steps:
  assumes "3 \<le> n"
  shows "login_steps n p q t (refuse p q, w) = (Finished (Inl (GoErr ''invalid credentials'')),
     recordFailure p t (lq_keys p q ! 0) (lq_keys p q ! 1) w)"
proof -
  have "login_steps 3 p q t (refuse p q, w) = (Finished (Inl (GoErr ''invalid credentials'')),
     recordFailure p t (lq_keys p q ! 0) (lq_keys p q ! 1) w)"
    by (simp add: numeral_eq_Suc refuse_def recordFailure_def lq_keys_def Let_def)
  then show ?thesis using login_steps_add [of 3 "n - 3" p q t "(refuse p q, w)"] assms by simp
qed

lemma accepting_steps:
  "login_steps 4 p q t (Accepting auth acc (lq_keys p q), w) =
     apfst Finished (accepted p t (lq_uid q) (lq_keys p q ! 0) (lq_keys p q ! 1) auth acc w)"
  by (simp add: numeral_eq_Suc accepted_def enter_def reset_failures_def lq_keys_def Let_def
      split: sum.split prod.split)

lemma known_steps:
  "login_steps 5 p q t (Known auth, w) = login_steps 4 p q t (find_account p q auth w)"
  using login_steps_add [of 1 4 p q t "(Known auth, w)"] by simp

lemma asking_steps:
  "login_steps 7 p q t (Asking, w) = apfst Finished (sign_in p t (lq_uid q) (lq_user q) (lq_password q)
     (lq_keys p q ! 0) (lq_keys p q ! 1) w)"
proof -
  obtain x w1 where a: "on_wd (wd_authenticate (pv_wd p) (lq_user q) (lq_password q) [''scope'' \<mapsto> AStr ''master'']) w
      = (x, w1)" by force
  then have "login_steps 7 p q t (Asking, w) = login_steps 5 p q t (judge p q x, w1)"
    using login_steps_add [of 2 5 p q t "(Asking, w)"] by (simp add: numeral_2_eq_2)
  with a show ?thesis
    by (auto simp: judge_def sign_in_def refuse_steps known_steps find_account_def accepting_steps Let_def
        split: sum.split prod.split)
qed

lemma locking_steps:
  "login_steps 10 p q t (Locking (lq_keys p q), w) =
     (case check_locks p t (lq_keys p q) w of
        (Inl e, w1) \<Rightarrow> (Finished (Inl e), w1) | (Inr _, w1) \<Rightarrow> login_steps 7 p q t (Asking, w1))"
proof -
  have "login_steps 10 p q t s = login_steps 7 p q t (login_steps 3 p q t s)" for s
    using login_steps_add [of 3 7 p q t s] by simp
  then show ?thesis
    by (simp add: numeral_3_eq_3 lq_keys_def Let_def split: sum.split prod.split)
qed

text \<open>The steps taken one after the other are the handler.\<close>

theorem login_steps_are_the_handler:
  "login_steps 11 p q t (Started, w) =
     apfst Finished (FinishLogin p t (lq_uid q) (lq_user q) (lq_password q) (lq_ip q) w)"
proof -
  have "login_steps 11 p q t (Started, w) = login_steps 10 p q t (login_step p q t Started w)"
    using login_steps_add [of 1 10 p q t "(Started, w)"] by simp
  moreover have "lq_keys p q = [lq_keys p q ! 0, lq_keys p q ! 1]" by (simp add: lq_keys_def Let_def)
  ultimately show ?thesis
    by (simp add: FinishLogin_def locking_steps asking_steps Let_def split: sum.split prod.split)
      (simp add: lq_keys_def Let_def)
qed

section \<open>Guesses made at the same time\<close>

text \<open>The reads of a login that goes on: neither of the keys is locked.\<close>

definition unlocked_keys :: "('r, 'w) provider \<Rightarrow> ('r \<Rightarrow> keyspace) \<Rightarrow> int \<Rightarrow> 'r \<Rightarrow> login_request \<Rightarrow> bool" where
  "unlocked_keys p view t s q \<longleftrightarrow> artifact_at t (view s) interactionName (lq_uid q) \<noteq> None
     \<and> (\<forall>k \<in> set (lq_keys p q). purge t (view s) (loginLockKey k) = None)"

context redis_up
begin

lemma locked_absent:
  assumes "purge t (view (w_kv w)) (loginLockKey k) = None" "pv_redis p = R" "up (w_kv w)"
  shows "\<exists>u w'. login_locked p t k w = (Inr (False, u), w') \<and> up (w_kv w') \<and> same_keyspace t (view (w_kv w)) (view (w_kv w'))"
proof -
  obtain x s where l: "LoginLocked R t k (w_kv w) = (x, s)" by force
  from LoginLocked_up [OF assms(3) this] obtain b u where x: "x = Inr (b, u)" "up s" by blast
  with LoginLocked_Inr [of t k "w_kv w" b u s] l assms(1,2) show ?thesis
    by (auto simp: login_locked_def)
qed

lemma admitted_round:
  assumes "unlocked_keys p view t s q" "pv_redis p = R" "up (w_kv v)" "same_keyspace t (view s) (view (w_kv v))"
    and "n < 4"
  shows "\<exists>w'. login_step p q t ([Started, Locking (lq_keys p q), Locking (tl (lq_keys p q)), Locking [], Asking] ! n) v
      = ([Started, Locking (lq_keys p q), Locking (tl (lq_keys p q)), Locking [], Asking] ! Suc n, w')
    \<and> up (w_kv w') \<and> same_keyspace t (view s) (view (w_kv w'))"
proof -
  obtain k1 k2 where keys: "lq_keys p q = [k1, k2]" by (simp add: lq_keys_def Let_def)
  have un: "purge t (view (w_kv v)) (loginLockKey k) = None" if "k \<in> set (lq_keys p q)" for k
    using assms(1,4) that by (auto simp: unlocked_keys_def same_keyspace_def)
  note step = locked_absent [OF un assms(2,3)]
  from assms(5) consider "n = 0" | "n = 1" | "n = 2" | "n = 3" by linarith
  then show ?thesis
  proof cases
    case 1
    obtain m where "artifact_at t (view (w_kv v)) interactionName (lq_uid q) = Some m"
      using assms(1,4) same_artifact [OF assms(4) order_refl] by (auto simp: unlocked_keys_def)
    with GetArtifact_up_stored [OF assms(3)] assms(2,4) 1 show ?thesis
      by (fastforce simp: get_artifact_def same_keyspace_def)
  next
    case 2
    from step [of k1] 2 assms(4) show ?thesis by (fastforce simp: keys same_keyspace_def)
  next
    case 3
    from step [of k2] 3 assms(4) show ?thesis by (fastforce simp: keys same_keyspace_def)
  qed (use assms(3,4) in simp)
qed

end

abbreviation (input) admission :: "('r, 'w) provider \<Rightarrow> login_request \<Rightarrow> nat \<Rightarrow> login_stage" where
  "admission p q n \<equiv> [Started, Locking (lq_keys p q), Locking (tl (lq_keys p q)), Locking [], Asking] ! n"

lemma admitted_rounds:
  assumes "redis_up (pv_redis p) view up" "up (w_kv w)" "n \<le> 4"
    and "\<And>q. q \<in> set qs \<Longrightarrow> unlocked_keys p view t (w_kv w) q"
  shows "\<exists>ls w' ps. net_run (login_step p) finished rel (t, w, map (\<lambda>q. (q, Started)) qs) ls (t, w', ps)
    \<and> map fst ps = qs \<and> (\<forall>(q, st) \<in> set ps. q \<in> set qs \<and> st = admission p q n)
    \<and> up (w_kv w') \<and> same_keyspace t (view (w_kv w)) (view (w_kv w'))"
  using assms(3)
proof (induction n)
  case 0
  show ?case
    by (intro exI [of _ "[]"] exI [of _ w] exI [of _ "map (\<lambda>q. (q, Started)) qs"])
      (auto simp: assms(2) same_keyspace_def comp_def)
next
  case (Suc n)
  let ?P = "\<lambda>v. up (w_kv v) \<and> same_keyspace t (view (w_kv w)) (view (w_kv v))"
  from Suc obtain ls w1 ps where one: "net_run (login_step p) finished rel (t, w, map (\<lambda>q. (q, Started)) qs) ls (t, w1, ps)"
      "map fst ps = qs" "\<forall>(q, st) \<in> set ps. q \<in> set qs \<and> st = admission p q n" "?P w1" by auto
  have round: "\<not> finished st \<and> (\<exists>st' w'. login_step p q t st v = (st', w')
      \<and> (q \<in> set qs \<and> st' = admission p q (Suc n)) \<and> ?P w')"
    if "q \<in> set qs \<and> st = admission p q n" "?P v" for q st v
  proof -
    have n: "n < 4" using Suc.prems by simp
    have "\<not> finished (admission p q n)" using n by (auto simp: nth_Cons split: nat.split)
    with that redis_up.admitted_round [OF assms(1) assms(4) refl _ _ n, of q v] show ?thesis by auto
  qed
  obtain ls2 w2 ps2 where "net_run (login_step p) finished rel (t, w1, [] @ ps) ls2 (t, w2, [] @ ps2)"
      "map fst ps2 = map fst ps" "\<forall>(q, st) \<in> set ps2. q \<in> set qs \<and> st = admission p q (Suc n)" "?P w2"
    using net_round [of ps "\<lambda>q st. q \<in> set qs \<and> st = admission p q n" ?P finished "login_step p" t
        "\<lambda>q st. q \<in> set qs \<and> st = admission p q (Suc n)" w1 rel "[]"] round one(3,4) by blast
  with net_run_append [OF one(1)] one(2) show ?case
    by (intro exI [of _ "ls @ ls2"] exI [of _ w2] exI [of _ ps2]) simp
qed

text \<open>
  C19. The lockout does not bound guesses made at the same time: while neither key is locked, WildDuck
  can be asked about every password of any number of requests for one user name from one address, when
  all of them read the locks before one failure is recorded.
\<close>

theorem all_guess_together:
  assumes "redis_up (pv_redis p) view up" and "up (w_kv w)"
    and "\<And>q. q \<in> set qs \<Longrightarrow> unlocked_keys p view t (w_kv w) q"
  shows "\<exists>ls w' ps. net_run (login_step p) finished rel (t, w, map (\<lambda>q. (q, Started)) qs) ls (t, w', ps)
    \<and> map fst ps = qs \<and> (\<forall>(q, st) \<in> set ps. \<exists>v. st = Verdict (fst (wd_authenticate (pv_wd p) (lq_user q)
        (lq_password q) [''scope'' \<mapsto> AStr ''master''] v)))"
proof -
  obtain ls w1 ps where one: "net_run (login_step p) finished rel (t, w, map (\<lambda>q. (q, Started)) qs) ls (t, w1, ps)"
      "map fst ps = qs" "\<forall>(q, st) \<in> set ps. q \<in> set qs \<and> st = admission p q 4"
    using admitted_rounds [OF assms(1,2) order_refl assms(3)] by blast
  let ?B = "\<lambda>q st. \<exists>v. st = Verdict (fst (wd_authenticate (pv_wd p) (lq_user q) (lq_password q)
      [''scope'' \<mapsto> AStr ''master''] v))"
  have ask: "\<not> finished st \<and> (\<exists>st' w'. login_step p q t st v = (st', w') \<and> ?B q st' \<and> True)" if "st = Asking" for q st v
    using that by (auto simp: on_wd_def split: prod.split) (metis fst_conv)
  obtain ls2 w2 ps2 where "net_run (login_step p) finished rel (t, w1, [] @ ps) ls2 (t, w2, [] @ ps2)"
      "map fst ps2 = map fst ps" "\<forall>(q, st) \<in> set ps2. ?B q st"
    using net_round [of ps "\<lambda>_ st. st = Asking" "\<lambda>_. True" finished "login_step p" t ?B w1 rel "[]"] ask one(3)
    by fastforce
  with net_run_append [OF one(1)] one(2) show ?thesis
    by (intro exI [of _ "ls @ ls2"] exI [of _ w2] exI [of _ ps2]) simp
qed

text \<open>Seven guesses, the last of them right, where five one after the other lock the pair.\<close>

definition guess :: "string \<Rightarrow> login_request" where
  "guess pw = \<lparr>lq_uid = ''i'', lq_user = ''bob'', lq_password = pw, lq_ip = ''ip''\<rparr>"

theorem all_guess_together_witness:
  "\<exists>ls w' ps. net_run (login_step (sample_provider ANil)) finished (\<lambda>_ _ _. False)
      (0, sample_world\<lparr>w_kv := mem_of (refused_keys 0)\<rparr>,
        map (\<lambda>q. (q, Started)) (map guess [''a'', ''b'', ''c'', ''d'', ''e'', ''f'', ''right''])) ls (0, w', ps)
     \<and> map fst ps = map guess [''a'', ''b'', ''c'', ''d'', ''e'', ''f'', ''right'']
     \<and> (\<forall>(q, st) \<in> set ps. \<exists>v. st = Verdict (fst (wd_authenticate (pv_wd (sample_provider ANil)) (lq_user q)
        (lq_password q) [''scope'' \<mapsto> AStr ''master''] v)))"
proof (rule all_guess_together [of "sample_provider ANil" m_ks mem_up])
  fix q
  assume "q \<in> set (map guess [''a'', ''b'', ''c'', ''d'', ''e'', ''f'', ''right''])"
  then have "lq_uid q = ''i''" "lq_user q = ''bob''" "lq_ip q = ''ip''" by (auto simp: guess_def)
  moreover have "pv_unicode (sample_provider ANil) = sample_unicode" by (simp add: sample_provider_def)
  ultimately show "unlocked_keys (sample_provider ANil) m_ks 0 (w_kv (sample_world\<lparr>w_kv := mem_of (refused_keys 0)\<rparr>)) q"
    by (simp add: unlocked_keys_def lq_keys_def to_lower_bob ip_key_def user_key_def mem_of_def artifact_at_def
        purge_refused_keys refused_keys_at Let_def)
qed (simp_all add: mem.redis_up_axioms mem_up_def mem_of_def)

end
