(* ===== verification/Commands.thy ===== *)
theory Commands
  imports App Password_Reset
begin

text \<open>
  The two programs, cmd/muninid/main.go and cmd/muninid-migrate/main.go, and the life of the
  connections to PostgreSQL and valkey that internal/app/app.go opens and closes.  What the drivers
  and the network answer is a parameter; a signal is taken to arrive while the listener serves.
\<close>

section \<open>Connections\<close>

text \<open>
  \<open>pgxpool.New\<close> and \<open>Pool.Ping\<close>, \<open>redis.ParseURL\<close> and \<open>Client.Ping\<close>; the first of each reads the
  address only.
\<close>

record services =
  sv_pool :: "string \<Rightarrow> unit res"
  sv_pool_ping :: "string \<Rightarrow> unit res"
  sv_parse :: "string \<Rightarrow> unit res"
  sv_ping :: "string \<Rightarrow> unit res"

datatype conn = Pool | Cache

datatype event = Opened conn | Closed conn

definition kv_New :: "services \<Rightarrow> string \<Rightarrow> unit res" where
  "kv_New S url = (case sv_parse S url of Inl e \<Rightarrow> Inl e | Inr _ \<Rightarrow> Inr ())"

definition kv_Ping :: "services \<Rightarrow> string \<Rightarrow> unit res" where
  "kv_Ping S url = sv_ping S url"

text \<open>\<open>New\<close> of app.go with what it opens and closes, in order; a panic closes nothing.\<close>

definition New_events ::
  "services \<Rightarrow> rsalib \<Rightarrow> (fosite_config \<Rightarrow> ('r, 'w) oauth) \<Rightarrow> 'n http \<Rightarrow> ('r, 'w) provider \<Rightarrow> config \<Rightarrow> int \<Rightarrow>
     ('r, 'w) world \<Rightarrow> ('r, 'w, 'n solutrix) app go \<times> event list \<times> ('r, 'w) world" where
  "New_events S L compose H libs cfg now w =
     (case sv_pool S (cf_database cfg) of
        Inl e \<Rightarrow> (Err e, [], w)
      | Inr _ \<Rightarrow>
          (case sv_pool_ping S (cf_database cfg) of
             Inl e \<Rightarrow> (Err e, [Opened Pool, Closed Pool], w)
           | Inr _ \<Rightarrow>
               (case kv_New S (cf_valkey cfg) of
                  Inl e \<Rightarrow> (Err e, [Opened Pool, Closed Pool], w)
                | Inr _ \<Rightarrow>
                    let opened = [Opened Pool, Opened Cache]; closed = opened @ [Closed Cache, Closed Pool] in
                    (case kv_Ping S (cf_valkey cfg) of
                       Inl e \<Rightarrow> (Err e, closed, w)
                     | Inr _ \<Rightarrow>
                         let p = libs\<lparr>pv_cfg := cfg, pv_backend := Some (NewBackend (pv_unicode libs) (pv_wd libs)),
                               pv_mailer := Some (NewMailer (pv_wd libs) \<lparr>mc_sender = cf_sender_id cfg,
                                 mc_address = cf_sender_address cfg, mc_name = cf_sender_name cfg\<rparr>)\<rparr>
                         in (case idp_New L (Some compose) p now w of
                               (Ok p1, w1) \<Rightarrow>
                                 (case authz_New (pv_unicode p) H (authz_settings cfg) of
                                    Inl e \<Rightarrow> (Err e, closed, w1)
                                  | Inr az \<Rightarrow> (Ok \<lparr>ap_cfg = cfg, ap_idp = p1, ap_authz = az\<rparr>, opened, w1))
                             | (Err e, w1) \<Rightarrow> (Err e, closed, w1)
                             | (Panic m, w1) \<Rightarrow> (Panic m, opened, w1))))))"

text \<open>
  \<open>Client.Close\<close> and \<open>App.Close\<close>; the arguments say which fields are not nil.  An \<open>App\<close> that \<open>New\<close>
  returned has both connections.
\<close>

definition kv_Close :: "bool \<Rightarrow> event list" where
  "kv_Close rdb = (if rdb then [Closed Cache] else [])"

definition App_Close :: "bool \<Rightarrow> bool \<Rightarrow> event list" where
  "App_Close kv db = (if kv then kv_Close True else []) @ (if db then [Closed Pool] else [])"

definition all_closed :: "event list \<Rightarrow> bool" where
  "all_closed es \<longleftrightarrow> count_list es (Opened Pool) = count_list es (Closed Pool)
     \<and> count_list es (Opened Cache) = count_list es (Closed Cache)"

definition dial :: "services \<Rightarrow> dialer" where
  "dial S = \<lparr>dl_postgres = (\<lambda>url. case sv_pool S url of Inl e \<Rightarrow> Inl e | Inr _ \<Rightarrow> sv_pool_ping S url),
     dl_valkey = (\<lambda>url. case kv_New S url of Inl e \<Rightarrow> Inl e | Inr _ \<Rightarrow> kv_Ping S url)\<rparr>"

lemma New_events_New:
  assumes "New_events S L compose H libs cfg now w = (x, es, w')"
  shows "New (dial S) L compose H libs cfg now w = (x, w')"
  using assms
  by (auto simp: New_events_def New_def dial_def Let_def split: sum.splits prod.splits go.splits)

lemma New_events_closed:
  "New_events S L compose H libs cfg now w = (Err e, es, w') \<Longrightarrow> all_closed es"
  "New_events S L compose H libs cfg now w = (Ok a, es, w') \<Longrightarrow> es = [Opened Pool, Opened Cache]"
  "New_events S L compose H libs cfg now w = (Panic m, es, w') \<Longrightarrow> es = [Opened Pool, Opened Cache]"
  by (auto simp: New_events_def all_closed_def Let_def split: sum.splits prod.splits go.splits)

section \<open>cmd/muninid\<close>

text \<open>
  \<open>ho_listen\<close> is the error of \<open>ListenAndServe\<close> for an address, when it is not \<open>ErrServerClosed\<close>, and
  \<open>ho_shutdown\<close> the error of \<open>Shutdown\<close> after the signal.
\<close>

record host =
  ho_listen :: "string \<Rightarrow> goerr option"
  ho_shutdown :: "goerr option"

text \<open>\<open>log.Fatalf\<close> with its prefix, a panic, or the exit status.\<close>

datatype ending = Fatal string goerr | Crashed string | Exited nat

record ('r, 'w, 'n) process =
  pc_ending :: ending
  pc_events :: "event list"
  pc_served :: "(string \<times> ('r, 'w, 'n solutrix) app) option"

text \<open>\<open>log.Fatalf\<close> and \<open>os.Exit\<close> end the process without the deferred \<open>Close\<close>.\<close>

definition main ::
  "(string \<Rightarrow> int option) \<Rightarrow> environ \<Rightarrow> host \<Rightarrow> services \<Rightarrow> rsalib \<Rightarrow> (fosite_config \<Rightarrow> ('r, 'w) oauth) \<Rightarrow> 'n http \<Rightarrow>
     ('r, 'w) provider \<Rightarrow> int \<Rightarrow> ('r, 'w) world \<Rightarrow> ('r, 'w, 'n) process \<times> ('r, 'w) world" where
  "main P E N S L compose H libs now w =
     (case Load (pv_unicode libs) P E of
        Inl e \<Rightarrow> (\<lparr>pc_ending = Fatal ''config'' e, pc_events = [], pc_served = None\<rparr>, w)
      | Inr cfg \<Rightarrow>
          (case New_events S L compose H libs cfg now w of
             (Err e, es, w1) \<Rightarrow> (\<lparr>pc_ending = Fatal ''app'' e, pc_events = es, pc_served = None\<rparr>, w1)
           | (Panic m, es, w1) \<Rightarrow> (\<lparr>pc_ending = Crashed m, pc_events = es, pc_served = None\<rparr>, w1)
           | (Ok a, es, w1) \<Rightarrow>
               (case ho_listen N (HTTPAddr cfg) of
                  Some e \<Rightarrow> (\<lparr>pc_ending = Fatal ''server'' e, pc_events = es, pc_served = None\<rparr>, w1)
                | None \<Rightarrow>
                    (case ho_shutdown N of
                       Some _ \<Rightarrow> (\<lparr>pc_ending = Exited 1, pc_events = es, pc_served = Some (HTTPAddr cfg, a)\<rparr>, w1)
                     | None \<Rightarrow> (\<lparr>pc_ending = Exited 0, pc_events = es @ App_Close True True,
                         pc_served = Some (HTTPAddr cfg, a)\<rparr>, w1)))))"

section \<open>cmd/muninid-migrate\<close>

text \<open>The command line after \<open>flag.Parse\<close>: the two flags when they are given, and the arguments.\<close>

record command_line =
  cl_dir :: "string option"
  cl_dsn :: "string option"
  cl_args :: "string list"

record migrator =
  mi_open :: "string \<Rightarrow> unit res"
  mi_run :: "string \<Rightarrow> string \<Rightarrow> string \<Rightarrow> string list \<Rightarrow> unit res"

text \<open>\<open>mi_run\<close> is \<open>goose.Run\<close>: the address of the database, the command, the directory and the arguments.\<close>

definition migrate_main :: "environ \<Rightarrow> migrator \<Rightarrow> command_line \<Rightarrow> unit res" where
  "migrate_main E M cl =
     (let dir = (case cl_dir cl of Some d \<Rightarrow> d | None \<Rightarrow> ''migrations'');
          dsn = (case cl_dsn cl of Some d \<Rightarrow> d | None \<Rightarrow> E ''DATABASE_URL'');
          command = (case cl_args cl of [] \<Rightarrow> ''up'' | c # _ \<Rightarrow> c)
      in if dsn = [] then Inl (GoErr ''DATABASE_URL or -database-url is required'')
         else (case mi_open M dsn of
                 Inl e \<Rightarrow> Inl e
               | Inr _ \<Rightarrow> mi_run M dsn command dir (tl (cl_args cl))))"

section \<open>What a process has checked\<close>

text \<open>The parts of the application a running process serves with.\<close>

definition app_assembled ::
  "(fosite_config \<Rightarrow> ('r, 'w) oauth) \<Rightarrow> ('r, 'w) provider \<Rightarrow> config \<Rightarrow> ('r, 'w, 'n) app \<Rightarrow> bool" where
  "app_assembled compose libs cfg a \<longleftrightarrow> ap_cfg a = cfg \<and> pv_cfg (ap_idp a) = cfg
     \<and> pv_redis (ap_idp a) = pv_redis libs \<and> pv_pg (ap_idp a) = pv_pg libs \<and> pv_crypto (ap_idp a) = pv_crypto libs
     \<and> pv_backend (ap_idp a) = Some (NewBackend (pv_unicode libs) (pv_wd libs)) \<and> pv_mailer (ap_idp a) \<noteq> None
     \<and> (\<exists>F. pv_oauth (ap_idp a) = Some (compose F) \<and> fo_issuer F = cf_issuer cfg
          \<and> fo_secret F = sha256 (pv_crypto libs) (cf_secret_key cfg) \<and> fo_key F = pv_key (ap_idp a)
          \<and> fo_pkce F \<and> \<not> fo_pkce_plain F)"

lemma loadSigningKey_parts:
  assumes "loadSigningKey L p now w = (Ok p1, w1)"
  shows "p1 = p\<lparr>pv_key := pv_key p1, pv_keyID := pv_keyID p1\<rparr>"
  using assms
  by (auto simp: loadSigningKey_def create_key_def Let_def split: sum.splits list.splits go.splits prod.splits)

text \<open>The settings of the solutrix backend are complete when it is chosen.\<close>

definition authz_complete :: "unicode \<Rightarrow> config \<Rightarrow> bool" where
  "authz_complete UC cfg \<longleftrightarrow> (to_lower UC (trim_space (cf_authz_backend cfg)) = ''solutrix'' \<longrightarrow>
     cf_solutrix_url cfg \<noteq> [] \<and> cf_solutrix_token_url cfg \<noteq> [] \<and> cf_solutrix_client cfg \<noteq> [] \<and> cf_solutrix_secret cfg \<noteq> [])"

lemma New_assembled:
  assumes "New D L compose H libs cfg now w = (Ok a, w')"
  shows "app_assembled compose libs cfg a \<and> authz_complete (pv_unicode libs) cfg
    \<and> dl_postgres D (cf_database cfg) = Inr () \<and> dl_valkey D (cf_valkey cfg) = Inr ()"
proof -
  let ?p = "libs\<lparr>pv_cfg := cfg, pv_backend := Some (NewBackend (pv_unicode libs) (pv_wd libs)),
      pv_mailer := Some (NewMailer (pv_wd libs) \<lparr>mc_sender = cf_sender_id cfg,
        mc_address = cf_sender_address cfg, mc_name = cf_sender_name cfg\<rparr>)\<rparr>"
  obtain x w1 where l: "loadSigningKey L ?p now w = (x, w1)" by force
  with assms obtain p1 az where x: "x = Ok p1" "authz_New (pv_unicode libs) H (authz_settings cfg) = Inr az"
      "a = \<lparr>ap_cfg = cfg, ap_idp = p1\<lparr>pv_oauth := Some (compose (newFositeProvider p1))\<rparr>, ap_authz = az\<rparr>"
      "dl_postgres D (cf_database cfg) = Inr ()" "dl_valkey D (cf_valkey cfg) = Inr ()"
    by (auto simp: New_def idp_New_def Let_def split: sum.splits go.splits prod.splits)
  have "authz_complete (pv_unicode libs) cfg"
    using x(2) by (auto simp: authz_complete_def authz_New_def authz_settings_def NewSolutrixAuthorizer_def Let_def
        split: if_splits)
  moreover obtain key kid where p1: "p1 = ?p\<lparr>pv_key := key, pv_keyID := kid\<rparr>"
    using loadSigningKey_parts l x(1) by blast
  have "app_assembled compose libs cfg a"
    unfolding app_assembled_def x(3) p1
    by (intro conjI exI [of _ "newFositeProvider p1"]) (simp_all add: newFositeProvider_def p1)
  ultimately show ?thesis using x(4,5) by blast
qed


text \<open>
  Connections are closed: a process that fails to load or to start and one that stops on a signal
  has closed what it opened; only a panic, an error of the listener and an error of \<open>Shutdown\<close> end it
  with both connections open.
\<close>

theorem connections_closed:
  assumes "main P E N S L compose H libs now w = (pc, w')"
  shows "all_closed (pc_events pc)
    \<or> pc_events pc = [Opened Pool, Opened Cache]
      \<and> (pc_ending pc = Exited 1 \<or> (\<exists>e. pc_ending pc = Fatal ''server'' e) \<or> (\<exists>m. pc_ending pc = Crashed m))"
proof -
  have closed: "all_closed []" "all_closed ([Opened Pool, Opened Cache] @ App_Close True True)"
    by (simp_all add: all_closed_def App_Close_def kv_Close_def)
  from assms closed show ?thesis
    by (auto simp: main_def split: sum.splits prod.splits go.splits option.splits dest: New_events_closed)
qed

section \<open>A start\<close>

definition sample_services :: services where
  "sample_services = \<lparr>sv_pool = (\<lambda>_. Inr ()), sv_pool_ping = (\<lambda>_. Inr ()), sv_parse = (\<lambda>_. Inr ()),
     sv_ping = (\<lambda>_. Inr ())\<rparr>"

definition sample_host :: host where
  "sample_host = \<lparr>ho_listen = (\<lambda>_. None), ho_shutdown = None\<rparr>"

lemma sample_New:
  "\<exists>a w'. New_events sample_services sample_rsalib compose H (sample_provider ANil)
     (raw_config sample_unicode (\<lambda>_. None) sample_env) 0 sample_world = (Ok a, [Opened Pool, Opened Cache], w')"
proof -
  let ?cfg = "raw_config sample_unicode (\<lambda>_. None) sample_env"
  have none: "ActiveKeys sample_pg (w_db sample_world) = Inr []"
    by (simp add: ActiveKeys_def sample_world_def empty_db_def order_by_def)
  have ne: "\<not> IsEncrypted ''PEM key''" by (simp add: IsEncrypted_def has_prefix_def enc_prefix_def)
  have "cf_authz_backend ?cfg = ''claims''"
    by (simp add: raw_config_def sample_env_def env_or_def Let_def)
  moreover have "is_word ''claims''" by (rule is_word_plain) (simp_all add: is_space_def)
  then have "to_lower sample_unicode (trim_space ''claims'') = ''claims''"
    by (simp add: trim_space_word to_lower_plain)
  ultimately have az: "authz_New sample_unicode H (authz_settings ?cfg)
      = Inr (NewClaimsAuthorizer sample_unicode (cf_authz_roles ?cfg))"
    by (simp add: authz_New_def authz_settings_def)
  then show ?thesis
    using none Encrypt_Decrypt [OF sample_crypto_ok sample_rand_ok ne, of "cf_secret_key ?cfg" 1]
    by (auto simp: New_events_def sample_services_def kv_New_def kv_Ping_def idp_New_def loadSigningKey_def create_key_def
        sample_rsalib_def sample_provider_def InsertKey_def sample_world_def empty_db_def az Let_def)
qed

lemma sample_main:
  obtains a w' where "main (\<lambda>_. None) sample_env sample_host sample_services sample_rsalib compose H (sample_provider ANil) 0 sample_world
     = (\<lparr>pc_ending = Exited 0, pc_events = [Opened Pool, Opened Cache, Closed Cache, Closed Pool],
          pc_served = Some (''0.0.0.0:8080'', a)\<rparr>, w')"
proof -
  let ?cfg = "raw_config sample_unicode (\<lambda>_. None) sample_env"
  obtain a w' where n: "New_events sample_services sample_rsalib compose H (sample_provider ANil) ?cfg 0 sample_world
      = (Ok a, [Opened Pool, Opened Cache], w')" using sample_New by blast
  have "HTTPAddr ?cfg = ''0.0.0.0:8080''" "pv_unicode (sample_provider ANil) = sample_unicode"
    by (simp_all add: HTTPAddr_def raw_config_def sample_env_def env_or_def sample_provider_def Let_def)
  with n show ?thesis
    by (intro that [of a w']) (simp add: main_def sample_Load sample_host_def App_Close_def kv_Close_def)
qed


theorem connections_closed_witness:
  "\<forall>compose H. \<exists>pc w'. main (\<lambda>_. None) sample_env sample_host sample_services sample_rsalib compose H
       (sample_provider ANil) 0 sample_world = (pc, w') \<and> pc_ending pc = Exited 0 \<and> all_closed (pc_events pc)"
proof (intro allI)
  fix compose and H :: "'n http"
  obtain a w' where run: "main (\<lambda>_. None) sample_env sample_host sample_services sample_rsalib compose H
      (sample_provider ANil) 0 sample_world
     = (\<lparr>pc_ending = Exited 0, pc_events = [Opened Pool, Opened Cache, Closed Cache, Closed Pool],
          pc_served = Some (''0.0.0.0:8080'', a)\<rparr>, w')" by (rule sample_main)
  from connections_closed [OF run] run show "\<exists>pc w'. main (\<lambda>_. None) sample_env sample_host sample_services
       sample_rsalib compose H (sample_provider ANil) 0 sample_world = (pc, w')
     \<and> pc_ending pc = Exited 0 \<and> all_closed (pc_events pc)"
    by simp
qed

end
