(* ===== verification/Spec2Isabelle.thy ===== *)
theory Spec2Isabelle
  imports App_Artifacts Token_Store Login_Steps Commands
begin

text \<open>
  \<^bold>\<open>A verification development for MuninID, an OpenID Connect provider written in Go.\<close>

  \<^bold>\<open>The program.\<close>  MuninID signs users in against WildDuck, asks for their consent, issues
  authorization codes, access, refresh and ID tokens to registered clients, exchanges tokens (RFC 8693),
  resets forgotten passwords by mail, and has an administration API.  Clients, SAML service providers,
  identity policies, exchange policies, audit events, signing keys and consent grants are in PostgreSQL
  (internal/store); sessions, interactions, codes, refresh tokens, revocations, reset tokens and the
  login counters are documents with a lifetime in valkey (internal/kv, internal/store, internal/fositestore).
  The provider (internal/idp) answers the protocol endpoints, itself or through the library fosite;
  internal/handlers holds the HTML pages and the administration API, internal/authz decides what a
  subject may do there, and internal/app puts everything behind one router with its gates.

  \<^bold>\<open>The theories,\<close> from the bottom up; each opens with the files it models.
  \<^item> \<open>Prelude\<close>: errors, results, slices, dynamic values, time.  \<open>Go_Strings\<close>, \<open>Base64\<close>, \<open>Json\<close>: what the
    code uses of Go's strings, unicode/utf8, encoding/base64 and encoding/json, with the round trips.
  \<^item> \<open>Secret\<close> (internal/secret).  \<open>Redis\<close>, \<open>Kv\<close>: the contract of a valkey server, as the locales
    \<open>redis_server\<close> (answers may fail) and \<open>redis_up\<close> (every command is answered), interpreted on a
    reference server, and internal/kv over it.
  \<^item> \<open>Store_Db\<close>, \<open>Store_Admin\<close>, \<open>Store_Exchange\<close>, \<open>Store_Kv\<close> (internal/store): one definition per
    method of \<open>Store\<close>.
  \<^item> \<open>Authz\<close>, \<open>Solutrix\<close> (internal/authz): the interface as a record of functions, its contract as the
    locale \<open>decision_point\<close>, the claims backend and the HTTP backend with its cache.
  \<^item> \<open>Admin_Api\<close>, \<open>Admin_Handlers\<close>, \<open>Self_Api\<close> (internal/handlers/admin.go, self.go), \<open>Tenant\<close>: the
    handlers, and tenant isolation from the contracts of the store and of the authorizer.
  \<^item> \<open>Config\<close> (internal/config), \<open>Backend\<close> (internal/authn, internal/backend/wildduck,
    internal/mail/wildduckmailer).
  \<^item> \<open>Fosite_Session\<close>, \<open>Fosite_Store\<close>, \<open>Fosite_Tokens\<close> (internal/fositestore): the storage fosite calls;
    \<open>Token_Store\<close>: the same storage as an abstract store of token sessions (\<open>spec_do\<close>, \<open>token_view\<close>).
  \<^item> \<open>Scopes\<close>, \<open>Provider\<close>, \<open>Keys\<close>, \<open>Login\<close>, \<open>Token_Exchange\<close>, \<open>Authorize\<close>, \<open>Token_Endpoint\<close>
    (internal/idp/provider.go, in the order of its parts): the state is the record \<open>world\<close>, a handler a
    function from the request and the world to the answer and the world.
  \<^item> \<open>Lockout\<close>, \<open>Password_Reset\<close>, \<open>Authorize_Safety\<close>, \<open>Token_Safety\<close>: what these parts guarantee.
  \<^item> \<open>Auth_Pages\<close> (the handlers of internal/handlers/auth.go, reset.go); \<open>Html_Template\<close>, \<open>Gui_Page\<close>, \<open>Html_Pages\<close>: what
    the pages use of html/template, how a browser finds the markup of a page, and the text of the templates
    and of the GUI page (admin_gui.go).
  \<^item> \<open>App\<close> (internal/app, internal/handlers/context.go, json and API description), \<open>App_Frame\<close>,
    \<open>App_Safety\<close>, \<open>App_Runs\<close>: the routes, the gates, the dispatch and the start of the application, what a
    request of any route changes, and sequences of requests.
  \<^item> \<open>Artifact_Life\<close>, \<open>Artifact_Handlers\<close>, \<open>App_Artifacts\<close>: what every call on valkey, every handler and
    every sequence of requests does to the documents, with fosite composed through its storage
    (\<open>storage_step\<close>): the locales \<open>redis_sets\<close>, \<open>provider_sets\<close> and \<open>provider_storing\<close>.
  \<^item> \<open>Interleave\<close>: handlers that run at the same time, as steps that interleave, with the locales
    \<open>progressing\<close> and \<open>one_use\<close>; \<open>Redeem_Steps\<close>, \<open>Reset_Steps\<close>, \<open>Login_Steps\<close>: the code and refresh token
    grants, the two password changes and the login, cut at their calls to valkey and WildDuck, with the
    proof that the steps taken in a row are the handlers of \<open>Token_Endpoint\<close> and \<open>Login\<close>.
  \<^item> \<open>Commands\<close> (cmd/muninid, cmd/muninid-migrate): the two programs, and the connections they open.

  \<^bold>\<open>How Go is modelled.\<close>  A string is its list of bytes; a map is a partial function; a slice whose
  nil-ness matters is an option; an \<open>any\<close> is the datatype \<open>any\<close>.  A function that returns an error
  returns \<open>'a res\<close>, one that can also panic returns \<open>'a go\<close>.  Times are nanoseconds; a handler reads the
  clock once.  Randomness and uuids are functions of a counter in the state.  The tables of PostgreSQL are
  lists of rows and each query is the meaning of its SQL text; which statements fail is a parameter.

  \<^bold>\<open>What is a parameter.\<close>  Valkey (\<open>redis\<close>), PostgreSQL's failures and uuid syntax (\<open>pg\<close>), WildDuck
  (\<open>wildduck\<close>), fosite (\<open>oauth\<close>), AES-GCM and SHA-256 (\<open>crypto\<close>), RSA signatures and the text of JSON
  (\<open>jose\<close>, \<open>rsalib\<close>), net/url (\<open>urllib\<close>), Unicode case mapping (\<open>unicode\<close>), the network of the HTTP
  backend (\<open>http\<close>), chi and its middleware (\<open>chi\<close>).  What the code relies on is a named hypothesis
  (\<open>aead_ok\<close>, \<open>signs_ok\<close>, \<open>json_reads\<close>, \<open>pem_ok\<close>, \<open>fosite_reads\<close>, \<open>fosite_on_storage\<close>, the locales of the
  server); a statement over time says that requests come in order (\<open>clocked\<close>), that the random source
  does not draw an id in use (\<open>unissued\<close>) or that SHA-256 tells the names in use apart (\<open>no_clash\<close>),
  and starts in a \<open>steady\<close> state of valkey, as the empty one is.  Every property with such a hypothesis
  has a witness on concrete instances.

  \<^bold>\<open>What the lemmas show.\<close>
  \<^item> Authorization: a code needs a registered address, PKCE, a signed-in user and consent; the endpoint
    redirects to registered addresses only; consent is remembered; a code is redeemed once, a refresh
    token rotates, tokens carry the scopes of the client; the whole flow works; revocation is effective.
  \<^item> Sign-in: five refused logins lock, a session is started only after every check; reset mail goes to
    verified addresses only, the token works until it expires, once.
  \<^item> Administration: tenants are isolated, with either authorizer backend; changes of the administered
    tables need credentials, over every route and every sequence of requests; over every sequence of
    requests the keyspace of valkey keeps its types, a used reset link and a signed-out session do not
    come back, and a revocation holds until it expires; the clients table stays
    well formed; the HTTP backend fails closed, is never stale and follows the policy of its service.
  \<^item> Storage: secrets, consent grants, cookies, signing keys are read back as written; used fosite codes
    stay used, and the storage refines an abstract store of token sessions; exchange policies are selected as documented, and every exchange is audited once.
  \<^item> Concurrency: once a code, a refresh token or a reset token has been used, whoever reads it later is
    refused, in every interleaving; every handler answers after at most four steps.  What is not atomic is
    shown as well: \<open>all_redeem_together\<close>, \<open>all_reset_together\<close> and \<open>all_guess_together\<close> let any number of
    requests pass that read before the first one writes, and \<open>both_requests_redeem\<close>
    two token requests over the fosite storage.
  \<^item> Pages: nothing that is shown can become markup, with the analysis of contexts (\<open>context_of\<close>) shown sound
    for any template; the reset form posts the token of its link.
  \<^item> Start and stop: a process serves only what it has checked, and closes what it opened.
  \<^item> Deviations are theorems as well; \<open>global_get_hides_errors\<close>, \<open>revocation_fails_open\<close>,
    \<open>revocation_misses_last_second\<close>, \<open>revoke_checks_no_owner\<close>, \<open>issue_without_account\<close>,
    \<open>introspect_silent\<close> and \<open>logout_open_redirect\<close> show what the code does where it should do otherwise.

  \<^bold>\<open>Bounds.\<close>  No definition needs fuel: every loop is structural recursion, but for \<open>replace_all\<close> and the
  UTF-8 decoder, which terminate because the rest of the string gets shorter.  Conversions to \<open>int64\<close> wrap
  around as written; other counters stay far below the bound.  The steps of a handler are bounded by its
  \<open>work\<close>: four for a grant or a password change, eleven for a login.

  \<^bold>\<open>Not modelled.\<close>  What the JavaScript and the styles of the pages do in a browser, logging, the contents of response
  headers other than Location and the session cookie, the time a signal arrives (it is taken to arrive while
  the listener serves), the .env file, the parsing of command lines, and what the SQL of the migrations does.
  The interleavings cover the handlers above; inside one call of the store its commands are taken together.
\<close>

end
